(* ===== verification/Go_Base.thy ===== *)
theory Go_Base imports Main begin

text \<open>
  The prelude of the development: Go error values and the part of the packages
  \<open>errors\<close> and \<open>fmt\<close> that the importer uses, Go functions with effects as state
  transformers with an error result, the recording of calls to the outside, and a
  weakest-precondition calculus (the collection \<open>wp\<close>) that carries the component proofs.
\<close>

named_theorems wp "weakest preconditions of the combinators"
named_theorems ok_iffs "when a combinator ends without an error"
named_theorems errs "facts about Go error values"

section \<open>Error values\<close>

text \<open>
  An \<open>error\<close> is a tree. \<open>ErrorString\<close> is \<open>errors.New\<close> and a \<open>fmt.Errorf\<close> without
  \<open>%w\<close>; \<open>Wrapped m e\<close> is a \<open>fmt.Errorf\<close> with \<open>%w\<close>, where \<open>m\<close> is the whole message;
  \<open>Joined\<close> is the value of \<open>errors.Join\<close>. The next constructors are the errors of the
  outside that the code tells apart: the API status errors of Kubernetes with their
  reason, the not-found error of the registry library, \<open>os.ErrNotExist\<close>, and the two
  context errors. \<open>ExpiredTimestamp\<close> is the sentinel of \<open>migration/timestamp.go\<close>
  and \<open>RestoreError\<close> the error type of \<open>migration/fqdn/service.go\<close>, which has no
  \<open>Unwrap\<close> method.
\<close>

datatype reason = NotFound | AlreadyExists | Conflict | OtherReason

datatype err =
    ErrorString string
  | Wrapped string err
  | Joined "err list"
  | StatusError reason string
  | RegistryNotFound string
  | ErrNotExist string
  | ContextCanceled
  | DeadlineExceeded
  | ExpiredTimestamp
  | RestoreError err err

fun join_lines :: "string list \<Rightarrow> string" where
  "join_lines [] = []"
| "join_lines [x] = x"
| "join_lines (x # xs) = x @ CHR 10 # join_lines xs"

fun err_msg :: "err \<Rightarrow> string" where
  "err_msg (ErrorString m) = m"
| "err_msg (Wrapped m e) = m"
| "err_msg (Joined es) = join_lines (map err_msg es)"
| "err_msg (StatusError r m) = m"
| "err_msg (RegistryNotFound m) = m"
| "err_msg (ErrNotExist m) = m"
| "err_msg ContextCanceled = ''context canceled''"
| "err_msg DeadlineExceeded = ''context deadline exceeded''"
| "err_msg ExpiredTimestamp = ''final migration timestamp is in the past''"
| "err_msg (RestoreError e u) = err_msg u"

text \<open>\<open>fmt.Errorf("p: %w", e)\<close> and \<open>fmt.Errorf("p: %v", e)\<close>.\<close>

definition errorf_w :: "string \<Rightarrow> err \<Rightarrow> err" where
  "errorf_w p e = Wrapped (p @ '': '' @ err_msg e) e"

definition errorf_v :: "string \<Rightarrow> err \<Rightarrow> err" where
  "errorf_v p e = ErrorString (p @ '': '' @ err_msg e)"

text \<open>\<open>errors.As\<close> and \<open>errors.Is\<close> walk the tree in preorder; the first match decides.\<close>

fun first_some :: "'a option list \<Rightarrow> 'a option" where
  "first_some [] = None"
| "first_some (None # xs) = first_some xs"
| "first_some (Some x # xs) = Some x"

fun status_of :: "err \<Rightarrow> reason option" where
  "status_of (StatusError r m) = Some r"
| "status_of (Wrapped m e) = status_of e"
| "status_of (Joined es) = first_some (map status_of es)"
| "status_of _ = None"

definition is_not_found :: "err \<Rightarrow> bool" where
  "is_not_found e \<longleftrightarrow> status_of e = Some NotFound"

definition is_already_exists :: "err \<Rightarrow> bool" where
  "is_already_exists e \<longleftrightarrow> status_of e = Some AlreadyExists"

definition is_conflict :: "err \<Rightarrow> bool" where
  "is_conflict e \<longleftrightarrow> status_of e = Some Conflict"

fun err_any :: "(err \<Rightarrow> bool) \<Rightarrow> err \<Rightarrow> bool" where
  "err_any p (Wrapped m e) = (p (Wrapped m e) \<or> err_any p e)"
| "err_any p (Joined es) = (p (Joined es) \<or> list_ex (err_any p) es)"
| "err_any p e = p e"

definition is_registry_not_found :: "err \<Rightarrow> bool" where
  "is_registry_not_found = err_any (\<lambda>e. case e of RegistryNotFound _ \<Rightarrow> True | _ \<Rightarrow> False)"

definition is_err_not_exist :: "err \<Rightarrow> bool" where
  "is_err_not_exist = err_any (\<lambda>e. case e of ErrNotExist _ \<Rightarrow> True | _ \<Rightarrow> False)"

definition is_expired_timestamp :: "err \<Rightarrow> bool" where
  "is_expired_timestamp = err_any (\<lambda>e. e = ExpiredTimestamp)"

definition is_restore_error :: "err \<Rightarrow> bool" where
  "is_restore_error = err_any (\<lambda>e. case e of RestoreError _ _ \<Rightarrow> True | _ \<Rightarrow> False)"

lemma status_of_errorf_w [simp, errs]: "status_of (errorf_w p e) = status_of e"
  by (simp add: errorf_w_def)

lemma status_of_errorf_v [simp, errs]: "status_of (errorf_v p e) = None"
  by (simp add: errorf_v_def)

lemma is_not_found_errorf_w [simp, errs]: "is_not_found (errorf_w p e) = is_not_found e"
  by (simp add: is_not_found_def)

lemma is_conflict_errorf_w [simp, errs]: "is_conflict (errorf_w p e) = is_conflict e"
  by (simp add: is_conflict_def)

lemma is_err_not_exist_errorf_w [simp, errs]:
  "is_err_not_exist (errorf_w p e) = is_err_not_exist e"
  by (simp add: is_err_not_exist_def errorf_w_def)

lemma is_restore_error_errorf_w [simp, errs]:
  "is_restore_error (errorf_w p e) = is_restore_error e"
  by (simp add: is_restore_error_def errorf_w_def)

lemma is_restore_error_RestoreError [simp, errs]: "is_restore_error (RestoreError e u)"
  by (simp add: is_restore_error_def)

lemma err_msg_errorf_w [simp, errs]: "err_msg (errorf_w p e) = p @ '': '' @ err_msg e"
  by (simp add: errorf_w_def)

text \<open>
  A Go variable of type \<open>error\<close> is an \<open>err option\<close>, \<open>None\<close> being \<open>nil\<close>.
  \<open>errors.Join\<close> drops the nil arguments and is nil when none is left; it keeps a
  joined argument as a node of its own.
\<close>

definition errors_join :: "err option list \<Rightarrow> err option" where
  "errors_join xs = (case List.map_filter id xs of [] \<Rightarrow> None | es \<Rightarrow> Some (Joined es))"

abbreviation join2 :: "err option \<Rightarrow> err option \<Rightarrow> err option" where
  "join2 a b \<equiv> errors_join [a, b]"

text \<open>The errors a joined error reports, in the order of its message.\<close>

fun reported :: "err \<Rightarrow> err list" where
  "reported (Joined es) = concat (map reported es)"
| "reported e = [e]"

definition oreported :: "err option \<Rightarrow> err list" where
  "oreported x = (case x of None \<Rightarrow> [] | Some e \<Rightarrow> reported e)"

lemma oreported_None [simp, errs]: "oreported None = []"
  by (simp add: oreported_def)

lemma oreported_Some [simp, errs]: "oreported (Some e) = reported e"
  by (simp add: oreported_def)

lemma reported_errorf_w [simp, errs]: "reported (errorf_w p e) = [errorf_w p e]"
  by (simp add: errorf_w_def)

lemma oreported_join2 [simp, errs]: "oreported (join2 a b) = oreported a @ oreported b"
  by (cases a; cases b) (simp_all add: errors_join_def oreported_def map_filter_simps)

lemma join2_None_iff [simp, errs]: "join2 a b = None \<longleftrightarrow> a = None \<and> b = None"
  by (cases a; cases b) (simp_all add: errors_join_def map_filter_simps)

lemma join2_nil [simp, errs]: "join2 None None = None"
  by simp

lemma join2_Some_iff [simp, errs]: "(\<exists>e. join2 a b = Some e) \<longleftrightarrow> a \<noteq> None \<or> b \<noteq> None"
  using join2_None_iff [of a b] by (simp add: not_None_eq [symmetric] del: not_None_eq join2_None_iff)

lemma join2_Some_right [simp, errs]: "join2 a (Some e) \<noteq> None"
  by simp

lemma fold_join2_None_iff [errs]:
  "fold (\<lambda>x acc. join2 acc (f x)) xs a = None \<longleftrightarrow> a = None \<and> (\<forall>x \<in> set xs. f x = None)"
  by (induction xs arbitrary: a) auto

lemma oreported_fold_join2 [errs]:
  "oreported (fold (\<lambda>x acc. join2 acc (f x)) xs a) =
     oreported a @ concat (map (\<lambda>x. oreported (f x)) xs)"
  by (induction xs arbitrary: a) auto

section \<open>Functions with effects\<close>

text \<open>
  A Go function that changes state of type \<open>'s\<close> is a function from the state to its
  result and the new state: \<open>Ok a\<close> is a return of \<open>a\<close> with a nil error, \<open>Err e\<close> a return
  with the error \<open>e\<close>, \<open>Panic p\<close> a panic with the value \<open>p\<close>. A function that returns
  only an error has \<open>'a = unit\<close>.
\<close>

datatype 'a result = Ok 'a | Err err | Panic string

declare result.case_cong [cong]

type_synonym ('s, 'a) go = "'s \<Rightarrow> 'a result \<times> 's"

definition ret :: "'a \<Rightarrow> ('s, 'a) go" where
  "ret a = (\<lambda>s. (Ok a, s))"

definition fail :: "err \<Rightarrow> ('s, 'a) go" where
  "fail e = (\<lambda>s. (Err e, s))"

definition panic :: "string \<Rightarrow> ('s, 'a) go" where
  "panic p = (\<lambda>s. (Panic p, s))"

text \<open>\<open>x, err := m; if err != nil { h(err) } else { k(x) }\<close>\<close>

definition handle :: "('s, 'a) go \<Rightarrow> (err \<Rightarrow> ('s, 'b) go) \<Rightarrow> ('a \<Rightarrow> ('s, 'b) go) \<Rightarrow> ('s, 'b) go" where
  "handle m h k = (\<lambda>s. case m s of
     (Ok a, t) \<Rightarrow> k a t | (Err e, t) \<Rightarrow> h e t | (Panic p, t) \<Rightarrow> (Panic p, t))"

text \<open>\<open>if err != nil { return err }\<close> and \<open>if err != nil { return fmt.Errorf("p: %w", err) }\<close>\<close>

definition andThen :: "('s, 'a) go \<Rightarrow> ('a \<Rightarrow> ('s, 'b) go) \<Rightarrow> ('s, 'b) go" where
  "andThen m k = handle m fail k"

definition orWrap :: "string \<Rightarrow> ('s, 'a) go \<Rightarrow> ('s, 'a) go" where
  "orWrap p m = handle m (\<lambda>e. fail (errorf_w p e)) ret"

text \<open>A call whose error is bound to a variable that the code that follows reads.\<close>

definition attempt :: "('s, 'a) go \<Rightarrow> (err option \<Rightarrow> ('s, 'b) go) \<Rightarrow> ('s, 'b) go" where
  "attempt m k = handle m (\<lambda>e. k (Some e)) (\<lambda>_. k None)"

definition return_err :: "err option \<Rightarrow> ('s, unit) go" where
  "return_err x = (case x of None \<Rightarrow> ret () | Some e \<Rightarrow> fail e)"

text \<open>A pure function with results \<open>(T, error)\<close> is a sum; here it is called.\<close>

definition pure :: "err + 'a \<Rightarrow> ('s, 'a) go" where
  "pure r = (case r of Inl e \<Rightarrow> fail e | Inr a \<Rightarrow> ret a)"

definition get_state :: "('s, 's) go" where
  "get_state = (\<lambda>s. (Ok s, s))"

definition modify :: "('s \<Rightarrow> 's) \<Rightarrow> ('s, unit) go" where
  "modify f = (\<lambda>s. (Ok (), f s))"

text \<open>
  \<open>defer d()\<close> followed by \<open>m\<close>: the deferred call runs however \<open>m\<close> ends, its own error is
  dropped, and a panic of its own replaces the result.
\<close>

definition deferring :: "('s, unit) go \<Rightarrow> ('s, 'a) go \<Rightarrow> ('s, 'a) go" where
  "deferring d m = (\<lambda>s. case m s of (r, t) \<Rightarrow>
     (case d t of (Panic p, u) \<Rightarrow> (Panic p, u) | (_, u) \<Rightarrow> (r, u)))"

text \<open>\<open>for _, x := range xs { if err := f(x); err != nil { return err } }\<close>\<close>

fun for_each :: "('x \<Rightarrow> ('s, unit) go) \<Rightarrow> 'x list \<Rightarrow> ('s, unit) go" where
  "for_each f [] = ret ()"
| "for_each f (x # xs) = andThen (f x) (\<lambda>_. for_each f xs)"

text \<open>A loop that collects a value for each element and stops at the first error.\<close>

fun for_collect :: "('x \<Rightarrow> ('s, 'a) go) \<Rightarrow> 'x list \<Rightarrow> ('s, 'a list) go" where
  "for_collect f [] = ret []"
| "for_collect f (x # xs) = andThen (f x) (\<lambda>a. andThen (for_collect f xs) (\<lambda>as. ret (a # as)))"

text \<open>
  A loop that does not stop at an error but joins it to the accumulated \<open>result\<close>, which
  it returns.
\<close>

fun for_join :: "('x \<Rightarrow> ('s, unit) go) \<Rightarrow> 'x list \<Rightarrow> err option \<Rightarrow> ('s, err option) go" where
  "for_join f [] acc = ret acc"
| "for_join f (x # xs) acc =
     attempt (f x) (\<lambda>e. for_join f xs (case e of None \<Rightarrow> acc | Some e' \<Rightarrow> join2 acc (Some e')))"

text \<open>A loop that hands a value on from one round to the next and stops at the first error.\<close>

primrec for_acc :: "('x \<Rightarrow> 'a \<Rightarrow> ('s, 'a) go) \<Rightarrow> 'x list \<Rightarrow> 'a \<Rightarrow> ('s, 'a) go" where
  "for_acc f [] a = ret a"
| "for_acc f (x # xs) a = andThen (f x a) (\<lambda>a. for_acc f xs a)"

section \<open>Weakest preconditions\<close>

text \<open>
  \<open>wp m Q s\<close> says that running \<open>m\<close> in \<open>s\<close> ends in a result and a state with \<open>Q\<close>.
  Every model function is total, so there is no difference between partial and total
  correctness here; loops that may not end have an \<open>option\<close> result of their own.
\<close>

definition wp :: "('s, 'a) go \<Rightarrow> ('a result \<Rightarrow> 's \<Rightarrow> bool) \<Rightarrow> 's \<Rightarrow> bool" where
  "wp m Q s = (case m s of (r, t) \<Rightarrow> Q r t)"

lemma wp_eq: "m s = (r, t) \<Longrightarrow> wp m Q s = Q r t"
  by (simp add: wp_def)

lemma wp_iff: "wp m Q s \<longleftrightarrow> Q (fst (m s)) (snd (m s))"
  by (simp add: wp_def split: prod.splits)

lemma wpI: "(\<And>r t. m s = (r, t) \<Longrightarrow> Q r t) \<Longrightarrow> wp m Q s"
  by (simp add: wp_def split: prod.splits)

lemma wpD: "wp m Q s \<Longrightarrow> m s = (r, t) \<Longrightarrow> Q r t"
  by (simp add: wp_def)

lemma wp_ret [wp, simp]: "wp (ret a) Q s = Q (Ok a) s"
  by (simp add: wp_def ret_def)

lemma wp_fail [wp, simp]: "wp (fail e) Q s = Q (Err e) s"
  by (simp add: wp_def fail_def)

lemma wp_panic [wp, simp]: "wp (panic p) Q s = Q (Panic p) s"
  by (simp add: wp_def panic_def)

lemma wp_handle [wp, simp]:
  "wp (handle m h k) Q s =
     wp m (\<lambda>r t. case r of Ok a \<Rightarrow> wp (k a) Q t | Err e \<Rightarrow> wp (h e) Q t
       | Panic p \<Rightarrow> Q (Panic p) t) s"
  by (simp add: wp_def handle_def split: prod.splits result.splits)

lemma wp_andThen [wp, simp]:
  "wp (andThen m k) Q s =
     wp m (\<lambda>r t. case r of Ok a \<Rightarrow> wp (k a) Q t | Err e \<Rightarrow> Q (Err e) t
       | Panic p \<Rightarrow> Q (Panic p) t) s"
  by (simp add: andThen_def)

lemma wp_orWrap [wp, simp]:
  "wp (orWrap p m) Q s =
     wp m (\<lambda>r t. case r of Ok a \<Rightarrow> Q (Ok a) t | Err e \<Rightarrow> Q (Err (errorf_w p e)) t
       | Panic q \<Rightarrow> Q (Panic q) t) s"
  by (simp add: orWrap_def)

lemma wp_attempt [wp, simp]:
  "wp (attempt m k) Q s =
     wp m (\<lambda>r t. case r of Ok a \<Rightarrow> wp (k None) Q t | Err e \<Rightarrow> wp (k (Some e)) Q t
       | Panic p \<Rightarrow> Q (Panic p) t) s"
  by (simp add: attempt_def)

lemma wp_return_err [wp, simp]:
  "wp (return_err x) Q s = Q (case x of None \<Rightarrow> Ok () | Some e \<Rightarrow> Err e) s"
  by (simp add: return_err_def split: option.splits)

lemma wp_pure [wp, simp]:
  "wp (pure r) Q s = Q (case r of Inl e \<Rightarrow> Err e | Inr a \<Rightarrow> Ok a) s"
  by (simp add: pure_def split: sum.splits)

lemma wp_get_state [wp, simp]: "wp get_state Q s = Q (Ok s) s"
  by (simp add: wp_def get_state_def)

lemma wp_modify [wp, simp]: "wp (modify f) Q s = Q (Ok ()) (f s)"
  by (simp add: wp_def modify_def)

lemma wp_deferring [wp, simp]:
  "wp (deferring d m) Q s =
     wp m (\<lambda>r t. wp d (\<lambda>r' u. case r' of Panic p \<Rightarrow> Q (Panic p) u | _ \<Rightarrow> Q r u) t) s"
  by (simp add: wp_def deferring_def split: prod.splits result.splits)

lemma wp_if [wp, simp]: "wp (if b then m else n) Q s = (if b then wp m Q s else wp n Q s)"
  by simp

text \<open>The same for runs that end without an error, as equations to take a run apart with.\<close>

lemma andThen_Ok_iff [ok_iffs]:
  "andThen m k s = (Ok b, u) \<longleftrightarrow> (\<exists>a t. m s = (Ok a, t) \<and> k a t = (Ok b, u))"
  by (auto simp: andThen_def handle_def fail_def split: result.splits prod.splits)

lemma orWrap_Ok_iff [ok_iffs]: "orWrap p m s = (Ok a, t) \<longleftrightarrow> m s = (Ok a, t)"
  by (auto simp: orWrap_def handle_def fail_def ret_def split: result.splits prod.splits)

lemma ret_Ok_iff [ok_iffs]: "ret a s = (Ok b, t) \<longleftrightarrow> b = a \<and> t = s"
  and fail_Ok_iff [ok_iffs]: "\<not> fail e s = (Ok b, t)"
  and panic_Ok_iff [ok_iffs]: "\<not> panic p s = (Ok b, t)"
  by (auto simp: ret_def fail_def panic_def)

lemma return_err_Ok_iff [ok_iffs]: "return_err x s = (Ok u, t) \<longleftrightarrow> x = None \<and> t = s"
  by (auto simp: return_err_def fail_def ret_def split: option.splits)

lemma pure_Ok_iff [ok_iffs]: "pure r s = (Ok a, t) \<longleftrightarrow> r = Inr a \<and> t = s"
  by (auto simp: pure_def fail_def ret_def split: sum.splits)

lemma wp_conseq: "wp m Q s \<Longrightarrow> (\<And>r t. m s = (r, t) \<Longrightarrow> Q r t \<Longrightarrow> R r t) \<Longrightarrow> wp m R s"
  by (cases "m s") (simp add: wp_def)

lemma wp_mono: "wp m Q s \<Longrightarrow> (\<And>r t. Q r t \<Longrightarrow> R r t) \<Longrightarrow> wp m R s"
  by (rule wp_conseq)

lemma wp_mono_Ok:
  assumes "wp m (\<lambda>r t. case r of Ok a \<Rightarrow> Q a t | _ \<Rightarrow> True) s" "\<And>a t. Q a t \<Longrightarrow> R a t"
  shows "wp m (\<lambda>r t. case r of Ok a \<Rightarrow> R a t | _ \<Rightarrow> True) s"
  by (rule wp_mono [OF assms(1)]) (auto split: result.splits intro: assms(2))

lemma wp_conj: "wp m (\<lambda>r t. Q r t \<and> R r t) s \<longleftrightarrow> wp m Q s \<and> wp m R s"
  by (simp add: wp_def split: prod.splits)

text \<open>
  An invariant of the body is an invariant of the loops. \<open>keeps I m\<close> says that \<open>m\<close>
  keeps \<open>I\<close> however it ends.
\<close>

definition keeps :: "('s \<Rightarrow> bool) \<Rightarrow> ('s, 'a) go \<Rightarrow> bool" where
  "keeps I m \<longleftrightarrow> (\<forall>s. I s \<longrightarrow> wp m (\<lambda>_ t. I t) s)"

lemma keepsD: "keeps I m \<Longrightarrow> I s \<Longrightarrow> m s = (r, t) \<Longrightarrow> I t"
  by (auto simp: keeps_def wp_def)

lemma keeps_wp: "keeps I m \<Longrightarrow> I s \<Longrightarrow> wp m (\<lambda>_ t. I t) s"
  by (simp add: keeps_def)

lemma keeps_andThen [intro]:
  assumes "keeps I m" "\<And>a. keeps I (k a)"
  shows "keeps I (andThen m k)"
  unfolding keeps_def
proof (intro allI impI)
  fix s assume "I s"
  then have "wp m (\<lambda>_ t. I t) s" using assms(1) by (simp add: keeps_def)
  then show "wp (andThen m k) (\<lambda>_ t. I t) s"
    by (simp, rule wp_mono) (auto split: result.splits intro: keeps_wp [OF assms(2)])
qed

lemma keeps_ret [intro]: "keeps I (ret a)" and keeps_fail [intro]: "keeps I (fail e)"
  by (simp_all add: keeps_def)

lemma keeps_for_each [intro]: "(\<And>x. x \<in> set xs \<Longrightarrow> keeps I (f x)) \<Longrightarrow> keeps I (for_each f xs)"
proof (induction xs)
  case (Cons x xs)
  then have "keeps I (f x)" "keeps I (for_each f xs)" by simp_all
  then show ?case by auto
qed auto

text \<open>
  A loop that ends without an error has run its body for each element: with \<open>I ys\<close> the
  invariant once the elements \<open>ys\<close> are done.
\<close>

lemma wp_for_each:
  assumes "\<And>ys x zs s. xs = ys @ x # zs \<Longrightarrow> I ys s \<Longrightarrow>
      wp (f x) (\<lambda>r t. case r of Ok _ \<Rightarrow> I (ys @ [x]) t | _ \<Rightarrow> E r t) s"
    and "I [] s"
  shows "wp (for_each f xs) (\<lambda>r t. case r of Ok _ \<Rightarrow> I xs t | _ \<Rightarrow> E r t) s"
proof -
  have "I ys s \<Longrightarrow> xs = ys @ zs \<Longrightarrow>
      wp (for_each f zs) (\<lambda>r t. case r of Ok _ \<Rightarrow> I xs t | _ \<Rightarrow> E r t) s" for ys zs s
  proof (induction zs arbitrary: ys s)
    case (Cons x zs)
    obtain r t where f: "f x s = (r, t)" by fastforce
    have "case r of Ok _ \<Rightarrow> I (ys @ [x]) t | _ \<Rightarrow> E r t"
      by (rule wpD [OF assms(1) f]) (use Cons.prems in auto)
    with Cons.IH [of "ys @ [x]" t] Cons.prems show ?case
      by (simp add: wp_eq [where m = "f x" and s = s, OF f] split: result.splits)
  qed simp
  then show ?thesis using assms(2) by blast
qed

lemma wp_for_join:
  assumes "\<And>ys x zs s. xs = ys @ x # zs \<Longrightarrow> I ys s \<Longrightarrow>
      wp (f x) (\<lambda>r t. case r of Panic p \<Rightarrow> P p t | _ \<Rightarrow> I (ys @ [x]) t) s"
    and "I [] s"
  shows "wp (for_join f xs acc) (\<lambda>r t. case r of Panic p \<Rightarrow> P p t | _ \<Rightarrow> I xs t) s"
proof -
  have "I ys s \<Longrightarrow> xs = ys @ zs \<Longrightarrow>
      wp (for_join f zs acc) (\<lambda>r t. case r of Panic p \<Rightarrow> P p t | _ \<Rightarrow> I xs t) s" for ys zs s acc
  proof (induction zs arbitrary: ys s acc)
    case (Cons x zs)
    obtain r t where f: "f x s = (r, t)" by fastforce
    have "case r of Panic p \<Rightarrow> P p t | _ \<Rightarrow> I (ys @ [x]) t"
      by (rule wpD [OF assms(1) f]) (use Cons.prems in auto)
    with Cons.IH [of "ys @ [x]" t] Cons.prems show ?case
      by (cases r) (simp_all add: wp_eq [where m = "f x" and s = s, OF f])
  qed simp
  then show ?thesis using assms(2) by blast
qed

text \<open>The accumulator only passes errors on: nothing that was joined is lost.\<close>

lemma for_join_never_Err: "for_join f xs acc s \<noteq> (Err e, t)"
  by (induction xs arbitrary: acc s)
    (auto simp: ret_def attempt_def handle_def split: prod.splits result.splits)

lemma for_join_None:
  "for_join f xs acc s = (Ok None, t) \<Longrightarrow> acc = None"
proof (induction xs arbitrary: acc s)
  case (Cons x xs)
  then show ?case
    by (auto simp: attempt_def handle_def errs split: prod.splits result.splits)
      (metis join2_Some_right)
qed (simp add: ret_def)

text \<open>
  Two actions are alike when they have the same effect and succeed in the same cases: they
  differ only in their values and in the wrapping of their errors.
\<close>

definition alike :: "('s, 'a) go \<Rightarrow> ('s, 'b) go \<Rightarrow> bool" where
  "alike m n \<longleftrightarrow> (\<forall>s. snd (m s) = snd (n s) \<and> (\<exists>a. fst (m s) = Ok a) = (\<exists>a. fst (n s) = Ok a))"

lemma alike_orWrap [intro]: "alike m n \<Longrightarrow> alike (orWrap p m) n"
  by (auto simp: alike_def orWrap_def handle_def ret_def fail_def split: prod.splits result.splits)
    (metis fst_conv snd_conv result.distinct)+

lemma alike_refl [intro]: "alike m m"
  by (simp add: alike_def)

lemma alike_discard [intro]: "alike m n \<Longrightarrow> alike (andThen m (\<lambda>_. ret a)) n"
  by (auto simp: alike_def andThen_def handle_def ret_def fail_def split: prod.splits result.splits)
    (metis fst_conv snd_conv result.distinct)+

lemma alikeE:
  assumes "alike m n" "m s = (r, t)"
  obtains q where "n s = (q, t)" "(\<exists>a. r = Ok a) = (\<exists>a. q = Ok a)"
  using assms unfolding alike_def by (metis prod.collapse fst_conv snd_conv)

lemma wp_True [simp]: "wp m (\<lambda>_ _. True) s"
  by (simp add: wp_def split: prod.splits)

section \<open>Calls to the outside\<close>

text \<open>
  Everything the program talks to (the Kubernetes API, the exporter, the file system,
  child processes, the SMTP server, the clock) is a parameter of the model: a record of
  functions over an arbitrary state \<open>'w\<close> of the outside. A component's state holds that
  world and the list of the calls the component made, so that theorems can speak of
  which calls happen and in which order whatever the world answers.
\<close>

datatype ending = Fine | Failed err | Panicked string

definition ending_of :: "'a result \<Rightarrow> ending" where
  "ending_of r = (case r of Ok _ \<Rightarrow> Fine | Err e \<Rightarrow> Failed e | Panic p \<Rightarrow> Panicked p)"

record ('c, 'w) st =
  trace :: "('c \<times> ending) list"
  world :: 'w

definition extern :: "'c \<Rightarrow> ('w, 'a) go \<Rightarrow> (('c, 'w, 'm) st_scheme, 'a) go" where
  "extern c m = (\<lambda>s. case m (world s) of (r, w) \<Rightarrow>
     (r, s\<lparr>trace := trace s @ [(c, ending_of r)], world := w\<rparr>))"

text \<open>Reading the clock and the like: an effect on the world that is not recorded.\<close>

definition quietly :: "('w, 'a) go \<Rightarrow> (('c, 'w, 'm) st_scheme, 'a) go" where
  "quietly m = (\<lambda>s. case m (world s) of (r, w) \<Rightarrow> (r, s\<lparr>world := w\<rparr>))"

lemma ending_of_simps [simp]:
  "ending_of (Ok a) = Fine" "ending_of (Err e) = Failed e" "ending_of (Panic p) = Panicked p"
  by (simp_all add: ending_of_def)

lemma ending_of_Fine_iff [simp]: "ending_of r = Fine \<longleftrightarrow> (\<exists>a. r = Ok a)"
  by (cases r) simp_all

lemma wp_extern [wp, simp]:
  "wp (extern c m) Q s =
     wp m (\<lambda>r w. Q r (s\<lparr>trace := trace s @ [(c, ending_of r)], world := w\<rparr>)) (world s)"
  by (simp add: wp_def extern_def split: prod.splits)

lemma wp_quietly [wp, simp]:
  "wp (quietly m) Q s = wp m (\<lambda>r w. Q r (s\<lparr>world := w\<rparr>)) (world s)"
  by (simp add: wp_def quietly_def split: prod.splits)

text \<open>
  \<open>run_of cs es\<close>: the recorded calls \<open>es\<close> are \<open>cs\<close>, in this order, all of them
  successful, or a prefix of \<open>cs\<close> of which only the last call did not succeed.
  \<open>run_end es\<close> is how they ended.
\<close>

abbreviation fine :: "'c list \<Rightarrow> ('c \<times> ending) list" where
  "fine cs \<equiv> map (\<lambda>c. (c, Fine)) cs"

fun run_of :: "'c list \<Rightarrow> ('c \<times> ending) list \<Rightarrow> bool" where
  "run_of [] es = (es = [])"
| "run_of (c # cs) [] = False"
| "run_of (c # cs) ((d, e) # es) =
     (d = c \<and> (if e = Fine then run_of cs es else es = []))"

definition run_end :: "('c \<times> ending) list \<Rightarrow> ending" where
  "run_end es = (if es = [] then Fine else snd (last es))"

lemma run_end_simps [simp]:
  "run_end [] = Fine" "run_end (es @ [x]) = snd x"
  "run_end (x # es) = (if es = [] then snd x else run_end es)"
  by (simp_all add: run_end_def)

lemma run_of_shape:
  "run_of cs es \<Longrightarrow>
     (run_end es = Fine \<and> es = fine cs) \<or>
     (run_end es \<noteq> Fine \<and> (\<exists>n < length cs. es = fine (take n cs) @ [(cs ! n, run_end es)]))"
proof (induction cs es rule: run_of.induct)
  case (3 c cs d e es)
  show ?case
  proof (cases "e = Fine \<and> es \<noteq> []")
    case True
    with 3 consider "run_end es = Fine" "es = fine cs"
      | n where "run_end es \<noteq> Fine" "n < length cs" "es = fine (take n cs) @ [(cs ! n, run_end es)]"
      by fastforce
    then show ?thesis
    proof cases
      case 1
      with 3 True show ?thesis by auto
    next
      case (2 n)
      with 3 True show ?thesis by (auto intro!: exI [of _ "Suc n"])
    qed
  next
    case False
    with 3 show ?thesis by (cases cs) (auto split: if_splits)
  qed
qed simp_all

lemma run_of_Fine_iff: "run_of cs es \<Longrightarrow> run_end es = Fine \<longleftrightarrow> list_all (\<lambda>(c, e). e = Fine) es"
  by (induction cs es rule: run_of.induct) (auto split: if_splits)

lemma run_of_fst: "run_of cs es \<Longrightarrow> \<exists>n. map fst es = take n cs"
proof (induction cs es rule: run_of.induct)
  case (3 c cs d e es)
  show ?case
  proof (cases "e = Fine")
    case True
    with 3 obtain n where "map fst es = take n cs" by auto
    with 3 show ?thesis by (auto intro!: exI [of _ "Suc n"])
  next
    case False
    with 3 show ?thesis by (auto intro!: exI [of _ 1])
  qed
qed simp_all

text \<open>
  \<open>follows cs m\<close>: the calls of \<open>m\<close> are a run of \<open>cs\<close>, and \<open>m\<close> ends as its last call did:
  without an error if that succeeded, with a wrapped error if it failed, with the same
  panic if it panicked.
\<close>

definition ends_as :: "ending \<Rightarrow> 'a result \<Rightarrow> bool" where
  "ends_as e r \<longleftrightarrow> (case e of
     Fine \<Rightarrow> (\<exists>a. r = Ok a)
   | Failed x \<Rightarrow> (\<exists>p. r = Err (errorf_w p x))
   | Panicked p \<Rightarrow> r = Panic p)"

lemma ends_as_simps [simp]:
  "ends_as Fine r \<longleftrightarrow> (\<exists>a. r = Ok a)"
  "ends_as (Failed x) r \<longleftrightarrow> (\<exists>p. r = Err (errorf_w p x))"
  "ends_as (Panicked p) r \<longleftrightarrow> r = Panic p"
  by (simp_all add: ends_as_def)

definition follows :: "'c list \<Rightarrow> (('c, 'w, 'm) st_scheme, 'a) go \<Rightarrow> bool" where
  "follows cs m \<longleftrightarrow> (\<forall>s. wp m (\<lambda>r t. \<exists>es.
     trace t = trace s @ es \<and> run_of cs es \<and> ends_as (run_end es) r) s)"

lemma follows_ret: "follows [] (ret a)"
  by (simp add: follows_def)

lemma andThen_ret [simp]: "andThen (ret a) k = k a"
  by (simp add: andThen_def handle_def ret_def)

lemma andThen_assoc: "andThen (andThen m k) l = andThen m (\<lambda>a. andThen (k a) l)"
  by (rule ext) (simp add: andThen_def handle_def fail_def split: prod.splits result.splits)

lemma follows_step:
  fixes m :: "('w, 'a) go" and k :: "'a \<Rightarrow> (('c, 'w, 'm) st_scheme, 'b) go"
  assumes k: "\<And>a. follows cs (k a)"
  shows "follows (c # cs) (andThen (orWrap p (extern c m)) k)"
  unfolding follows_def
proof
  fix s :: "('c, 'w, 'm) st_scheme"
  obtain r w where m: "m (world s) = (r, w)" by fastforce
  show "wp (andThen (orWrap p (extern c m)) k) (\<lambda>r t. \<exists>es.
     trace t = trace s @ es \<and> run_of (c # cs) es \<and> ends_as (run_end es) r) s"
  proof (cases r)
    case (Ok a)
    let ?s = "s\<lparr>trace := trace s @ [(c, Fine)], world := w\<rparr>"
    have "wp (k a) (\<lambda>r t. \<exists>es. trace t = trace ?s @ es \<and> run_of cs es \<and> ends_as (run_end es) r) ?s"
      using k [of a] unfolding follows_def by (rule spec)
    then have "wp (k a) (\<lambda>r t. \<exists>es. trace t = trace s @ es \<and> run_of (c # cs) es \<and>
        ends_as (run_end es) r) ?s"
      by (rule wp_mono) (force intro: exI [of _ "(c, Fine) # es" for es])
    with m Ok show ?thesis by (simp add: wp_eq [where m = m])
  next
    case (Err e)
    with m show ?thesis by (auto simp: wp_eq [where m = m, OF m] intro!: exI [of _ "[(c, Failed e)]"])
  next
    case (Panic q)
    with m show ?thesis by (auto simp: wp_eq [where m = m, OF m] intro!: exI [of _ "[(c, Panicked q)]"])
  qed
qed

lemma follows_cond:
  assumes "\<And>a. follows cs (k a)"
  shows "follows ((if b then [c] else []) @ cs)
    (andThen (if b then orWrap p (extern c m) else ret ()) k)"
  using assms follows_step [of cs k c p m] by simp

lemma followsD:
  "follows cs m \<Longrightarrow> m s = (r, t) \<Longrightarrow>
     \<exists>es. trace t = trace s @ es \<and> run_of cs es \<and> ends_as (run_end es) r"
  unfolding follows_def wp_def by (drule spec [of _ s]) simp

text \<open>
  \<open>attempts cs m\<close>: \<open>m\<close> makes the calls \<open>cs\<close> in this order whether they fail or not; only a
  panic cuts them short, and it is then the result.
\<close>

fun attempt_of :: "'c list \<Rightarrow> ('c \<times> ending) list \<Rightarrow> bool" where
  "attempt_of [] es = (es = [])"
| "attempt_of (c # cs) [] = False"
| "attempt_of (c # cs) ((d, e) # es) =
     (d = c \<and> (case e of Panicked p \<Rightarrow> es = [] | _ \<Rightarrow> attempt_of cs es))"

definition panicked :: "('c \<times> ending) list \<Rightarrow> bool" where
  "panicked es \<longleftrightarrow> (\<exists>c p. (c, Panicked p) \<in> set es)"

lemma attempt_of_all: "attempt_of cs es \<Longrightarrow> \<not> panicked es \<Longrightarrow> map fst es = cs"
  by (induction cs es rule: attempt_of.induct) (auto simp: panicked_def split: ending.splits)

text \<open>A function beside a component of the state that it does not see, for observers of calls.\<close>

definition beside :: "('w \<Rightarrow> 'r \<times> 'w) \<Rightarrow> 'w \<times> 'x \<Rightarrow> 'r \<times> 'w \<times> 'x" where
  "beside m = (\<lambda>(w, k). case m w of (r, v) \<Rightarrow> (r, (v, k)))"

lemma wp_beside [wp, simp]: "wp (beside m) Q s = wp m (\<lambda>r v. Q r (v, snd s)) (fst s)"
  by (simp add: wp_def beside_def split: prod.splits)

text \<open>
  A client that returns a value or an error and does not panic. The calls that a goroutine makes are of
  this kind: a panic of a goroutine would end the whole process, not the function that started it.
\<close>

definition called :: "('w \<Rightarrow> (err + 'a) \<times> 'w) \<Rightarrow> ('w, 'a) go" where
  "called m = (\<lambda>w. case m w of (Inl e, v) \<Rightarrow> (Err e, v) | (Inr a, v) \<Rightarrow> (Ok a, v))"

lemma wp_called [wp, simp]:
  "wp (called m) Q w = (case m w of (Inl e, v) \<Rightarrow> Q (Err e) v | (Inr a, v) \<Rightarrow> Q (Ok a) v)"
  by (simp add: wp_def called_def split: prod.splits sum.splits)

lemma called_not_Panic [simp]: "called m w \<noteq> (Panic p, v)"
  by (simp add: called_def split: prod.splits sum.splits)

text \<open>A call that always answers \<open>r\<close>, for witnesses.\<close>

definition answers :: "'a result \<Rightarrow> ('w, 'a) go" where
  "answers r = (\<lambda>w. (r, w))"

lemma wp_answers [wp, simp]: "wp (answers r) Q w = Q r w"
  by (simp add: wp_def answers_def)

lemmas go_defs = ret_def fail_def panic_def handle_def andThen_def orWrap_def attempt_def
  return_err_def pure_def get_state_def modify_def deferring_def extern_def quietly_def answers_def

end
