(* ===== verification/Go_Strings.thy ===== *)
theory Go_Strings imports Go_Base begin

text \<open>
  The parts of the packages \<open>strings\<close>, \<open>strconv\<close>, \<open>path\<close> and \<open>slices\<close> that the importer
  uses, on strings as byte sequences: \<open>TrimPrefix\<close>, \<open>Split\<close>, decimal output, and
  \<open>path.Clean\<close>, \<open>Join\<close>, \<open>Base\<close>, \<open>Dir\<close> and \<open>Match\<close>. The lemmas show what the components
  need of them: cleaned paths are in normal form, cleaning is idempotent, and joining a
  base path with different names gives different paths.
\<close>

section \<open>Prefixes, separators and numbers\<close>

abbreviation slash :: char where
  "slash \<equiv> CHR ''/''"

fun trim_prefix :: "string \<Rightarrow> string \<Rightarrow> string" where
  "trim_prefix p s = (if take (length p) s = p then drop (length p) s else s)"

fun split_on :: "char \<Rightarrow> string \<Rightarrow> string list" where
  "split_on c [] = [[]]"
| "split_on c (x # xs) =
     (if x = c then [] # split_on c xs
      else (case split_on c xs of [] \<Rightarrow> [[x]] | y # ys \<Rightarrow> (x # y) # ys))"

fun join_with :: "string \<Rightarrow> string list \<Rightarrow> string" where
  "join_with sep [] = []"
| "join_with sep [x] = x"
| "join_with sep (x # y # ys) = x @ sep @ join_with sep (y # ys)"

lemma split_on_nonempty [simp]: "split_on c s \<noteq> []"
  by (induction s) (auto split: list.splits)

lemma split_on_pieces: "x \<in> set (split_on c s) \<Longrightarrow> c \<notin> set x"
  by (induction s arbitrary: x) (auto split: list.splits if_splits)

lemma split_on_append_sep:
  "c \<notin> set x \<Longrightarrow> split_on c (x @ c # s) = x # split_on c s"
  by (induction x) auto

lemma split_on_no_sep: "c \<notin> set x \<Longrightarrow> split_on c x = [x]"
  by (induction x) auto

lemma split_on_append:
  "split_on c (s @ c # t) = split_on c s @ split_on c t"
  by (induction s) (auto split: list.splits)

lemma split_join:
  "xs \<noteq> [] \<Longrightarrow> (\<forall>x \<in> set xs. c \<notin> set x) \<Longrightarrow> split_on c (join_with [c] xs) = xs"
  by (induction "[c]" xs rule: join_with.induct) (auto simp: split_on_append_sep split_on_no_sep)

lemma join_split: "join_with [c] (split_on c s) = s"
proof (induction s)
  case (Cons x xs)
  then show ?case
    by (cases "split_on c xs") (auto, (metis append_Nil join_with.simps(2,3) list.exhaust append_Cons)+)
qed simp

definition digit :: "nat \<Rightarrow> char" where
  "digit n = char_of (48 + n)"

fun show_nat :: "nat \<Rightarrow> string" where
  "show_nat n = (if n < 10 then [digit n] else show_nat (n div 10) @ [digit (n mod 10)])"

declare show_nat.simps [simp del]

text \<open>\<open>strconv.FormatInt(i, 10)\<close> and \<open>%d\<close>\<close>

definition show_int :: "int \<Rightarrow> string" where
  "show_int i = (if i < 0 then CHR ''-'' # show_nat (nat (- i)) else show_nat (nat i))"

fun nat_of_digits :: "string \<Rightarrow> nat" where
  "nat_of_digits s = fold (\<lambda>c n. n * 10 + (of_char c - 48)) s 0"

lemma of_char_digit: "n < 10 \<Longrightarrow> of_char (digit n) = 48 + n"
  by (simp add: digit_def)

lemma nat_of_digits_show_nat [simp]: "nat_of_digits (show_nat n) = n"
proof (induction n rule: show_nat.induct)
  case (1 n)
  then show ?case by (subst show_nat.simps) (auto simp: of_char_digit)
qed

lemma show_nat_inject [simp]: "show_nat m = show_nat n \<longleftrightarrow> m = n"
  by (metis nat_of_digits_show_nat)

lemma show_nat_nonempty [simp]: "show_nat n \<noteq> []"
  by (subst show_nat.simps) simp

lemma show_nat_digits: "c \<in> set (show_nat n) \<Longrightarrow> 48 \<le> (of_char c :: nat) \<and> (of_char c :: nat) \<le> 57"
proof (induction n rule: show_nat.induct)
  case (1 n)
  then show ?case
    by (subst (asm) (2) show_nat.simps) (auto simp: of_char_digit split: if_splits)
qed

lemma show_int_inject [simp]: "show_int i = show_int j \<longleftrightarrow> i = j"
proof
  have minus: "CHR ''-'' \<notin> set (show_nat n)" for n
    using show_nat_digits by force
  assume "show_int i = show_int j"
  then show "i = j"
    using minus by (auto simp: show_int_def split: if_splits) (metis list.set_intros(1))+
qed simp

section \<open>Lexical paths\<close>

text \<open>
  \<open>path.Clean\<close> reads the path component by component, with the components kept so far
  as a stack: empty components and dots are dropped, a double dot removes the last
  component unless that is a double dot itself, and at the root it is dropped.
\<close>

definition dot :: string where
  "dot = ''.''"

definition dotdot :: string where
  "dotdot = ''..''"

lemma dots [simp]:
  "dot \<noteq> dotdot" "dotdot \<noteq> dot" "dot \<noteq> []" "dotdot \<noteq> []" "slash \<notin> set dotdot"
  by (simp_all add: dot_def dotdot_def)

definition clean_step :: "bool \<Rightarrow> string list \<Rightarrow> string \<Rightarrow> string list" where
  "clean_step rooted out c =
     (if c = [] \<or> c = dot then out
      else if c = dotdot then
        (if out \<noteq> [] \<and> last out \<noteq> dotdot then butlast out
         else if rooted then out else out @ [c])
      else out @ [c])"

definition clean_comps :: "bool \<Rightarrow> string list \<Rightarrow> string list" where
  "clean_comps rooted cs = foldl (clean_step rooted) [] cs"

definition path_rooted :: "string \<Rightarrow> bool" where
  "path_rooted p \<longleftrightarrow> (case p of [] \<Rightarrow> False | c # _ \<Rightarrow> c = slash)"

definition print_path :: "bool \<Rightarrow> string list \<Rightarrow> string" where
  "print_path rooted cs =
     (if rooted then slash # join_with [slash] cs
      else if cs = [] then dot else join_with [slash] cs)"

definition path_clean :: "string \<Rightarrow> string" where
  "path_clean p =
     (if p = [] then dot
      else print_path (path_rooted p) (clean_comps (path_rooted p) (split_on slash p)))"

definition path_join :: "string list \<Rightarrow> string" where
  "path_join elems =
     (case dropWhile (\<lambda>e. e = []) elems of
        [] \<Rightarrow> []
      | es \<Rightarrow> path_clean (join_with [slash] es))"

definition path_dir :: "string \<Rightarrow> string" where
  "path_dir p = path_clean (rev (dropWhile (\<lambda>c. c \<noteq> slash) (rev p)))"

definition path_base :: "string \<Rightarrow> string" where
  "path_base p =
     (if p = [] then dot
      else let q = rev (dropWhile (\<lambda>c. c = slash) (rev p)) in
        if q = [] then ''/'' else rev (takeWhile (\<lambda>c. c \<noteq> slash) (rev q)))"

text \<open>The normal form of a list of components.\<close>

definition normal_comps :: "bool \<Rightarrow> string list \<Rightarrow> bool" where
  "normal_comps rooted cs \<longleftrightarrow>
     (\<forall>c \<in> set cs. c \<noteq> [] \<and> c \<noteq> dot \<and> slash \<notin> set c) \<and>
     (if rooted then dotdot \<notin> set cs
      else dotdot \<notin> set (dropWhile (\<lambda>c. c = dotdot) cs))"

definition plain_comp :: "string \<Rightarrow> bool" where
  "plain_comp c \<longleftrightarrow> c \<noteq> [] \<and> c \<noteq> dot \<and> c \<noteq> dotdot \<and> slash \<notin> set c"

lemma dropWhile_snoc_keep:
  "x \<notin> set (dropWhile P xs) \<Longrightarrow> y \<noteq> x \<Longrightarrow> \<not> P y \<Longrightarrow> x \<notin> set (dropWhile P (xs @ [y]))"
  by (cases "\<forall>z \<in> set xs. P z") (auto simp: dropWhile_append1 dropWhile_append2)

lemma dropWhile_snoc_all:
  "\<forall>z \<in> set xs. P z \<Longrightarrow> P y \<Longrightarrow> dropWhile P (xs @ [y]) = []"
  by (simp add: dropWhile_append2)

lemma normal_last_dotdot:
  assumes "dotdot \<notin> set (dropWhile (\<lambda>c. c = dotdot) cs)" and "cs \<noteq> []" and "last cs = dotdot"
  shows "\<forall>c \<in> set cs. c = dotdot"
proof (rule ccontr)
  assume "\<not> ?thesis"
  then have ne: "dropWhile (\<lambda>c. c = dotdot) cs \<noteq> []" by simp
  have "last (dropWhile (\<lambda>c. c = dotdot) cs) = last cs"
    by (metis ne takeWhile_dropWhile_id last_append)
  with assms ne show False by (metis last_in_set)
qed

lemma dotdot_run_butlast:
  assumes "dotdot \<notin> set (dropWhile (\<lambda>c. c = dotdot) cs)"
  shows "dotdot \<notin> set (dropWhile (\<lambda>c. c = dotdot) (butlast cs))"
proof (cases cs rule: rev_cases)
  case (snoc ys y)
  show ?thesis
  proof (cases "\<forall>z \<in> set ys. z = dotdot")
    case True
    with snoc show ?thesis by (simp add: dropWhile_eq_Nil_conv [THEN iffD2])
  next
    case False
    then obtain x where "x \<in> set ys" "x \<noteq> dotdot" by blast
    with assms snoc show ?thesis by (simp add: dropWhile_append1)
  qed
qed simp

lemma normal_butlast: "normal_comps r cs \<Longrightarrow> normal_comps r (butlast cs)"
  using dotdot_run_butlast [of cs] by (auto simp: normal_comps_def dest: in_set_butlastD)

lemma normal_snoc:
  assumes "normal_comps r out" "c \<noteq> []" "c \<noteq> dot" "c \<noteq> dotdot" "slash \<notin> set c"
  shows "normal_comps r (out @ [c])"
proof (cases r)
  case True
  with assms show ?thesis by (simp add: normal_comps_def)
next
  case False
  with assms have "dotdot \<notin> set (dropWhile (\<lambda>c. c = dotdot) (out @ [c]))"
    by (intro dropWhile_snoc_keep) (simp_all add: normal_comps_def)
  with False assms show ?thesis by (simp add: normal_comps_def)
qed

lemma normal_snoc_dotdot:
  assumes "normal_comps False out" "out = [] \<or> last out = dotdot"
  shows "normal_comps False (out @ [dotdot])"
proof -
  have "dotdot \<notin> set (dropWhile (\<lambda>c. c = dotdot) out)"
    using assms(1) by (simp add: normal_comps_def)
  then have "\<forall>z \<in> set out. z = dotdot"
    using assms(2) normal_last_dotdot [of out] by (metis empty_iff empty_set)
  then have "dropWhile (\<lambda>c. c = dotdot) (out @ [dotdot]) = []" by simp
  then show ?thesis using assms(1) by (simp add: normal_comps_def)
qed

lemma normal_clean_step:
  assumes "normal_comps r out" and "slash \<notin> set c"
  shows "normal_comps r (clean_step r out c)"
proof -
  consider "c = [] \<or> c = dot" | "c = dotdot" "out \<noteq> [] \<and> last out \<noteq> dotdot"
    | "c = dotdot" "out = [] \<or> last out = dotdot" | "c \<noteq> []" "c \<noteq> dot" "c \<noteq> dotdot"
    by blast
  then show ?thesis
  proof cases
    case 1
    with assms show ?thesis by (simp add: clean_step_def)
  next
    case 2
    with assms show ?thesis by (simp add: clean_step_def normal_butlast)
  next
    case 3
    with assms normal_snoc_dotdot [of out] show ?thesis by (cases r) (auto simp: clean_step_def)
  next
    case 4
    with assms show ?thesis by (simp add: clean_step_def normal_snoc)
  qed
qed

lemma normal_foldl:
  "normal_comps r out \<Longrightarrow> list_all (\<lambda>c. slash \<notin> set c) cs \<Longrightarrow>
     normal_comps r (foldl (clean_step r) out cs)"
  by (induction cs arbitrary: out) (simp_all add: normal_clean_step)

lemma normal_clean_comps: "\<forall>c \<in> set cs. slash \<notin> set c \<Longrightarrow> normal_comps r (clean_comps r cs)"
  by (simp add: clean_comps_def normal_foldl list_all_iff normal_comps_def [of r "[]"])

text \<open>Components in normal form are not changed any more.\<close>

lemma normal_step:
  assumes "normal_comps r (out @ c # cs)"
  shows "clean_step r out c = out @ [c]"
proof (cases "c = dotdot")
  case True
  have r: "\<not> r" and dw: "dotdot \<notin> set (dropWhile (\<lambda>c. c = dotdot) (out @ c # cs))"
    using assms True by (simp_all add: normal_comps_def split: if_splits)
  have "\<forall>z \<in> set out. z = dotdot"
  proof (rule ccontr)
    assume "\<not> ?thesis"
    then obtain x where "x \<in> set out" "x \<noteq> dotdot" by blast
    with dw True show False by (simp add: dropWhile_append1)
  qed
  then have "out = [] \<or> last out = dotdot" by (metis last_in_set)
  with r True show ?thesis by (auto simp: clean_step_def)
next
  case False
  with assms show ?thesis by (simp add: normal_comps_def clean_step_def)
qed

lemma normal_fold:
  "normal_comps r (out @ cs) \<Longrightarrow> foldl (clean_step r) out cs = out @ cs"
proof (induction cs arbitrary: out)
  case (Cons c cs)
  then show ?case using normal_step [OF Cons.prems] by simp
qed simp

lemma clean_comps_normal: "normal_comps r cs \<Longrightarrow> clean_comps r cs = cs"
  by (simp add: clean_comps_def normal_fold)

lemma clean_comps_Nil_first [simp]: "clean_comps r ([] # cs) = clean_comps r cs"
  by (simp add: clean_comps_def clean_step_def)

lemma clean_comps_append:
  "clean_comps r (as @ bs) = foldl (clean_step r) (clean_comps r as) bs"
  by (simp add: clean_comps_def)

lemma clean_comps_snoc_plain: "plain_comp c \<Longrightarrow> clean_comps r (cs @ [c]) = clean_comps r cs @ [c]"
  by (simp add: clean_comps_append plain_comp_def clean_step_def)

lemma normal_join_first:
  "normal_comps False cs \<Longrightarrow> cs \<noteq> [] \<Longrightarrow>
     join_with [slash] cs \<noteq> [] \<and> \<not> path_rooted (join_with [slash] cs)"
  by (cases "([slash], cs)" rule: join_with.cases)
    (auto simp: normal_comps_def path_rooted_def neq_Nil_conv split: list.splits)

lemma path_clean_print:
  assumes "normal_comps r cs"
  shows "path_clean (print_path r cs) = print_path r cs"
proof (cases r)
  case True
  have "split_on slash (slash # join_with [slash] cs) = [] # split_on slash (join_with [slash] cs)"
    by simp
  moreover have "clean_comps True (split_on slash (join_with [slash] cs)) = cs"
  proof (cases "cs = []")
    case True then show ?thesis by (simp add: clean_comps_def clean_step_def)
  next
    case False
    with assms \<open>r\<close> show ?thesis
      by (subst split_join) (auto simp: normal_comps_def intro!: clean_comps_normal)
  qed
  ultimately show ?thesis using True
    by (simp add: path_clean_def print_path_def path_rooted_def)
next
  case False
  show ?thesis
  proof (cases "cs = []")
    case True
    with False show ?thesis
      by (simp add: path_clean_def print_path_def path_rooted_def clean_comps_def clean_step_def dot_def)
  next
    case ne: False
    from assms False have n: "normal_comps False cs" by simp
    from normal_join_first [OF n ne] have j: "join_with [slash] cs \<noteq> []"
      "\<not> path_rooted (join_with [slash] cs)" by auto
    have "split_on slash (join_with [slash] cs) = cs"
      using n ne by (intro split_join) (auto simp: normal_comps_def)
    with j n ne False show ?thesis
      by (simp add: path_clean_def print_path_def clean_comps_normal)
  qed
qed

lemma path_clean_idem [simp]: "path_clean (path_clean p) = path_clean p"
proof (cases "p = []")
  case True
  have "path_clean dot = dot" by (simp add: path_clean_def path_rooted_def print_path_def clean_comps_def clean_step_def dot_def)
  with True show ?thesis by (simp add: path_clean_def [of "[]"])
next
  case False
  then show ?thesis
    by (simp add: path_clean_def [of p])
      (intro path_clean_print normal_clean_comps, auto dest: split_on_pieces)
qed

lemma print_path_inject:
  assumes "normal_comps r cs" "normal_comps r ds" "cs \<noteq> []" "ds \<noteq> []"
    and "print_path r cs = print_path r ds"
  shows "cs = ds"
proof -
  have "join_with [slash] cs = join_with [slash] ds"
    using assms by (auto simp: print_path_def split: if_splits)
  moreover have "split_on slash (join_with [slash] cs) = cs" "split_on slash (join_with [slash] ds) = ds"
    using assms by (auto intro!: split_join simp: normal_comps_def)
  ultimately show ?thesis by metis
qed

text \<open>Joining a base path with a plain name appends the name to the base's components.\<close>

lemma path_join_plain:
  assumes "base \<noteq> []" and "plain_comp n"
  shows "path_join [base, n] =
    print_path (path_rooted base) (clean_comps (path_rooted base) (split_on slash base) @ [n])"
proof -
  have "path_rooted (base @ slash # n) = path_rooted base"
    using assms(1) by (cases base) (auto simp: path_rooted_def)
  moreover have "split_on slash (base @ slash # n) = split_on slash base @ [n]"
    using assms(2) by (simp add: split_on_append split_on_no_sep plain_comp_def)
  ultimately show ?thesis
    using assms by (simp add: path_join_def path_clean_def clean_comps_snoc_plain)
qed

lemma path_join_plain_inject:
  assumes "base \<noteq> []" "plain_comp m" "plain_comp n" "path_join [base, m] = path_join [base, n]"
  shows "m = n"
proof -
  let ?r = "path_rooted base" and ?b = "clean_comps (path_rooted base) (split_on slash base)"
  have nb: "normal_comps ?r ?b"
    by (intro normal_clean_comps) (auto dest: split_on_pieces)
  have "normal_comps ?r (?b @ [k])" if "plain_comp k" for k
    using normal_clean_step [OF nb, of k] that by (simp add: plain_comp_def clean_step_def)
  then have "?b @ [m] = ?b @ [n]"
    using assms print_path_inject [of ?r "?b @ [m]" "?b @ [n]"] by (simp add: path_join_plain)
  then show ?thesis by simp
qed

section \<open>Patterns\<close>

text \<open>
  \<open>path.Match\<close> for patterns of literal characters and stars: a star matches any
  sequence of characters other than the slash. The patterns of the program are of this
  form; \<open>path.Match\<close> reports no error for them.
\<close>

fun path_match :: "string \<Rightarrow> string \<Rightarrow> bool" where
  "path_match [] s = (s = [])"
| "path_match (p # ps) [] = (p = CHR ''*'' \<and> path_match ps [])"
| "path_match (p # ps) (c # cs) =
     (if p = CHR ''*'' then path_match ps (c # cs) \<or> (c \<noteq> slash \<and> path_match (p # ps) cs)
      else p = c \<and> path_match ps cs)"

lemma path_match_star: "path_match ''*'' s \<longleftrightarrow> slash \<notin> set s"
  by (induction s) auto

lemma path_match_literal_prefix:
  "CHR ''*'' \<notin> set ls \<Longrightarrow> path_match (ls @ ps) s \<longleftrightarrow> (\<exists>t. s = ls @ t \<and> path_match ps t)"
proof (induction ls arbitrary: s)
  case (Cons l ls)
  then show ?case by (cases s) auto
qed simp

lemma path_match_literal: "CHR ''*'' \<notin> set ls \<Longrightarrow> path_match ls s \<longleftrightarrow> s = ls"
  using path_match_literal_prefix [of ls "[]" s] by auto

end
