(* ===== verification/Migration_Context.thy ===== *)
theory Migration_Context imports Go_Strings begin

text \<open>
  The values the migration passes along in its context (\<open>migration/context.go\<close>): whether
  the migration is the final one and whether it is to change the FQDN, and the
  environment variable that carries the second across the border to the import job.
\<close>

datatype migrationContextKey = finalMigrationKey | triggerFQDNChange

type_synonym ctx = "migrationContextKey \<Rightarrow> bool option"

definition Background :: ctx where
  "Background = (\<lambda>_. None)"

definition envTriggerFQDNChange :: string where
  "envTriggerFQDNChange = ''TRIGGER_FQDN_CHANGE''"

definition SetFinalMigration :: "ctx \<Rightarrow> ctx" where
  "SetFinalMigration ctx = ctx(finalMigrationKey \<mapsto> True)"

definition IsFinalMigration :: "ctx \<Rightarrow> bool" where
  "IsFinalMigration ctx = (case ctx finalMigrationKey of None \<Rightarrow> False | Some isSet \<Rightarrow> isSet)"

definition SetTriggerFQDNChange :: "ctx \<Rightarrow> ctx" where
  "SetTriggerFQDNChange ctx = ctx(triggerFQDNChange \<mapsto> True)"

text \<open>\<open>os.Getenv\<close> is the empty string for a variable that is not set.\<close>

type_synonym environ = "string \<Rightarrow> string option"

definition Getenv :: "environ \<Rightarrow> string \<Rightarrow> string" where
  "Getenv env k = (case env k of None \<Rightarrow> [] | Some v \<Rightarrow> v)"

definition SetTriggerFQDNChangeFromEnv :: "environ \<Rightarrow> ctx \<Rightarrow> ctx" where
  "SetTriggerFQDNChangeFromEnv env ctx =
     (if Getenv env envTriggerFQDNChange = ''true'' then SetTriggerFQDNChange ctx else ctx)"

definition TriggerFQDNChange :: "ctx \<Rightarrow> bool" where
  "TriggerFQDNChange ctx = (case ctx triggerFQDNChange of None \<Rightarrow> False | Some isSet \<Rightarrow> isSet)"

lemma context_simps [simp]:
  "IsFinalMigration (SetFinalMigration ctx)"
  "TriggerFQDNChange (SetFinalMigration ctx) = TriggerFQDNChange ctx"
  "TriggerFQDNChange (SetTriggerFQDNChange ctx)"
  "IsFinalMigration (SetTriggerFQDNChange ctx) = IsFinalMigration ctx"
  "\<not> IsFinalMigration Background" "\<not> TriggerFQDNChange Background"
  by (simp_all add: IsFinalMigration_def SetFinalMigration_def TriggerFQDNChange_def
      SetTriggerFQDNChange_def Background_def)

end
