(* ===== verification/Domain.thy ===== *)
theory Domain imports Go_Strings "HOL-Library.Word" begin

text \<open>
  The data the importer works on (\<open>migration/types.go\<close>). A slice is a list; the code
  nowhere tells a nil slice from an empty one except in \<open>mapSlice\<close>, which maps either to
  itself. \<open>int64\<close> is a 64-bit word read as a signed number.
\<close>

type_synonym int64 = "64 word"

record DoguVolume =
  SizeInBytes :: int64

record Dogu =
  dogu_Name :: string
  dogu_Version :: string
  dogu_Volume :: DoguVolume

record Component =
  component_Name :: string
  component_Version :: string

record SystemInfo =
  si_FQDN :: string
  si_IsMultinode :: bool
  si_Dogus :: "Dogu list"
  si_Components :: "Component list"

record DoguExport =
  de_Dogu :: string
  de_VolumePath :: string
  de_ExporterPort :: int

record KeyValue =
  kv_Key :: string
  kv_Value :: string

type_synonym GlobalConfig = "KeyValue list"

record DoguConfig =
  dc_Name :: string
  dc_NormalConfig :: "KeyValue list"
  dc_LocalConfig :: "KeyValue list"
  dc_SensitiveConfig :: "KeyValue list"

record BackupSchedule =
  bs_Name :: string
  bs_Schedule :: string

record Configuration =
  cfg_GlobalConfig :: GlobalConfig
  cfg_DoguConfigs :: "DoguConfig list"
  cfg_BackupSchedules :: "BackupSchedule list"

text \<open>
  Dogu names are taken apart by the commons library, which is not part of this
  repository: \<open>QualifiedNameFromString\<close> gives the namespace and the simple name or an
  error, and \<open>QualifiedName_String\<close> prints a qualified name. Both are parameters.
\<close>

record name_lib =
  QualifiedNameFromString :: "string \<Rightarrow> err + (string \<times> string)"
  QualifiedName_String :: "string \<times> string \<Rightarrow> string"

text \<open>
  What that library documents of \<open>QualifiedNameFromString\<close>: a qualified name is the
  namespace and the simple name with a slash between them.
\<close>

definition name_lib_ok :: "name_lib \<Rightarrow> bool" where
  "name_lib_ok nl \<longleftrightarrow> (\<forall>s ns n. QualifiedNameFromString nl s = Inr (ns, n) \<longrightarrow> s = ns @ slash # n)"

text \<open>An instance for the witnesses: exactly one slash, and both parts not empty.\<close>

definition sample_names :: name_lib where
  "sample_names = \<lparr>
     QualifiedNameFromString = (\<lambda>s. case split_on slash s of
         [ns, n] \<Rightarrow> if ns \<noteq> [] \<and> n \<noteq> [] then Inr (ns, n) else Inl (ErrorString ''invalid name'')
       | _ \<Rightarrow> Inl (ErrorString ''invalid name'')),
     QualifiedName_String = (\<lambda>(ns, n). ns @ slash # n)\<rparr>"

lemma sample_names_ok: "name_lib_ok sample_names"
proof -
  have "s = ns @ slash # n" if "split_on slash s = [ns, n]" for s ns n
    using join_split [of slash s] that by simp
  then show ?thesis
    by (auto simp: name_lib_ok_def sample_names_def split: list.splits if_splits)
qed

end
