(* ===== verification/Migrator.thy ===== *)
theory Migrator imports Migration_Context Domain begin

text \<open>
  The orchestration of one migration (\<open>migration/runner.go\<close>): \<open>Migrator.RunMigration\<close>
  with its deferred cleanup, over arbitrary implementations of the interfaces it depends
  on. The theorems describe the order of the calls in every run, what the cleanup does
  after a success, an error and a panic, and which error the caller gets.
\<close>

section \<open>The model\<close>

type_synonym time = int

datatype migrator_call =
    InitializeLogger
  | ValidateExportMode
  | CallExporterSystemInfo
  | CallImporterSystemInfo
  | ValidateSystemInfo
  | CallStopBlueprint
  | CallResizeDogus
  | CallStopAll
  | EnableMaintenance
  | RunJob
  | DisableMaintenance
  | CallStartAll
  | CallStartBlueprint
  | SendMail bool "err option"

record 'w Migrator =
  initializeLogger :: "('w, unit) go"
  exportModeValidator_Validate :: "ctx \<Rightarrow> ('w, unit) go"
  GetExporterSystemInfo :: "ctx \<Rightarrow> ('w, SystemInfo) go"
  GetImporterSystemInfo :: "ctx \<Rightarrow> ('w, SystemInfo) go"
  systemInfoValidator_Validate :: "ctx \<Rightarrow> SystemInfo \<Rightarrow> SystemInfo \<Rightarrow> ('w, unit) go"
  blueprintStopper_StopBlueprint :: "ctx \<Rightarrow> ('w, unit) go"
  ResizeDogusIfNeeded :: "ctx \<Rightarrow> Dogu list \<Rightarrow> Dogu list \<Rightarrow> ('w, unit) go"
  doguStopper_StopAll :: "ctx \<Rightarrow> ('w, unit) go"
  maintenanceModeHandler_Enable :: "ctx \<Rightarrow> ('w, unit) go"
  maintenanceModeHandler_Disable :: "ctx \<Rightarrow> ('w, unit) go"
  jobRunner_Run :: "ctx \<Rightarrow> ('w, unit) go"
  doguStarter_StartAll :: "ctx \<Rightarrow> ('w, unit) go"
  blueprintStarter_StartBlueprint :: "ctx \<Rightarrow> ('w, unit) go"
  mailSender_Send :: "ctx \<Rightarrow> bool \<Rightarrow> err option \<Rightarrow> time \<Rightarrow> time \<Rightarrow> ('w, unit) go"
  time_Now :: "'w \<Rightarrow> time \<times> 'w"

definition now :: "'w Migrator \<Rightarrow> ('w, time) go" where
  "now m = (\<lambda>w. case time_Now m w of (t, v) \<Rightarrow> (Ok t, v))"

text \<open>The statements of \<open>RunMigration\<close> after the cleanup has been deferred.\<close>

definition migration_steps :: "'w Migrator \<Rightarrow> ctx \<Rightarrow> ((migrator_call, 'w) st, unit) go" where
  "migration_steps m ctx =
     andThen (orWrap ''failed to validate export mode''
       (extern ValidateExportMode (exportModeValidator_Validate m ctx))) (\<lambda>_.
     andThen (orWrap ''failed to get system-info from exporter''
       (extern CallExporterSystemInfo (GetExporterSystemInfo m ctx))) (\<lambda>exporterInfo.
     andThen (orWrap ''failed to get system-info from importer''
       (extern CallImporterSystemInfo (GetImporterSystemInfo m ctx))) (\<lambda>importerInfo.
     andThen (orWrap ''failed to validate system info''
       (extern ValidateSystemInfo (systemInfoValidator_Validate m ctx exporterInfo importerInfo))) (\<lambda>_.
     andThen (orWrap ''failed to stop blueprint''
       (extern CallStopBlueprint (blueprintStopper_StopBlueprint m ctx))) (\<lambda>_.
     andThen (orWrap ''failed to resize dogu-volumes''
       (extern CallResizeDogus
         (ResizeDogusIfNeeded m ctx (si_Dogus exporterInfo) (si_Dogus importerInfo)))) (\<lambda>_.
     andThen (orWrap ''failed to stop all dogus''
       (extern CallStopAll (doguStopper_StopAll m ctx))) (\<lambda>_.
     andThen (if IsFinalMigration ctx
       then orWrap ''failed to enable maintenance mode''
         (extern EnableMaintenance (maintenanceModeHandler_Enable m ctx))
       else ret ()) (\<lambda>_.
     andThen (orWrap ''failed to run migration job''
       (extern RunJob (jobRunner_Run m ctx))) (\<lambda>_.
     ret ())))))))))"

text \<open>
  One step of the cleanup: a failure of the call overwrites \<open>retError\<close> by the join of
  the migration's own error and the new one.
\<close>

definition cleanup_step ::
    "migrator_call \<Rightarrow> ('w, unit) go \<Rightarrow> err option \<Rightarrow> err option \<Rightarrow>
      ((migrator_call, 'w) st, err option) go" where
  "cleanup_step c m runError retError =
     attempt (extern c m) (\<lambda>e. ret (case e of None \<Rightarrow> retError | Some err \<Rightarrow> join2 runError (Some err)))"

definition cleanup ::
    "'w Migrator \<Rightarrow> ctx \<Rightarrow> time \<Rightarrow> bool \<Rightarrow> err option \<Rightarrow> string option \<Rightarrow>
      ((migrator_call, 'w) st, unit) go" where
  "cleanup m ctx startTime isFinalMigration runError runPanic =
     andThen (if (runError \<noteq> None \<or> runPanic \<noteq> None) \<and> isFinalMigration
       then cleanup_step DisableMaintenance (maintenanceModeHandler_Disable m ctx) runError runError
       else ret runError) (\<lambda>retError.
     andThen (cleanup_step CallStartAll (doguStarter_StartAll m ctx) runError retError) (\<lambda>retError.
     andThen (cleanup_step CallStartBlueprint (blueprintStarter_StartBlueprint m ctx) runError retError) (\<lambda>retError.
     andThen (quietly (now m)) (\<lambda>endTime.
     andThen (cleanup_step (SendMail isFinalMigration runError)
       (mailSender_Send m ctx isFinalMigration runError startTime endTime) runError retError) (\<lambda>retError.
     case runPanic of Some p \<Rightarrow> panic p | None \<Rightarrow> return_err retError)))))"

text \<open>
  The deferred function hands \<open>cleanup\<close> the current value of the named result and of
  \<open>recover()\<close>. Every assignment to the result before a panic left it nil, because the
  function goes on only with a nil error.
\<close>

definition recovering ::
    "('s, unit) go \<Rightarrow> (err option \<Rightarrow> string option \<Rightarrow> ('s, unit) go) \<Rightarrow> ('s, unit) go" where
  "recovering body k = (\<lambda>s. case body s of
     (Ok _, t) \<Rightarrow> k None None t
   | (Err e, t) \<Rightarrow> k (Some e) None t
   | (Panic p, t) \<Rightarrow> k None (Some p) t)"

definition RunMigration :: "'w Migrator \<Rightarrow> ctx \<Rightarrow> ((migrator_call, 'w) st, unit) go" where
  "RunMigration m ctx =
     andThen (orWrap ''failed to reinitialize logger''
       (extern InitializeLogger (initializeLogger m))) (\<lambda>_.
     andThen (quietly (now m)) (\<lambda>startTime.
     recovering (migration_steps m ctx)
       (cleanup m ctx startTime (IsFinalMigration ctx))))"

section \<open>The order of the calls\<close>

definition migration_plan :: "bool \<Rightarrow> migrator_call list" where
  "migration_plan isFinal =
     [ValidateExportMode, CallExporterSystemInfo, CallImporterSystemInfo, ValidateSystemInfo,
      CallStopBlueprint, CallResizeDogus, CallStopAll] @
     (if isFinal then [EnableMaintenance] else []) @ [RunJob]"

definition cleanup_plan :: "bool \<Rightarrow> bool \<Rightarrow> err option \<Rightarrow> migrator_call list" where
  "cleanup_plan isFinal failed runError =
     (if failed \<and> isFinal then [DisableMaintenance] else []) @
     [CallStartAll, CallStartBlueprint, SendMail isFinal runError]"

lemma now_ok: "\<exists>a v. now m w = (Ok a, v)"
  by (auto simp: now_def split: prod.splits)

lemma wp_now [simp]: "wp (now m) Q w = (case time_Now m w of (a, v) \<Rightarrow> Q (Ok a) v)"
  by (simp add: wp_def now_def split: prod.splits)

lemma follows_migration_steps:
  "follows (migration_plan (IsFinalMigration ctx)) (migration_steps m ctx)"
  unfolding migration_steps_def migration_plan_def append_Cons append_Nil
  by (intro follows_step follows_cond follows_ret)

text \<open>
  The error of the cleanup, read off the recorded calls: the last failure is joined to the
  migration's own error, the failures before it are gone.
\<close>

fun overwrite :: "err option \<Rightarrow> ('c \<times> ending) list \<Rightarrow> err option \<Rightarrow> err option" where
  "overwrite runError [] retError = retError"
| "overwrite runError ((c, e) # es) retError =
     overwrite runError es (case e of Failed x \<Rightarrow> join2 runError (Some x) | _ \<Rightarrow> retError)"

definition cleanup_result :: "string option \<Rightarrow> err option \<Rightarrow> unit result" where
  "cleanup_result runPanic retError = (case runPanic of Some p \<Rightarrow> Panic p
     | None \<Rightarrow> (case retError of None \<Rightarrow> Ok () | Some e \<Rightarrow> Err e))"

text \<open>
  \<open>cleans cs re m\<close>: \<open>m\<close>, a part of the cleanup entered with \<open>retError = re\<close>, attempts the
  calls \<open>cs\<close>; if none panics it panics with the recovered value or returns the error
  that \<open>overwrite\<close> describes.
\<close>

definition cleans ::
    "err option \<Rightarrow> string option \<Rightarrow> migrator_call list \<Rightarrow>
      (err option \<Rightarrow> ((migrator_call, 'w) st, unit) go) \<Rightarrow> bool" where
  "cleans runError runPanic cs k \<longleftrightarrow> (\<forall>retError s. wp (k retError) (\<lambda>r t. \<exists>es.
     trace t = trace s @ es \<and> attempt_of cs es \<and>
     (if panicked es then \<exists>p. r = Panic p
      else r = cleanup_result runPanic (overwrite runError es retError))) s)"

lemma cleansD:
  "cleans re rp cs k \<Longrightarrow> wp (k retError) (\<lambda>r t. \<exists>es.
     trace t = trace s @ es \<and> attempt_of cs es \<and>
     (if panicked es then \<exists>p. r = Panic p
      else r = cleanup_result rp (overwrite re es retError))) s"
  unfolding cleans_def by blast

lemma cleans_end:
  "cleans re rp [] (\<lambda>retError. case rp of Some p \<Rightarrow> panic p | None \<Rightarrow> return_err retError)"
  by (auto simp: cleans_def panicked_def cleanup_result_def split: option.splits)

lemma cleans_step:
  assumes "cleans re rp cs k"
  shows "cleans re rp (c # cs) (\<lambda>retError. andThen (cleanup_step c m re retError) k)"
  unfolding cleans_def
proof (intro allI)
  fix retError and s :: "(migrator_call, 'a) st"
  obtain r w where m: "m (world s) = (r, w)" by fastforce
  let ?Q = "\<lambda>cs e0 s r t. \<exists>es. trace t = trace s @ es \<and> attempt_of cs es \<and>
     (if panicked es then \<exists>p. r = Panic p
      else r = cleanup_result rp (overwrite re es e0))"
  have k: "wp (k e0) (?Q cs e0 u) u" for e0 u
    using assms unfolding cleans_def by blast
  have lift: "?Q cs e0 (s\<lparr>trace := trace s @ [(c, e)], world := w\<rparr>) r t \<Longrightarrow>
      e0 = (case e of Failed x \<Rightarrow> join2 re (Some x) | _ \<Rightarrow> retError) \<Longrightarrow>
      \<not> (\<exists>p. e = Panicked p) \<Longrightarrow> ?Q (c # cs) retError s r t" for e e0 r t
    by (elim exE, rule_tac x = "(c, e) # es" in exI)
      (auto simp: panicked_def split: ending.splits)
  show "wp (andThen (cleanup_step c m re retError) k) (?Q (c # cs) retError s) s"
  proof (cases r)
    case (Ok a)
    have "wp (k retError) (?Q (c # cs) retError s) (s\<lparr>trace := trace s @ [(c, Fine)], world := w\<rparr>)"
      by (rule wp_mono [OF k]) (erule lift; simp)
    with Ok m show ?thesis by (simp add: cleanup_step_def wp_eq [where m = m, OF m])
  next
    case (Err e)
    have "wp (k (join2 re (Some e))) (?Q (c # cs) retError s)
        (s\<lparr>trace := trace s @ [(c, Failed e)], world := w\<rparr>)"
      by (rule wp_mono [OF k]) (erule lift; simp)
    with Err m show ?thesis by (simp add: cleanup_step_def wp_eq [where m = m, OF m])
  next
    case (Panic p)
    with m show ?thesis
      by (auto simp: cleanup_step_def wp_eq [where m = m, OF m] panicked_def
          intro!: exI [of _ "[(c, Panicked p)]"])
  qed
qed

lemma cleans_quietly:
  assumes "\<And>a. cleans re rp cs (\<lambda>retError. k retError a)"
  shows "cleans re rp cs (\<lambda>retError. andThen (quietly (now m)) (k retError))"
  unfolding cleans_def
proof (intro allI)
  fix retError and s :: "(migrator_call, 'a) st"
  obtain a v where a: "time_Now m (world s) = (a, v)" by fastforce
  show "wp (andThen (quietly (now m)) (k retError)) (\<lambda>r t. \<exists>es.
     trace t = trace s @ es \<and> attempt_of cs es \<and>
     (if panicked es then \<exists>p. r = Panic p
      else r = cleanup_result rp (overwrite re es retError))) s"
    using assms [of a, unfolded cleans_def, rule_format, of retError "s\<lparr>world := v\<rparr>"] a
    by (simp split del: if_split cong: if_cong)
qed

lemma cleans_cond:
  assumes "cleans re rp cs k"
  shows "cleans re rp ((if b then [c] else []) @ cs)
    (\<lambda>retError. andThen (if b then cleanup_step c m re retError else ret retError) k)"
  using assms cleans_step [OF assms, of c m] by (simp cong: if_cong)

text \<open>The cleanup as a whole.\<close>

lemma cleanup_calls:
  "wp (cleanup m ctx start isFinal re rp) (\<lambda>r t. \<exists>es.
     trace t = trace s @ es \<and>
     attempt_of (cleanup_plan isFinal (re \<noteq> None \<or> rp \<noteq> None) re) es \<and>
     (if panicked es then \<exists>p. r = Panic p else r = cleanup_result rp (overwrite re es re))) s"
proof -
  let ?k = "\<lambda>retError.
     andThen (if (re \<noteq> None \<or> rp \<noteq> None) \<and> isFinal
       then cleanup_step DisableMaintenance (maintenanceModeHandler_Disable m ctx) re retError
       else ret retError) (\<lambda>retError.
     andThen (cleanup_step CallStartAll (doguStarter_StartAll m ctx) re retError) (\<lambda>retError.
     andThen (cleanup_step CallStartBlueprint (blueprintStarter_StartBlueprint m ctx) re retError) (\<lambda>retError.
     andThen (quietly (now m)) (\<lambda>endTime.
     andThen (cleanup_step (SendMail isFinal re)
       (mailSender_Send m ctx isFinal re start endTime) re retError) (\<lambda>retError.
     case rp of Some p \<Rightarrow> panic p | None \<Rightarrow> return_err retError)))))"
  have "cleans re rp (cleanup_plan isFinal (re \<noteq> None \<or> rp \<noteq> None) re) ?k"
    unfolding cleanup_plan_def
    by (intro cleans_cond cleans_step cleans_quietly cleans_end)
  from cleansD [OF this, of re s] show ?thesis unfolding cleanup_def .
qed

section \<open>Every run of a migration\<close>

text \<open>What the deferred function sees of the way the steps ended.\<close>

definition saw :: "ending \<Rightarrow> err option \<Rightarrow> string option \<Rightarrow> bool" where
  "saw e runError runPanic \<longleftrightarrow> (case e of
     Fine \<Rightarrow> runError = None \<and> runPanic = None
   | Failed x \<Rightarrow> (\<exists>p. runError = Some (errorf_w p x)) \<and> runPanic = None
   | Panicked p \<Rightarrow> runError = None \<and> runPanic = Some p)"

definition migration_calls ::
    "bool \<Rightarrow> (migrator_call \<times> ending) list \<Rightarrow> (migrator_call \<times> ending) list \<Rightarrow>
      err option \<Rightarrow> string option \<Rightarrow> bool" where
  "migration_calls isFinal steps clean runError runPanic \<longleftrightarrow>
     run_of (migration_plan isFinal) steps \<and>
     saw (run_end steps) runError runPanic \<and>
     attempt_of (cleanup_plan isFinal (run_end steps \<noteq> Fine) runError) clean"

lemma wp_recovering [wp, simp]:
  "wp (recovering body k) Q s =
     wp body (\<lambda>r t. case r of Ok a \<Rightarrow> wp (k None None) Q t | Err e \<Rightarrow> wp (k (Some e) None) Q t
       | Panic p \<Rightarrow> wp (k None (Some p)) Q t) s"
  by (simp add: wp_def recovering_def split: prod.splits result.splits)

lemma saw_failed: "saw e re rp \<Longrightarrow> (re \<noteq> None \<or> rp \<noteq> None) = (e \<noteq> Fine)"
  by (auto simp: saw_def split: ending.splits)

lemma saw_ends_as:
  "ends_as e (Ok a) \<Longrightarrow> saw e None None"
  "ends_as e (Err x) \<Longrightarrow> saw e (Some x) None"
  "ends_as e (Panic p) \<Longrightarrow> saw e None (Some p)"
  by (auto simp: saw_def ends_as_def split: ending.splits)

definition migration_report ::
    "bool \<Rightarrow> (migrator_call \<times> ending) list \<Rightarrow> unit result \<Rightarrow> bool" where
  "migration_report isFinal es r \<longleftrightarrow> (\<exists>steps clean re rp.
     es = steps @ clean \<and> migration_calls isFinal steps clean re rp \<and>
     (if panicked clean then \<exists>p. r = Panic p
      else r = cleanup_result rp (overwrite re clean re)))"

lemma cleanup_report:
  assumes "trace u = trace s @ es" "run_of (migration_plan isFinal) es" "saw (run_end es) re rp"
  shows "wp (cleanup m ctx start isFinal re rp)
     (\<lambda>r t. \<exists>es. trace t = trace s @ es \<and> migration_report isFinal es r) u"
proof (rule wp_mono [OF cleanup_calls], elim exE conjE)
  fix r t clean
  assume c: "trace t = trace u @ clean"
    "attempt_of (cleanup_plan isFinal (re \<noteq> None \<or> rp \<noteq> None) re) clean"
    "if panicked clean then \<exists>p. r = Panic p else r = cleanup_result rp (overwrite re clean re)"
  have "migration_report isFinal (es @ clean) r"
    unfolding migration_report_def migration_calls_def
    using assms(2,3) c(2,3) unfolding saw_failed [OF assms(3)] by blast
  with assms(1) c(1) show "\<exists>es. trace t = trace s @ es \<and> migration_report isFinal es r" by simp
qed

lemma steps_and_cleanup:
  "wp (recovering (migration_steps m ctx) (cleanup m ctx start (IsFinalMigration ctx)))
     (\<lambda>r t. \<exists>es. trace t = trace s @ es \<and> migration_report (IsFinalMigration ctx) es r) s"
proof -
  obtain r u where steps: "migration_steps m ctx s = (r, u)" by fastforce
  obtain es where es: "trace u = trace s @ es"
      "run_of (migration_plan (IsFinalMigration ctx)) es" "ends_as (run_end es) r"
    using followsD [OF follows_migration_steps steps] by blast
  show ?thesis
    unfolding wp_recovering wp_eq [where m = "migration_steps m ctx", OF steps]
    using es(3) by (cases r) (auto dest: saw_ends_as intro: cleanup_report [OF es(1,2)])
qed

lemma run_migration:
  "wp (RunMigration m ctx)
     (\<lambda>r t. (\<exists>e. trace t = trace s @ [(InitializeLogger, e)] \<and> e \<noteq> Fine \<and> ends_as e r) \<or>
       (\<exists>es. trace t = trace s @ (InitializeLogger, Fine) # es \<and>
          migration_report (IsFinalMigration ctx) es r)) s"
proof -
  obtain r w where l: "initializeLogger m (world s) = (r, w)" by fastforce
  obtain a v where n: "time_Now m w = (a, v)" by fastforce
  show ?thesis
  proof (cases r)
    case (Ok x)
    let ?s = "s\<lparr>trace := trace s @ [(InitializeLogger, Fine)], world := v\<rparr>"
    have "wp (recovering (migration_steps m ctx) (cleanup m ctx a (IsFinalMigration ctx)))
      (\<lambda>r t. \<exists>es. trace t = trace s @ (InitializeLogger, Fine) # es \<and>
          migration_report (IsFinalMigration ctx) es r) ?s"
      by (rule wp_mono [OF steps_and_cleanup]) simp
    then show ?thesis
      unfolding RunMigration_def
      by (simp add: Ok n wp_eq [where m = "initializeLogger m", OF l] del: wp_recovering)
        (erule wp_mono, simp)
  qed (auto simp: RunMigration_def wp_eq [where m = "initializeLogger m", OF l])
qed

definition last_failure :: "('c \<times> ending) list \<Rightarrow> err option" where
  "last_failure es = (case List.map_filter (\<lambda>(c, e). case e of Failed x \<Rightarrow> Some x | _ \<Rightarrow> None) es of
     [] \<Rightarrow> None | xs \<Rightarrow> Some (last xs))"

lemma last_failure_simps [simp]:
  "last_failure [] = None"
  "last_failure ((c, e) # es) =
     (case last_failure es of Some x \<Rightarrow> Some x
      | None \<Rightarrow> (case e of Failed x \<Rightarrow> Some x | _ \<Rightarrow> None))"
  by (auto simp: last_failure_def map_filter_simps split: ending.splits list.splits)

lemma overwrite_last: "overwrite re es r0 =
    (case last_failure es of None \<Rightarrow> r0 | Some x \<Rightarrow> join2 re (Some x))"
  by (induction re es r0 rule: overwrite.induct) (auto split: option.splits ending.splits)

lemma all_fine_iff:
  "list_all (\<lambda>(c, e). e = Fine) es \<longleftrightarrow> \<not> panicked es \<and> last_failure es = None"
  by (induction es) (auto simp: panicked_def split: option.splits ending.splits)

lemma cleanup_result_Ok_iff: "cleanup_result rp x = Ok () \<longleftrightarrow> rp = None \<and> x = None"
  by (auto simp: cleanup_result_def split: option.splits)

lemma saw_Fine_iff: "saw e re rp \<Longrightarrow> re = None \<and> rp = None \<longleftrightarrow> e = Fine"
  by (auto simp: saw_def split: ending.splits)

lemma report_Ok_iff:
  assumes "migration_report isFinal es r"
  shows "r = Ok () \<longleftrightarrow> list_all (\<lambda>(c, e). e = Fine) es"
proof -
  obtain steps clean re rp where es: "es = steps @ clean"
    and mc: "migration_calls isFinal steps clean re rp"
    and r: "if panicked clean then \<exists>p. r = Panic p
      else r = cleanup_result rp (overwrite re clean re)"
    using assms unfolding migration_report_def by blast
  have "list_all (\<lambda>(c, e). e = Fine) steps \<longleftrightarrow> re = None \<and> rp = None"
    using mc run_of_Fine_iff saw_Fine_iff unfolding migration_calls_def by metis
  then have "list_all (\<lambda>(c, e). e = Fine) es \<longleftrightarrow>
      re = None \<and> rp = None \<and> \<not> panicked clean \<and> last_failure clean = None"
    using all_fine_iff [of clean] by (simp add: es)
  with r show ?thesis
    by (auto simp: cleanup_result_Ok_iff overwrite_last split: if_splits option.splits)
qed

lemma run_migrationE:
  assumes "RunMigration m ctx s = (r, t)"
  obtains e where "trace t = trace s @ [(InitializeLogger, e)]" "e \<noteq> Fine" "ends_as e r"
  | es where "trace t = trace s @ (InitializeLogger, Fine) # es"
      "migration_report (IsFinalMigration ctx) es r"
  using wpD [OF run_migration assms] by blast

section \<open>The world in which the job runs\<close>

text \<open>The steps before the job, and how the migration goes on from them.\<close>

definition before_job :: "'w Migrator \<Rightarrow> ctx \<Rightarrow> ((migrator_call, 'w) st, unit) go" where
  "before_job m ctx =
     andThen (orWrap ''failed to validate export mode''
       (extern ValidateExportMode (exportModeValidator_Validate m ctx))) (\<lambda>_.
     andThen (orWrap ''failed to get system-info from exporter''
       (extern CallExporterSystemInfo (GetExporterSystemInfo m ctx))) (\<lambda>exporterInfo.
     andThen (orWrap ''failed to get system-info from importer''
       (extern CallImporterSystemInfo (GetImporterSystemInfo m ctx))) (\<lambda>importerInfo.
     andThen (orWrap ''failed to validate system info''
       (extern ValidateSystemInfo (systemInfoValidator_Validate m ctx exporterInfo importerInfo))) (\<lambda>_.
     andThen (orWrap ''failed to stop blueprint''
       (extern CallStopBlueprint (blueprintStopper_StopBlueprint m ctx))) (\<lambda>_.
     andThen (orWrap ''failed to resize dogu-volumes''
       (extern CallResizeDogus
         (ResizeDogusIfNeeded m ctx (si_Dogus exporterInfo) (si_Dogus importerInfo)))) (\<lambda>_.
     andThen (orWrap ''failed to stop all dogus''
       (extern CallStopAll (doguStopper_StopAll m ctx))) (\<lambda>_.
     andThen (if IsFinalMigration ctx
       then orWrap ''failed to enable maintenance mode''
         (extern EnableMaintenance (maintenanceModeHandler_Enable m ctx))
       else ret ()) (\<lambda>_.
     ret ()))))))))"

lemma migration_steps_split:
  "migration_steps m ctx = andThen (before_job m ctx) (\<lambda>_.
     andThen (orWrap ''failed to run migration job'' (extern RunJob (jobRunner_Run m ctx))) (\<lambda>_. ret ()))"
  unfolding migration_steps_def before_job_def andThen_assoc andThen_ret ..

lemma follows_before_job:
  "follows ([ValidateExportMode, CallExporterSystemInfo, CallImporterSystemInfo, ValidateSystemInfo,
      CallStopBlueprint, CallResizeDogus, CallStopAll] @ (if IsFinalMigration ctx then [EnableMaintenance] else []) @ [])
     (before_job m ctx)"
  unfolding before_job_def append_Cons append_Nil
  by (intro follows_step follows_cond follows_ret)

text \<open>
  What has happened when the job starts in the world \<open>w\<close>: the two infos are the answers of
  the providers, the validator accepted them, and the dogus were stopped, after which only the
  maintenance mode was enabled.
\<close>

definition maintained :: "'w Migrator \<Rightarrow> ctx \<Rightarrow> 'w \<Rightarrow> 'w \<Rightarrow> bool" where
  "maintained m ctx v w \<longleftrightarrow>
     (if IsFinalMigration ctx then maintenanceModeHandler_Enable m ctx v = (Ok (), w) else w = v)"

definition ready_from :: "'w Migrator \<Rightarrow> ctx \<Rightarrow> 'w \<Rightarrow> SystemInfo \<Rightarrow> SystemInfo \<Rightarrow> 'w \<Rightarrow> bool" where
  "ready_from m ctx w0 ex im w \<longleftrightarrow> (\<exists>w1 w2 w3 w4 w5 w6 w7.
     exportModeValidator_Validate m ctx w0 = (Ok (), w1) \<and>
     GetExporterSystemInfo m ctx w1 = (Ok ex, w2) \<and>
     GetImporterSystemInfo m ctx w2 = (Ok im, w3) \<and>
     systemInfoValidator_Validate m ctx ex im w3 = (Ok (), w4) \<and>
     blueprintStopper_StopBlueprint m ctx w4 = (Ok (), w5) \<and>
     ResizeDogusIfNeeded m ctx (si_Dogus ex) (si_Dogus im) w5 = (Ok (), w6) \<and>
     doguStopper_StopAll m ctx w6 = (Ok (), w7) \<and>
     maintained m ctx w7 w)"

definition job_ready :: "'w Migrator \<Rightarrow> ctx \<Rightarrow> SystemInfo \<Rightarrow> SystemInfo \<Rightarrow> 'w \<Rightarrow> bool" where
  "job_ready m ctx ex im w \<longleftrightarrow> (\<exists>w0. ready_from m ctx w0 ex im w)"

lemma extern_Ok: "extern c m s = (Ok a, t) \<Longrightarrow> m (world s) = (Ok a, world t)"
  by (auto simp: extern_def split: prod.splits)

lemma enabled_if_final:
  assumes "(if IsFinalMigration ctx then orWrap p (extern EnableMaintenance (maintenanceModeHandler_Enable m ctx)) else ret ()) s = (Ok (), t)"
  shows "maintained m ctx (world s) (world t)"
  using assms by (auto simp: maintained_def ok_iffs dest: extern_Ok split: if_splits)

lemma before_job_ready:
  assumes "before_job m ctx s = (Ok (), t)"
  shows "\<exists>ex im. job_ready m ctx ex im (world t)"
proof -
  from assms obtain ex im u1 u2 u3 u4 u5 t1 t2 t3 t4 t5 t6 t7 where steps:
    "extern ValidateExportMode (exportModeValidator_Validate m ctx) s = (Ok u1, t1)"
    "extern CallExporterSystemInfo (GetExporterSystemInfo m ctx) t1 = (Ok ex, t2)"
    "extern CallImporterSystemInfo (GetImporterSystemInfo m ctx) t2 = (Ok im, t3)"
    "extern ValidateSystemInfo (systemInfoValidator_Validate m ctx ex im) t3 = (Ok u2, t4)"
    "extern CallStopBlueprint (blueprintStopper_StopBlueprint m ctx) t4 = (Ok u3, t5)"
    "extern CallResizeDogus (ResizeDogusIfNeeded m ctx (si_Dogus ex) (si_Dogus im)) t5 = (Ok u4, t6)"
    "extern CallStopAll (doguStopper_StopAll m ctx) t6 = (Ok u5, t7)"
    "(if IsFinalMigration ctx then orWrap ''failed to enable maintenance mode''
         (extern EnableMaintenance (maintenanceModeHandler_Enable m ctx)) else ret ()) t7 = (Ok (), t)"
    unfolding before_job_def andThen_Ok_iff orWrap_Ok_iff ret_Ok_iff by (elim exE conjE) simp
  from steps(1-7) [THEN extern_Ok] enabled_if_final [OF steps(8)] show ?thesis
    unfolding job_ready_def ready_from_def unit_eq [of u1] unit_eq [of u2] unit_eq [of u3] unit_eq [of u4] unit_eq [of u5]
    by blast
qed

lemma attempt_of_subset: "attempt_of cs es \<Longrightarrow> fst ` set es \<subseteq> set cs"
  by (induction cs es rule: attempt_of.induct) (auto split: ending.splits)

lemma run_of_subset: "run_of cs es \<Longrightarrow> fst ` set es \<subseteq> set cs"
  by (induction cs es rule: run_of.induct) (auto split: if_splits)

text \<open>If the job was called, it was called in a world that is ready for it.\<close>

definition job_called :: "'w Migrator \<Rightarrow> ctx \<Rightarrow> (migrator_call \<times> ending) list \<Rightarrow> bool" where
  "job_called m ctx es \<longleftrightarrow> (RunJob \<in> fst ` set es \<longrightarrow>
     (\<exists>ex im w. job_ready m ctx ex im w \<and> (RunJob, ending_of (fst (jobRunner_Run m ctx w))) \<in> set es))"

lemma steps_job:
  "wp (migration_steps m ctx) (\<lambda>r t. \<exists>es. trace t = trace s @ es \<and> job_called m ctx es) s"
proof -
  obtain r u where b: "before_job m ctx s = (r, u)" by fastforce
  from followsD [OF follows_before_job b] obtain es where es: "trace u = trace s @ es"
    and no: "RunJob \<notin> fst ` set es"
    by (fastforce dest: run_of_subset split: if_splits)
  show ?thesis
  proof (cases r)
    case (Ok x)
    obtain q w where j: "jobRunner_Run m ctx (world u) = (q, w)" by fastforce
    from before_job_ready [of m ctx s u] b Ok obtain ex im where "job_ready m ctx ex im (world u)" by auto
    then have "job_called m ctx (es @ [(RunJob, ending_of q)])"
      unfolding job_called_def using j by force
    with es(1) show ?thesis
      unfolding migration_steps_split wp_andThen wp_eq [where m = "before_job m ctx", OF b] Ok result.case
      by (cases q) (simp_all add: wp_eq [where m = "jobRunner_Run m ctx", OF j] cong del: result.case_cong)
  qed (use es(1) no in \<open>auto simp: migration_steps_split wp_eq [where m = "before_job m ctx", OF b] job_called_def\<close>)
qed

lemma cleanup_job:
  "wp (cleanup m ctx start isFinal re rp) (\<lambda>r t. \<exists>es. trace t = trace s @ es \<and> RunJob \<notin> fst ` set es) s"
proof (rule wp_mono [OF cleanup_calls], elim exE conjE)
  fix r t es
  assume "trace t = trace s @ es" "attempt_of (cleanup_plan isFinal (re \<noteq> None \<or> rp \<noteq> None) re) es"
  moreover from this(2) have "RunJob \<notin> fst ` set es"
    using attempt_of_subset by (fastforce simp: cleanup_plan_def split: if_splits)
  ultimately show "\<exists>es. trace t = trace s @ es \<and> RunJob \<notin> fst ` set es" by blast
qed

lemma job_called_append: "job_called m ctx es \<Longrightarrow> RunJob \<notin> fst ` set fs \<Longrightarrow> job_called m ctx (es @ fs)"
  and job_called_Cons: "job_called m ctx es \<Longrightarrow> c \<noteq> RunJob \<Longrightarrow> job_called m ctx ((c, e) # es)"
  unfolding job_called_def by (auto simp: image_Un)

lemma run_migration_job:
  "wp (RunMigration m ctx) (\<lambda>r t. \<exists>es. trace t = trace s @ es \<and> job_called m ctx es) s"
proof -
  obtain r w where l: "initializeLogger m (world s) = (r, w)" by fastforce
  obtain a v where n: "time_Now m w = (a, v)" by fastforce
  show ?thesis
  proof (cases r)
    case (Ok x)
    let ?s = "s\<lparr>trace := trace s @ [(InitializeLogger, Fine)], world := v\<rparr>"
    let ?c = "cleanup m ctx a (IsFinalMigration ctx)"
    obtain q u where steps: "migration_steps m ctx ?s = (q, u)" by fastforce
    from wpD [OF steps_job steps] obtain es where es: "trace u = trace ?s @ es" "job_called m ctx es" by blast
    have clean: "wp (?c re rp) (\<lambda>r t. \<exists>es. trace t = trace s @ es \<and> job_called m ctx es) u" for re rp
    proof (rule wp_mono [OF cleanup_job], elim exE conjE)
      fix r t fs
      assume "trace t = trace u @ fs" "RunJob \<notin> fst ` set fs"
      with es show "\<exists>es. trace t = trace s @ es \<and> job_called m ctx es"
        by (intro exI [of _ "(InitializeLogger, Fine) # es @ fs"]) (auto intro: job_called_Cons job_called_append)
    qed
    have "wp (recovering (migration_steps m ctx) ?c) (\<lambda>r t. \<exists>es. trace t = trace s @ es \<and> job_called m ctx es) ?s"
      unfolding wp_recovering wp_eq [where m = "migration_steps m ctx", OF steps]
      by (cases q) (simp_all add: clean)
    then show ?thesis
      unfolding RunMigration_def
      by (simp add: Ok n wp_eq [where m = "initializeLogger m", OF l] del: wp_recovering)
  qed (auto simp: RunMigration_def wp_eq [where m = "initializeLogger m", OF l] job_called_def)
qed

text \<open>The other way around: from such a world the job is called.\<close>

lemma before_job_runs:
  assumes "ready_from m ctx (world s) ex im w"
  shows "\<exists>t. before_job m ctx s = (Ok (), t)"
proof -
  from assms obtain w1 w2 w3 w4 w5 w6 w7 where
    c: "exportModeValidator_Validate m ctx (world s) = (Ok (), w1)" "GetExporterSystemInfo m ctx w1 = (Ok ex, w2)"
      "GetImporterSystemInfo m ctx w2 = (Ok im, w3)" "systemInfoValidator_Validate m ctx ex im w3 = (Ok (), w4)"
      "blueprintStopper_StopBlueprint m ctx w4 = (Ok (), w5)"
      "ResizeDogusIfNeeded m ctx (si_Dogus ex) (si_Dogus im) w5 = (Ok (), w6)"
      "doguStopper_StopAll m ctx w6 = (Ok (), w7)" and e: "maintained m ctx w7 w"
    unfolding ready_from_def by blast
  have "wp (before_job m ctx) (\<lambda>r t. r = Ok ()) s"
    using e unfolding before_job_def
    by (simp add: maintained_def wp_eq [where m = "exportModeValidator_Validate m ctx", OF c(1)]
        wp_eq [where m = "GetExporterSystemInfo m ctx", OF c(2)] wp_eq [where m = "GetImporterSystemInfo m ctx", OF c(3)]
        wp_eq [where m = "systemInfoValidator_Validate m ctx ex im", OF c(4)]
        wp_eq [where m = "blueprintStopper_StopBlueprint m ctx", OF c(5)]
        wp_eq [where m = "ResizeDogusIfNeeded m ctx (si_Dogus ex) (si_Dogus im)", OF c(6)]
        wp_eq [where m = "doguStopper_StopAll m ctx", OF c(7)]
        wp_eq [where m = "maintenanceModeHandler_Enable m ctx"] split: if_splits cong del: result.case_cong)
  then show ?thesis unfolding wp_iff by (metis prod.collapse)
qed

lemma job_is_called:
  assumes "initializeLogger m (world s) = (Ok (), v)" "time_Now m v = (a, w0)" "ready_from m ctx w0 ex im w"
  shows "wp (RunMigration m ctx) (\<lambda>r t. RunJob \<in> fst ` set (trace t)) s"
proof -
  let ?s = "s\<lparr>trace := trace s @ [(InitializeLogger, Fine)], world := w0\<rparr>"
  let ?c = "cleanup m ctx a (IsFinalMigration ctx)" and ?Q = "\<lambda>r t. RunJob \<in> fst ` set (trace t)"
  from before_job_runs [of m ctx ?s ex im w] assms(3) obtain t where t: "before_job m ctx ?s = (Ok (), t)" by auto
  obtain r w' where j: "jobRunner_Run m ctx (world t) = (r, w')" by fastforce
  have "wp (migration_steps m ctx) ?Q ?s"
    unfolding migration_steps_split wp_andThen wp_eq [where m = "before_job m ctx", OF t] result.case
    by (cases r) (simp_all add: wp_eq [where m = "jobRunner_Run m ctx", OF j] cong del: result.case_cong)
  moreover obtain q u where u: "migration_steps m ctx ?s = (q, u)" by fastforce
  ultimately have called: "RunJob \<in> fst ` set (trace u)" using wpD by fastforce
  have clean: "wp (?c re rp) ?Q u" for re rp
    by (rule wp_mono [OF cleanup_job]) (use called in auto)
  have "wp (recovering (migration_steps m ctx) ?c) ?Q ?s"
    unfolding wp_recovering wp_eq [where m = "migration_steps m ctx", OF u] by (cases q) (simp_all add: clean)
  then show ?thesis
    unfolding RunMigration_def
    by (simp add: assms(2) wp_eq [where m = "initializeLogger m", OF assms(1)] del: wp_recovering)
qed

section \<open>Properties\<close>

text \<open>
  C1: every run of \<open>RunMigration\<close>, whatever its dependencies answer, makes its calls in
  the documented order. Either the logger could not be initialized and nothing else is
  called, or the steps of the migration run in order up to the first that fails or panics
  (so the job runs only if the export mode, both system infos, the validation, the
  blueprint stop, the resize, the dogu stop and, in a final migration, the maintenance
  mode succeeded), and then the cleanup runs: the maintenance mode is disabled exactly
  after a failed or panicking final migration, and the dogus and blueprints are started
  and the mail is sent in any case, unless one of these calls panics itself.
\<close>

theorem migration_runs_in_order:
  "case RunMigration m ctx s of (r, t) \<Rightarrow>
     (\<exists>e. trace t = trace s @ [(InitializeLogger, e)] \<and> e \<noteq> Fine) \<or>
     (\<exists>steps clean runError runPanic.
        trace t = trace s @ (InitializeLogger, Fine) # steps @ clean \<and>
        migration_calls (IsFinalMigration ctx) steps clean runError runPanic)"
proof -
  obtain r t where run: "RunMigration m ctx s = (r, t)" by fastforce
  then show ?thesis
    by (cases rule: run_migrationE) (auto simp: run migration_report_def)
qed

text \<open>
  C10: \<open>RunMigration\<close> returns a nil error exactly when every call it made, those of the
  cleanup included, returned without an error: no failure is reported as a success.
\<close>

theorem migration_nil_error_iff_all_fine:
  "case RunMigration m ctx s of (r, t) \<Rightarrow>
     r = Ok () \<longleftrightarrow> list_all (\<lambda>(c, e). e = Fine) (drop (length (trace s)) (trace t))"
proof -
  obtain r t where run: "RunMigration m ctx s = (r, t)" by fastforce
  then show ?thesis
    by (cases rule: run_migrationE) (auto simp: run report_Ok_iff ends_as_def split: ending.splits)
qed

text \<open>
  C11: the error a cleanup returns when no call of it panics. It is the migration's own
  error if no call of the cleanup failed, and otherwise that error joined with the
  failure of the last failing call: each failure overwrites the ones before it, so that
  a failure to disable the maintenance mode or to start the dogus is lost when the
  blueprint or the mail fails as well.
\<close>

theorem cleanup_returns_last_failure:
  "case cleanup m ctx start isFinal runError None s of (r, t) \<Rightarrow>
     (let es = drop (length (trace s)) (trace t) in
      panicked es \<or>
      r = (case last_failure es of
          None \<Rightarrow> (case runError of None \<Rightarrow> Ok () | Some e \<Rightarrow> Err e)
        | Some x \<Rightarrow> Err (Joined ((case runError of None \<Rightarrow> [] | Some e \<Rightarrow> [e]) @ [x]))))"
proof -
  obtain r t where c: "cleanup m ctx start isFinal runError None s = (r, t)" by fastforce
  obtain es where "trace t = trace s @ es"
    "if panicked es then \<exists>p. r = Panic p
     else r = cleanup_result None (overwrite runError es runError)"
    using wpD [OF cleanup_calls c] by blast
  then show ?thesis
    unfolding c prod.case
    by (cases "last_failure es"; cases runError; cases "panicked es")
      (auto simp: overwrite_last cleanup_result_def errors_join_def map_filter_simps)
qed

text \<open>
  C12: when a step of a migration panics, the mail of the cleanup is sent with a nil
  migration result, which the mail sender reports as a success: in every run in which the
  last step panicked and the mail was attempted, that is what it carried, and the panic
  is thrown again.
\<close>

theorem panicking_migration_mails_nil:
  "case RunMigration m ctx s of (r, t) \<Rightarrow>
     (\<exists>e. trace t = trace s @ [(InitializeLogger, e)]) \<or>
     (\<exists>steps clean runError.
        trace t = trace s @ (InitializeLogger, Fine) # steps @ clean \<and>
        run_of (migration_plan (IsFinalMigration ctx)) steps \<and>
        (case run_end steps of
           Panicked p \<Rightarrow> runError = None \<and> (if panicked clean then \<exists>q. r = Panic q else r = Panic p)
         | Failed x \<Rightarrow> (\<exists>p. runError = Some (errorf_w p x))
         | Fine \<Rightarrow> runError = None) \<and>
        (if panicked clean then \<exists>p. r = Panic p
         else \<exists>e. last clean = (SendMail (IsFinalMigration ctx) runError, e)))"
proof -
  obtain r t where run: "RunMigration m ctx s = (r, t)" by fastforce
  then show ?thesis
  proof (cases rule: run_migrationE)
    case (2 es)
    then obtain steps clean re rp where es: "es = steps @ clean"
      and mc: "run_of (migration_plan (IsFinalMigration ctx)) steps" "saw (run_end steps) re rp"
        "attempt_of (cleanup_plan (IsFinalMigration ctx) (run_end steps \<noteq> Fine) re) clean"
      and r: "if panicked clean then \<exists>p. r = Panic p
        else r = cleanup_result rp (overwrite re clean re)"
      unfolding migration_report_def migration_calls_def by blast
    have "\<exists>e. last clean = (SendMail (IsFinalMigration ctx) re, e)" if "\<not> panicked clean"
      using attempt_of_all [OF mc(3) that] by (cases clean rule: rev_cases) (auto simp: cleanup_plan_def)
    with 2(1) es mc(1,2) r show ?thesis
      unfolding run prod.case
      by (intro disjI2 exI [of _ steps] exI [of _ clean] exI [of _ re])
        (auto simp: saw_def cleanup_result_def split: ending.splits)
  qed (auto simp: run)
qed

end
