(* ===== verification/Regexp.thy ===== *)
theory Regexp imports Go_Strings begin

text \<open>
  The fragment of the Go package \<open>regexp\<close> that the configuration uses: sequences of the
  anchors \<open>^\<close> and \<open>$\<close>, character classes and starred character classes.
  \<open>MatchString\<close> looks for a match anywhere in the string.
\<close>

datatype re_item = Beg | End | Cls "char list" | ClsStar "char list"

text \<open>The rests of the string after a match of one item; the flag says if nothing precedes.\<close>

fun star_rests :: "char list \<Rightarrow> string \<Rightarrow> string list" where
  "star_rests cs [] = [[]]"
| "star_rests cs (x # xs) = (x # xs) # (if x \<in> set cs then star_rests cs xs else [])"

fun item_rests :: "bool \<Rightarrow> re_item \<Rightarrow> string \<Rightarrow> string list" where
  "item_rests b Beg s = (if b then [s] else [])"
| "item_rests b End s = (if s = [] then [s] else [])"
| "item_rests b (Cls cs) s = (case s of [] \<Rightarrow> [] | x # xs \<Rightarrow> if x \<in> set cs then [xs] else [])"
| "item_rests b (ClsStar cs) s = star_rests cs s"

fun match_here :: "bool \<Rightarrow> re_item list \<Rightarrow> string \<Rightarrow> bool" where
  "match_here b [] s = True"
| "match_here b (i # is) s =
     list_ex (\<lambda>t. match_here (b \<and> length t = length s) is t) (item_rests b i s)"

fun match_from :: "bool \<Rightarrow> re_item list \<Rightarrow> string \<Rightarrow> bool" where
  "match_from b re [] = match_here b re []"
| "match_from b re (x # xs) = (match_here b re (x # xs) \<or> match_from False re xs)"

definition MatchString :: "re_item list \<Rightarrow> string \<Rightarrow> bool" where
  "MatchString re s = match_from True re s"

lemma match_from_False_Beg: "\<not> match_from False (Beg # re) s"
  by (induction s) simp_all

lemma MatchString_prefix_class:
  "MatchString [Beg, Cls cs] s \<longleftrightarrow> s \<noteq> [] \<and> hd s \<in> set cs"
  by (cases s) (simp_all add: MatchString_def match_from_False_Beg)

lemma match_from_class_end: "match_from b [Cls cs, End] s \<longleftrightarrow> s \<noteq> [] \<and> last s \<in> set cs"
proof (induction s arbitrary: b)
  case (Cons x xs)
  then show ?case by (cases xs) auto
qed simp

lemma MatchString_class_suffix:
  "MatchString [Cls cs, End] s \<longleftrightarrow> s \<noteq> [] \<and> last s \<in> set cs"
  by (simp add: MatchString_def match_from_class_end)

text \<open>A starred class without anchors matches the empty string in front of anything.\<close>

lemma MatchString_star: "MatchString [ClsStar cs] s"
  by (cases s) (simp_all add: MatchString_def)

end
