(* ===== verification/Retry.thy ===== *)
theory Retry imports Go_Base begin

text \<open>
  The retry helpers of the Kubernetes client library (\<open>k8s.io/client-go/util/retry\<close>).
  They are not part of this repository: \<open>OnError retriable fn\<close> is a parameter of the
  model. What it documents is stated as \<open>retry_ok\<close>: it runs \<open>fn\<close> at least once, runs
  it again only after an error that is retriable, and returns what the last run returned.
\<close>

type_synonym 's retry = "(err \<Rightarrow> bool) \<Rightarrow> ('s, unit) go \<Rightarrow> ('s, unit) go"

inductive retried :: "(err \<Rightarrow> bool) \<Rightarrow> ('s, unit) go \<Rightarrow> 's \<Rightarrow> unit result \<Rightarrow> 's \<Rightarrow> bool"
  for retriable fn where
  last_run: "fn s = (r, t) \<Longrightarrow> retried retriable fn s r t"
| run_again: "fn s = (Err e, t) \<Longrightarrow> retriable e \<Longrightarrow> retried retriable fn t r u \<Longrightarrow>
    retried retriable fn s r u"

definition retry_ok :: "'s retry \<Rightarrow> bool" where
  "retry_ok OnError \<longleftrightarrow>
     (\<forall>retriable fn s. retried retriable fn s (fst (OnError retriable fn s)) (snd (OnError retriable fn s)))"

lemma retry_okD:
  "retry_ok OnError \<Longrightarrow> OnError retriable fn s = (r, t) \<Longrightarrow> retried retriable fn s r t"
  unfolding retry_ok_def by (metis fst_conv snd_conv)

text \<open>\<open>retry.RetryOnConflict\<close> is \<open>OnError\<close> with the conflict errors as the retriable ones.\<close>

definition RetryOnConflict :: "'s retry \<Rightarrow> ('s, unit) go \<Rightarrow> ('s, unit) go" where
  "RetryOnConflict OnError fn = OnError is_conflict fn"

text \<open>What every run of \<open>fn\<close> keeps, the retried call keeps.\<close>

lemma retried_keeps:
  assumes "retried retriable fn s r t" "keeps I fn" "I s"
  shows "I t"
  using assms by (induction rule: retried.induct) (auto dest: keepsD)

lemma keeps_retry:
  assumes "retry_ok OnError" "keeps I fn"
  shows "keeps I (OnError retriable fn)"
  unfolding keeps_def
  by (intro allI impI wpI) (use assms in \<open>blast dest: retry_okD intro: retried_keeps\<close>)

text \<open>
  The call ends as the last run of \<open>fn\<close> ended: in a state in which \<open>I\<close> held if every
  failed run keeps it.
\<close>

lemma retried_wp:
  assumes "retried retriable fn s r t" "I s"
    and "\<And>s. I s \<Longrightarrow> wp fn (\<lambda>r t. Q r t \<and> (case r of Err e \<Rightarrow> I t | _ \<Rightarrow> True)) s"
  shows "Q r t"
  using assms(1,2)
proof (induction rule: retried.induct)
  case (last_run s r t)
  then show ?case using wpD [OF assms(3) last_run(1)] by simp
next
  case (run_again s e t r u)
  then show ?case using wpD [OF assms(3) run_again(1)] by simp
qed

lemma wp_retry:
  assumes "retry_ok OnError" "I s"
    and "\<And>s. I s \<Longrightarrow> wp fn (\<lambda>r t. Q r t \<and> (case r of Err e \<Rightarrow> I t | _ \<Rightarrow> True)) s"
  shows "wp (OnError retriable fn) Q s"
  by (rule wpI, rule retried_wp [OF retry_okD [OF assms(1)] assms(2,3)])

text \<open>An instance for the witnesses: at most \<open>n + 1\<close> runs.\<close>

primrec retry_times :: "nat \<Rightarrow> 's retry" where
  "retry_times 0 retriable fn = fn"
| "retry_times (Suc n) retriable fn =
     handle fn (\<lambda>e. if retriable e then retry_times n retriable fn else fail e) ret"

lemma retry_times_ok: "retry_ok (retry_times n)"
proof -
  have runs: "retry_times n retriable fn s = (r, t) \<Longrightarrow> retried retriable fn s r t" for retriable fn s r t
  proof (induction n arbitrary: s)
    case 0
    then show ?case by (simp add: last_run)
  next
    case (Suc n)
    obtain r0 t0 where f: "fn s = (r0, t0)" by fastforce
    show ?case
    proof (cases "\<exists>e. r0 = Err e \<and> retriable e")
      case True
      then obtain e where e: "r0 = Err e" "retriable e" by blast
      with Suc.prems f have "retry_times n retriable fn t0 = (r, t)" by (simp add: handle_def)
      with e f show ?thesis by (blast intro: run_again Suc.IH)
    next
      case False
      with Suc.prems f have "fn s = (r, t)"
        by (auto simp: go_defs split: result.splits if_splits)
      then show ?thesis by (rule last_run)
    qed
  qed
  show ?thesis unfolding retry_ok_def by (intro allI runs prod.collapse [symmetric])
qed

end
