(* ===== verification/Config.thy ===== *)
theory Config imports Migration_Context Regexp Retry "HOL-Library.Word" "HOL-Library.AList" begin

text \<open>
  The configuration (\<open>configuration/\<close>): the types of the YAML files, how a file is read,
  expanded, parsed and validated, the validation of Kubernetes names, the two readers for
  the coordinator and for the import job, and the check that the configured secrets exist.
  The YAML parser and the validator library are parameters.
\<close>

section \<open>Types (\<open>types.go\<close>, \<open>tlsmode.go\<close>)\<close>

record Logging =
  Level :: string

record API =
  ExporterHost :: string
  ExporterApiKey :: string
  api_SkipTLSVerify :: bool
  api_SecretName :: string
  api_SecretDataKey :: string
  api_TLSCertificateName :: string
  TLSCertificateConfigMapName :: string

record MaintenanceModeMessage =
  Title :: string
  Text :: string

record Migration =
  RegularCron :: string
  FinalTimestamp :: string
  ChangeFQDN :: bool
  mig_MaintenanceModeMessage :: "MaintenanceModeMessage option"
  ExecutePreflightCheck :: bool

record SSH =
  User :: string
  PrivateSSHKeyPath :: string
  ssh_SecretName :: string
  ssh_SecretDataKey :: string

record ContainerImage =
  Registry :: string
  Repository :: string
  Tag :: string

record ImagePullSecret =
  ips_Name :: string

record ResourceList =
  CPU :: string
  Memory :: string

record ResourceRequirements =
  Limits :: ResourceList
  Requests :: ResourceList

record JobContainer =
  JobConfigMap :: string
  JobServiceAccount :: string
  Image :: ContainerImage
  ImagePullPolicy :: string
  ImagePullSecrets :: "ImagePullSecret list"
  Resources :: ResourceRequirements
  HostNetwork :: bool

record ExcludePattern =
  ep_DoguName :: string
  Pattern :: "string list"

record DoguConfigurationKeys =
  dck_DoguName :: string
  Keys :: "string list"

record JobConfig =
  AdditionalExcludedDogus :: "string list"
  ChecksumDogus :: "string list"
  AdditionalExcludedGlobalConfigurationKeys :: "string list"
  ExcludedDoguConfigurations :: "DoguConfigurationKeys list"
  DoguVolumeBasePath :: string
  Exclude :: "ExcludePattern list"
  Verbose :: bool

type_synonym TLSMode = string

definition TLSModeImplicit :: TLSMode where "TLSModeImplicit = ''implicit''"
definition TLSModeStartTLS :: TLSMode where "TLSModeStartTLS = ''starttls''"
definition TLSModeNone :: TLSMode where "TLSModeNone = ''none''"

record Smtp =
  Enabled :: bool
  smtp_Server :: string
  smtp_Port :: "16 word"
  Username :: string
  Password :: string
  From :: string
  To :: "string list"
  smtp_SecretName :: string
  smtp_SecretDataKey :: string
  TlsMode :: TLSMode
  smtp_SkipTLSVerify :: bool
  smtp_TLSCertificateName :: string

record General =
  ExcludedDogus :: "string list"
  Namespace :: string

record Coordinator =
  co_Logging :: Logging
  co_API :: API
  co_Migration :: Migration
  co_SSH :: SSH
  co_JobConfig :: JobConfig
  co_JobContainer :: JobContainer
  co_Smtp :: Smtp
  co_General :: General

record Job =
  jb_Logging :: Logging
  jb_API :: API
  jb_SSH :: SSH
  jb_JobConfig :: JobConfig
  jb_General :: General

definition globallyExcludedDogus :: "string list" where
  "globallyExcludedDogus = [''premium/monitoring'', ''premium/backup'', ''official/registrator'']"

text \<open>The getter appends to a nil slice, so that callers cannot change the package variable.\<close>

definition GetGloballyExcludedDogus :: "string list" where
  "GetGloballyExcludedDogus = [] @ globallyExcludedDogus"

section \<open>Expansion of environment variables (\<open>os.ExpandEnv\<close>)\<close>

definition digits :: string where
  "digits = ''0123456789''"

definition letters :: string where
  "letters = ''ABCDEFGHIJKLMNOPQRSTUVWXYZabcdefghijklmnopqrstuvwxyz''"

definition isShellSpecialVar :: "char \<Rightarrow> bool" where
  "isShellSpecialVar c \<longleftrightarrow> c \<in> set ''*#$@!?-0123456789''"

definition isAlphaNum :: "char \<Rightarrow> bool" where
  "isAlphaNum c \<longleftrightarrow> c \<in> set (''_'' @ digits @ letters)"

text \<open>The name after a dollar sign and how many characters it takes, as in package \<open>os\<close>.\<close>

definition getShellName :: "string \<Rightarrow> string \<times> nat" where
  "getShellName s = (case s of
     [] \<Rightarrow> ([], 0)
   | c # cs \<Rightarrow>
       if c = CHR ''{'' then
         (case cs of
            d # e # _ \<Rightarrow>
              if isShellSpecialVar d \<and> e = CHR ''}'' then ([d], 3)
              else if CHR ''}'' \<notin> set cs then ([], 1)
              else (let name = takeWhile (\<lambda>x. x \<noteq> CHR ''}'') cs in (name, length name + 2))
          | _ \<Rightarrow> if CHR ''}'' \<in> set cs then
                (let name = takeWhile (\<lambda>x. x \<noteq> CHR ''}'') cs in (name, length name + 2))
              else ([], 1))
       else if isShellSpecialVar c then ([c], 1)
       else (let name = takeWhile isAlphaNum s in (name, length name)))"

function os_Expand :: "(string \<Rightarrow> string) \<Rightarrow> string \<Rightarrow> string" where
  "os_Expand mapping [] = []"
| "os_Expand mapping (c # cs) =
     (if c = CHR ''$'' \<and> cs \<noteq> [] then
        (case getShellName cs of (name, w) \<Rightarrow>
           (if name = [] \<and> w > 0 then [] else if name = [] then [c] else mapping name) @
           os_Expand mapping (drop w cs))
      else c # os_Expand mapping cs)"
  by pat_completeness auto
termination by (relation "measure (\<lambda>(mapping, s). length s)") auto

definition os_ExpandEnv :: "environ \<Rightarrow> string \<Rightarrow> string" where
  "os_ExpandEnv env = os_Expand (Getenv env)"

lemma os_Expand_no_dollar: "CHR ''$'' \<notin> set s \<Longrightarrow> os_Expand f s = s"
  by (induction s) auto

section \<open>Names of secrets (\<open>validate.go\<close>)\<close>

definition alnum :: string where
  "alnum = letters @ digits"

definition startsWithAlphaNum :: "string \<Rightarrow> bool" where
  "startsWithAlphaNum s = MatchString [Beg, Cls alnum] s"

definition endsWithAlphaNum :: "string \<Rightarrow> bool" where
  "endsWithAlphaNum s = MatchString [Cls alnum, End] s"

text \<open>
  The pattern is the starred class without anchors. The extra characters are a hyphen, a
  dot and an underscore, in this order, which stand for themselves inside the class.
\<close>

definition alphaNumericWith :: "string \<Rightarrow> string list \<Rightarrow> bool" where
  "alphaNumericWith s chars = MatchString [ClsStar (alnum @ concat chars)] s"

text \<open>\<open>validate.Var(value, tag)\<close> of the validator library is a parameter: is its result nil?\<close>

type_synonym validate_Var = "string \<Rightarrow> string \<Rightarrow> bool"

definition k8sSecretName :: "validate_Var \<Rightarrow> string \<Rightarrow> bool" where
  "k8sSecretName vd name =
     (if \<not> vd name ''lowercase,max=253'' then False
      else if \<not> (startsWithAlphaNum name \<and> endsWithAlphaNum name \<and>
                 alphaNumericWith name [''-'', ''.'']) then False
      else True)"

definition k8sSecretDataKey :: "validate_Var \<Rightarrow> string \<Rightarrow> bool" where
  "k8sSecretDataKey vd key =
     (if \<not> vd key ''max=253'' then False
      else if \<not> (startsWithAlphaNum key \<and> endsWithAlphaNum key \<and>
                 alphaNumericWith key [''-'', ''.'', ''_'']) then False
      else True)"

lemma alphaNumericWith_all [simp]: "alphaNumericWith s chars"
  by (simp add: alphaNumericWith_def MatchString_star)

lemma startsWithAlphaNum_iff: "startsWithAlphaNum s \<longleftrightarrow> s \<noteq> [] \<and> hd s \<in> set alnum"
  by (simp add: startsWithAlphaNum_def MatchString_prefix_class)

lemma endsWithAlphaNum_iff: "endsWithAlphaNum s \<longleftrightarrow> s \<noteq> [] \<and> last s \<in> set alnum"
  by (simp add: endsWithAlphaNum_def MatchString_class_suffix)

section \<open>Reading a file (\<open>readConfigYAML\<close>)\<close>

text \<open>
  The messages of the validator. \<open>newValidator\<close> registers a translation for each tag below; a
  field error with another tag keeps the message that the library has for it. The translations
  are put into a new table at each call, so that no registration meets an older one, and the
  order of the iteration does not matter.
\<close>

record FieldError =
  fe_Tag :: string
  fe_Field :: string
  fe_Message :: string

definition errMsgK8sSecretName :: string where
  "errMsgK8sSecretName = ''only allows the characters: a-z, 0-9, \".\", \"-\", starts and ends with alphanumeric character and has a maximum length of 253''"

definition errMsgK8sSecretDataKey :: string where
  "errMsgK8sSecretDataKey = ''only allows the characters: a-z, 0-9, \".\", \"-\", \"_\", starts and ends with alphanumeric character and has a maximum length of 253''"

definition errMsgHostname :: string where
  "errMsgHostname = ''must be a valid RFC 1123 hostname with an optional port''"

definition customTranslations :: "(string \<times> string) list" where
  "customTranslations = [
     (''hostname_rfc1123'', errMsgHostname),
     (''hostname_rfc1123|hostname_port'', errMsgHostname),
     (''k8sSecretName'', errMsgK8sSecretName),
     (''k8sSecretDataKey'', errMsgK8sSecretDataKey),
     (''len=0|k8sSecretName'', errMsgK8sSecretName),
     (''len=0|k8sSecretDataKey'', errMsgK8sSecretDataKey),
     (''len=0|email'', ''must be a valid email address'')]"

type_synonym trans_table = "string \<Rightarrow> (FieldError \<Rightarrow> string) option"

definition addTranslation :: "string \<Rightarrow> string \<Rightarrow> trans_table \<Rightarrow> trans_table" where
  "addTranslation tag errMessage table = table(tag \<mapsto> (\<lambda>fe. fe_Field fe @ '' '' @ errMessage))"

definition trans_en :: trans_table where
  "trans_en = fold (\<lambda>(tag, errMessage). addTranslation tag errMessage) customTranslations Map.empty"

definition Translate :: "FieldError \<Rightarrow> string" where
  "Translate fe = (case trans_en (fe_Tag fe) of None \<Rightarrow> fe_Message fe | Some transFn \<Rightarrow> transFn fe)"

text \<open>
  The state is the file system. \<open>yaml_Unmarshal\<close> and \<open>validate_Struct\<close> are given for each
  type: the parser, and the field errors of the validator, \<open>None\<close> when the value is valid.
\<close>

type_synonym fs = "string \<Rightarrow> err + string"

record 'a config_type =
  yaml_Unmarshal :: "string \<Rightarrow> err + 'a"
  validate_Struct :: "'a \<Rightarrow> FieldError list option"

definition os_ReadFile :: "string \<Rightarrow> (fs, string) go" where
  "os_ReadFile p = andThen get_state (\<lambda>files. pure (files p))"

definition joinValidationErrors :: "FieldError list \<Rightarrow> err option" where
  "joinValidationErrors vErrs =
     fold (\<lambda>vErr allVErrors. join2 allVErrors (Some (ErrorString (Translate vErr)))) vErrs None"

text \<open>\<open>%v\<close> of an error that may be nil.\<close>

definition verb_v :: "err option \<Rightarrow> string" where
  "verb_v e = (case e of None \<Rightarrow> ''<nil>'' | Some x \<Rightarrow> err_msg x)"

definition readConfigYAML :: "environ \<Rightarrow> 'a config_type \<Rightarrow> string \<Rightarrow> (fs, 'a) go" where
  "readConfigYAML env T configPath =
     andThen (orWrap (''failed to read config file '' @ configPath) (os_ReadFile configPath)) (\<lambda>content.
     let fullContent = os_ExpandEnv env content in
     andThen (orWrap (''failed to unmarshal config file '' @ configPath)
       (pure (yaml_Unmarshal T fullContent))) (\<lambda>config.
     case validate_Struct T config of
       Some vErrs \<Rightarrow> fail (ErrorString (''failed to validate config file '' @ configPath @ '': '' @
         verb_v (joinValidationErrors vErrs)))
     | None \<Rightarrow> ret config))"

section \<open>The two readers (\<open>job.go\<close>, \<open>coordinator.go\<close>)\<close>

definition EnvBaseConfigPathKey :: string where "EnvBaseConfigPathKey = ''CONFIG_PATH''"
definition EnvImporterNamespaceKey :: string where "EnvImporterNamespaceKey = ''IMPORTER_NAMESPACE''"
definition EnvTimezoneKey :: string where "EnvTimezoneKey = ''TZ''"

definition fileLoggingConfig :: string where "fileLoggingConfig = ''logging.yaml''"
definition fileAPIConfig :: string where "fileAPIConfig = ''api.yaml''"
definition fileMigrationConfig :: string where "fileMigrationConfig = ''migration.yaml''"
definition fileSSHConfig :: string where "fileSSHConfig = ''ssh.yaml''"
definition fileJobContainerConfig :: string where "fileJobContainerConfig = ''job-container.yaml''"
definition fileJobConfig :: string where "fileJobConfig = ''job.yaml''"
definition fileSMTPConfig :: string where "fileSMTPConfig = ''smtp.yaml''"

definition errorFormat :: "string \<Rightarrow> err" where
  "errorFormat key = ErrorString (''environment variable '' @ key @ '' is not set'')"

text \<open>
  The validator library and the parsers: \<open>RegisterDefaultTranslations\<close> and
  \<open>RegisterValidation\<close> may fail.
\<close>

record config_lib =
  RegisterDefaultTranslations :: "err option"
  RegisterValidation :: "string \<Rightarrow> (string \<Rightarrow> bool) \<Rightarrow> err option"
  Var :: validate_Var
  T_Logging :: "Logging config_type"
  T_API :: "API config_type"
  T_Migration :: "Migration config_type"
  T_SSH :: "SSH config_type"
  T_JobConfig :: "JobConfig config_type"
  T_JobContainer :: "JobContainer config_type"
  T_Smtp :: "Smtp config_type"

definition newValidator :: "config_lib \<Rightarrow> (fs, unit) go" where
  "newValidator lib =
     andThen (orWrap ''failed to register custom translations''
       (return_err (RegisterDefaultTranslations lib))) (\<lambda>_.
     andThen (orWrap ''failed to register custom validation k8sSecretName''
       (return_err (RegisterValidation lib ''k8sSecretName'' (k8sSecretName (Var lib))))) (\<lambda>_.
     andThen (orWrap ''failed to register custom validation k8sSecretDataKey''
       (return_err (RegisterValidation lib ''k8sSecretDataKey'' (k8sSecretDataKey (Var lib))))) (\<lambda>_.
     ret ())))"

definition ReadJobConfig :: "config_lib \<Rightarrow> environ \<Rightarrow> (fs, Job) go" where
  "ReadJobConfig lib env =
     andThen (orWrap ''failed to initialize validator'' (newValidator lib)) (\<lambda>_.
     let configBaseDir = Getenv env EnvBaseConfigPathKey in
     if configBaseDir = [] then fail (errorFormat EnvBaseConfigPathKey) else
     let namespace = Getenv env EnvImporterNamespaceKey in
     if namespace = [] then fail (errorFormat EnvImporterNamespaceKey) else
     andThen (orWrap ''failed to read logging configuration''
       (readConfigYAML env (T_Logging lib) (path_join [configBaseDir, fileLoggingConfig]))) (\<lambda>loggingConfig.
     andThen (orWrap ''failed to read API configuration''
       (readConfigYAML env (T_API lib) (path_join [configBaseDir, fileAPIConfig]))) (\<lambda>apiConfig.
     andThen (orWrap ''failed to read ssh configuration''
       (readConfigYAML env (T_SSH lib) (path_join [configBaseDir, fileSSHConfig]))) (\<lambda>sshConfig.
     andThen (orWrap ''failed to read job configuration''
       (readConfigYAML env (T_JobConfig lib) (path_join [configBaseDir, fileJobConfig]))) (\<lambda>jobConfig.
     ret \<lparr>jb_Logging = loggingConfig, jb_API = apiConfig, jb_SSH = sshConfig,
       jb_JobConfig = jobConfig,
       jb_General = \<lparr>ExcludedDogus = GetGloballyExcludedDogus @ AdditionalExcludedDogus jobConfig,
         Namespace = namespace\<rparr>\<rparr>)))))"

definition ReadCoordinatorConfig :: "config_lib \<Rightarrow> environ \<Rightarrow> (fs, Coordinator) go" where
  "ReadCoordinatorConfig lib env =
     andThen (orWrap ''failed to initialize validator'' (newValidator lib)) (\<lambda>_.
     let configBaseDir = Getenv env EnvBaseConfigPathKey in
     if configBaseDir = [] then fail (errorFormat EnvBaseConfigPathKey) else
     let namespace = Getenv env EnvImporterNamespaceKey in
     if namespace = [] then fail (errorFormat EnvImporterNamespaceKey) else
     andThen (orWrap ''failed to read logging configuration''
       (readConfigYAML env (T_Logging lib) (path_join [configBaseDir, fileLoggingConfig]))) (\<lambda>loggingConfig.
     andThen (orWrap ''failed to read API configuration''
       (readConfigYAML env (T_API lib) (path_join [configBaseDir, fileAPIConfig]))) (\<lambda>apiConfig.
     andThen (orWrap ''failed to read migration configuration''
       (readConfigYAML env (T_Migration lib) (path_join [configBaseDir, fileMigrationConfig]))) (\<lambda>migrationConfig.
     andThen (orWrap ''failed to read ssh configuration''
       (readConfigYAML env (T_SSH lib) (path_join [configBaseDir, fileSSHConfig]))) (\<lambda>sshConfig.
     andThen (orWrap ''failed to read job configuration''
       (readConfigYAML env (T_JobConfig lib) (path_join [configBaseDir, fileJobConfig]))) (\<lambda>jobConfig.
     andThen (orWrap ''failed to read job container configuration''
       (readConfigYAML env (T_JobContainer lib) (path_join [configBaseDir, fileJobContainerConfig]))) (\<lambda>jobContainerConfig.
     andThen (orWrap ''failed to read smtp configuration''
       (readConfigYAML env (T_Smtp lib) (path_join [configBaseDir, fileSMTPConfig]))) (\<lambda>smtpConfig.
     ret \<lparr>co_Logging = loggingConfig, co_API = apiConfig, co_Migration = migrationConfig,
       co_SSH = sshConfig, co_JobConfig = jobConfig, co_JobContainer = jobContainerConfig,
       co_Smtp = smtpConfig,
       co_General = \<lparr>ExcludedDogus = GetGloballyExcludedDogus @ AdditionalExcludedDogus jobConfig,
         Namespace = namespace\<rparr>\<rparr>))))))))"

section \<open>Secrets (\<open>Coordinator.ValidateSecrets\<close>)\<close>

text \<open>
  \<open>secretMap\<close> collects the data keys for each secret name; a Go map is an association list
  here, and an iteration over it visits the keys in an order that \<open>range_order\<close> chooses
  anew for every iteration. \<open>Get\<close> is the secret client of Kubernetes.
\<close>

type_synonym secretMap = "(string \<times> string list) list"

definition append_key :: "secretMap \<Rightarrow> string \<Rightarrow> string \<Rightarrow> secretMap" where
  "append_key m name key =
     AList.update name ((case map_of m name of None \<Rightarrow> [] | Some ks \<Rightarrow> ks) @ [key]) m"

definition secrets_of :: "Coordinator \<Rightarrow> secretMap" where
  "secrets_of c =
     (let m = append_key [] (api_SecretName (co_API c)) (api_SecretDataKey (co_API c));
          m = append_key m (ssh_SecretName (co_SSH c)) (ssh_SecretDataKey (co_SSH c)) in
      if smtp_Server (co_Smtp c) \<noteq> [] \<and> Username (co_Smtp c) \<noteq> []
      then append_key m (smtp_SecretName (co_Smtp c)) (smtp_SecretDataKey (co_Smtp c))
      else m)"

type_synonym secret_data = "string \<Rightarrow> string option"

definition missing_keys :: "string \<Rightarrow> secret_data \<Rightarrow> string list \<Rightarrow> err option \<Rightarrow> err option" where
  "missing_keys name data keys resultErr =
     fold (\<lambda>key acc. case data key of Some _ \<Rightarrow> acc
       | None \<Rightarrow> join2 acc (Some (ErrorString (''secret '' @ name @ '' does not contain key '' @ key))))
       keys resultErr"

fun check_secrets ::
    "(string \<Rightarrow> ('w, secret_data) go) \<Rightarrow> secretMap \<Rightarrow> string list \<Rightarrow> err option \<Rightarrow> ('w, unit) go" where
  "check_secrets Get m [] resultErr = return_err resultErr"
| "check_secrets Get m (name # names) resultErr =
     handle (Get name)
       (\<lambda>e. check_secrets Get m names
         (join2 resultErr (Some (errorf_w (''failed to get secret '' @ name) e))))
       (\<lambda>data. check_secrets Get m names
         (missing_keys name data (case map_of m name of None \<Rightarrow> [] | Some ks \<Rightarrow> ks) resultErr))"

definition ValidateSecrets ::
    "'w retry \<Rightarrow> ('w \<Rightarrow> string list \<Rightarrow> string list) \<Rightarrow> (string \<Rightarrow> ('w, secret_data) go) \<Rightarrow>
      Coordinator \<Rightarrow> ('w, unit) go" where
  "ValidateSecrets OnError range_order Get c =
     (let m = secrets_of c in
      OnError (\<lambda>e. \<not> is_not_found e)
        (andThen get_state (\<lambda>w. check_secrets Get m (range_order w (map fst m)) None)))"

text \<open>The pairs of a secret and a data key that the configuration refers to.\<close>

definition required_keys :: "Coordinator \<Rightarrow> (string \<times> string) set" where
  "required_keys c =
     {(api_SecretName (co_API c), api_SecretDataKey (co_API c)),
      (ssh_SecretName (co_SSH c), ssh_SecretDataKey (co_SSH c))} \<union>
     (if smtp_Server (co_Smtp c) \<noteq> [] \<and> Username (co_Smtp c) \<noteq> []
      then {(smtp_SecretName (co_Smtp c), smtp_SecretDataKey (co_Smtp c))} else {})"

text \<open>
  The secret client: a read that changes nothing, and the data it answers is the data of
  the secret. It may fail at any time.
\<close>

definition secret_client_ok ::
    "('w \<Rightarrow> string \<Rightarrow> secret_data option) \<Rightarrow> (string \<Rightarrow> ('w, secret_data) go) \<Rightarrow> bool" where
  "secret_client_ok secrets Get \<longleftrightarrow> (\<forall>name w.
     wp (Get name) (\<lambda>r v. v = w \<and> (\<forall>d. r = Ok d \<longrightarrow> secrets w name = Some d)) w)"

definition range_ok :: "('w \<Rightarrow> 'a list \<Rightarrow> 'a list) \<Rightarrow> bool" where
  "range_ok order \<longleftrightarrow> (\<forall>w xs. set (order w xs) = set xs)"

lemma missing_keys_None:
  "missing_keys name data keys acc = None \<longleftrightarrow> acc = None \<and> (\<forall>k \<in> set keys. data k \<noteq> None)"
proof (induction keys arbitrary: acc)
  case (Cons k ks)
  then show ?case by (cases "data k") (simp_all add: missing_keys_def)
qed (simp add: missing_keys_def)

lemma check_secrets_sound:
  assumes "secret_client_ok secrets Get"
  shows "wp (check_secrets Get m names acc) (\<lambda>r v. v = w \<and>
     (r = Ok () \<longrightarrow> acc = None \<and> (\<forall>n \<in> set names. \<forall>ks. map_of m n = Some ks \<longrightarrow>
        (\<exists>d. secrets w n = Some d \<and> (\<forall>k \<in> set ks. d k \<noteq> None))))) w"
proof (induction names arbitrary: acc)
  case Nil
  then show ?case by (simp split: option.splits)
next
  case (Cons n ns)
  obtain r v where g: "Get n w = (r, v)" by fastforce
  have "wp (Get n) (\<lambda>r v. v = w \<and> (\<forall>d. r = Ok d \<longrightarrow> secrets w n = Some d)) w"
    using assms by (simp add: secret_client_ok_def)
  from wpD [OF this g] have v: "v = w" and d: "\<forall>d. r = Ok d \<longrightarrow> secrets w n = Some d"
    by simp_all
  show ?case
  proof (cases r)
    case (Ok d)
    show ?thesis
      using Cons.IH [of "missing_keys n d (case map_of m n of None \<Rightarrow> [] | Some ks \<Rightarrow> ks) acc"] Ok v d
      by (simp add: wp_eq [where m = "Get n", OF g], elim wp_mono)
        (auto simp: missing_keys_None split: option.splits)
  next
    case (Err e)
    show ?thesis
      using Cons.IH [of "join2 acc (Some (errorf_w (''failed to get secret '' @ n) e))"] Err v
      by (simp add: wp_eq [where m = "Get n", OF g], elim wp_mono) (auto simp: errs)
  next
    case (Panic p)
    with v show ?thesis by (simp add: wp_eq [where m = "Get n", OF g])
  qed
qed

lemma map_of_append_key:
  "map_of (append_key m n k) x =
     (if x = n then Some ((case map_of m n of None \<Rightarrow> [] | Some ks \<Rightarrow> ks) @ [k]) else map_of m x)"
  by (simp add: append_key_def update_conv')

lemma secrets_of_required:
  "(n, k) \<in> required_keys c \<Longrightarrow> \<exists>ks. map_of (secrets_of c) n = Some ks \<and> k \<in> set ks"
  by (auto simp: required_keys_def secrets_of_def Let_def map_of_append_key
      split: option.splits if_splits)

section \<open>Properties\<close>

text \<open>
  C13: when \<open>ValidateSecrets\<close> returns nil, every secret the configuration refers to exists
  and has the configured data key, and nothing was changed, whatever transient errors the
  API gave on the way, however often the retry helper ran the check and in whatever order
  the map was visited. The mail secret counts only with a server and a user name.
\<close>

theorem ValidateSecrets_sound:
  assumes "retry_ok OnError" "secret_client_ok secrets Get" "range_ok order"
  shows "wp (ValidateSecrets OnError order Get c) (\<lambda>r v. v = w \<and>
     (r = Ok () \<longrightarrow> (\<forall>(n, k) \<in> required_keys c. \<exists>d. secrets w n = Some d \<and> d k \<noteq> None))) w"
  unfolding ValidateSecrets_def Let_def
proof (rule wp_retry [OF assms(1), where I = "\<lambda>v. v = w"], simp)
  fix v assume "v = w"
  have keys: "n \<in> set (order w (map fst (secrets_of c)))" if "map_of (secrets_of c) n = Some ks" for n ks
    using assms(3) map_of_SomeD [OF that] by (force simp: range_ok_def)
  show "wp (andThen get_state
        (\<lambda>w. check_secrets Get (secrets_of c) (order w (map fst (secrets_of c))) None))
      (\<lambda>r v. (v = w \<and> (r = Ok () \<longrightarrow>
         (\<forall>(n, k) \<in> required_keys c. \<exists>d. secrets w n = Some d \<and> d k \<noteq> None))) \<and>
         (case r of Err e \<Rightarrow> v = w | _ \<Rightarrow> True)) v"
    unfolding \<open>v = w\<close> wp_andThen wp_get_state result.case
    by (rule wp_mono [OF check_secrets_sound [OF assms(2)]])
      (use keys secrets_of_required [of _ _ c] in \<open>fastforce split: result.splits\<close>)
qed

text \<open>A concrete configuration and secret client, for the witnesses.\<close>

definition sample_job_config :: JobConfig where
  "sample_job_config = \<lparr>AdditionalExcludedDogus = [''official/x''], ChecksumDogus = [],
     AdditionalExcludedGlobalConfigurationKeys = [], ExcludedDoguConfigurations = [],
     DoguVolumeBasePath = ''/dogus'', Exclude = [], Verbose = False\<rparr>"

definition sample_API :: API where
  "sample_API = \<lparr>ExporterHost = ''h'', ExporterApiKey = ''k'', api_SkipTLSVerify = False,
     api_SecretName = ''api'', api_SecretDataKey = ''key'', api_TLSCertificateName = '''',
     TLSCertificateConfigMapName = ''''\<rparr>"

definition sample_SSH :: SSH where
  "sample_SSH = \<lparr>User = ''root'', PrivateSSHKeyPath = ''/ssh/id'', ssh_SecretName = ''ssh'',
     ssh_SecretDataKey = ''key''\<rparr>"

definition sample_coordinator :: Coordinator where
  "sample_coordinator = \<lparr>co_Logging = \<lparr>Level = ''INFO''\<rparr>, co_API = sample_API,
     co_Migration = \<lparr>RegularCron = '''', FinalTimestamp = '''', ChangeFQDN = False,
       mig_MaintenanceModeMessage = None, ExecutePreflightCheck = False\<rparr>,
     co_SSH = sample_SSH, co_JobConfig = sample_job_config,
     co_JobContainer = \<lparr>JobConfigMap = ''cm'', JobServiceAccount = ''sa'',
       Image = \<lparr>Registry = ''r'', Repository = ''p'', Tag = ''t''\<rparr>,
       ImagePullPolicy = ''Always'', ImagePullSecrets = [],
       Resources = \<lparr>Limits = \<lparr>CPU = ''1'', Memory = ''1''\<rparr>, Requests = \<lparr>CPU = ''1'', Memory = ''1''\<rparr>\<rparr>,
       HostNetwork = False\<rparr>,
     co_Smtp = \<lparr>Enabled = False, smtp_Server = '''', smtp_Port = 25, Username = '''', Password = '''',
       From = '''', To = [], smtp_SecretName = '''', smtp_SecretDataKey = '''',
       TlsMode = TLSModeNone, smtp_SkipTLSVerify = False, smtp_TLSCertificateName = ''''\<rparr>,
     co_General = \<lparr>ExcludedDogus = [], Namespace = ''ecosystem''\<rparr>\<rparr>"

definition sample_secrets :: "unit \<Rightarrow> string \<Rightarrow> secret_data option" where
  "sample_secrets w n = (if n = ''api'' \<or> n = ''ssh'' then Some [''key'' \<mapsto> ''v''] else None)"

definition sample_Get :: "string \<Rightarrow> (unit, secret_data) go" where
  "sample_Get n = (\<lambda>w. case sample_secrets w n of
     Some d \<Rightarrow> (Ok d, w) | None \<Rightarrow> (Err (StatusError NotFound ''not found''), w))"

theorem ValidateSecrets_sound_witness:
  "ValidateSecrets (retry_times 4) (\<lambda>_ xs. xs) sample_Get sample_coordinator () = (Ok (), ()) \<and>
   (\<exists>d. sample_secrets () ''api'' = Some d \<and> d ''key'' \<noteq> None)"
proof -
  have client: "secret_client_ok sample_secrets sample_Get"
    by (simp add: secret_client_ok_def wp_def sample_Get_def split: option.splits)
  have run: "ValidateSecrets (retry_times 4) (\<lambda>_ xs. xs) sample_Get sample_coordinator () = (Ok (), ())"
    by code_simp
  have "range_ok (\<lambda>(_::unit) (xs :: string list). xs)" by (simp add: range_ok_def)
  from wpD [OF ValidateSecrets_sound [OF retry_times_ok client this] run]
  have "\<exists>d. sample_secrets () n = Some d \<and> d k \<noteq> None" if "(n, k) \<in> required_keys sample_coordinator" for n k
    using that by blast
  moreover have "(''api'', ''key'') \<in> required_keys sample_coordinator"
    by (simp add: required_keys_def sample_coordinator_def sample_API_def)
  ultimately show ?thesis using run by blast
qed

text \<open>What a successful read of one file means.\<close>

definition loads :: "environ \<Rightarrow> fs \<Rightarrow> 'a config_type \<Rightarrow> string \<Rightarrow> 'a \<Rightarrow> bool" where
  "loads env files T p a \<longleftrightarrow> (case files p of
     Inl e \<Rightarrow> False
   | Inr content \<Rightarrow> yaml_Unmarshal T (os_ExpandEnv env content) = Inr a \<and> validate_Struct T a = None)"

lemma readConfigYAML_keeps: "readConfigYAML env T p files = (r, t) \<Longrightarrow> t = files"
  by (auto simp: readConfigYAML_def os_ReadFile_def go_defs Let_def
      split: sum.splits option.splits result.splits prod.splits)

lemma readConfigYAML_Ok_iff [ok_iffs]:
  "readConfigYAML env T p files = (Ok a, t) \<longleftrightarrow> t = files \<and> loads env files T p a"
  by (auto simp: readConfigYAML_def os_ReadFile_def go_defs Let_def loads_def
      split: sum.splits option.splits result.splits prod.splits)

lemma newValidator_keeps: "newValidator lib files = (Ok x, t) \<Longrightarrow> t = files"
  by (auto simp: newValidator_def ok_iffs)

definition in_config_dir :: "environ \<Rightarrow> string \<Rightarrow> string" where
  "in_config_dir env f = path_join [Getenv env EnvBaseConfigPathKey, f]"

text \<open>
  C14: when the coordinator reads its configuration, every part of it was parsed from its
  file, after the expansion of environment variables, and found valid; the directory and
  the namespace are set; the excluded dogus are the global ones followed by the configured
  ones; and the import job reads, from the same files and environment, exactly the
  corresponding parts of it.
\<close>

theorem ReadCoordinatorConfig_and_ReadJobConfig_agree:
  "case ReadCoordinatorConfig lib env files of
     (Ok c, t) \<Rightarrow>
       ReadJobConfig lib env files = (Ok \<lparr>jb_Logging = co_Logging c, jb_API = co_API c,
         jb_SSH = co_SSH c, jb_JobConfig = co_JobConfig c, jb_General = co_General c\<rparr>, files) \<and>
       loads env files (T_Logging lib) (in_config_dir env fileLoggingConfig) (co_Logging c) \<and>
       loads env files (T_API lib) (in_config_dir env fileAPIConfig) (co_API c) \<and>
       loads env files (T_Migration lib) (in_config_dir env fileMigrationConfig) (co_Migration c) \<and>
       loads env files (T_SSH lib) (in_config_dir env fileSSHConfig) (co_SSH c) \<and>
       loads env files (T_JobConfig lib) (in_config_dir env fileJobConfig) (co_JobConfig c) \<and>
       loads env files (T_JobContainer lib) (in_config_dir env fileJobContainerConfig) (co_JobContainer c) \<and>
       loads env files (T_Smtp lib) (in_config_dir env fileSMTPConfig) (co_Smtp c) \<and>
       ExcludedDogus (co_General c) =
         GetGloballyExcludedDogus @ AdditionalExcludedDogus (co_JobConfig c) \<and>
       Namespace (co_General c) \<noteq> [] \<and> Getenv env EnvBaseConfigPathKey \<noteq> []
   | _ \<Rightarrow> True"
proof -
  obtain r t where run: "ReadCoordinatorConfig lib env files = (r, t)" by fastforce
  show ?thesis
  proof (cases r)
    case (Ok c)
    with run obtain u where nv: "newValidator lib files = (Ok u, files)"
      and dir: "Getenv env EnvBaseConfigPathKey \<noteq> []" and ns: "Getenv env EnvImporterNamespaceKey \<noteq> []"
      by (auto simp: ReadCoordinatorConfig_def ok_iffs Let_def dest: newValidator_keeps split: if_splits)
    show ?thesis
      unfolding run Ok prod.case result.case
      using run [unfolded Ok] nv dir ns
      by (auto simp: ReadCoordinatorConfig_def ReadJobConfig_def ok_iffs Let_def in_config_dir_def)
  qed (simp_all add: run)
qed

text \<open>
  C15: the check of a secret's name looks at its length and case (which the validator
  library does) and at its first and last character only. What stands between them is
  not checked, although the function is documented to allow only letters, digits, dots
  and hyphens there: a slash or a blank passes.
\<close>

theorem k8s_names_check_only_the_ends:
  "(k8sSecretName vd name \<longleftrightarrow> vd name ''lowercase,max=253'' \<and>
     name \<noteq> [] \<and> hd name \<in> set alnum \<and> last name \<in> set alnum) \<and>
   (k8sSecretDataKey vd key \<longleftrightarrow> vd key ''max=253'' \<and>
     key \<noteq> [] \<and> hd key \<in> set alnum \<and> last key \<in> set alnum) \<and>
   k8sSecretName (\<lambda>_ _. True) ''a / b'' \<and> k8sSecretDataKey (\<lambda>_ _. True) ''a / b''"
  by (auto simp: k8sSecretName_def k8sSecretDataKey_def startsWithAlphaNum_iff
      endsWithAlphaNum_iff alnum_def letters_def)

text \<open>
  A reference to an environment variable in braces is replaced by the value of the
  variable, the empty string when it is not set, and the text before it is kept; the
  value itself is not expanded again.
\<close>

theorem ExpandEnv_braces:
  assumes "CHR ''$'' \<notin> set pre" "name \<noteq> []" "CHR ''}'' \<notin> set name"
  shows "os_ExpandEnv env (pre @ ''${'' @ name @ ''}'' @ post) =
     pre @ Getenv env name @ os_ExpandEnv env post"
proof -
  have name: "getShellName (CHR ''{'' # name @ CHR ''}'' # post) = (name, length name + 2)"
  proof (cases name)
    case (Cons c cs)
    have tw: "takeWhile (\<lambda>x. x \<noteq> CHR ''}'') (name @ CHR ''}'' # post) = name"
      using assms(3) by (subst takeWhile_append2) auto
    show ?thesis
    proof (cases cs)
      case Nil
      with Cons tw show ?thesis by (simp add: getShellName_def Let_def)
    next
      case (Cons d ds)
      with \<open>name = c # cs\<close> tw assms(3) show ?thesis by (auto simp: getShellName_def Let_def)
    qed
  qed (use assms in simp)
  have "os_Expand f (''${'' @ name @ ''}'' @ post) = f name @ os_Expand f post" for f
    using assms(2) name by (simp del: getShellName_def)
  moreover have "os_Expand f (pre @ CHR ''$'' # x) = pre @ os_Expand f (CHR ''$'' # x)" for f x
    using assms(1) by (induction pre) auto
  ultimately show ?thesis by (simp add: os_ExpandEnv_def del: os_Expand.simps)
qed

theorem ExpandEnv_braces_witness:
  "os_ExpandEnv [''K'' \<mapsto> ''secret''] (''apiKey: '' @ ''${'' @ ''K'' @ ''}'' @ '' # $'') =
     ''apiKey: '' @ ''secret'' @ '' # $''"
proof -
  have "os_ExpandEnv [''K'' \<mapsto> ''secret''] '' # $'' = '' # $''" by code_simp
  then show ?thesis
    using ExpandEnv_braces [of "''apiKey: ''" "''K''" "[''K'' \<mapsto> ''secret'']" "'' # $''"]
    by (simp add: Getenv_def)
qed

end
