(* ===== verification/Job_Provider.thy ===== *)
theory Job_Provider imports Config Domain begin

text \<open>
  The Kubernetes job that runs the import (\<open>migration/jobProvider.go\<close>, \<open>migration/pvc.go\<close>):
  its volumes and mounts, the specification that is parsed once, and the job that is built
  from it for each migration.
\<close>

section \<open>The persistent volume claims of the dogus (\<open>pvc.go\<close>)\<close>

record doguPVC =
  doguName :: string
  pvcName :: string

text \<open>
  \<open>pvc_List\<close> answers the labels and names of the claims that a selector selects, \<open>None\<close> for a
  nil list; \<open>FormatLabelSelector_exists\<close> prints the selector for a label that exists.
\<close>

record 'w pvc_api =
  pvc_List :: "string \<Rightarrow> ('w, ((string \<Rightarrow> string option) \<times> string) list option) go"
  FormatLabelSelector_exists :: "string \<Rightarrow> string"
  pvc_DoguLabelName :: string

definition NewPVCGetter :: "'w pvc_api \<Rightarrow> string" where
  "NewPVCGetter api = FormatLabelSelector_exists api (pvc_DoguLabelName api)"

definition GetDoguVolumes :: "'w pvc_api \<Rightarrow> string \<Rightarrow> ctx \<Rightarrow> ('w, doguPVC list) go" where
  "GetDoguVolumes api doguSelector ctx =
     andThen (orWrap ''failed to list PVCs'' (pvc_List api doguSelector)) (\<lambda>pvcList.
     case pvcList of
       None \<Rightarrow> fail (ErrorString ''PCV list is nil'')
     | Some items \<Rightarrow> ret (map (\<lambda>(labels, name).
         \<lparr>doguName = (case labels (pvc_DoguLabelName api) of None \<Rightarrow> [] | Some v \<Rightarrow> v), pvcName = name\<rparr>) items))"

section \<open>Kubernetes objects\<close>

datatype VolumeSource =
    ConfigMapVolume string "bool option"
  | PersistentVolumeClaim string bool
  | SecretVolume string int "(string \<times> string) list"

record Volume =
  vol_Name :: string
  vol_Source :: VolumeSource

record VolumeMount =
  vm_Name :: string
  vm_MountPath :: string
  vm_ReadOnly :: bool

record volumeMounts =
  volumes :: "Volume list"
  mounts :: "VolumeMount list"

record EnvVar =
  env_Name :: string
  env_Value :: string

record 'q resources =
  limitCPU :: 'q
  limitMemory :: 'q
  requestCPU :: 'q
  requestMemory :: 'q

record 'q Container =
  c_Name :: string
  c_Image :: string
  c_Env :: "EnvVar list"
  c_Resources :: "'q resources option"
  c_VolumeMounts :: "VolumeMount list"
  c_ImagePullPolicy :: string

record 'q batch_Job =
  j_Name :: string
  j_Labels :: "(string \<times> string) list"
  j_BackoffLimit :: int
  j_TTLSecondsAfterFinished :: int
  j_HostNetwork :: bool
  j_Volumes :: "Volume list"
  j_Containers :: "'q Container list"
  j_RestartPolicy :: string
  j_ServiceAccountName :: string
  j_ImagePullSecrets :: "string list"

section \<open>Volumes and mounts\<close>

definition jobName :: string where "jobName = ''migration-job''"
definition jobTTLCleanupSeconds :: int where "jobTTLCleanupSeconds = 60"
definition jobConfigPath :: string where "jobConfigPath = ''/etc/'' @ jobName @ ''/config''"

definition collectVolumeMounts :: "volumeMounts list \<Rightarrow> volumeMounts" where
  "collectVolumeMounts vmList =
     fold (\<lambda>vm result. \<lparr>volumes = volumes result @ volumes vm, mounts = mounts result @ mounts vm\<rparr>)
       vmList \<lparr>volumes = [], mounts = []\<rparr>"

definition createConfigVolumeMount :: "string \<Rightarrow> volumeMounts" where
  "createConfigVolumeMount configMapName =
     (let configVolumeName = ''config-volume'' in
      \<lparr>volumes = [\<lparr>vol_Name = configVolumeName, vol_Source = ConfigMapVolume configMapName None\<rparr>],
       mounts = [\<lparr>vm_Name = configVolumeName, vm_MountPath = jobConfigPath, vm_ReadOnly = True\<rparr>]\<rparr>)"

definition createDoguVolumeMounts :: "string \<Rightarrow> doguPVC list \<Rightarrow> volumeMounts" where
  "createDoguVolumeMounts volumeBasePath pvcList =
     \<lparr>volumes = map (\<lambda>pvc. \<lparr>vol_Name = doguName pvc @ ''-data'',
        vol_Source = PersistentVolumeClaim (pvcName pvc) False\<rparr>) pvcList,
      mounts = map (\<lambda>pvc. \<lparr>vm_Name = doguName pvc @ ''-data'',
        vm_MountPath = path_join [volumeBasePath, doguName pvc], vm_ReadOnly = False\<rparr>) pvcList\<rparr>"

definition createSSHPrivateKeyMount :: "string \<Rightarrow> string \<Rightarrow> string \<Rightarrow> volumeMounts" where
  "createSSHPrivateKeyMount secretName secretDataKey privateSSHKeyPath =
     (let sshVolumeName = ''ssh-private-key-volume''; permissions = 256 in
      \<lparr>volumes = [\<lparr>vol_Name = sshVolumeName,
         vol_Source = SecretVolume secretName permissions [(secretDataKey, path_base privateSSHKeyPath)]\<rparr>],
       mounts = [\<lparr>vm_Name = sshVolumeName, vm_MountPath = path_dir privateSSHKeyPath, vm_ReadOnly = True\<rparr>]\<rparr>)"

definition createApiTlsCaMount :: "string \<Rightarrow> string \<Rightarrow> volumeMounts" where
  "createApiTlsCaMount cmName caMountPath =
     (let caVolumeName = ''tls-ca-volume'' in
      \<lparr>volumes = [\<lparr>vol_Name = caVolumeName, vol_Source = ConfigMapVolume cmName (Some True)\<rparr>],
       mounts = [\<lparr>vm_Name = caVolumeName, vm_MountPath = caMountPath, vm_ReadOnly = True\<rparr>]\<rparr>)"

section \<open>The job specification\<close>

record 'q jobSpec =
  imageURL :: string
  js_imagePullPolicy :: string
  js_imagePullSecrets :: "string list"
  js_resources :: "'q resources"
  restartPolicy :: string
  js_env :: "EnvVar list"
  serviceAccount :: string
  jobConfigMap :: string
  hostNetwork :: bool

text \<open>\<open>resource.ParseQuantity\<close> of Kubernetes, and \<open>url.Parse\<close> followed by printing.\<close>

record 'q job_lib =
  ParseQuantity :: "string \<Rightarrow> err + 'q"
  url_Parse :: "string \<Rightarrow> err + string"

definition parseRequirements :: "'q job_lib \<Rightarrow> JobContainer \<Rightarrow> ('s, 'q resources) go" where
  "parseRequirements lib jcCfg =
     andThen (orWrap ''failed to parse cpu limit''
       (pure (ParseQuantity lib (CPU (Limits (Resources jcCfg)))))) (\<lambda>lc.
     andThen (orWrap ''failed to parse memory limit''
       (pure (ParseQuantity lib (Memory (Limits (Resources jcCfg)))))) (\<lambda>lm.
     andThen (orWrap ''failed to parse cpu request''
       (pure (ParseQuantity lib (CPU (Requests (Resources jcCfg)))))) (\<lambda>rc.
     andThen (orWrap ''failed to parse memory request''
       (pure (ParseQuantity lib (Memory (Requests (Resources jcCfg)))))) (\<lambda>rm.
     ret \<lparr>limitCPU = lc, limitMemory = lm, requestCPU = rc, requestMemory = rm\<rparr>))))"

definition parseImage :: "'q job_lib \<Rightarrow> JobContainer \<Rightarrow> ('s, string) go" where
  "parseImage lib jcCfg =
     andThen (orWrap ''failed to parse image url''
       (pure (url_Parse lib (path_join [Registry (Image jcCfg), Repository (Image jcCfg)])))) (\<lambda>imageURL.
     ret (imageURL @ '':'' @ Tag (Image jcCfg)))"

definition parseImagePullPolicy :: "string \<Rightarrow> ('s, string) go" where
  "parseImagePullPolicy policy =
     (if policy = ''Always'' then ret ''Always''
      else if policy = ''Never'' then ret ''Never''
      else if policy = ''IfNotPresent'' then ret ''IfNotPresent''
      else fail (ErrorString (''invalid image pull policy: '' @ policy)))"

definition parseImagePullSecrets :: "JobContainer \<Rightarrow> string list" where
  "parseImagePullSecrets jcCfg = map ips_Name (ImagePullSecrets jcCfg)"

definition createContainerEnv :: "environ \<Rightarrow> string \<Rightarrow> EnvVar list" where
  "createContainerEnv os_env apiKey =
     [\<lparr>env_Name = ''API_KEY'', env_Value = apiKey\<rparr>,
      \<lparr>env_Name = EnvBaseConfigPathKey, env_Value = jobConfigPath\<rparr>,
      \<lparr>env_Name = EnvImporterNamespaceKey, env_Value = Getenv os_env EnvImporterNamespaceKey\<rparr>,
      \<lparr>env_Name = EnvTimezoneKey, env_Value = Getenv os_env EnvTimezoneKey\<rparr>]"

definition createJobSpec :: "'q job_lib \<Rightarrow> environ \<Rightarrow> JobContainer \<Rightarrow> string \<Rightarrow> ('s, 'q jobSpec) go" where
  "createJobSpec lib os_env jcCfg apiKey =
     andThen (orWrap ''failed to parse resource requirements'' (parseRequirements lib jcCfg)) (\<lambda>requirements.
     andThen (orWrap ''failed to parse image'' (parseImage lib jcCfg)) (\<lambda>image.
     andThen (orWrap ''failed to parse image pull policy''
       (parseImagePullPolicy (ImagePullPolicy jcCfg))) (\<lambda>imagePullPolicy.
     ret \<lparr>imageURL = image, js_imagePullPolicy = imagePullPolicy,
       js_imagePullSecrets = parseImagePullSecrets jcCfg, js_resources = requirements,
       restartPolicy = ''Never'', js_env = createContainerEnv os_env apiKey,
       serviceAccount = JobServiceAccount jcCfg, jobConfigMap = JobConfigMap jcCfg,
       hostNetwork = HostNetwork jcCfg\<rparr>)))"

record 'q jobProvider =
  jp_spec :: "'q jobSpec"
  jp_sshConfig :: SSH
  jp_apiConfig :: API
  jp_doguVolumeBasePath :: string

record JobProviderDependencies =
  JobContainerConfig :: JobContainer
  SSHConfig :: SSH
  APIConfig :: API
  APIKey :: string
  jd_DoguVolumeBasePath :: string

definition newJobProvider ::
    "'q job_lib \<Rightarrow> environ \<Rightarrow> JobProviderDependencies \<Rightarrow> ('s, 'q jobProvider) go" where
  "newJobProvider lib os_env deps =
     andThen (orWrap ''failed to create specification for job''
       (createJobSpec lib os_env (JobContainerConfig deps) (APIKey deps))) (\<lambda>jSpec.
     ret \<lparr>jp_spec = jSpec, jp_sshConfig = SSHConfig deps, jp_apiConfig = APIConfig deps,
       jp_doguVolumeBasePath = jd_DoguVolumeBasePath deps\<rparr>)"

section \<open>The job\<close>

definition addFQDNChangeTriggerAsEnv :: "ctx \<Rightarrow> EnvVar list \<Rightarrow> EnvVar list" where
  "addFQDNChangeTriggerAsEnv ctx env =
     (if IsFinalMigration ctx \<and> TriggerFQDNChange ctx
      then env @ [\<lparr>env_Name = envTriggerFQDNChange, env_Value = ''true''\<rparr>] else env)"

text \<open>
  The job for a list of claims at a time in seconds, and \<open>createImportJob\<close>; \<open>unix_now\<close> reads
  the clock.
\<close>

definition import_job :: "'q jobProvider \<Rightarrow> ctx \<Rightarrow> doguPVC list \<Rightarrow> int \<Rightarrow> 'q batch_Job" where
  "import_job j ctx pvcList unixTime =
     (let spec = jp_spec j;
        jobVolumeMounts = collectVolumeMounts
          [createConfigVolumeMount (jobConfigMap spec),
           createDoguVolumeMounts (jp_doguVolumeBasePath j) pvcList,
           createSSHPrivateKeyMount (ssh_SecretName (jp_sshConfig j)) (ssh_SecretDataKey (jp_sshConfig j))
             (PrivateSSHKeyPath (jp_sshConfig j)),
           createApiTlsCaMount (TLSCertificateConfigMapName (jp_apiConfig j)) ''/etc/custom-certs/exporter''];
        name = jobName @ ''-'' @ show_int unixTime in
      \<lparr>j_Name = name,
       j_Labels = [(''app.kubernetes.io/name'', name), (''app.kubernetes.io/instance'', name),
         (''app.kubernetes.io/component'', ''job''), (''app.kubernetes.io/part-of'', ''migration'')],
       j_BackoffLimit = 0,
       j_TTLSecondsAfterFinished = jobTTLCleanupSeconds,
       j_HostNetwork = hostNetwork spec,
       j_Volumes = volumes jobVolumeMounts,
       j_Containers = [\<lparr>c_Name = jobName @ ''-container'', c_Image = imageURL spec,
         c_Env = addFQDNChangeTriggerAsEnv ctx (js_env spec), c_Resources = None,
         c_VolumeMounts = mounts jobVolumeMounts,
         c_ImagePullPolicy = js_imagePullPolicy spec\<rparr>],
       j_RestartPolicy = restartPolicy spec,
       j_ServiceAccountName = serviceAccount spec,
       j_ImagePullSecrets = js_imagePullSecrets spec\<rparr>)"

definition createImportJob ::
    "'q jobProvider \<Rightarrow> (ctx \<Rightarrow> ('w, doguPVC list) go) \<Rightarrow> ('w \<Rightarrow> int) \<Rightarrow> ctx \<Rightarrow> ('w, 'q batch_Job) go" where
  "createImportJob j get_dogu_volumes unix_now ctx =
     andThen (orWrap ''failed to get dogu volumes'' (get_dogu_volumes ctx)) (\<lambda>pvcList.
     andThen get_state (\<lambda>w.
     ret (import_job j ctx pvcList (unix_now w))))"

section \<open>Properties\<close>

lemma import_job_volumes:
  "j_Volumes (import_job j ctx pvcs now) =
     volumes (createConfigVolumeMount (jobConfigMap (jp_spec j))) @
     volumes (createDoguVolumeMounts (jp_doguVolumeBasePath j) pvcs) @
     volumes (createSSHPrivateKeyMount (ssh_SecretName (jp_sshConfig j)) (ssh_SecretDataKey (jp_sshConfig j))
       (PrivateSSHKeyPath (jp_sshConfig j))) @
     volumes (createApiTlsCaMount (TLSCertificateConfigMapName (jp_apiConfig j)) ''/etc/custom-certs/exporter'')"
  "map c_VolumeMounts (j_Containers (import_job j ctx pvcs now)) =
     [mounts (createConfigVolumeMount (jobConfigMap (jp_spec j))) @
     mounts (createDoguVolumeMounts (jp_doguVolumeBasePath j) pvcs) @
     mounts (createSSHPrivateKeyMount (ssh_SecretName (jp_sshConfig j)) (ssh_SecretDataKey (jp_sshConfig j))
       (PrivateSSHKeyPath (jp_sshConfig j))) @
     mounts (createApiTlsCaMount (TLSCertificateConfigMapName (jp_apiConfig j)) ''/etc/custom-certs/exporter'')]"
  by (simp_all add: import_job_def Let_def collectVolumeMounts_def)

lemma import_job_env:
  "map c_Env (j_Containers (import_job j ctx pvcs now)) = [addFQDNChangeTriggerAsEnv ctx (js_env (jp_spec j))]"
  by (simp add: import_job_def Let_def)

lemma data_suffix: "x @ ''-data'' \<noteq> ''config-volume'' \<and> x @ ''-data'' \<noteq> ''ssh-private-key-volume'' \<and>
    x @ ''-data'' \<noteq> ''tls-ca-volume''"
proof -
  have "last (x @ ''-data'') = CHR ''a''" by simp
  then show ?thesis by force
qed

text \<open>
  C27: in the import job every container mounts exactly the declared volumes, in the same
  order, so that no mount dangles and no volume goes unmounted; and the names of the
  volumes are distinct exactly when the dogu names of the claims are.
\<close>

theorem import_job_mounts_match_volumes:
  "map (map vm_Name \<circ> c_VolumeMounts) (j_Containers (import_job j ctx pvcs now)) =
     [map vol_Name (j_Volumes (import_job j ctx pvcs now))] \<and>
   distinct (map vol_Name (j_Volumes (import_job j ctx pvcs now))) = distinct (map doguName pvcs)"
proof
  show "map (map vm_Name \<circ> c_VolumeMounts) (j_Containers (import_job j ctx pvcs now)) =
     [map vol_Name (j_Volumes (import_job j ctx pvcs now))]"
    unfolding map_map [symmetric] import_job_volumes
    by (simp add: createConfigVolumeMount_def createDoguVolumeMounts_def createSSHPrivateKeyMount_def
        createApiTlsCaMount_def Let_def comp_def)
  have "distinct (map (\<lambda>p. doguName p @ ''-data'') pvcs) = distinct (map doguName pvcs)"
    by (simp add: distinct_map inj_on_def)
  then show "distinct (map vol_Name (j_Volumes (import_job j ctx pvcs now))) = distinct (map doguName pvcs)"
    unfolding import_job_volumes using data_suffix
    by (auto simp: createConfigVolumeMount_def createDoguVolumeMounts_def createSSHPrivateKeyMount_def
        createApiTlsCaMount_def Let_def comp_def image_iff) 
qed

text \<open>The environment of a container; a later variable hides an earlier one.\<close>

definition container_environ :: "EnvVar list \<Rightarrow> environ" where
  "container_environ vars = map_of (rev (map (\<lambda>v. (env_Name v, env_Value v)) vars))"

lemma trigger_in_environ:
  "Getenv (container_environ (addFQDNChangeTriggerAsEnv ctx (createContainerEnv os_env key))) envTriggerFQDNChange = ''true'' \<longleftrightarrow>
     IsFinalMigration ctx \<and> TriggerFQDNChange ctx"
  by (simp add: addFQDNChangeTriggerAsEnv_def createContainerEnv_def container_environ_def Getenv_def envTriggerFQDNChange_def
      EnvBaseConfigPathKey_def EnvImporterNamespaceKey_def EnvTimezoneKey_def)

lemma createJobSpec_env: "createJobSpec lib os_env jcCfg key s = (Ok spec, t) \<Longrightarrow> js_env spec = createContainerEnv os_env key"
  by (auto simp: createJobSpec_def ok_iffs)

lemma import_job_trigger:
  assumes "newJobProvider lib os_env deps s = (Ok p, t)" "c \<in> set (j_Containers (import_job p ctx pvcs now))"
  shows "Getenv (container_environ (c_Env c)) envTriggerFQDNChange = ''true'' \<longleftrightarrow> IsFinalMigration ctx \<and> TriggerFQDNChange ctx"
proof -
  from assms(1) obtain key where "js_env (jp_spec p) = createContainerEnv os_env key"
    by (auto simp: newJobProvider_def ok_iffs dest: createJobSpec_env)
  moreover from assms(2) have "c_Env c = addFQDNChangeTriggerAsEnv ctx (js_env (jp_spec p))"
    by (simp add: import_job_def Let_def)
  ultimately show ?thesis by (simp add: trigger_in_environ)
qed

text \<open>
  The FQDN trigger reaches the import job exactly when the migration is a final one
  with the trigger set: the environment of the job's container, read by the job's own
  start-up code, gives a context with the trigger, and no other variable of it does.
\<close>

theorem fqdn_trigger_reaches_job:
  "wp (createJobSpec lib os_env jcCfg key) (\<lambda>r t. case r of
     Ok spec \<Rightarrow> map (\<lambda>c. TriggerFQDNChange (SetTriggerFQDNChangeFromEnv (container_environ (c_Env c)) Background))
         (j_Containers (import_job \<lparr>jp_spec = spec, jp_sshConfig = ssh, jp_apiConfig = api,
           jp_doguVolumeBasePath = base\<rparr> ctx pvcs now)) = [IsFinalMigration ctx \<and> TriggerFQDNChange ctx]
   | _ \<Rightarrow> True) s"
proof -
  let ?trigger = "\<lambda>vars. TriggerFQDNChange (SetTriggerFQDNChangeFromEnv (container_environ vars) Background)"
  have "?trigger (addFQDNChangeTriggerAsEnv ctx (createContainerEnv os_env key)) = (IsFinalMigration ctx \<and> TriggerFQDNChange ctx)"
    using trigger_in_environ [of ctx os_env key] by (simp add: SetTriggerFQDNChangeFromEnv_def)
  then have "map ?trigger (map c_Env (j_Containers (import_job \<lparr>jp_spec = spec, jp_sshConfig = ssh,
        jp_apiConfig = api, jp_doguVolumeBasePath = base\<rparr> ctx pvcs now))) = [IsFinalMigration ctx \<and> TriggerFQDNChange ctx]"
    if "createJobSpec lib os_env jcCfg key s = (Ok spec, t)" for spec t
    using createJobSpec_env [OF that] by (simp add: import_job_env)
  then show ?thesis by (intro wpI) (simp add: comp_def split: result.splits)
qed

text \<open>
  The resource limits and requests are parsed and must parse, but the job does not
  carry them: no container of it has resources, and providers that differ in nothing but
  the resources build the same job.
\<close>

theorem import_job_ignores_resources:
  "(\<exists>c. j_Containers (import_job j ctx pvcs now) = [c] \<and> c_Resources c = None) \<and>
   import_job (j\<lparr>jp_spec := (jp_spec j)\<lparr>js_resources := res\<rparr>\<rparr>) ctx pvcs now = import_job j ctx pvcs now"
  by (simp add: import_job_def Let_def)

end
