(* ===== verification/Dogu_Control.thy ===== *)
theory Dogu_Control imports Migration_Context Domain begin

text \<open>
  Stopping and starting the dogus of the importing system (\<open>api/importer/doguClient.go\<close>).
  The Kubernetes clients, the clock and the name library are parameters. The locale
  \<open>start_stop\<close> is the contract that this control and the blueprint control share.
\<close>

section \<open>The dogu resource and the clients\<close>

text \<open>The fields of the dogu resource that the importer reads or writes.\<close>

record DoguSpec =
  spec_Name :: string
  spec_Stopped :: bool
  spec_MinDataVolumeSize :: int

record Dogu_cr =
  cr_Name :: string
  cr_Spec :: DoguSpec
  cr_InstalledVersion :: string

datatype PodPhase = PodPending | PodRunning | PodSucceeded | PodFailed | PodUnknown

text \<open>
  \<open>select_wait deadline\<close> is the \<open>select\<close> between the end of the context with this deadline
  (\<open>True\<close>) and the end of the poll interval (\<open>False\<close>); \<open>ctx_Err\<close> is the error of the context
  that has ended. Times are in milliseconds.
\<close>

record 'w dogu_api =
  dogu_List :: "('w, Dogu_cr list) go"
  dogu_Get :: "string \<Rightarrow> ('w, Dogu_cr) go"
  UpdateSpecWithRetry :: "Dogu_cr \<Rightarrow> (DoguSpec \<Rightarrow> DoguSpec) \<Rightarrow> ('w, Dogu_cr) go"
  pod_List :: "string \<Rightarrow> ('w, PodPhase list) go"
  DoguLabelName :: string
  clock :: "'w \<Rightarrow> int"
  select_wait :: "int \<Rightarrow> 'w \<Rightarrow> bool \<times> 'w"
  ctx_Err :: "'w \<Rightarrow> err"

section \<open>The model\<close>

definition stopTimeout :: int where "stopTimeout = 5 * 60 * 1000"
definition stopPollInterval :: int where "stopPollInterval = 2 * 1000"

definition countNotTerminatedPods :: "PodPhase list \<Rightarrow> nat" where
  "countNotTerminatedPods pods =
     fold (\<lambda>pod count. if pod \<noteq> PodSucceeded \<and> pod \<noteq> PodFailed then count + 1 else count) pods 0"

definition startStop :: "name_lib \<Rightarrow> 'w dogu_api \<Rightarrow> string \<Rightarrow> bool \<Rightarrow> ('w, unit) go" where
  "startStop nl api exporterDoguName shouldStop =
     andThen (pure (QualifiedNameFromString nl exporterDoguName)) (\<lambda>fullyQualifiedDoguName.
     let doguName = snd fullyQualifiedDoguName in
     handle (dogu_Get api doguName)
       (\<lambda>e. if is_not_found e then ret ()
         else fail (errorf_w (''failed to get dogu '' @ QualifiedName_String nl fullyQualifiedDoguName) e))
       (\<lambda>dogu.
          if spec_Stopped (cr_Spec dogu) = shouldStop then ret () else
          andThen (orWrap (''failed to update dogu '' @ QualifiedName_String nl fullyQualifiedDoguName @
              '' (shouldStop: '' @ (if shouldStop then ''true'' else ''false'') @ '')'')
            (UpdateSpecWithRetry api dogu (\<lambda>spec. spec\<lparr>spec_Stopped := shouldStop\<rparr>))) (\<lambda>_.
          ret ())))"

definition StopDogu :: "name_lib \<Rightarrow> 'w dogu_api \<Rightarrow> string \<Rightarrow> ('w, unit) go" where
  "StopDogu nl api doguName = orWrap ''failed to stop dogu'' (startStop nl api doguName True)"

definition StartDogu :: "name_lib \<Rightarrow> 'w dogu_api \<Rightarrow> string \<Rightarrow> ('w, unit) go" where
  "StartDogu nl api doguName = orWrap ''failed to start dogu'' (startStop nl api doguName False)"

text \<open>
  The poll loop. It has no bound of its own, so that the model has fuel; running out of it
  is the value \<open>Panic out_of_fuel\<close>, which \<open>wait_loop_spec\<close> excludes.
\<close>

definition out_of_fuel :: string where
  "out_of_fuel = ''out of fuel''"

definition dogu_selector :: "'w dogu_api \<Rightarrow> string \<Rightarrow> string" where
  "dogu_selector api doguName = DoguLabelName api @ ''='' @ doguName"

definition wait_or_end :: "'w dogu_api \<Rightarrow> int \<Rightarrow> ('w, bool) go" where
  "wait_or_end api deadline = (\<lambda>w. case select_wait api deadline w of (ended, v) \<Rightarrow> (Ok ended, v))"

fun wait_loop :: "nat \<Rightarrow> 'w dogu_api \<Rightarrow> string \<Rightarrow> int \<Rightarrow> ('w, unit) go" where
  "wait_loop 0 api doguName deadline = panic out_of_fuel"
| "wait_loop (Suc fuel) api doguName deadline =
     andThen (orWrap (''failed to list pods of dogu '' @ doguName)
       (pod_List api (dogu_selector api doguName))) (\<lambda>pods.
     if countNotTerminatedPods pods = 0 then ret () else
     andThen (wait_or_end api deadline) (\<lambda>ended.
     if ended then
       andThen get_state (\<lambda>w.
       fail (errorf_w (''pods of dogu '' @ doguName @ '' did not terminate in time'') (ctx_Err api w)))
     else wait_loop fuel api doguName deadline))"

text \<open>One round more than poll intervals fit into the timeout, and one for the last query.\<close>

definition wait_fuel :: nat where
  "wait_fuel = nat (stopTimeout div stopPollInterval) + 2"

definition waitForDoguPodsTerminated :: "name_lib \<Rightarrow> 'w dogu_api \<Rightarrow> string \<Rightarrow> ('w, unit) go" where
  "waitForDoguPodsTerminated nl api exporterDoguName =
     andThen (pure (QualifiedNameFromString nl exporterDoguName)) (\<lambda>fullyQualifiedDoguName.
     andThen get_state (\<lambda>w.
     wait_loop wait_fuel api (snd fullyQualifiedDoguName) (clock api w + stopTimeout)))"

definition StopAll :: "name_lib \<Rightarrow> 'w dogu_api \<Rightarrow> ctx \<Rightarrow> ('w, unit) go" where
  "StopAll nl api ctx =
     andThen (orWrap ''failed to list all dogus'' (dogu_List api)) (\<lambda>items.
     andThen (for_each (\<lambda>dogu.
       orWrap ''failed to stop dogu'' (StopDogu nl api (spec_Name (cr_Spec dogu)))) items) (\<lambda>_.
     for_each (\<lambda>dogu.
       orWrap ''failed to wait for dogu to stop''
         (waitForDoguPodsTerminated nl api (spec_Name (cr_Spec dogu)))) items))"

definition StartAll :: "name_lib \<Rightarrow> 'w dogu_api \<Rightarrow> ctx \<Rightarrow> ('w, unit) go" where
  "StartAll nl api ctx =
     andThen (orWrap ''failed to list all dogus'' (dogu_List api)) (\<lambda>items.
     for_each (\<lambda>dogu.
       orWrap ''failed to start dogu'' (startStop nl api (spec_Name (cr_Spec dogu)) False)) items)"

section \<open>The contract of starting and stopping\<close>

text \<open>
  What the dogu control and the blueprint control promise of \<open>startStop\<close> when their API
  keeps its own promises: a success leaves the resource in the wanted state if it exists, and
  nothing but this resource is touched however the call ends. \<open>stopped s n\<close> is \<open>None\<close> when
  the resource does not exist.
\<close>

locale start_stop =
  fixes api_ok :: "'api \<Rightarrow> bool"
    and stopped :: "'api \<Rightarrow> 's \<Rightarrow> string \<Rightarrow> bool option"
    and resource :: "'api \<Rightarrow> string \<Rightarrow> string option"
    and startStop :: "'api \<Rightarrow> string \<Rightarrow> bool \<Rightarrow> ('s, 'a) go"
  assumes startStop: "api_ok api \<Longrightarrow> wp (startStop api name b) (\<lambda>r t.
      (\<forall>m. resource api name \<noteq> Some m \<longrightarrow> stopped api t m = stopped api s m) \<and>
      (\<forall>m. resource api name = Some m \<longrightarrow>
         (case r of Ok _ \<Rightarrow> stopped api t m = map_option (\<lambda>_. b) (stopped api s m)
            | _ \<Rightarrow> stopped api t m = None \<longleftrightarrow> stopped api s m = None))) s"
begin

text \<open>A loop over names: every named resource is in the wanted state, the others untouched.\<close>

lemma startStop_all:
  assumes "api_ok api" "\<And>x. alike (f x) (startStop api (name x) b)"
  shows "wp (for_each f xs)
     (\<lambda>r t. case r of
        Ok _ \<Rightarrow> (\<forall>m. stopped api t m =
          (if Some m \<in> (resource api \<circ> name) ` set xs then map_option (\<lambda>_. b) (stopped api s m)
           else stopped api s m))
      | _ \<Rightarrow> (\<forall>m. Some m \<notin> (resource api \<circ> name) ` set xs \<longrightarrow> stopped api t m = stopped api s m)) s"
    (is "wp _ (\<lambda>r t. case r of Ok _ \<Rightarrow> ?I xs t | _ \<Rightarrow> ?E t) s")
proof (rule wp_mono [OF wp_for_each [where I = "?I" and E = "\<lambda>r t. ?E t"]])
  fix ys x zs t
  assume xs: "xs = ys @ x # zs" and I: "?I ys t"
  obtain r u where run: "f x t = (r, u)" by fastforce
  obtain q where q: "startStop api (name x) b t = (q, u)" "(\<exists>a. r = Ok a) = (\<exists>a. q = Ok a)"
    using alikeE [OF assms(2) run] by blast
  have other: "resource api (name x) \<noteq> Some m \<Longrightarrow> stopped api u m = stopped api t m" for m
    using wpD [OF startStop [OF assms(1)] q(1)] by auto
  have same: "resource api (name x) = Some m \<Longrightarrow> r = Ok a \<Longrightarrow>
      stopped api u m = map_option (\<lambda>_. b) (stopped api t m)" for m a
    using wpD [OF startStop [OF assms(1)] q(1)] q(2) by auto
  have "?I (ys @ [x]) u" if "r = Ok a" for a
  proof
    fix m
    show "stopped api u m = (if Some m \<in> (resource api \<circ> name) ` set (ys @ [x])
      then map_option (\<lambda>_. b) (stopped api s m) else stopped api s m)"
      using I other [of m] same [OF _ that, of m]
      by (cases "resource api (name x) = Some m") (auto simp: option.map_comp comp_def)
  qed
  moreover have "?E u"
  proof (intro allI impI)
    fix m assume "Some m \<notin> (resource api \<circ> name) ` set xs"
    then have "Some m \<notin> (resource api \<circ> name) ` set ys" "resource api (name x) \<noteq> Some m"
      by (auto simp: xs)
    with I other show "stopped api u m = stopped api s m" by simp
  qed
  ultimately show "wp (f x) (\<lambda>r t. case r of Ok _ \<Rightarrow> ?I (ys @ [x]) t | _ \<Rightarrow> ?E t) t"
    by (simp add: wp_eq [where m = "f x", OF run] split: result.splits)
qed (auto split: result.splits)

end

section \<open>The Kubernetes cluster\<close>

text \<open>
  What the theorems need of the cluster: for each dogu resource whether it is stopped, and
  for each dogu name how many of its pods may still be running.
\<close>

record 'w dogu_view =
  stopped_in :: "'w \<Rightarrow> string \<Rightarrow> bool option"
  live_pods :: "'w \<Rightarrow> string \<Rightarrow> nat"

definition at_rest :: "'w dogu_view \<Rightarrow> 'w \<Rightarrow> string \<Rightarrow> bool" where
  "at_rest v w n \<longleftrightarrow> stopped_in v w n \<noteq> Some False \<and> live_pods v w n = 0"

text \<open>
  The phases of the Kubernetes API in which containers of a pod may run. A pod that is being
  deleted keeps its phase until its containers have ended.
\<close>

fun may_run :: "PodPhase \<Rightarrow> bool" where
  "may_run PodPending = True"
| "may_run PodRunning = True"
| "may_run PodUnknown = True"
| "may_run PodSucceeded = False"
| "may_run PodFailed = False"

lemma may_run_iff: "may_run p \<longleftrightarrow> p \<noteq> PodSucceeded \<and> p \<noteq> PodFailed"
  by (cases p) simp_all

lemma countNotTerminatedPods_eq: "countNotTerminatedPods pods = length (filter may_run pods)"
proof -
  have "fold (\<lambda>pod count. if pod \<noteq> PodSucceeded \<and> pod \<noteq> PodFailed then count + 1 else count) pods n =
      n + length (filter may_run pods)" for n :: nat
    by (induction pods arbitrary: n) (auto simp: may_run_iff)
  then show ?thesis by (simp add: countNotTerminatedPods_def)
qed

text \<open>A dogu that is stopped and has no running pod gets none while it is not started.\<close>

definition quiet :: "'w dogu_view \<Rightarrow> 'w \<Rightarrow> 'w \<Rightarrow> bool" where
  "quiet v w w' \<longleftrightarrow> stopped_in v w' = stopped_in v w \<and> (\<forall>n. at_rest v w n \<longrightarrow> at_rest v w' n)"

text \<open>
  The documented behaviour of the clients, for a cluster in which only the importer starts
  and stops dogus: \<open>List\<close> gives every dogu resource, and its name is the simple name of its
  dogu; \<open>Get\<close> gives the current resource, a not-found error means there is none;
  \<open>UpdateSpecWithRetry\<close> applies the function to the current spec and touches no other
  resource, also when it fails; \<open>List\<close> of the pods gives those with the dogu's label; the
  \<open>select\<close> ends with the context once its deadline has passed and otherwise takes at least
  the poll interval. The clock does not run backwards.
\<close>

record 'w dogu_env =
  de_names :: name_lib
  de_api :: "'w dogu_api"
  de_view :: "'w dogu_view"

definition dogu_list_ok :: "'w dogu_env \<Rightarrow> bool" where
  "dogu_list_ok E \<longleftrightarrow> (\<forall>w. wp (dogu_List (de_api E)) (\<lambda>r v. quiet (de_view E) w v \<and>
     (case r of Ok ds \<Rightarrow>
        (\<forall>d \<in> set ds. \<exists>ns. QualifiedNameFromString (de_names E) (spec_Name (cr_Spec d)) = Inr (ns, cr_Name d)) \<and>
        (\<forall>n. stopped_in (de_view E) w n \<noteq> None \<longrightarrow> n \<in> cr_Name ` set ds)
      | _ \<Rightarrow> True)) w)"

definition dogu_get_ok :: "'w dogu_env \<Rightarrow> bool" where
  "dogu_get_ok E \<longleftrightarrow> (\<forall>n w. wp (dogu_Get (de_api E) n) (\<lambda>r v. quiet (de_view E) w v \<and>
     (case r of Ok d \<Rightarrow> cr_Name d = n \<and> stopped_in (de_view E) w n = Some (spec_Stopped (cr_Spec d))
      | Err e \<Rightarrow> \<not> is_not_found e \<or> stopped_in (de_view E) w n = None
      | _ \<Rightarrow> True)) w)"

definition dogu_update_ok :: "'w dogu_env \<Rightarrow> bool" where
  "dogu_update_ok E \<longleftrightarrow> (\<forall>d f w. wp (UpdateSpecWithRetry (de_api E) d f) (\<lambda>r v.
     (\<forall>m. m \<noteq> cr_Name d \<longrightarrow> stopped_in (de_view E) v m = stopped_in (de_view E) w m) \<and>
     (stopped_in (de_view E) v (cr_Name d) = None \<longleftrightarrow> stopped_in (de_view E) w (cr_Name d) = None) \<and>
     (case r of Ok _ \<Rightarrow> stopped_in (de_view E) w (cr_Name d) = None \<or>
         (\<exists>spec. stopped_in (de_view E) v (cr_Name d) = Some (spec_Stopped (f spec)))
      | _ \<Rightarrow> True)) w)"

definition pod_list_ok :: "'w dogu_env \<Rightarrow> bool" where
  "pod_list_ok E \<longleftrightarrow> (\<forall>n w. wp (pod_List (de_api E) (dogu_selector (de_api E) n)) (\<lambda>r v.
     quiet (de_view E) w v \<and> clock (de_api E) w \<le> clock (de_api E) v \<and> r \<noteq> Panic out_of_fuel \<and>
     (case r of Ok pods \<Rightarrow> live_pods (de_view E) v n = length (filter may_run pods) | _ \<Rightarrow> True)) w)"

definition select_ok :: "'w dogu_env \<Rightarrow> bool" where
  "select_ok E \<longleftrightarrow> (\<forall>deadline w. case select_wait (de_api E) deadline w of (ended, v) \<Rightarrow>
     quiet (de_view E) w v \<and>
     (if ended then True
      else clock (de_api E) w < deadline \<and> clock (de_api E) w + stopPollInterval \<le> clock (de_api E) v))"

definition dogu_env_ok :: "'w dogu_env \<Rightarrow> bool" where
  "dogu_env_ok E \<longleftrightarrow> dogu_list_ok E \<and> dogu_get_ok E \<and> dogu_update_ok E \<and> pod_list_ok E \<and> select_ok E"

definition dogu_resource :: "'w dogu_env \<Rightarrow> string \<Rightarrow> string option" where
  "dogu_resource E name = (case QualifiedNameFromString (de_names E) name of
     Inl _ \<Rightarrow> None | Inr (ns, n) \<Rightarrow> Some n)"

interpretation dogus: start_stop dogu_env_ok "\<lambda>E. stopped_in (de_view E)" dogu_resource
  "\<lambda>E. startStop (de_names E) (de_api E)"
proof
  fix E :: "'w dogu_env" and name b s
  assume ok: "dogu_env_ok E"
  show "wp (startStop (de_names E) (de_api E) name b) (\<lambda>r t.
      (\<forall>m. dogu_resource E name \<noteq> Some m \<longrightarrow> stopped_in (de_view E) t m = stopped_in (de_view E) s m) \<and>
      (\<forall>m. dogu_resource E name = Some m \<longrightarrow>
        (case r of Ok _ \<Rightarrow> stopped_in (de_view E) t m = map_option (\<lambda>_. b) (stopped_in (de_view E) s m)
           | _ \<Rightarrow> stopped_in (de_view E) t m = None \<longleftrightarrow> stopped_in (de_view E) s m = None))) s"
  proof (cases "QualifiedNameFromString (de_names E) name")
    case (Inl e)
    then show ?thesis by (simp add: startStop_def dogu_resource_def)
  next
    case (Inr q)
    obtain ns n where q: "q = (ns, n)" by fastforce
    with Inr have res: "dogu_resource E name = Some n" by (simp add: dogu_resource_def)
    obtain r t where get: "dogu_Get (de_api E) n s = (r, t)" by fastforce
    then have t: "stopped_in (de_view E) t = stopped_in (de_view E) s"
      and r: "case r of Ok d \<Rightarrow> cr_Name d = n \<and> stopped_in (de_view E) s n = Some (spec_Stopped (cr_Spec d))
         | Err e \<Rightarrow> \<not> is_not_found e \<or> stopped_in (de_view E) s n = None | _ \<Rightarrow> True"
      using ok wpD [where m = "dogu_Get (de_api E) n", OF _ get] unfolding dogu_env_ok_def dogu_get_ok_def quiet_def by blast+
    show ?thesis
    proof (cases "\<exists>d. r = Ok d \<and> spec_Stopped (cr_Spec d) \<noteq> b")
      case True
      then obtain d where d: "r = Ok d" "spec_Stopped (cr_Spec d) \<noteq> b" by blast
      let ?f = "\<lambda>spec. spec\<lparr>spec_Stopped := b\<rparr>"
      obtain r2 u where upd: "UpdateSpecWithRetry (de_api E) d ?f t = (r2, u)" by fastforce
      have u: "\<forall>m. m \<noteq> cr_Name d \<longrightarrow> stopped_in (de_view E) u m = stopped_in (de_view E) t m"
        "stopped_in (de_view E) u (cr_Name d) = None \<longleftrightarrow> stopped_in (de_view E) t (cr_Name d) = None"
        "case r2 of Ok _ \<Rightarrow> stopped_in (de_view E) t (cr_Name d) = None \<or>
           stopped_in (de_view E) u (cr_Name d) = Some b | _ \<Rightarrow> True"
        using ok wpD [where m = "UpdateSpecWithRetry (de_api E) d ?f", OF _ upd] unfolding dogu_env_ok_def dogu_update_ok_def by force+
      with d r t q res show ?thesis
        by (cases r2) (auto simp: startStop_def Inr wp_eq [where m = "dogu_Get (de_api E) n", OF get]
            wp_eq [where m = "UpdateSpecWithRetry (de_api E) d ?f", OF upd])
    next
      case False
      with r t q res show ?thesis
        by (cases r) (auto simp: startStop_def Inr wp_eq [where m = "dogu_Get (de_api E) n", OF get])
    qed
  qed
qed

section \<open>The poll loop\<close>

lemma wp_wait_or_end [wp, simp]:
  "wp (wait_or_end api deadline) Q w =
     (case select_wait api deadline w of (ended, v) \<Rightarrow> Q (Ok ended) v)"
  by (simp add: wait_or_end_def wp_def split: prod.splits)

lemma quiet_refl [simp]: "quiet v w w"
  by (simp add: quiet_def)

lemma quiet_trans [trans]: "quiet v a b \<Longrightarrow> quiet v b c \<Longrightarrow> quiet v a c"
  by (simp add: quiet_def)

lemma wait_loop_spec:
  assumes E: "dogu_env_ok E"
    and "fuel > 0" "deadline \<le> clock (de_api E) w + int (fuel - 1) * stopPollInterval"
  shows "wp (wait_loop fuel (de_api E) n deadline) (\<lambda>r t. r \<noteq> Panic out_of_fuel \<and>
     quiet (de_view E) w t \<and> (case r of Ok _ \<Rightarrow> live_pods (de_view E) t n = 0 | _ \<Rightarrow> True)) w"
  using assms(2,3)
proof (induction fuel arbitrary: w)
  case (Suc fuel)
  let ?l = "pod_List (de_api E) (dogu_selector (de_api E) n)"
  obtain r v where l: "?l w = (r, v)" by fastforce
  have v: "quiet (de_view E) w v" "clock (de_api E) w \<le> clock (de_api E) v" "r \<noteq> Panic out_of_fuel"
    "case r of Ok pods \<Rightarrow> live_pods (de_view E) v n = countNotTerminatedPods pods | _ \<Rightarrow> True"
    using E wpD [where m = ?l, OF _ l] unfolding countNotTerminatedPods_eq dogu_env_ok_def pod_list_ok_def by blast+
  show ?case
  proof (cases "\<exists>pods. r = Ok pods \<and> countNotTerminatedPods pods \<noteq> 0")
    case True
    then obtain pods where pods: "r = Ok pods" "countNotTerminatedPods pods \<noteq> 0" by blast
    obtain ended u where sel: "select_wait (de_api E) deadline v = (ended, u)" by fastforce
    have u: "quiet (de_view E) v u" "if ended then True
      else clock (de_api E) v < deadline \<and> clock (de_api E) v + stopPollInterval \<le> clock (de_api E) u"
      using E sel unfolding dogu_env_ok_def select_ok_def by (metis (no_types, lifting) case_prodD)+
    note quiet_trans [OF v(1) u(1)]
    show ?thesis
    proof (cases ended)
      case True
      with pods u(1) v sel \<open>quiet (de_view E) w u\<close> show ?thesis
        by (simp add: wp_eq [where m = ?l, OF l])
    next
      case False
      with Suc.prems u(2) v(2) have "fuel > 0" and
        "deadline \<le> clock (de_api E) u + int (fuel - 1) * stopPollInterval"
        by (cases fuel; simp add: algebra_simps)+
      from Suc.IH [OF this] \<open>quiet (de_view E) w u\<close> False pods sel show ?thesis
        by (simp add: wp_eq [where m = ?l, OF l])
          (erule wp_mono, blast intro: quiet_trans)
    qed
  next
    case False
    with v show ?thesis by (cases r) (simp_all add: wp_eq [where m = ?l, OF l])
  qed
qed simp

lemma wait_spec:
  assumes "dogu_env_ok E"
  shows "wp (waitForDoguPodsTerminated (de_names E) (de_api E) name) (\<lambda>r t. r \<noteq> Panic out_of_fuel \<and>
     quiet (de_view E) w t \<and>
     (case r of Ok _ \<Rightarrow> \<exists>n. dogu_resource E name = Some n \<and> live_pods (de_view E) t n = 0 | _ \<Rightarrow> True)) w"
proof (cases "QualifiedNameFromString (de_names E) name")
  case (Inr q)
  have "wp (wait_loop wait_fuel (de_api E) (snd q) (clock (de_api E) w + stopTimeout)) (\<lambda>r t.
     r \<noteq> Panic out_of_fuel \<and> quiet (de_view E) w t \<and>
     (case r of Ok _ \<Rightarrow> live_pods (de_view E) t (snd q) = 0 | _ \<Rightarrow> True)) w"
    by (rule wait_loop_spec [OF assms]) (simp_all add: wait_fuel_def stopTimeout_def stopPollInterval_def)
  with Inr show ?thesis
    by (cases q) (auto simp: waitForDoguPodsTerminated_def dogu_resource_def elim!: wp_mono
      split: result.splits)
qed (simp add: waitForDoguPodsTerminated_def)

section \<open>A concrete cluster\<close>

text \<open>
  For the witnesses: one dogu, whose pods end within a poll interval once it is stopped. The
  state is whether it is stopped, the number of its pods and the time.
\<close>

type_synonym sample_world = "bool \<times> nat \<times> int"

definition sample_cr :: "sample_world \<Rightarrow> Dogu_cr" where
  "sample_cr w = \<lparr>cr_Name = ''ldap'', cr_Spec = \<lparr>spec_Name = ''official/ldap'',
     spec_Stopped = fst w, spec_MinDataVolumeSize = 0\<rparr>, cr_InstalledVersion = ''1''\<rparr>"

definition sample_dogu_api :: "sample_world dogu_api" where
  "sample_dogu_api = \<lparr>
     dogu_List = (\<lambda>w. (Ok [sample_cr w], w)),
     dogu_Get = (\<lambda>n w. if n = ''ldap'' then (Ok (sample_cr w), w)
       else (Err (StatusError NotFound ''not found''), w)),
     UpdateSpecWithRetry = (\<lambda>d f w. if cr_Name d = ''ldap''
       then (Ok d, (spec_Stopped (f (cr_Spec (sample_cr w))), snd w))
       else (Err (StatusError NotFound ''not found''), w)),
     pod_List = (\<lambda>sel w. (Ok (if sel = ''dogu.name=ldap'' then replicate (fst (snd w)) PodRunning else []), w)),
     DoguLabelName = ''dogu.name'',
     clock = (\<lambda>w. snd (snd w)),
     select_wait = (\<lambda>deadline w. if deadline \<le> snd (snd w) then (True, w)
       else (False, (fst w, if fst w then 0 else fst (snd w), snd (snd w) + stopPollInterval))),
     ctx_Err = (\<lambda>w. DeadlineExceeded)\<rparr>"

definition sample_dogu_env :: "sample_world dogu_env" where
  "sample_dogu_env = \<lparr>de_names = sample_names, de_api = sample_dogu_api,
     de_view = \<lparr>stopped_in = (\<lambda>w n. if n = ''ldap'' then Some (fst w) else None),
       live_pods = (\<lambda>w n. if n = ''ldap'' then fst (snd w) else 0)\<rparr>\<rparr>"

lemma sample_dogu_env_parts:
  "de_names sample_dogu_env = sample_names" "de_api sample_dogu_env = sample_dogu_api"
  by (simp_all add: sample_dogu_env_def)

lemma sample_name: "QualifiedNameFromString sample_names ''official/ldap'' = Inr (''official'', ''ldap'')"
  by code_simp

lemma sample_pods: "length (filter may_run (replicate n PodRunning)) = n"
  by (simp add: filter_replicate)

lemma sample_dogu_env_ok: "dogu_env_ok sample_dogu_env"
  unfolding dogu_env_ok_def
proof (intro conjI)
  show "dogu_list_ok sample_dogu_env"
    by (auto simp: dogu_list_ok_def wp_def sample_dogu_env_def sample_dogu_api_def sample_cr_def sample_name)
  show "dogu_get_ok sample_dogu_env"
    by (auto simp: dogu_get_ok_def wp_def sample_dogu_env_def sample_dogu_api_def sample_cr_def)
  show "dogu_update_ok sample_dogu_env"
    by (auto simp: dogu_update_ok_def wp_def sample_dogu_env_def sample_dogu_api_def)
  show "pod_list_ok sample_dogu_env"
    by (auto simp: pod_list_ok_def wp_def sample_dogu_env_def sample_dogu_api_def dogu_selector_def sample_pods)
  show "select_ok sample_dogu_env"
    by (auto simp: select_ok_def sample_dogu_env_def sample_dogu_api_def quiet_def at_rest_def)
qed

section \<open>Properties\<close>

text \<open>
  C21: waiting for the pods of a dogu ends: 152 rounds of the poll loop are enough for the
  five minutes of the timeout, so that it returns or fails. When it returns without an
  error, no pod of the dogu was running in the last answer, and waiting itself neither
  starts nor stops a dogu.
\<close>

theorem waiting_for_pods_ends:
  assumes "dogu_env_ok E"
  shows "wp (waitForDoguPodsTerminated (de_names E) (de_api E) name) (\<lambda>r t. r \<noteq> Panic out_of_fuel \<and>
     quiet (de_view E) w t \<and>
     (case r of Ok _ \<Rightarrow> \<exists>n. dogu_resource E name = Some n \<and> live_pods (de_view E) t n = 0 | _ \<Rightarrow> True)) w"
  by (rule wait_spec [OF assms])

theorem waiting_for_pods_ends_witness:
  "waitForDoguPodsTerminated sample_names sample_dogu_api ''official/ldap'' (True, 2, 0) =
     (Ok (), (True, 0, 2000)) \<and>
   quiet (de_view sample_dogu_env) (True, 2, 0) (True, 0, 2000)"
proof -
  have run: "waitForDoguPodsTerminated sample_names sample_dogu_api ''official/ldap'' (True, 2, 0) =
      (Ok (), (True, 0, 2000))" by code_simp
  from waiting_for_pods_ends [OF sample_dogu_env_ok, of "''official/ldap''" "(True, 2, 0)"]
  have "quiet (de_view sample_dogu_env) (True, 2, 0) (True, 0, 2000)"
    unfolding sample_dogu_env_parts wp_def run prod.case by (elim conjE)
  with run show ?thesis by (intro conjI)
qed

lemma startStop_stop_alike:
  "alike (orWrap p (StopDogu nl api n)) (startStop nl api n True)"
  "alike (orWrap p (startStop nl api n b)) (startStop nl api n b)"
  unfolding StopDogu_def by (intro alike_orWrap alike_refl)+

text \<open>Waiting for one dogu after the other keeps those at rest that are.\<close>

lemma wait_all:
  assumes E: "dogu_env_ok E"
    and res: "\<And>d. d \<in> set ds \<Longrightarrow> dogu_resource E (name d) = Some (cr_Name d)"
    and stopped: "\<And>d. d \<in> set ds \<Longrightarrow> stopped_in (de_view E) v (cr_Name d) \<noteq> Some False"
  shows "wp (for_each (\<lambda>d. orWrap p (waitForDoguPodsTerminated (de_names E) (de_api E) (name d))) ds)
     (\<lambda>r t. case r of Ok _ \<Rightarrow> quiet (de_view E) v t \<and> (\<forall>d \<in> set ds. at_rest (de_view E) t (cr_Name d))
        | _ \<Rightarrow> True) v"
proof (rule wp_for_each [where E = "\<lambda>_ _. True"])
  fix ys x zs t
  assume ds: "ds = ys @ x # zs"
    and I: "quiet (de_view E) v t \<and> (\<forall>d \<in> set ys. at_rest (de_view E) t (cr_Name d))"
  obtain r u where run: "waitForDoguPodsTerminated (de_names E) (de_api E) (name x) t = (r, u)" by fastforce
  from wpD [OF wait_spec [OF E] run] have u: "quiet (de_view E) t u"
    and r: "case r of Ok _ \<Rightarrow> \<exists>n. dogu_resource E (name x) = Some n \<and> live_pods (de_view E) u n = 0
      | _ \<Rightarrow> True" by blast+
  have q: "quiet (de_view E) v u" using I u by (blast intro: quiet_trans)
  have ys: "\<forall>d \<in> set ys. at_rest (de_view E) u (cr_Name d)" using I u by (simp add: quiet_def)
  have "at_rest (de_view E) u (cr_Name x)" if "r = Ok a" for a
    using r that res [of x] stopped [of x] q ds by (simp add: at_rest_def quiet_def)
  with q ys show "wp (orWrap p (waitForDoguPodsTerminated (de_names E) (de_api E) (name x)))
     (\<lambda>r t. case r of Ok _ \<Rightarrow> quiet (de_view E) v t \<and>
        (\<forall>d \<in> set (ys @ [x]). at_rest (de_view E) t (cr_Name d)) | _ \<Rightarrow> True) t"
    by (cases r) (auto simp: wp_eq
      [where m = "waitForDoguPodsTerminated (de_names E) (de_api E) (name x)", OF run])
qed simp

lemma dogu_listE:
  assumes E: "dogu_env_ok E" and l: "dogu_List (de_api E) s = (r, u)"
  shows "stopped_in (de_view E) u = stopped_in (de_view E) s"
    and "r = Ok ds \<Longrightarrow> d \<in> set ds \<Longrightarrow> dogu_resource E (spec_Name (cr_Spec d)) = Some (cr_Name d)"
    and "r = Ok ds \<Longrightarrow> stopped_in (de_view E) s n \<noteq> None \<Longrightarrow>
      Some n \<in> (dogu_resource E \<circ> (\<lambda>d. spec_Name (cr_Spec d))) ` set ds"
proof -
  have L: "quiet (de_view E) s u \<and> (case r of Ok ds \<Rightarrow>
        (\<forall>d \<in> set ds. \<exists>ns. QualifiedNameFromString (de_names E) (spec_Name (cr_Spec d)) = Inr (ns, cr_Name d)) \<and>
        (\<forall>n. stopped_in (de_view E) s n \<noteq> None \<longrightarrow> n \<in> cr_Name ` set ds) | _ \<Rightarrow> True)"
    using E wpD [where m = "dogu_List (de_api E)", OF _ l]
    unfolding dogu_env_ok_def dogu_list_ok_def by blast
  then show "stopped_in (de_view E) u = stopped_in (de_view E) s" by (simp add: quiet_def)
  show res: "dogu_resource E (spec_Name (cr_Spec d)) = Some (cr_Name d)" if "r = Ok ds" "d \<in> set ds" for ds d
    using L that by (auto simp: dogu_resource_def split: sum.splits)
  show "Some n \<in> (dogu_resource E \<circ> (\<lambda>d. spec_Name (cr_Spec d))) ` set ds"
    if "r = Ok ds" "stopped_in (de_view E) s n \<noteq> None"
    using L that res by (force simp: image_iff)
qed

text \<open>All resources are stopped first, then the pods of each are waited for.\<close>

lemma StopAll_rest:
  assumes E: "dogu_env_ok E"
  shows "wp (StopAll (de_names E) (de_api E) ctx) (\<lambda>r t. case r of
     Ok _ \<Rightarrow> \<forall>n. (case stopped_in (de_view E) s n of
        None \<Rightarrow> stopped_in (de_view E) t n = None
      | Some _ \<Rightarrow> stopped_in (de_view E) t n = Some True \<and> live_pods (de_view E) t n = 0)
   | _ \<Rightarrow> True) s"
proof -
  obtain r u where l: "dogu_List (de_api E) s = (r, u)" by fastforce
  note L = dogu_listE [OF E l]
  let ?name = "\<lambda>d. spec_Name (cr_Spec d)"
  let ?stop = "\<lambda>d. orWrap ''failed to stop dogu'' (StopDogu (de_names E) (de_api E) (?name d))"
  show ?thesis
  proof (cases r)
    case (Ok ds)
    obtain r2 v where stop: "for_each ?stop ds u = (r2, v)" by fastforce
    note all = wpD [where m = "for_each ?stop ds",
      OF dogus.startStop_all [OF E startStop_stop_alike(1), where name = ?name] stop]
    show ?thesis
    proof (cases r2)
      case r2: (Ok x)
      have v: "stopped_in (de_view E) v n = map_option (\<lambda>_. True) (stopped_in (de_view E) s n)" for n
        using all [unfolded r2 result.case, rule_format, of n] L(1) L(3) [OF Ok, of n]
        by (cases "stopped_in (de_view E) s n") auto
      have named: "\<exists>d \<in> set ds. n = cr_Name d" if "stopped_in (de_view E) s n = Some y" for n y
        using L(3) [OF Ok, of n] L(2) [OF Ok] that by (auto simp: image_iff)
      have halted: "stopped_in (de_view E) v (cr_Name d) \<noteq> Some False" for d
        by (simp add: v)
      have final: "case stopped_in (de_view E) s n of
            None \<Rightarrow> stopped_in (de_view E) t n = None
          | Some _ \<Rightarrow> stopped_in (de_view E) t n = Some True \<and> live_pods (de_view E) t n = 0"
        if "quiet (de_view E) v t" "\<forall>d \<in> set ds. at_rest (de_view E) t (cr_Name d)" for t n
        using that named [of n] v [of n]
        by (cases "stopped_in (de_view E) s n") (auto simp: quiet_def at_rest_def)
      have "wp (for_each (\<lambda>d. orWrap ''failed to wait for dogu to stop''
          (waitForDoguPodsTerminated (de_names E) (de_api E) (?name d))) ds)
        (\<lambda>r t. case r of Ok _ \<Rightarrow> \<forall>n. (case stopped_in (de_view E) s n of
            None \<Rightarrow> stopped_in (de_view E) t n = None
          | Some _ \<Rightarrow> stopped_in (de_view E) t n = Some True \<and> live_pods (de_view E) t n = 0)
         | _ \<Rightarrow> True) v"
        by (rule wp_mono_Ok [OF wait_all [OF E]]) (use L(2) [OF Ok] halted final in auto)
      then show ?thesis
        by (simp add: StopAll_def wp_eq [where m = "dogu_List (de_api E)", OF l] Ok
            wp_eq [where m = "for_each ?stop ds", OF stop] r2)
    qed (simp_all add: StopAll_def wp_eq [where m = "dogu_List (de_api E)", OF l] Ok
        wp_eq [where m = "for_each ?stop ds", OF stop])
  qed (simp_all add: StopAll_def wp_eq [where m = "dogu_List (de_api E)", OF l])
qed

text \<open>
  C20: when \<open>StopAll\<close> returns without an error, every dogu of the importing system is
  stopped and none of its pods is running, in the state that the migration job then
  finds.
\<close>

theorem StopAll_leaves_dogus_at_rest:
  assumes E: "dogu_env_ok E"
  shows "wp (StopAll (de_names E) (de_api E) ctx) (\<lambda>r t. case r of
     Ok _ \<Rightarrow> \<forall>n. (case stopped_in (de_view E) s n of
        None \<Rightarrow> stopped_in (de_view E) t n = None
      | Some _ \<Rightarrow> stopped_in (de_view E) t n = Some True \<and> live_pods (de_view E) t n = 0)
   | _ \<Rightarrow> True) s"
  by (rule StopAll_rest [OF E])

theorem StopAll_leaves_dogus_at_rest_witness:
  "StopAll sample_names sample_dogu_api Background (False, 2, 0) = (Ok (), (True, 0, 2000)) \<and>
   live_pods (de_view sample_dogu_env) (True, 0, 2000) ''ldap'' = 0"
proof -
  have run: "StopAll sample_names sample_dogu_api Background (False, 2, 0) = (Ok (), (True, 0, 2000))"
    by code_simp
  from StopAll_leaves_dogus_at_rest [OF sample_dogu_env_ok, of Background "(False, 2, 0)"]
  have "live_pods (de_view sample_dogu_env) (True, 0, 2000) ''ldap'' = 0"
    unfolding sample_dogu_env_parts wp_def run prod.case result.case
    by (elim allE [of _ "''ldap''"]) (simp add: sample_dogu_env_def)
  with run show ?thesis by (intro conjI)
qed

text \<open>
  C22: when \<open>StartAll\<close> returns without an error, every dogu of the importing system is
  marked as started.
\<close>

theorem StartAll_starts_every_dogu:
  assumes E: "dogu_env_ok E"
  shows "wp (StartAll (de_names E) (de_api E) ctx) (\<lambda>r t. case r of
     Ok _ \<Rightarrow> \<forall>n. stopped_in (de_view E) t n = map_option (\<lambda>_. False) (stopped_in (de_view E) s n)
   | _ \<Rightarrow> True) s"
proof -
  obtain r u where l: "dogu_List (de_api E) s = (r, u)" by fastforce
  note L = dogu_listE [OF E l]
  show ?thesis
  proof (cases r)
    case (Ok ds)
    let ?start = "\<lambda>d. orWrap ''failed to start dogu''
        (startStop (de_names E) (de_api E) (spec_Name (cr_Spec d)) False)"
    obtain r2 v where start: "for_each ?start ds u = (r2, v)" by fastforce
    note all = wpD [where m = "for_each ?start ds", OF dogus.startStop_all
        [OF E startStop_stop_alike(2), where name = "\<lambda>d. spec_Name (cr_Spec d)"] start]
    have "stopped_in (de_view E) v n = map_option (\<lambda>_. False) (stopped_in (de_view E) s n)"
      if "r2 = Ok x" for n x
      using all [unfolded that result.case, rule_format, of n] L(1) L(3) [OF Ok, of n]
      by (cases "stopped_in (de_view E) s n") auto
    then show ?thesis
      by (cases r2) (simp_all add: StartAll_def wp_eq [where m = "dogu_List (de_api E)", OF l] Ok
          wp_eq [where m = "for_each ?start ds", OF start])
  qed (simp_all add: StartAll_def wp_eq [where m = "dogu_List (de_api E)", OF l])
qed

theorem StartAll_starts_every_dogu_witness:
  "StartAll sample_names sample_dogu_api Background (True, 0, 0) = (Ok (), (False, 0, 0)) \<and>
   stopped_in (de_view sample_dogu_env) (False, 0, 0) ''ldap'' = Some False"
proof -
  have run: "StartAll sample_names sample_dogu_api Background (True, 0, 0) = (Ok (), (False, 0, 0))"
    by code_simp
  from StartAll_starts_every_dogu [OF sample_dogu_env_ok, of Background "(True, 0, 0)"]
  have "stopped_in (de_view sample_dogu_env) (False, 0, 0) ''ldap'' = Some False"
    unfolding sample_dogu_env_parts wp_def run prod.case result.case
    by (elim allE [of _ "''ldap''"]) (simp add: sample_dogu_env_def)
  with run show ?thesis by (intro conjI)
qed

end
