(* ===== verification/Job_Service.thy ===== *)
theory Job_Service imports Job_Provider Dogu_Control begin

text \<open>
  Running the import job (\<open>migration/jobService.go\<close>): submitting it, watching it until it
  ends, and copying its log meanwhile. The events of a watch are given as the list of those
  that arrive before the channel is closed; a watch that blocks forever has no run here. The goroutine
  that copies the log and the loop over the events are interleaved by a scheduler.
\<close>

section \<open>Watch events\<close>

datatype event_type = Added | Modified | Deleted | Bookmark | Error

text \<open>The object of an event: a job with its counters, a status with its message, or another.\<close>

datatype event_object = JobObject string int int | StatusObject string | OtherObject string

fun type_name :: "event_object \<Rightarrow> string" where
  "type_name (JobObject _ _ _) = ''*v1.Job''"
| "type_name (StatusObject _) = ''*v1.Status''"
| "type_name (OtherObject T) = T"

record watch_event =
  ev_Type :: event_type
  ev_Object :: event_object

definition handleWatchError :: "watch_event \<Rightarrow> err" where
  "handleWatchError event = (case ev_Object event of
     StatusObject message \<Rightarrow> ErrorString message
   | obj \<Rightarrow> ErrorString (''failed to cast event object to status: '' @ type_name obj))"

text \<open>
  One event: \<open>None\<close> when the loop goes on, otherwise the value of \<open>errWatch\<close> with which a \<open>break\<close>
  leaves it.
\<close>

definition event_verdict :: "watch_event \<Rightarrow> string \<Rightarrow> err option option" where
  "event_verdict event name =
     (if ev_Type event = Error then Some (Some (handleWatchError event))
      else if ev_Type event = Deleted
        then Some (Some (ErrorString (''job has been deleted during migration: '' @ name)))
      else case ev_Object event of
        JobObject n succeeded failed \<Rightarrow>
          if n \<noteq> name then Some None
          else if succeeded > 0 then Some None
          else if failed > 0 then Some (Some (ErrorString (''job '' @ n @ '' failed'')))
          else None
      | obj \<Rightarrow> Some (Some (ErrorString (''received unexpected event type during watch of job: '' @ type_name obj))))"

fun watchEvents :: "watch_event list \<Rightarrow> string \<Rightarrow> err option" where
  "watchEvents [] name = None"
| "watchEvents (event # resultChan) name = (case event_verdict event name of
     None \<Rightarrow> watchEvents resultChan name
   | Some errWatch \<Rightarrow> errWatch)"

section \<open>The clients\<close>

text \<open>Where the goroutine of the log stands: before the search for the pod, and before each call on its log.\<close>

datatype log_pc = FindingPod | OpeningLog string | CopyingLog string | ClosingLog string | LogDone

text \<open>
  The clients of the goroutine are those of the pods and logs, with values that are no panics.
  \<open>log_turn\<close> is the scheduler: it says if the goroutine makes the next step, from where it stands, the
  events that are left and the world. Since one of the first two changes in every step, it can be any
  interleaving.
\<close>

record ('w, 'q) job_api =
  create_import_job :: "ctx \<Rightarrow> ('w, 'q batch_Job) go"
  job_Create :: "'q batch_Job \<Rightarrow> ('w, string) go"
  job_List :: "string \<Rightarrow> ('w, nat \<times> string) go"
  OneTermEqualSelector :: "string \<Rightarrow> string \<Rightarrow> string"
  NewRetryWatcher :: "string \<Rightarrow> string \<Rightarrow> ('w, watch_event list) go"
  watcher_Stop :: "('w, unit) go"
  MatchLabels :: "string \<Rightarrow> string"
  jobpod_List :: "string \<Rightarrow> 'w \<Rightarrow> (err + (string \<times> PodPhase) list) \<times> 'w"
  logs_Stream :: "string \<Rightarrow> 'w \<Rightarrow> (err + unit) \<times> 'w"
  logs_Copy :: "string \<Rightarrow> 'w \<Rightarrow> (err + unit) \<times> 'w"
  logs_Close :: "string \<Rightarrow> 'w \<Rightarrow> (err + unit) \<times> 'w"
  ja_quote :: "string \<Rightarrow> string"
  log_turn :: "log_pc \<Rightarrow> watch_event list \<Rightarrow> 'w \<Rightarrow> bool"

section \<open>Watcher and log streamer\<close>

definition buildJobLabelSelector :: "('w, 'q) job_api \<Rightarrow> string \<Rightarrow> string" where
  "buildJobLabelSelector api name = MatchLabels api name"

definition getWatcher :: "('w, 'q) job_api \<Rightarrow> string \<Rightarrow> ('w, watch_event list) go" where
  "getWatcher api name =
     (let nameSelector = OneTermEqualSelector api ''metadata.name'' name in
      handle (job_List api nameSelector)
        (\<lambda>e. fail (errorf_v ''error getting migration job while trying to create job watcher'' e))
        (\<lambda>(items, rv).
           if items = 0 then
             fail (ErrorString (''migration job '' @ name @ '' not found while trying to create job watcher''))
           else NewRetryWatcher api rv nameSelector))"

definition getStreamer :: "('w, 'q) job_api \<Rightarrow> string \<Rightarrow> ('w, string) go" where
  "getStreamer api name =
     andThen (orWrap (''failed to list pods for job '' @ name)
       (called (jobpod_List api (buildJobLabelSelector api name)))) (\<lambda>items.
     case items of
       [] \<Rightarrow> fail (ErrorString (''no pods found for job '' @ name))
     | (pod, phase) # _ \<Rightarrow>
         if phase \<noteq> PodRunning then fail (ErrorString (''pod '' @ pod @ '' is not yet running''))
         else ret pod)"

text \<open>
  \<open>logStreamer\<close> is a variable that the retried closure assigns: it is the second part of the
  state of the retried function. Using it before it is assigned would be a nil dereference.
\<close>

definition nil_dereference :: string where
  "nil_dereference = ''invalid memory address or nil pointer dereference''"

definition try_streamer :: "('w, 'q) job_api \<Rightarrow> string \<Rightarrow> ('w \<times> string option, unit) go" where
  "try_streamer api name = (\<lambda>(w, logStreamer). case getStreamer api name w of
     (Ok pod, v) \<Rightarrow> (Ok (), (v, Some pod))
   | (Err e, v) \<Rightarrow> (Err (errorf_w (''failed to get logs for job '' @ ja_quote api name) e), (v, None))
   | (Panic p, v) \<Rightarrow> (Panic p, (v, logStreamer)))"

definition find_pod :: "('w, 'q) job_api \<Rightarrow> ('w \<times> string option) retry \<Rightarrow> string \<Rightarrow> ('w, string) go" where
  "find_pod api OnError name = (\<lambda>w. case OnError (\<lambda>_. True) (try_streamer api name) (w, None) of
     (Ok _, (v, Some pod)) \<Rightarrow> (Ok pod, v)
   | (Ok _, (v, None)) \<Rightarrow> (Panic nil_dereference, v)
   | (Err e, (v, _)) \<Rightarrow> (Err e, v)
   | (Panic p, (v, _)) \<Rightarrow> (Panic p, v))"

datatype 'q job_call =
    CreateImportJob
  | SubmitJob "'q batch_Job"
  | OpenWatcher string
  | FindPod string
  | OpenLog string
  | CopyLog string
  | CloseLog string
  | WatchJob string "watch_event list"
  | StopWatcher

text \<open>
  The steps of \<open>streamLogs\<close>. Every error is logged and dropped. The deferred \<open>Close\<close> is the last step once
  the log is open. The search for the pod with its retries is one step.
\<close>

fun log_step ::
    "('w, 'q) job_api \<Rightarrow> ('w \<times> string option) retry \<Rightarrow> string \<Rightarrow> log_pc \<Rightarrow> (('q job_call, 'w) st, log_pc) go" where
  "log_step api OnError name FindingPod =
     handle (extern (FindPod name) (find_pod api OnError name)) (\<lambda>_. ret LogDone) (\<lambda>pod. ret (OpeningLog pod))"
| "log_step api OnError name (OpeningLog pod) =
     handle (extern (OpenLog pod) (called (logs_Stream api pod))) (\<lambda>_. ret LogDone) (\<lambda>_. ret (CopyingLog pod))"
| "log_step api OnError name (CopyingLog pod) =
     attempt (extern (CopyLog pod) (called (logs_Copy api pod))) (\<lambda>_. ret (ClosingLog pod))"
| "log_step api OnError name (ClosingLog pod) =
     attempt (extern (CloseLog pod) (called (logs_Close api pod))) (\<lambda>_. ret LogDone)"
| "log_step api OnError name LogDone = ret LogDone"

fun log_rank :: "log_pc \<Rightarrow> nat" where
  "log_rank FindingPod = 4"
| "log_rank (OpeningLog _) = 3"
| "log_rank (CopyingLog _) = 2"
| "log_rank (ClosingLog _) = 1"
| "log_rank LogDone = 0"

lemma log_step_rank: "log_step api OnError name pc s = (Ok pc', t) \<Longrightarrow> pc \<noteq> LogDone \<Longrightarrow> log_rank pc' < log_rank pc"
  by (cases pc) (auto simp: go_defs split: prod.splits result.splits)

text \<open>\<open>wg.Wait()\<close>: the remaining steps of the goroutine, at most four.\<close>

primrec finish_log ::
    "nat \<Rightarrow> ('w, 'q) job_api \<Rightarrow> ('w \<times> string option) retry \<Rightarrow> string \<Rightarrow> log_pc \<Rightarrow> (('q job_call, 'w) st, unit) go" where
  "finish_log 0 api OnError name pc = ret ()"
| "finish_log (Suc n) api OnError name pc = andThen (log_step api OnError name pc) (finish_log n api OnError name)"

text \<open>The end of the watch: after an error \<open>Run\<close> returns without waiting for the goroutine.\<close>

definition after_watch ::
    "('w, 'q) job_api \<Rightarrow> ('w \<times> string option) retry \<Rightarrow> string \<Rightarrow> watch_event list \<Rightarrow> log_pc \<Rightarrow> err option \<Rightarrow>
      (('q job_call, 'w) st, unit) go" where
  "after_watch api OnError name resultChan pc errWatch =
     andThen (orWrap ''received error while watching job'' (extern (WatchJob name resultChan) (return_err errWatch))) (\<lambda>_.
     finish_log (log_rank pc) api OnError name pc)"

section \<open>Running the job\<close>

text \<open>
  The loop over the events and the goroutine of the log, step by step. \<open>all\<close> are all events of the watch,
  \<open>events\<close> those that are left.
\<close>

function watch_and_log ::
    "('w, 'q) job_api \<Rightarrow> ('w \<times> string option) retry \<Rightarrow> string \<Rightarrow> watch_event list \<Rightarrow> log_pc \<Rightarrow> watch_event list \<Rightarrow>
      (('q job_call, 'w) st, unit) go" where
  "watch_and_log api OnError name all pc events s =
     (if pc \<noteq> LogDone \<and> log_turn api pc events (world s) then
        (case log_step api OnError name pc s of (r, t) \<Rightarrow> (case r of
           Ok pc' \<Rightarrow> watch_and_log api OnError name all pc' events t
         | Err e \<Rightarrow> (Err e, t)
         | Panic p \<Rightarrow> (Panic p, t)))
      else case events of
        [] \<Rightarrow> after_watch api OnError name all pc None s
      | event # rest \<Rightarrow> (case event_verdict event name of
          None \<Rightarrow> watch_and_log api OnError name all pc rest s
        | Some errWatch \<Rightarrow> after_watch api OnError name all pc errWatch s))"
  by pat_completeness auto

termination
  by (relation "measure (\<lambda>(api, OnError, name, all, pc, events, s). log_rank pc + length events)")
    (auto dest: log_step_rank [OF sym])

declare watch_and_log.simps [simp del]

definition Run :: "('w, 'q) job_api \<Rightarrow> ('w \<times> string option) retry \<Rightarrow> ctx \<Rightarrow> (('q job_call, 'w) st, unit) go" where
  "Run api OnError ctx =
     andThen (orWrap ''failed to create import job'' (extern CreateImportJob (create_import_job api ctx))) (\<lambda>job.
     andThen (orWrap ''failed to create import job resource'' (extern (SubmitJob job) (job_Create api job))) (\<lambda>name.
     andThen (orWrap (''failed to create watcher for job '' @ name)
       (extern (OpenWatcher name) (getWatcher api name))) (\<lambda>resultChan.
     deferring (extern StopWatcher (watcher_Stop api))
       (watch_and_log api OnError name resultChan FindingPod resultChan))))"

section \<open>Properties\<close>

text \<open>An event that leaves the job open: a change of this very job, neither done nor failed.\<close>

definition undecided :: "string \<Rightarrow> watch_event \<Rightarrow> bool" where
  "undecided name event \<longleftrightarrow> ev_Type event \<notin> {Error, Deleted} \<and>
     (case ev_Object event of JobObject n succeeded failed \<Rightarrow> n = name \<and> succeeded \<le> 0 \<and> failed \<le> 0 | _ \<Rightarrow> False)"

text \<open>A verdict without an error: a success of the job, or an event of another job.\<close>

definition no_error :: "string \<Rightarrow> watch_event \<Rightarrow> bool" where
  "no_error name event \<longleftrightarrow> ev_Type event \<notin> {Error, Deleted} \<and>
     (case ev_Object event of JobObject n succeeded failed \<Rightarrow> if n = name then succeeded > 0 else True | _ \<Rightarrow> False)"

text \<open>
  C25: what decides the watch is the first event that is not an undecided change of the
  job. The verdict is nil exactly when that event reports a success of the job, or is an
  event of another job, or does not exist because the channel was closed before. The
  last two are verdicts of success without any evidence: the comment calls an event of
  another job ignored, but it ends the watch.
\<close>

theorem watch_verdict:
  "watchEvents events name = None \<longleftrightarrow>
     (case dropWhile (undecided name) events of [] \<Rightarrow> True | event # _ \<Rightarrow> no_error name event)"
  by (induction events name rule: watchEvents.induct)
    (auto simp: event_verdict_def undecided_def no_error_def split: event_object.splits)

text \<open>
  The calls of a log goroutine that ran to its end. Its errors are answers here: it gives up when no
  running pod was found or its log could not be opened, and the log is closed however the copy ended.
\<close>

definition answered :: "ending \<Rightarrow> bool" where
  "answered e \<longleftrightarrow> (case e of Panicked _ \<Rightarrow> False | _ \<Rightarrow> True)"

definition complete_log :: "string \<Rightarrow> ('q job_call \<times> ending) list \<Rightarrow> bool" where
  "complete_log name es \<longleftrightarrow>
     (\<exists>x. es = [(FindPod name, Failed x)]) \<or>
     (\<exists>pod x. es = [(FindPod name, Fine), (OpenLog pod, Failed x)]) \<or>
     (\<exists>pod x y. answered x \<and> answered y \<and>
        es = [(FindPod name, Fine), (OpenLog pod, Fine), (CopyLog pod, x), (CloseLog pod, y)])"

text \<open>The calls that a goroutine has made when it stands at a place.\<close>

fun log_at :: "string \<Rightarrow> log_pc \<Rightarrow> ('q job_call \<times> ending) list \<Rightarrow> bool" where
  "log_at name FindingPod es \<longleftrightarrow> es = []"
| "log_at name (OpeningLog pod) es \<longleftrightarrow> es = [(FindPod name, Fine)]"
| "log_at name (CopyingLog pod) es \<longleftrightarrow> es = [(FindPod name, Fine), (OpenLog pod, Fine)]"
| "log_at name (ClosingLog pod) es \<longleftrightarrow>
     (\<exists>x. answered x \<and> es = [(FindPod name, Fine), (OpenLog pod, Fine), (CopyLog pod, x)])"
| "log_at name LogDone es \<longleftrightarrow> complete_log name es"

lemma answered_ending_of [simp]: "answered Fine" "answered (Failed e)"
  by (simp_all add: answered_def)

text \<open>With the documented retry helper the streamer is never used before it is assigned.\<close>

lemma getStreamer_not_Panic: "wp (getStreamer api name) (\<lambda>r v. \<forall>p. r \<noteq> Panic p) s"
  by (auto simp: getStreamer_def split: prod.splits sum.splits list.splits)

lemma try_streamer_sets:
  "wp (try_streamer api name) (\<lambda>r (v, st). case r of Ok _ \<Rightarrow> st \<noteq> None | Err _ \<Rightarrow> True | Panic p \<Rightarrow> False) s"
proof (cases s)
  case (Pair w st)
  show ?thesis
    using getStreamer_not_Panic [of api name w] unfolding Pair
    by (auto simp: wp_def try_streamer_def split: result.splits prod.splits)
qed

lemma find_pod_not_Panic:
  assumes "retry_ok OnError"
  shows "wp (find_pod api OnError name) (\<lambda>r v. \<forall>p. r \<noteq> Panic p) w"
proof -
  let ?Q = "\<lambda>r (v, st). case r of Ok _ \<Rightarrow> st \<noteq> None | Err _ \<Rightarrow> True | Panic p \<Rightarrow> False"
  obtain r v pod where run: "OnError (\<lambda>_. True) (try_streamer api name) (w, None) = (r, (v, pod))"
    by (metis prod.exhaust)
  have "wp (OnError (\<lambda>_. True) (try_streamer api name)) ?Q (w, None)"
    by (rule wp_retry [OF assms, where I = "\<lambda>_. True"])
      (auto intro!: wp_mono [OF try_streamer_sets] split: result.splits)
  from wpD [OF this run] show ?thesis
    by (cases r; cases pod) (auto simp: wp_def find_pod_def run)
qed

lemma log_step_at:
  assumes "retry_ok OnError" "log_at name pc es" "pc \<noteq> LogDone"
  shows "wp (log_step api OnError name pc) (\<lambda>r t. \<exists>pc' x. r = Ok pc' \<and> trace t = trace s @ [x] \<and>
    log_at name pc' (es @ [x]) \<and> log_rank pc' < log_rank pc) s"
proof (cases pc)
  case FindingPod
  obtain r v where f: "find_pod api OnError name (world s) = (r, v)" by fastforce
  from wpD [OF find_pod_not_Panic [OF assms(1)] f] have "\<forall>p. r \<noteq> Panic p" .
  with assms(2) FindingPod show ?thesis
    by (cases r) (auto simp: wp_eq [where m = "find_pod api OnError name", OF f] complete_log_def)
qed (use assms in \<open>auto simp: complete_log_def split: prod.splits sum.splits\<close>)

lemma finish_log_complete:
  assumes "retry_ok OnError" "log_at name pc es" "log_rank pc \<le> n"
  shows "wp (finish_log n api OnError name pc)
    (\<lambda>r t. \<exists>rest. r = Ok () \<and> trace t = trace s @ rest \<and> complete_log name (es @ rest)) s"
  using assms(2,3)
proof (induction n arbitrary: pc es s)
  case 0
  then show ?case by (cases pc) auto
next
  case (Suc n)
  show ?case
  proof (cases "pc = LogDone")
    case True
    then show ?thesis using Suc.IH [of LogDone es s] Suc.prems by simp
  next
    case False
    show ?thesis
      by (simp, rule wp_mono [OF log_step_at [OF assms(1) Suc.prems(1) False]])
        (use Suc in \<open>fastforce intro: wp_mono [OF Suc.IH]\<close>)
  qed
qed

text \<open>
  The watch with its goroutine, after the log calls \<open>before\<close>: the verdict \<open>v\<close> is recorded after the log calls
  \<open>l\<close>; without an error the goroutine is awaited and its remaining calls \<open>m\<close> complete the log.
\<close>

definition watch_calls ::
    "string \<Rightarrow> watch_event list \<Rightarrow> err option \<Rightarrow> ('q job_call \<times> ending) list \<Rightarrow> unit result \<Rightarrow>
      ('q job_call \<times> ending) list \<Rightarrow> bool" where
  "watch_calls name all verdict before r es \<longleftrightarrow> (\<exists>l m. case verdict of
     None \<Rightarrow> r = Ok () \<and> es = l @ (WatchJob name all, Fine) # m \<and> complete_log name (before @ l @ m)
   | Some e \<Rightarrow> r = Err (errorf_w ''received error while watching job'' e) \<and>
       es = l @ [(WatchJob name all, Failed e)] \<and> (\<exists>pc. log_at name pc (before @ l)))"

lemma after_watch_calls:
  assumes "retry_ok OnError" "log_at name pc before"
  shows "wp (after_watch api OnError name all pc verdict)
    (\<lambda>r t. \<exists>es. trace t = trace s @ es \<and> watch_calls name all verdict before r es) s"
proof (cases verdict)
  case None
  let ?s = "s\<lparr>trace := trace s @ [(WatchJob name all, Fine)]\<rparr>"
  have "wp (finish_log (log_rank pc) api OnError name pc)
      (\<lambda>r t. \<exists>es. trace t = trace s @ es \<and> watch_calls name all None before r es) ?s"
  proof (rule wp_mono [OF finish_log_complete [OF assms order_refl]], elim exE conjE)
    fix r t rest
    assume "r = Ok ()" "trace t = trace ?s @ rest" "complete_log name (before @ rest)"
    then show "\<exists>es. trace t = trace s @ es \<and> watch_calls name all None before r es"
      by (intro exI [of _ "(WatchJob name all, Fine) # rest"])
        (simp add: watch_calls_def, rule exI [of _ "[]"], simp)
  qed
  then show ?thesis unfolding None after_watch_def by simp
next
  case (Some e)
  with assms(2) have "watch_calls name all verdict before
      (Err (errorf_w ''received error while watching job'' e)) [(WatchJob name all, Failed e)]"
    unfolding watch_calls_def by (auto intro: exI [of _ "[]"])
  then show ?thesis unfolding Some after_watch_def by simp
qed

lemma watch_and_log_calls:
  assumes "retry_ok OnError" "log_at name pc before"
  shows "wp (watch_and_log api OnError name all pc events)
    (\<lambda>r t. \<exists>es. trace t = trace s @ es \<and> watch_calls name all (watchEvents events name) before r es) s"
  using assms
proof (induction api OnError name all pc events s arbitrary: "before" rule: watch_and_log.induct)
  case (1 api OnError name all pc events s)
  show ?case
  proof (cases "pc \<noteq> LogDone \<and> log_turn api pc events (world s)")
    case True
    then have "pc \<noteq> LogDone" ..
    obtain r t where step: "log_step api OnError name pc s = (r, t)" by fastforce
    from wpD [OF log_step_at [OF 1(3,4) \<open>pc \<noteq> LogDone\<close>] step] obtain pc' x where
      x: "r = Ok pc'" "trace t = trace s @ [x]" "log_at name pc' (before @ [x])" by blast
    obtain r' u where run: "watch_and_log api OnError name all pc' events t = (r', u)" by fastforce
    from 1(1) [OF True step [symmetric] x(1) 1(3) x(3)] run obtain es where
      "trace u = trace t @ es" "watch_calls name all (watchEvents events name) (before @ [x]) r' es"
      by (auto simp: wp_def)
    with x(2) have "\<exists>es. trace u = trace s @ es \<and> watch_calls name all (watchEvents events name) before r' es"
      by (intro exI [of _ "x # es"])
        (fastforce simp: watch_calls_def split: option.splits intro: exI [of _ "x # l" for l])
    with True step x(1) run show ?thesis
      by (simp add: wp_def watch_and_log.simps [of _ _ _ _ pc])
  next
    case False
    show ?thesis
    proof (cases events)
      case Nil
      with False after_watch_calls [OF 1(3,4), of api all None s] show ?thesis
        by (auto simp: wp_def watch_and_log.simps [of _ _ _ _ pc])
    next
      case (Cons event rest)
      show ?thesis
      proof (cases "event_verdict event name")
        case None
        from 1(2) [OF False Cons None 1(3,4)] False Cons None show ?thesis
          by (auto simp: wp_def watch_and_log.simps [of _ _ _ _ pc])
      next
        case (Some verdict)
        with False Cons after_watch_calls [OF 1(3,4), of api all verdict s] show ?thesis
          by (auto simp: wp_def watch_and_log.simps [of _ _ _ _ pc])
      qed
    qed
  qed
qed

text \<open>
  All the calls of \<open>Run\<close> and its result \<open>r\<close>: it stops at a first call that does not succeed and ends as that
  call did; or the watch and the log take place and the watcher is stopped after them.
\<close>

definition run_calls :: "unit result \<Rightarrow> ('q job_call \<times> ending) list \<Rightarrow> bool" where
  "run_calls r es \<longleftrightarrow>
     (\<exists>x. x \<noteq> Fine \<and> ends_as x r \<and>
        (es = [(CreateImportJob, x)] \<or>
         (\<exists>job. es = [(CreateImportJob, Fine), (SubmitJob job, x)]) \<or>
         (\<exists>job name. es = [(CreateImportJob, Fine), (SubmitJob job, Fine), (OpenWatcher name, x)]))) \<or>
     (\<exists>job name events q mid x. watch_calls name events (watchEvents events name) [] q mid \<and>
        es = fine [CreateImportJob, SubmitJob job, OpenWatcher name] @ mid @ [(StopWatcher, x)] \<and>
        r = (case x of Panicked p \<Rightarrow> Panic p | _ \<Rightarrow> q))"

lemma stopping_calls:
  assumes "wp m (\<lambda>r t. \<exists>mid. trace t = trace s @ mid \<and> P r mid) s"
  shows "wp (deferring (extern StopWatcher stop) m) (\<lambda>r t. \<exists>q mid x. P q mid \<and>
     trace t = trace s @ mid @ [(StopWatcher, x)] \<and> r = (case x of Panicked p \<Rightarrow> Panic p | _ \<Rightarrow> q)) s"
proof (rule wpI)
  fix r t
  assume run: "deferring (extern StopWatcher stop) m s = (r, t)"
  obtain q u where m: "m s = (q, u)" by fastforce
  obtain y v where stop: "stop (world u) = (y, v)" by fastforce
  obtain mid where "trace u = trace s @ mid" "P q mid" using wpD [OF assms m] by blast
  with run m stop show "\<exists>q mid x. P q mid \<and>
      trace t = trace s @ mid @ [(StopWatcher, x)] \<and> r = (case x of Panicked p \<Rightarrow> Panic p | _ \<Rightarrow> q)"
    by (intro exI [of _ q] exI [of _ mid] exI [of _ "ending_of y"])
      (cases y; auto simp: deferring_def extern_def)
qed

text \<open>
  C26: the calls of every run of \<open>Run\<close>, for every interleaving of the log goroutine with the watch. When a
  watcher was opened, stopping it is the last call of \<open>Run\<close>, whatever the watch and the goroutine
  did. With an error of the watch the goroutine is not awaited: it has made a part of its calls so far. With a
  nil error the job was built, submitted and watched to a verdict without an error, and the
  goroutine was awaited: it copied the log of a running pod and closed it, or gave up because it
  found no such pod or could not open its log. These errors are not reported.
\<close>

theorem Run_stops_its_watcher:
  assumes "retry_ok OnError"
  shows "wp (Run api OnError ctx) (\<lambda>r t. \<exists>es. trace t = trace s @ es \<and> run_calls r es) s"
proof -
  obtain r1 w1 where c1: "create_import_job api ctx (world s) = (r1, w1)" by fastforce
  note E1 = wp_eq [where m = "create_import_job api ctx", OF c1]
  show ?thesis
  proof (cases r1)
    case r1: (Ok job)
    obtain r2 w2 where c2: "job_Create api job w1 = (r2, w2)" by fastforce
    note E2 = wp_eq [where m = "job_Create api job", OF c2]
    show ?thesis
    proof (cases r2)
      case r2: (Ok name)
      obtain r3 w3 where c3: "getWatcher api name w2 = (r3, w3)" by fastforce
      note E3 = wp_eq [where m = "getWatcher api name", OF c3]
      show ?thesis
      proof (cases r3)
        case r3: (Ok events)
        let ?start = "fine [CreateImportJob, SubmitJob job, OpenWatcher name]"
        let ?s = "s\<lparr>trace := trace s @ ?start, world := w3\<rparr>"
        have "log_at name FindingPod ([] :: ('b job_call \<times> ending) list)" by simp
        from stopping_calls [OF watch_and_log_calls [OF assms this], of "watcher_Stop api" api events events ?s]
        have "wp (deferring (extern StopWatcher (watcher_Stop api)) (watch_and_log api OnError name events FindingPod events))
            (\<lambda>r t. \<exists>es. trace t = trace s @ es \<and> run_calls r es) ?s"
          by (rule wp_mono) (auto simp: run_calls_def, blast)
        then show ?thesis by (simp add: Run_def E1 r1 E2 r2 E3 r3)
      qed (auto simp: Run_def E1 r1 E2 r2 E3 run_calls_def)
    qed (auto simp: Run_def E1 r1 E2 run_calls_def)
  qed (auto simp: Run_def E1 run_calls_def)
qed

text \<open>
  A job that succeeds while its log is copied, for the witness. The goroutine opens the log before
  the first event, and copies it, with an error, when the watch has ended.
\<close>

definition sample_batch_Job :: "unit batch_Job" where
  "sample_batch_Job = \<lparr>j_Name = ''job'', j_Labels = [], j_BackoffLimit = 0, j_TTLSecondsAfterFinished = 0,
     j_HostNetwork = True, j_Volumes = [], j_Containers = [], j_RestartPolicy = ''Never'',
     j_ServiceAccountName = [], j_ImagePullSecrets = []\<rparr>"

definition sample_events :: "watch_event list" where
  "sample_events = [\<lparr>ev_Type = Added, ev_Object = JobObject ''job'' 0 0\<rparr>,
     \<lparr>ev_Type = Modified, ev_Object = JobObject ''job'' 1 0\<rparr>]"

definition sample_job_api :: "(unit, unit) job_api" where
  "sample_job_api = \<lparr>create_import_job = \<lambda>_. answers (Ok sample_batch_Job), job_Create = \<lambda>_. answers (Ok ''job''),
     job_List = \<lambda>_. answers (Ok (1, ''7'')), OneTermEqualSelector = \<lambda>k v. k @ ''='' @ v,
     NewRetryWatcher = \<lambda>_ _. answers (Ok sample_events), watcher_Stop = answers (Ok ()), MatchLabels = id,
     jobpod_List = \<lambda>_ w. (Inr [(''pod'', PodRunning)], w), logs_Stream = \<lambda>_ w. (Inr (), w),
     logs_Copy = \<lambda>_ w. (Inl ContextCanceled, w), logs_Close = \<lambda>_ w. (Inr (), w), ja_quote = id,
     log_turn = \<lambda>pc events w. log_rank pc > 2\<rparr>"

abbreviation sample_job_run :: "unit result \<times> (unit job_call, unit) st" where
  "sample_job_run \<equiv> Run sample_job_api (retry_times 2)
     Background \<lparr>trace = [], world = ()\<rparr>"

theorem Run_stops_its_watcher_witness:
  "run_calls (fst sample_job_run) (trace (snd sample_job_run)) \<and> fst sample_job_run = Ok () \<and>
   trace (snd sample_job_run) = [(CreateImportJob, Fine), (SubmitJob sample_batch_Job, Fine),
     (OpenWatcher ''job'', Fine), (FindPod ''job'', Fine), (OpenLog ''pod'', Fine),
     (WatchJob ''job'' sample_events, Fine), (CopyLog ''pod'', Failed ContextCanceled), (CloseLog ''pod'', Fine),
     (StopWatcher, Fine)]"
proof (intro conjI)
  show "run_calls (fst sample_job_run) (trace (snd sample_job_run))"
    using Run_stops_its_watcher [OF retry_times_ok, of sample_job_api 2 Background
      "\<lparr>trace = [], world = ()\<rparr>"]
    by (simp add: wp_iff)
  show "fst sample_job_run = Ok ()" by code_simp
  show "trace (snd sample_job_run) = [(CreateImportJob, Fine), (SubmitJob sample_batch_Job, Fine),
     (OpenWatcher ''job'', Fine), (FindPod ''job'', Fine), (OpenLog ''pod'', Fine),
     (WatchJob ''job'' sample_events, Fine), (CopyLog ''pod'', Failed ContextCanceled), (CloseLog ''pod'', Fine),
     (StopWatcher, Fine)]" by code_simp
qed

end
