(* ===== verification/Process.thy ===== *)
theory Process imports Config begin

text \<open>
  What both binaries set up at their start: the structured logger (\<open>logging/logger.go\<close>) and
  the clients of Kubernetes (\<open>api/importer/clients.go\<close>). The default logger and the writer
  for the logs of others are variables of their packages; they are the state here, around
  the world.
\<close>

section \<open>Levels (\<open>slog.Level\<close>)\<close>

text \<open>
  \<open>UnmarshalText\<close> of the standard library: a name in letters of any case, and an offset. Two
  characters outside ASCII have capital letters inside it, the dotless i and the long s.
\<close>

fun upper_bytes :: "nat list \<Rightarrow> nat list" where
  "upper_bytes (b # c # bs) =
     (if b = 196 \<and> c = 177 then 73 # upper_bytes bs
      else if b = 197 \<and> c = 191 then 83 # upper_bytes bs
      else (if 97 \<le> b \<and> b \<le> 122 then b - 32 else b) # upper_bytes (c # bs))"
| "upper_bytes [b] = [if 97 \<le> b \<and> b \<le> 122 then b - 32 else b]"
| "upper_bytes [] = []"

definition ToUpper :: "string \<Rightarrow> string" where
  "ToUpper s = map char_of (upper_bytes (map of_char s))"

text \<open>\<open>strconv.Atoi\<close> on 64 bits, with its two errors; \<open>quote\<close> is \<open>strconv.Quote\<close>.\<close>

type_synonym int64 = "64 word"

definition syntax_error :: "(string \<Rightarrow> string) \<Rightarrow> string \<Rightarrow> err" where
  "syntax_error quote s = errorf_w (''strconv.Atoi: parsing '' @ quote s) (ErrorString ''invalid syntax'')"

definition range_error :: "(string \<Rightarrow> string) \<Rightarrow> string \<Rightarrow> err" where
  "range_error quote s = errorf_w (''strconv.Atoi: parsing '' @ quote s) (ErrorString ''value out of range'')"

definition Atoi :: "(string \<Rightarrow> string) \<Rightarrow> string \<Rightarrow> err + int64" where
  "Atoi quote s =
     (let neg = (s \<noteq> [] \<and> hd s = CHR ''-'');
          ds = (if s \<noteq> [] \<and> hd s \<in> {CHR ''+'', CHR ''-''} then tl s else s);
          n = (if neg then - int (nat_of_digits ds) else int (nat_of_digits ds)) in
      if ds = [] \<or> (\<exists>c\<in>set ds. c \<notin> set digits) then Inl (syntax_error quote s)
      else if n < - (2 ^ 63) \<or> 2 ^ 63 \<le> n then Inl (range_error quote s)
      else Inr (word_of_int n))"

definition LevelDebug :: int64 where "LevelDebug = - 4"
definition LevelInfo :: int64 where "LevelInfo = 0"
definition LevelWarn :: int64 where "LevelWarn = 4"
definition LevelError :: int64 where "LevelError = 8"

definition level_of_name :: "string \<Rightarrow> int64 option" where
  "level_of_name name =
     (let n = ToUpper name in
      if n = ''DEBUG'' then Some LevelDebug else if n = ''INFO'' then Some LevelInfo
      else if n = ''WARN'' then Some LevelWarn else if n = ''ERROR'' then Some LevelError else None)"

definition UnmarshalText :: "(string \<Rightarrow> string) \<Rightarrow> string \<Rightarrow> err + int64" where
  "UnmarshalText quote s =
     (let name = takeWhile (\<lambda>c. c \<notin> {CHR ''+'', CHR ''-''}) s;
          rest = drop (length name) s;
          wrapped = (\<lambda>e. Inl (errorf_w (''slog: level string '' @ quote s) e)) in
      case (if rest = [] then Inr 0 else Atoi quote rest) of
        Inl e \<Rightarrow> wrapped e
      | Inr offset \<Rightarrow> (case level_of_name name of
          None \<Rightarrow> wrapped (ErrorString ''unknown name'')
        | Some l \<Rightarrow> Inr (l + offset)))"

section \<open>The logger (\<open>logger.go\<close>)\<close>

definition PathAppLogFile :: string where
  "PathAppLogFile = ''/home/ces-importer/migration-log/log.log''"

text \<open>A writer is the list of the files and streams that it writes to.\<close>

datatype sink = Stdout | LogFile string

record logger =
  lg_level :: int64
  lg_attributes :: "(string \<times> string) list"
  lg_writer :: "sink list"

record 'w process =
  default_logger :: "logger option"
  log_writer :: "sink list"
  rest_of :: 'w

definition on_rest :: "('w, 'a) go \<Rightarrow> ('w process, 'a) go" where
  "on_rest m = (\<lambda>s. case m (rest_of s) of (r, w) \<Rightarrow> (r, s\<lparr>rest_of := w\<rparr>))"

definition GetWriter :: "'w process \<Rightarrow> sink list" where
  "GetWriter s = log_writer s"

text \<open>An option changes the logger only when it succeeds.\<close>

type_synonym 'w LoggerOption = "logger \<Rightarrow> ('w process, logger) go"

definition WithLevel :: "(string \<Rightarrow> string) \<Rightarrow> string \<Rightarrow> 'w LoggerOption" where
  "WithLevel quote level l =
     andThen (orWrap ''failed to parse log level, fallback to INFO'' (pure (UnmarshalText quote level))) (\<lambda>logLevel.
     ret (l\<lparr>lg_level := logLevel\<rparr>))"

definition WithComponent :: "string \<Rightarrow> 'w LoggerOption" where
  "WithComponent component l = ret (l\<lparr>lg_attributes := lg_attributes l @ [(''component'', component)]\<rparr>)"

text \<open>\<open>os.OpenFile\<close> with the flags of the file creates the file and cuts it to zero bytes.\<close>

definition WithFile :: "(string \<Rightarrow> ('w, unit) go) \<Rightarrow> string \<Rightarrow> 'w LoggerOption" where
  "WithFile OpenFile file l =
     andThen (orWrap ''failed to open log file'' (on_rest (OpenFile file))) (\<lambda>_.
     ret (l\<lparr>lg_writer := lg_writer l @ [LogFile file]\<rparr>))"

primrec apply_options :: "'w LoggerOption list \<Rightarrow> logger \<Rightarrow> err option \<Rightarrow> ('w process, logger \<times> err option) go" where
  "apply_options [] l err = ret (l, err)"
| "apply_options (opt # opts) l err =
     handle (opt l) (\<lambda>oErr. apply_options opts l (join2 err (Some oErr))) (\<lambda>l. apply_options opts l err)"

definition InitStructuredLogger :: "'w LoggerOption list \<Rightarrow> ('w process, unit) go" where
  "InitStructuredLogger options =
     andThen (apply_options options \<lparr>lg_level = LevelInfo, lg_attributes = [], lg_writer = [Stdout]\<rparr> None) (\<lambda>(l, err).
     andThen (modify (\<lambda>s. s\<lparr>default_logger := Some l\<rparr>)) (\<lambda>_.
     case err of
       Some e \<Rightarrow> fail (errorf_w ''failed to set options'' e)
     | None \<Rightarrow> modify (\<lambda>s. s\<lparr>log_writer := lg_writer l\<rparr>)))"

section \<open>The clients of Kubernetes (\<open>clients.go\<close>)\<close>

text \<open>
  A client for one kind of resources is bound to a namespace. The constructors of the client
  libraries take the configuration of the connection and may fail.
\<close>

datatype resource = PersistentVolumeClaims | Pods | Jobs | ConfigMaps | Secrets | Dogus
  | Blueprints | Components | BackupSchedules

datatype client = Client_for (client_resource: resource) (client_namespace: string)

record 'r k8s_lib =
  getK8sClientsSet :: "'r \<Rightarrow> err option"
  getEcoSystemClient :: "'r \<Rightarrow> err option"
  getBlueprintClient :: "'r \<Rightarrow> err option"
  getComponentsClient :: "'r \<Rightarrow> err option"
  getBackupClient :: "'r \<Rightarrow> err option"

record K8sClients =
  c_Pvc :: client
  c_Pod :: client
  c_Job :: client
  c_ConfigMap :: client
  c_Secret :: client
  c_Dogu :: client
  c_DoguControl :: "client \<times> client"
  c_BlueprintControl :: client
  c_Component :: client
  c_BackupSchedule :: client

definition CreateK8SClientSet :: "'r k8s_lib \<Rightarrow> 'r \<Rightarrow> string \<Rightarrow> ('s, K8sClients) go" where
  "CreateK8SClientSet lib k8sRestConfig namespace =
     andThen (orWrap ''failed to create k8s client set'' (return_err (getK8sClientsSet lib k8sRestConfig))) (\<lambda>_.
     let k8sPVCClient = Client_for PersistentVolumeClaims namespace;
         k8sPodClient = Client_for Pods namespace;
         k8sConfigMapClient = Client_for ConfigMaps namespace;
         k8sSecretClient = Client_for Secrets namespace;
         k8sJobClient = Client_for Jobs namespace in
     andThen (orWrap ''failed to create ecosystem client'' (return_err (getEcoSystemClient lib k8sRestConfig))) (\<lambda>_.
     let k8sDoguClient = Client_for Dogus namespace; doguControl = (k8sDoguClient, k8sPodClient) in
     andThen (orWrap ''failed to create blueprint client'' (return_err (getBlueprintClient lib k8sRestConfig))) (\<lambda>_.
     let blueprintControl = Client_for Blueprints namespace in
     andThen (orWrap ''failed to create component client'' (return_err (getComponentsClient lib k8sRestConfig))) (\<lambda>_.
     let k8sComponentClient = Client_for Components namespace in
     andThen (orWrap ''failed to create ecosystem backup client'' (return_err (getBackupClient lib k8sRestConfig))) (\<lambda>_.
     let backupScheduleClient = Client_for BackupSchedules namespace in
     ret \<lparr>c_Pvc = k8sPVCClient, c_Pod = k8sPodClient, c_Job = k8sJobClient, c_ConfigMap = k8sConfigMapClient,
       c_Secret = k8sSecretClient, c_Dogu = k8sDoguClient, c_DoguControl = doguControl,
       c_BlueprintControl = blueprintControl, c_Component = k8sComponentClient,
       c_BackupSchedule = backupScheduleClient\<rparr>)))))"

section \<open>Components as steps of a program\<close>

text \<open>A component that records its calls, as a step of a larger program that does not.\<close>

definition untraced :: "(('c, 'w) st, 'a) go \<Rightarrow> ('w, 'a) go" where
  "untraced m = (\<lambda>w. case m \<lparr>trace = [], world = w\<rparr> of (r, t) \<Rightarrow> (r, world t))"

text \<open>The reading of files, which changes nothing.\<close>

definition reading :: "('w \<Rightarrow> fs) \<Rightarrow> (fs, 'a) go \<Rightarrow> ('w, 'a) go" where
  "reading files m = (\<lambda>w. (fst (m (files w)), w))"

section \<open>What a logger and a client set are like\<close>

text \<open>
  The names of the levels are understood in letters of any case, with an offset; anything else
  is an error, for which the logger keeps the level INFO.
\<close>

lemma upper_bytes_ascii: "\<forall>b\<in>set bs. b < 128 \<Longrightarrow> upper_bytes bs = map (\<lambda>b. if 97 \<le> b \<and> b \<le> 122 then b - 32 else b) bs"
  by (induction bs rule: upper_bytes.induct) auto

text \<open>Every option runs, whatever the others do, and the errors of all that fail are reported.\<close>

lemma apply_options_total:
  assumes "\<And>opt l s. opt \<in> set opts \<Longrightarrow> \<exists>r t. opt l s = (r, t) \<and> (\<forall>p. r \<noteq> Panic p)"
  shows "\<exists>l' err' t. apply_options opts l err s = (Ok (l', err'), t) \<and> (err \<noteq> None \<longrightarrow> err' \<noteq> None)"
  using assms
proof (induction opts arbitrary: l err s)
  case (Cons opt opts)
  obtain r t where r: "opt l s = (r, t)" "\<forall>p. r \<noteq> Panic p" using Cons.prems by force
  have IH: "\<exists>l' err' t. apply_options opts l err s = (Ok (l', err'), t) \<and> (err \<noteq> None \<longrightarrow> err' \<noteq> None)" for l err s
    using Cons.IH Cons.prems by auto
  show ?case
  proof (cases r)
    case (Ok l')
    with r IH [of l' err t] show ?thesis by (simp add: handle_def)
  next
    case (Err e)
    with r IH [of l "join2 err (Some e)" t] show ?thesis by (auto simp: handle_def)
  qed (use r in simp)
qed (simp add: ret_def)

lemma apply_options_Nil [simp]: "apply_options [] l err s = (Ok (l, err), s)"
  by (simp add: ret_def)

lemma apply_options_step:
  "opt l s = (Ok l', t) \<Longrightarrow> apply_options (opt # opts) l err s = apply_options opts l' err t"
  "opt l s = (Err e, t) \<Longrightarrow> apply_options (opt # opts) l err s = apply_options opts l (join2 err (Some e)) t"
  by (simp_all add: handle_def)

lemma WithLevel_Err:
  "UnmarshalText quote level = Inl e \<Longrightarrow>
     WithLevel quote level l s = (Err (errorf_w ''failed to parse log level, fallback to INFO'' e), s)"
  by (simp add: WithLevel_def pure_def andThen_def orWrap_def handle_def fail_def)

lemma WithLevel_Ok: "UnmarshalText quote level = Inr n \<Longrightarrow> WithLevel quote level l s = (Ok (l\<lparr>lg_level := n\<rparr>), s)"
  by (simp add: WithLevel_def pure_def andThen_def orWrap_def handle_def ret_def)

lemma WithComponent_Ok: "WithComponent c l s = (Ok (l\<lparr>lg_attributes := lg_attributes l @ [(''component'', c)]\<rparr>), s)"
  by (simp add: WithComponent_def ret_def)

lemma WithFile_Ok:
  "OpenFile file (rest_of s) = (Ok (), w) \<Longrightarrow>
     WithFile OpenFile file l s = (Ok (l\<lparr>lg_writer := lg_writer l @ [LogFile file]\<rparr>), s\<lparr>rest_of := w\<rparr>)"
  by (simp add: WithFile_def ok_iffs on_rest_def)

lemma join2_first: "join2 None (Some e) = Some (Joined [e])"
  by (simp add: errors_join_def map_filter_simps)

lemma andThen_Ok: "m s = (Ok a, t) \<Longrightarrow> andThen m k s = k a t"
  by (simp add: andThen_def handle_def)

text \<open>
  With a level that is not understood the logger is installed all the same, with the level
  INFO and the other options; but \<open>GetWriter\<close> still gives the writer of before, so that the
  logs of the jobs do not reach the new file.
\<close>

lemma invalid_level_keeps_writer:
  assumes "UnmarshalText quote level = Inl e" "OpenFile file (rest_of s) = (Ok (), w)"
  shows "\<exists>err. InitStructuredLogger [WithLevel quote level, WithComponent component, WithFile OpenFile file] s =
    (Err err, s\<lparr>rest_of := w,
      default_logger := Some \<lparr>lg_level = LevelInfo, lg_attributes = [(''component'', component)],
        lg_writer = [Stdout, LogFile file]\<rparr>\<rparr>)"
proof -
  let ?l = "\<lparr>lg_level = LevelInfo, lg_attributes = [(''component'', component)], lg_writer = [Stdout, LogFile file]\<rparr>"
  have "\<exists>err. apply_options [WithLevel quote level, WithComponent component, WithFile OpenFile file]
      \<lparr>lg_level = LevelInfo, lg_attributes = [], lg_writer = [Stdout]\<rparr> None s = (Ok (?l, Some err), s\<lparr>rest_of := w\<rparr>)"
    using assms
    by (simp add: apply_options_step(2) [OF WithLevel_Err] apply_options_step(1) [OF WithComponent_Ok]
        apply_options_step(1) [OF WithFile_Ok] join2_first del: apply_options.simps)
  then show ?thesis
    by (auto simp: InitStructuredLogger_def andThen_Ok modify_def fail_def)
qed

text \<open>All clients of a set are bound to the namespace that was asked for.\<close>

lemma CreateK8SClientSet_clients:
  "CreateK8SClientSet lib cfg namespace s = (Ok cs, t) \<Longrightarrow>
     t = s \<and> list_all (\<lambda>c. client_namespace c = namespace)
       [c_Pvc cs, c_Pod cs, c_Job cs, c_ConfigMap cs, c_Secret cs, c_Dogu cs, c_BlueprintControl cs, c_Component cs,
        c_BackupSchedule cs] \<and>
     c_DoguControl cs = (c_Dogu cs, c_Pod cs) \<and>
     list_all (\<lambda>new. new lib cfg = None) [getK8sClientsSet, getEcoSystemClient, getBlueprintClient, getComponentsClient, getBackupClient]"
  unfolding CreateK8SClientSet_def Let_def ok_iffs by auto

text \<open>Functions that leave the state alone.\<close>

definition readonly :: "('s, 'a) go \<Rightarrow> bool" where
  "readonly m \<longleftrightarrow> (\<forall>s. snd (m s) = s)"

lemma readonlyD: "readonly m \<Longrightarrow> m s = (r, t) \<Longrightarrow> t = s"
  unfolding readonly_def by (metis snd_conv)

lemma readonly_simple [intro!]: "readonly (ret a)" "readonly (fail e)" "readonly (return_err x)"
  by (simp_all add: readonly_def ret_def fail_def return_err_def split: option.splits)

lemma readonly_handle [intro!]: "readonly m \<Longrightarrow> (\<And>e. readonly (h e)) \<Longrightarrow> (\<And>a. readonly (k a)) \<Longrightarrow> readonly (handle m h k)"
  unfolding readonly_def handle_def by (auto split: prod.splits result.splits) (metis snd_conv)+

lemma readonly_derived [intro!]: "readonly m \<Longrightarrow> (\<And>a. readonly (k a)) \<Longrightarrow> readonly (andThen m k)" "readonly m \<Longrightarrow> readonly (orWrap p m)"
  by (auto simp: andThen_def orWrap_def)

lemma CreateK8SClientSet_state: "CreateK8SClientSet lib cfg namespace s = (r, t) \<Longrightarrow> t = s"
  by (erule readonlyD [rotated]) (auto simp: CreateK8SClientSet_def Let_def)

lemma on_rest_run: "on_rest m s = (r, t) \<Longrightarrow> m (rest_of s) = (r, rest_of t)"
  by (auto simp: on_rest_def split: prod.splits)

end
