(* ===== verification/Rsync.thy ===== *)
theory Rsync imports Config Domain begin

text \<open>
  Copying the data of the dogu volumes with rsync (\<open>migration/sync/rsync.go\<close>). The exporter,
  the file system and the child process are a record of calls. The two goroutines that print
  the output of rsync are one effect between the start of the process and the wait for it,
  since \<open>SyncDoguDir\<close> waits for both of them in between.
\<close>

section \<open>The syncer\<close>

definition subDirsToIgnore :: "string list" where
  "subDirsToIgnore = [''lost+found'', ''_private'']"

record RsyncSyncer =
  host :: string
  user :: string
  privateKeyPath :: string
  excludePattern :: "ExcludePattern list"
  doguVolumeBasePath :: string
  excludedDogus :: "string list"
  checksumDogus :: "string list"
  verbose :: bool

definition NewRsyncSyncer ::
    "string \<Rightarrow> string \<Rightarrow> string \<Rightarrow> ExcludePattern list \<Rightarrow> string \<Rightarrow> string list \<Rightarrow> string list \<Rightarrow> bool \<Rightarrow> RsyncSyncer" where
  "NewRsyncSyncer h u key pats base excluded checksum verb =
     \<lparr>host = h, user = u, privateKeyPath = key, excludePattern = pats, doguVolumeBasePath = base,
      excludedDogus = excluded, checksumDogus = checksum, verbose = verb\<rparr>"

record 'w rsync_api =
  rs_GetSystemInfo :: "ctx \<Rightarrow> ('w, SystemInfo) go"
  rs_SetExportDogu :: "ctx \<Rightarrow> string \<Rightarrow> ('w, DoguExport) go"
  os_ReadDir :: "string \<Rightarrow> ('w, (string \<times> bool) list) go"
  cmd_StdoutPipe :: "string list \<Rightarrow> ('w, unit) go"
  cmd_StderrPipe :: "string list \<Rightarrow> ('w, unit) go"
  cmd_Start :: "string list \<Rightarrow> ('w, unit) go"
  cmd_print_output :: "string list \<Rightarrow> 'w \<Rightarrow> 'w"
  cmd_Wait :: "string list \<Rightarrow> ('w, unit) go"

datatype rsync_call =
    FetchSystemInfo
  | SetExport string
  | ReadDir string
  | StartRsync "string list"
  | WaitRsync "string list"

definition getSimpleDoguNames :: "name_lib \<Rightarrow> string list \<Rightarrow> string list" where
  "getSimpleDoguNames nl doguNames = map (\<lambda>doguName. case QualifiedNameFromString nl doguName of
     Inr (ns, simpleName) \<Rightarrow> simpleName | Inl err \<Rightarrow> doguName) doguNames"

definition rs_getExcludedDoguNames :: "name_lib \<Rightarrow> RsyncSyncer \<Rightarrow> string list" where
  "rs_getExcludedDoguNames nl rs = getSimpleDoguNames nl (excludedDogus rs)"

text \<open>The map from dogu names to their exclude patterns; a missing key gives a nil slice.\<close>

definition excludeMap :: "RsyncSyncer \<Rightarrow> string \<Rightarrow> string list" where
  "excludeMap rs = fold (\<lambda>p m. m(ep_DoguName p := m (ep_DoguName p) @ Pattern p)) (excludePattern rs) (\<lambda>_. [])"

definition buildRSyncArgs :: "RsyncSyncer \<Rightarrow> int \<Rightarrow> string \<Rightarrow> string \<Rightarrow> string list \<Rightarrow> bool \<Rightarrow> string list" where
  "buildRSyncArgs rs port source destination excludePatterns useChecksum =
     [if verbose rs then ''-avhz'' else ''-ahz''] @
     [''--delete''] @
     (if useChecksum then [''--checksum''] else []) @
     [''--sparse''] @
     [''--stats''] @
     [''--delete-excluded''] @
     map (\<lambda>pattern. ''--exclude='' @ pattern) excludePatterns @
     [''-e''] @
     [''ssh -p '' @ show_int port @ '' -l '' @ user rs @ '' -i '' @ privateKeyPath rs @
       '' -o StrictHostKeyChecking=no -o BatchMode=yes''] @
     [host rs @ '':'' @ source] @
     [destination]"

definition SyncDoguDir ::
    "'w rsync_api \<Rightarrow> RsyncSyncer \<Rightarrow> int \<Rightarrow> string \<Rightarrow> string \<Rightarrow> string list \<Rightarrow> bool \<Rightarrow> ((rsync_call, 'w) st, unit) go" where
  "SyncDoguDir api rs port source destination excludePatterns useChecksum =
     (let cmd = buildRSyncArgs rs port source destination excludePatterns useChecksum in
     andThen (orWrap ''error creating stdout pipe'' (quietly (cmd_StdoutPipe api cmd))) (\<lambda>_.
     andThen (orWrap ''error creating stderr pipe'' (quietly (cmd_StderrPipe api cmd))) (\<lambda>_.
     andThen (orWrap ''error starting rsync'' (extern (StartRsync cmd) (cmd_Start api cmd))) (\<lambda>_.
     andThen (quietly (modify (cmd_print_output api cmd))) (\<lambda>_.
     orWrap ''rsync exited with error'' (extern (WaitRsync cmd) (cmd_Wait api cmd)))))))"

definition getSubDirs :: "'w rsync_api \<Rightarrow> string \<Rightarrow> ((rsync_call, 'w) st, string list) go" where
  "getSubDirs api importDestDir =
     handle (extern (ReadDir importDestDir) (os_ReadDir api importDestDir))
       (\<lambda>err. if is_err_not_exist err then ret [] else fail (errorf_w ''error reading dest-dir'' err))
       (\<lambda>entries. ret (map fst (filter (\<lambda>(name, isDir). isDir \<and> name \<notin> set subDirsToIgnore) entries)))"

definition exporterSourcePath :: "DoguExport \<Rightarrow> string \<Rightarrow> string" where
  "exporterSourcePath doguExport subDir = path_clean (path_join [de_VolumePath doguExport, subDir]) @ ''/''"

text \<open>The loop over the sub-directories of a dogu, with the accumulated \<open>result\<close>.\<close>

definition sync_dir ::
    "'w rsync_api \<Rightarrow> RsyncSyncer \<Rightarrow> DoguExport \<Rightarrow> string \<Rightarrow> string list \<Rightarrow> bool \<Rightarrow> string \<Rightarrow> ((rsync_call, 'w) st, unit) go" where
  "sync_dir api rs doguExport doguImportDir pats useChecksum subDir =
     (let importerDestination = path_join [doguImportDir, subDir];
          source = exporterSourcePath doguExport subDir
      in orWrap (''failed to sync source '' @ source @ '' to destination '' @ importerDestination)
        (SyncDoguDir api rs (de_ExporterPort doguExport) source importerDestination pats useChecksum))"

text \<open>The body of the loop over the dogus: it returns the new value of \<open>result\<close>.\<close>

definition sync_dogu ::
    "name_lib \<Rightarrow> 'w rsync_api \<Rightarrow> RsyncSyncer \<Rightarrow> ctx \<Rightarrow> Dogu \<Rightarrow> err option \<Rightarrow> ((rsync_call, 'w) st, err option) go" where
  "sync_dogu nl api rs ctx dogu result =
     (case QualifiedNameFromString nl (dogu_Name dogu) of
        Inl err \<Rightarrow> ret (join2 result (Some (errorf_w (''failed to get qualified dogu name from dogu '' @ dogu_Name dogu) err)))
      | Inr (ns, simpleName) \<Rightarrow>
          if simpleName \<in> set (rs_getExcludedDoguNames nl rs) then ret result
          else handle (extern (SetExport simpleName) (rs_SetExportDogu api ctx simpleName))
            (\<lambda>err. ret (join2 result (Some (errorf_w
               (''failed to set dogu '' @ dogu_Name dogu @ '' as export dogu'') err))))
            (\<lambda>doguExport.
              let pats = excludeMap rs (dogu_Name dogu);
                  useChecksum = simpleName \<in> set (getSimpleDoguNames nl (checksumDogus rs));
                  doguImportDir = path_join [doguVolumeBasePath rs, simpleName]
              in handle (getSubDirs api doguImportDir)
                (\<lambda>err. ret (join2 result (Some (errorf_w (''failed to get subDirs for dogu '' @ dogu_Name dogu) err))))
                (\<lambda>subDirs. for_join (sync_dir api rs doguExport doguImportDir pats useChecksum) subDirs result)))"

primrec sync_dogus ::
    "name_lib \<Rightarrow> 'w rsync_api \<Rightarrow> RsyncSyncer \<Rightarrow> ctx \<Rightarrow> Dogu list \<Rightarrow> err option \<Rightarrow> ((rsync_call, 'w) st, err option) go" where
  "sync_dogus nl api rs ctx [] result = ret result"
| "sync_dogus nl api rs ctx (dogu # dogus) result =
     andThen (sync_dogu nl api rs ctx dogu result) (\<lambda>result. sync_dogus nl api rs ctx dogus result)"

definition SyncData :: "name_lib \<Rightarrow> 'w rsync_api \<Rightarrow> RsyncSyncer \<Rightarrow> ctx \<Rightarrow> ((rsync_call, 'w) st, unit) go" where
  "SyncData nl api rs ctx =
     andThen (orWrap ''failed to fetch exporter system info'' (extern FetchSystemInfo (rs_GetSystemInfo api ctx))) (\<lambda>systemInfo.
     andThen (sync_dogus nl api rs ctx (si_Dogus systemInfo) None) return_err)"

section \<open>A nil error means that everything was copied\<close>

text \<open>The patterns of a dogu, as the fold builds them.\<close>

lemma excludeMap_eq:
  "excludeMap rs name = concat (map Pattern (filter (\<lambda>p. ep_DoguName p = name) (excludePattern rs)))"
proof -
  have "fold (\<lambda>p m. m(ep_DoguName p := m (ep_DoguName p) @ Pattern p)) ps m name =
      m name @ concat (map Pattern (filter (\<lambda>p. ep_DoguName p = name) ps))"
    for ps :: "ExcludePattern list" and m
    by (induction ps arbitrary: m) auto
  then show ?thesis by (simp add: excludeMap_def)
qed

definition rsync_args :: "name_lib \<Rightarrow> RsyncSyncer \<Rightarrow> Dogu \<Rightarrow> string \<Rightarrow> DoguExport \<Rightarrow> string \<Rightarrow> string list" where
  "rsync_args nl rs dogu n doguExport subDir =
     buildRSyncArgs rs (de_ExporterPort doguExport) (exporterSourcePath doguExport subDir)
       (path_join [path_join [doguVolumeBasePath rs, n], subDir]) (excludeMap rs (dogu_Name dogu))
       (n \<in> set (getSimpleDoguNames nl (checksumDogus rs)))"

definition rsync_runs :: "(string \<Rightarrow> string list) \<Rightarrow> string list \<Rightarrow> (rsync_call \<times> ending) list" where
  "rsync_runs args subDirs = fine (concat (map (\<lambda>d. [StartRsync (args d), WaitRsync (args d)]) subDirs))"

lemma rsync_runs_simps [simp]:
  "rsync_runs args [] = []"
  "rsync_runs args (d # ds) = (StartRsync (args d), Fine) # (WaitRsync (args d), Fine) # rsync_runs args ds"
  by (simp_all add: rsync_runs_def)

text \<open>
  \<open>dogu_synced\<close>: the calls \<open>es\<close> copy a dogu: it is excluded and there are none, or it was made
  the export dogu and for each sub-directory of its volume on this side, as the file system
  answered, rsync ran to its end with the exporter's answer as its source; without the
  directory there is nothing to copy.
\<close>

definition dogu_synced ::
    "name_lib \<Rightarrow> 'w rsync_api \<Rightarrow> RsyncSyncer \<Rightarrow> ctx \<Rightarrow> Dogu \<Rightarrow> (rsync_call \<times> ending) list \<Rightarrow> bool" where
  "dogu_synced nl api rs ctx dogu es \<longleftrightarrow>
     (\<exists>ns n. QualifiedNameFromString nl (dogu_Name dogu) = Inr (ns, n) \<and>
       (if n \<in> set (rs_getExcludedDoguNames nl rs) then es = []
        else \<exists>doguExport subDirs e w v w'. rs_SetExportDogu api ctx n w = (Ok doguExport, v) \<and>
          es = (SetExport n, Fine) # (ReadDir (path_join [doguVolumeBasePath rs, n]), e) #
            rsync_runs (rsync_args nl rs dogu n doguExport) subDirs \<and>
          (case fst (os_ReadDir api (path_join [doguVolumeBasePath rs, n]) w') of
             Ok entries \<Rightarrow> e = Fine \<and> subDirs = map fst (filter (\<lambda>(name, isDir). isDir \<and> name \<notin> set subDirsToIgnore) entries)
           | Err x \<Rightarrow> e = Failed x \<and> is_err_not_exist x \<and> subDirs = []
           | Panic _ \<Rightarrow> False)))"

lemma SyncDoguDir_Ok:
  "wp (SyncDoguDir api rs port src dst pats cs) (\<lambda>r t. case r of
     Ok _ \<Rightarrow> trace t = trace s @ [(StartRsync (buildRSyncArgs rs port src dst pats cs), Fine),
       (WaitRsync (buildRSyncArgs rs port src dst pats cs), Fine)]
   | _ \<Rightarrow> True) s"
  by (auto simp: SyncDoguDir_def Let_def wp_iff [where m = "cmd_StdoutPipe api x" for x]
      wp_iff [where m = "cmd_StderrPipe api x" for x] wp_iff [where m = "cmd_Start api x" for x]
      wp_iff [where m = "cmd_Wait api x" for x] split: result.splits)

lemma sync_dirs_Ok:
  assumes "for_join (sync_dir api rs doguExport dir pats cs) subDirs acc s = (Ok None, t)"
  shows "trace t = trace s @ rsync_runs (\<lambda>d. buildRSyncArgs rs (de_ExporterPort doguExport)
      (exporterSourcePath doguExport d) (path_join [dir, d]) pats cs) subDirs"
  using assms
proof (induction subDirs arbitrary: acc s)
  case Nil
  then show ?case by (simp add: ret_def)
next
  case (Cons d ds)
  let ?m = "sync_dir api rs doguExport dir pats cs d"
  obtain r u where m: "?m s = (r, u)" by fastforce
  show ?case
  proof (cases r)
    case (Ok a)
    then obtain a' where "SyncDoguDir api rs (de_ExporterPort doguExport) (exporterSourcePath doguExport d)
        (path_join [dir, d]) pats cs s = (Ok a', u)"
      using m by (auto simp: sync_dir_def Let_def ok_iffs)
    from wpD [OF SyncDoguDir_Ok this] Cons.IH [of acc u] Cons.prems m Ok
    show ?thesis by (simp add: attempt_def handle_def)
  next
    case (Err e)
    with Cons.prems m have "join2 acc (Some e) = None"
      by (auto simp: attempt_def handle_def dest: for_join_None)
    then show ?thesis by simp
  next
    case (Panic p)
    with Cons.prems m show ?thesis by (simp add: attempt_def handle_def)
  qed
qed

lemma sync_dogu_Ok:
  assumes "sync_dogu nl api rs ctx dogu result s = (Ok None, t)"
  shows "result = None \<and> (\<exists>es. trace t = trace s @ es \<and> dogu_synced nl api rs ctx dogu es)"
proof (cases "QualifiedNameFromString nl (dogu_Name dogu)")
  case (Inl e)
  with assms show ?thesis by (simp add: sync_dogu_def ret_def)
next
  case (Inr q)
  obtain ns n where q: "q = (ns, n)" by fastforce
  show ?thesis
  proof (cases "n \<in> set (rs_getExcludedDoguNames nl rs)")
    case True
    with assms Inr q show ?thesis by (auto simp: sync_dogu_def ok_iffs dogu_synced_def)
  next
    case False
    let ?dir = "path_join [doguVolumeBasePath rs, n]"
    let ?pats = "excludeMap rs (dogu_Name dogu)"
    let ?cs = "n \<in> set (getSimpleDoguNames nl (checksumDogus rs))"
    obtain r w where x: "rs_SetExportDogu api ctx n (world s) = (r, w)" by fastforce
    obtain r' w' where d: "os_ReadDir api ?dir w = (r', w')" by fastforce
    have dir: "fst (os_ReadDir api ?dir w) = r'" by (simp add: d)
    from assms Inr q False x obtain ex where ex: "r = Ok ex"
      by (cases r) (auto simp: sync_dogu_def handle_def extern_def ret_def)
    let ?u = "s\<lparr>trace := trace s @ [(SetExport n, Fine), (ReadDir ?dir, ending_of r')], world := w'\<rparr>"
    have "\<exists>subDirs. for_join (sync_dir api rs ex ?dir ?pats ?cs) subDirs result ?u = (Ok None, t) \<and>
        (case r' of Ok entries \<Rightarrow> subDirs = map fst (filter (\<lambda>(name, isDir). isDir \<and> name \<notin> set subDirsToIgnore) entries)
          | Err y \<Rightarrow> is_err_not_exist y \<and> subDirs = [] | Panic _ \<Rightarrow> False)"
      using assms Inr q False x ex d
      by (cases r') (auto simp: sync_dogu_def getSubDirs_def Let_def handle_def extern_def ret_def fail_def split: if_splits)
    then obtain subDirs where sub: "for_join (sync_dir api rs ex ?dir ?pats ?cs) subDirs result ?u = (Ok None, t)"
      "case r' of Ok entries \<Rightarrow> subDirs = map fst (filter (\<lambda>(name, isDir). isDir \<and> name \<notin> set subDirsToIgnore) entries)
          | Err y \<Rightarrow> is_err_not_exist y \<and> subDirs = [] | Panic _ \<Rightarrow> False" by blast
    have "trace t = trace s @ (SetExport n, Fine) # (ReadDir ?dir, ending_of r') #
        rsync_runs (rsync_args nl rs dogu n ex) subDirs"
      using sync_dirs_Ok [OF sub(1)] by (simp add: rsync_args_def [abs_def])
    moreover have "result = None" using sub(1) by (rule for_join_None)
    moreover have "case fst (os_ReadDir api ?dir w) of
             Ok entries \<Rightarrow> ending_of r' = Fine \<and> subDirs = map fst (filter (\<lambda>(name, isDir). isDir \<and> name \<notin> set subDirsToIgnore) entries)
           | Err x \<Rightarrow> ending_of r' = Failed x \<and> is_err_not_exist x \<and> subDirs = []
           | Panic _ \<Rightarrow> False"
      using sub(2) by (simp add: dir split: result.splits)
    ultimately show ?thesis
      unfolding dogu_synced_def using Inr q False x ex by fastforce
  qed
qed


lemma sync_dogus_Ok:
  "sync_dogus nl api rs ctx dogus result s = (Ok None, t) \<Longrightarrow>
     result = None \<and> (\<exists>ess. trace t = trace s @ concat ess \<and> list_all2 (dogu_synced nl api rs ctx) dogus ess)"
proof (induction dogus arbitrary: result s)
  case Nil
  then show ?case by (auto simp: ret_def)
next
  case (Cons d ds)
  then obtain acc u where u: "sync_dogu nl api rs ctx d result s = (Ok acc, u)"
    "sync_dogus nl api rs ctx ds acc u = (Ok None, t)" by (auto simp: ok_iffs)
  from Cons.IH [OF u(2)] obtain ess where ess: "acc = None" "trace t = trace u @ concat ess"
    "list_all2 (dogu_synced nl api rs ctx) ds ess" by blast
  from sync_dogu_Ok [OF u(1) [unfolded ess(1)]] obtain es where
    "result = None" "trace u = trace s @ es" "dogu_synced nl api rs ctx d es" by blast
  with ess show ?case by (auto intro!: exI [of _ "es # ess"])
qed

text \<open>
  C8: when \<open>SyncData\<close> returns nil, the dogus of the system info that the exporter answered
  were copied one after the other, and for each of them the calls were exactly those that
  copy it: none for an excluded dogu; for every other one, choosing it as the export dogu
  and a finished rsync for each of the sub-directories of its volume.
\<close>

theorem SyncData_copies_every_dogu:
  "wp (SyncData nl api rs ctx) (\<lambda>r t. case r of
     Ok _ \<Rightarrow> \<exists>info ess. fst (rs_GetSystemInfo api ctx (world s)) = Ok info \<and>
       trace t = trace s @ (FetchSystemInfo, Fine) # concat ess \<and>
       list_all2 (dogu_synced nl api rs ctx) (si_Dogus info) ess
   | _ \<Rightarrow> True) s"
proof -
  have "\<exists>info ess. fst (rs_GetSystemInfo api ctx (world s)) = Ok info \<and>
       trace t = trace s @ (FetchSystemInfo, Fine) # concat ess \<and>
       list_all2 (dogu_synced nl api rs ctx) (si_Dogus info) ess"
    if run: "SyncData nl api rs ctx s = (Ok (), t)" for t
  proof -
    obtain r w where x: "rs_GetSystemInfo api ctx (world s) = (r, w)" by fastforce
    with run obtain info where info: "r = Ok info" by (cases r) (auto simp: SyncData_def ok_iffs extern_def)
    let ?s = "s\<lparr>trace := trace s @ [(FetchSystemInfo, Fine)], world := w\<rparr>"
    from run x info have "sync_dogus nl api rs ctx (si_Dogus info) None ?s = (Ok None, t)"
      by (auto simp: SyncData_def ok_iffs extern_def)
    from sync_dogus_Ok [OF this] info x show ?thesis by auto
  qed
  then show ?thesis by (intro wpI) (auto split: result.splits)
qed

section \<open>Where rsync writes\<close>

text \<open>
  What rsync may delete and overwrite: a directory that is named by exactly the components of
  the base path, a dogu and a sub-directory.
\<close>

definition inside_volume :: "RsyncSyncer \<Rightarrow> string \<Rightarrow> bool" where
  "inside_volume rs dst \<longleftrightarrow> (\<exists>n sub. plain_comp n \<and> plain_comp sub \<and> sub \<notin> set subDirsToIgnore \<and>
     dst = print_path (path_rooted (doguVolumeBasePath rs))
       (clean_comps (path_rooted (doguVolumeBasePath rs)) (split_on slash (doguVolumeBasePath rs)) @ [n, sub]))"

definition rsyncs_inside :: "RsyncSyncer \<Rightarrow> (rsync_call \<times> ending) list \<Rightarrow> bool" where
  "rsyncs_inside rs es \<longleftrightarrow> (\<forall>args e. (StartRsync args, e) \<in> set es \<longrightarrow> inside_volume rs (last args))"

text \<open>
  What is assumed of the answers: the entries of a directory have plain names, as the file
  system documents, and no dogu of the exporter has a simple name that is no plain name (it
  is empty, or a dot or double dot, or has a slash).
\<close>

definition plain_dogu :: "name_lib \<Rightarrow> Dogu \<Rightarrow> bool" where
  "plain_dogu nl d \<longleftrightarrow> (\<forall>ns n. QualifiedNameFromString nl (dogu_Name d) = Inr (ns, n) \<longrightarrow> plain_comp n)"

definition plain_entries :: "'w rsync_api \<Rightarrow> bool" where
  "plain_entries api \<longleftrightarrow> (\<forall>dir w entries v name isDir.
     os_ReadDir api dir w = (Ok entries, v) \<longrightarrow> (name, isDir) \<in> set entries \<longrightarrow> plain_comp name)"

definition plain_answers :: "name_lib \<Rightarrow> 'w rsync_api \<Rightarrow> ctx \<Rightarrow> bool" where
  "plain_answers nl api ctx \<longleftrightarrow> plain_entries api \<and>
     (\<forall>w info v. rs_GetSystemInfo api ctx w = (Ok info, v) \<longrightarrow> list_all (plain_dogu nl) (si_Dogus info))"

lemma rsyncs_inside_append [simp]:
  "rsyncs_inside rs (xs @ ys) \<longleftrightarrow> rsyncs_inside rs xs \<and> rsyncs_inside rs ys"
  "rsyncs_inside rs []"
  "rsyncs_inside rs (x # y # ys) \<longleftrightarrow> rsyncs_inside rs [x] \<and> rsyncs_inside rs (y # ys)"
  by (auto simp: rsyncs_inside_def)

lemma last_args [simp]: "last (buildRSyncArgs rs port src dst pats cs) = dst"
  by (simp add: buildRSyncArgs_def)

lemma join_twice:
  assumes "base \<noteq> []" "plain_comp n" "plain_comp sub"
  shows "path_join [path_join [base, n], sub] =
    print_path (path_rooted base) (clean_comps (path_rooted base) (split_on slash base) @ [n, sub])"
proof -
  let ?r = "path_rooted base" and ?b = "clean_comps (path_rooted base) (split_on slash base)"
  have normal: "normal_comps ?r (?b @ [n])"
    using normal_clean_step [of ?r ?b n] assms(2) normal_clean_comps [of "split_on slash base" ?r]
    by (auto simp: plain_comp_def clean_step_def dest: split_on_pieces)
  let ?p = "print_path ?r (?b @ [n])"
  have ne: "?b @ [n] \<noteq> []" by simp
  have first: "path_rooted ?p = ?r \<and> ?p \<noteq> []"
  proof (cases ?r)
    case False
    with normal_join_first [OF _ ne] normal show ?thesis by (simp add: print_path_def)
  qed (simp add: print_path_def path_rooted_def)
  have "split_on slash ?p = (if ?r then [] # ?b @ [n] else ?b @ [n])"
    using normal by (auto simp: print_path_def normal_comps_def split_on_no_sep intro!: split_join)
  then have "clean_comps ?r (split_on slash ?p) = ?b @ [n]"
    using clean_comps_normal [OF normal] by (cases ?r) simp_all
  with first assms show ?thesis by (simp add: path_join_plain)
qed


definition only_inside :: "RsyncSyncer \<Rightarrow> ((rsync_call, 'w) st, 'a) go \<Rightarrow> bool" where
  "only_inside rs m \<longleftrightarrow> (\<forall>s r t. m s = (r, t) \<longrightarrow> (\<exists>es. trace t = trace s @ es \<and> rsyncs_inside rs es))"

lemma only_insideI: "(\<And>s r t. m s = (r, t) \<Longrightarrow> \<exists>es. trace t = trace s @ es \<and> rsyncs_inside rs es) \<Longrightarrow> only_inside rs m"
  by (simp add: only_inside_def)

lemma only_insideD: "only_inside rs m \<Longrightarrow> m s = (r, t) \<Longrightarrow> \<exists>es. trace t = trace s @ es \<and> rsyncs_inside rs es"
  by (simp add: only_inside_def)

lemma then_inside:
  assumes "trace u = trace s @ es" "rsyncs_inside rs es" "\<exists>es'. trace t = trace u @ es' \<and> rsyncs_inside rs es'"
  shows "\<exists>es. trace t = trace s @ es \<and> rsyncs_inside rs es"
proof -
  from assms(3) obtain es' where "trace t = trace u @ es'" "rsyncs_inside rs es'" by blast
  with assms(1,2) show ?thesis by (intro exI [of _ "es @ es'"]) simp
qed

lemma only_inside_ret [intro!]: "only_inside rs (ret a)" "only_inside rs (fail e)"
  by (auto simp: only_inside_def ret_def fail_def)

lemma only_inside_handle [intro!]:
  assumes "only_inside rs m" "\<And>e. only_inside rs (h e)" "\<And>a. only_inside rs (k a)"
  shows "only_inside rs (handle m h k)"
proof (rule only_insideI)
  fix s r t assume run: "handle m h k s = (r, t)"
  obtain q u where m: "m s = (q, u)" by fastforce
  from only_insideD [OF assms(1) m] obtain es where es: "trace u = trace s @ es" "rsyncs_inside rs es" by blast
  show "\<exists>es. trace t = trace s @ es \<and> rsyncs_inside rs es"
  proof (cases q)
    case (Ok a)
    with run m have "k a u = (r, t)" by (simp add: handle_def)
    from then_inside [OF es only_insideD [OF assms(3) this]] show ?thesis .
  next
    case (Err e)
    with run m have "h e u = (r, t)" by (simp add: handle_def)
    from then_inside [OF es only_insideD [OF assms(2) this]] show ?thesis .
  next
    case (Panic p)
    with run m es show ?thesis by (auto simp: handle_def)
  qed
qed

lemma only_inside_derived [intro!]:
  "only_inside rs m \<Longrightarrow> (\<And>a. only_inside rs (k a)) \<Longrightarrow> only_inside rs (andThen m k)"
  "only_inside rs m \<Longrightarrow> only_inside rs (orWrap p m)"
  "only_inside rs m \<Longrightarrow> (\<And>e. only_inside rs (k' e)) \<Longrightarrow> only_inside rs (attempt m k')"
  by (auto simp: andThen_def orWrap_def attempt_def)

lemma only_inside_extern [intro!]:
  "rsyncs_inside rs [(c, Fine)] \<Longrightarrow> only_inside rs (extern c m)"
  by (auto simp: only_inside_def extern_def rsyncs_inside_def split: prod.splits)

lemma only_inside_quietly [intro!]: "only_inside rs (quietly m)"
  by (auto simp: only_inside_def quietly_def split: prod.splits)

lemma only_inside_for_join: "(\<And>x. x \<in> set xs \<Longrightarrow> only_inside rs (f x)) \<Longrightarrow> only_inside rs (for_join f xs acc)"
  by (induction xs arbitrary: acc) auto

lemma harmless [simp]: "rsyncs_inside rs [(FetchSystemInfo, e)]" "rsyncs_inside rs [(SetExport n, e)]"
  "rsyncs_inside rs [(ReadDir d, e)]" "rsyncs_inside rs [(WaitRsync args, e)]"
  "rsyncs_inside rs [(StartRsync args, e)] \<longleftrightarrow> inside_volume rs (last args)"
  by (auto simp: rsyncs_inside_def)

lemma sync_dir_inside:
  assumes "doguVolumeBasePath rs \<noteq> []" "plain_comp n" "plain_comp sub" "sub \<notin> set subDirsToIgnore"
  shows "only_inside rs (sync_dir api rs ex (path_join [doguVolumeBasePath rs, n]) pats cs sub)"
proof -
  have "inside_volume rs (path_join [path_join [doguVolumeBasePath rs, n], sub])"
    unfolding inside_volume_def join_twice [OF assms(1-3)] using assms(2-4) by blast
  then show ?thesis by (auto simp: sync_dir_def SyncDoguDir_def Let_def)
qed

lemma sync_dogu_inside:
  assumes "plain_entries api" "plain_dogu nl d" "doguVolumeBasePath rs \<noteq> []"
  shows "only_inside rs (sync_dogu nl api rs ctx d acc)"
proof (cases "QualifiedNameFromString nl (dogu_Name d)")
  case (Inr q)
  obtain ns n where q: "q = (ns, n)" by fastforce
  with Inr assms(2) have n: "plain_comp n" unfolding plain_dogu_def by blast
  let ?dir = "path_join [doguVolumeBasePath rs, n]"
  have copy: "only_inside rs (handle (getSubDirs api ?dir) h
      (\<lambda>subDirs. for_join (sync_dir api rs ex ?dir pats cs) subDirs acc))"
    if h: "\<And>e. only_inside rs (h e)" for h ex pats cs
  proof (rule only_insideI)
    fix s r t assume run: "handle (getSubDirs api ?dir) h
      (\<lambda>subDirs. for_join (sync_dir api rs ex ?dir pats cs) subDirs acc) s = (r, t)"
    obtain q u where m: "getSubDirs api ?dir s = (q, u)" by fastforce
    have "only_inside rs (getSubDirs api ?dir)" by (auto simp: getSubDirs_def)
    from only_insideD [OF this m] obtain es where es: "trace u = trace s @ es" "rsyncs_inside rs es" by blast
    show "\<exists>es. trace t = trace s @ es \<and> rsyncs_inside rs es"
    proof (cases q)
      case (Ok subDirs)
      have "plain_comp sub \<and> sub \<notin> set subDirsToIgnore" if "sub \<in> set subDirs" for sub
        using that m Ok assms(1) unfolding plain_entries_def
        by (auto simp: getSubDirs_def handle_def extern_def ret_def fail_def split: prod.splits result.splits if_splits) blast
      then have "only_inside rs (for_join (sync_dir api rs ex ?dir pats cs) subDirs acc)"
        by (intro only_inside_for_join sync_dir_inside) (use assms(3) n in auto)
      moreover have "for_join (sync_dir api rs ex ?dir pats cs) subDirs acc u = (r, t)"
        using run m Ok by (simp add: handle_def)
      ultimately show ?thesis by (intro then_inside [OF es] only_insideD)
    next
      case (Err e)
      with run m have "h e u = (r, t)" by (simp add: handle_def)
      from then_inside [OF es only_insideD [OF h this]] show ?thesis .
    next
      case (Panic p)
      with run m es show ?thesis by (auto simp: handle_def)
    qed
  qed
  have "only_inside rs (handle (extern (SetExport n) (rs_SetExportDogu api ctx n)) (\<lambda>err. ret (f err))
      (\<lambda>ex. handle (getSubDirs api ?dir) (\<lambda>err. ret (g err)) (\<lambda>subDirs.
        for_join (sync_dir api rs ex ?dir pats cs) subDirs acc)))" for f g pats cs
    by (rule only_inside_handle, simp add: only_inside_extern, rule only_inside_ret, rule copy, rule only_inside_ret)
  with Inr q show ?thesis by (simp add: sync_dogu_def Let_def only_inside_ret)
qed (auto simp: sync_dogu_def)

lemma sync_dogus_inside:
  "plain_entries api \<Longrightarrow> doguVolumeBasePath rs \<noteq> [] \<Longrightarrow> list_all (plain_dogu nl) dogus \<Longrightarrow>
     only_inside rs (sync_dogus nl api rs ctx dogus acc)"
  by (induction dogus arbitrary: acc) (auto intro: sync_dogu_inside)

text \<open>
  C32: however \<open>SyncData\<close> goes, every rsync that it starts, and rsync deletes what the source
  does not have, writes into a sub-directory of the volume of one dogu below the base path,
  never above it and never into a directory to ignore, as long as the exporter's dogus have
  plain names.
\<close>

theorem rsync_stays_inside_dogu_volumes:
  assumes "plain_answers nl api ctx" "doguVolumeBasePath rs \<noteq> []"
  shows "wp (SyncData nl api rs ctx) (\<lambda>r t. \<exists>es. trace t = trace s @ es \<and> rsyncs_inside rs es) s"
proof -
  obtain r w where x: "rs_GetSystemInfo api ctx (world s) = (r, w)" by fastforce
  note X = wp_eq [where m = "rs_GetSystemInfo api ctx", OF x]
  let ?s = "s\<lparr>trace := trace s @ [(FetchSystemInfo, ending_of r)], world := w\<rparr>"
  show ?thesis
  proof (cases r)
    case (Ok info)
    with assms x have "list_all (plain_dogu nl) (si_Dogus info)" "plain_entries api"
      unfolding plain_answers_def by blast+
    from sync_dogus_inside [OF this(2) assms(2) this(1)]
    have "wp (sync_dogus nl api rs ctx (si_Dogus info) None) (\<lambda>r t. \<exists>es. trace t = trace ?s @ es \<and> rsyncs_inside rs es) ?s"
      by (intro wpI) (rule only_insideD)
    then have "wp (sync_dogus nl api rs ctx (si_Dogus info) None) (\<lambda>r t. \<exists>es. trace t = trace s @ es \<and> rsyncs_inside rs es) ?s"
      by (rule wp_mono) (auto intro: then_inside [where es = "[(FetchSystemInfo, ending_of r)]" and u = ?s])
    with Ok show ?thesis
      by (simp add: SyncData_def X) (erule wp_mono, simp split: result.splits)
  qed (auto simp: SyncData_def X)
qed

definition sample_dogu :: Dogu where
  "sample_dogu = \<lparr>dogu_Name = ''official/redmine'', dogu_Version = ''5'', dogu_Volume = \<lparr>SizeInBytes = 0\<rparr>\<rparr>"

definition sample_rsync_api :: "unit rsync_api" where
  "sample_rsync_api = \<lparr>
     rs_GetSystemInfo = \<lambda>_. answers (Ok \<lparr>si_FQDN = [], si_IsMultinode = False, si_Dogus = [sample_dogu], si_Components = []\<rparr>),
     rs_SetExportDogu = \<lambda>_ n. answers (Ok \<lparr>de_Dogu = n, de_VolumePath = ''/volumes'', de_ExporterPort = 22\<rparr>),
     os_ReadDir = \<lambda>_. answers (Ok [(''files'', True), (''lost+found'', True)]),
     cmd_StdoutPipe = \<lambda>_. answers (Ok ()), cmd_StderrPipe = \<lambda>_. answers (Ok ()), cmd_Start = \<lambda>_. answers (Ok ()),
     cmd_print_output = \<lambda>_. id, cmd_Wait = \<lambda>_. answers (Ok ())\<rparr>"

definition sample_syncer :: RsyncSyncer where
  "sample_syncer = \<lparr>host = ''source'', user = ''root'', privateKeyPath = ''/key'', excludePattern = [],
     doguVolumeBasePath = ''/data'', excludedDogus = [], checksumDogus = [], verbose = False\<rparr>"

lemma sample_plain_answers: "plain_answers sample_names sample_rsync_api ctx"
proof -
  have "plain_comp ''files''" "plain_comp ''lost+found''" "plain_dogu sample_names sample_dogu"
    by (simp_all add: plain_comp_def dot_def dotdot_def plain_dogu_def sample_names_def sample_dogu_def)
  then show ?thesis
    by (auto simp: plain_answers_def plain_entries_def sample_rsync_api_def answers_def)
qed

definition sample_args :: "string list" where
  "sample_args = [''-ahz'', ''--delete'', ''--sparse'', ''--stats'', ''--delete-excluded'', ''-e'',
     ''ssh -p 22 -l root -i /key -o StrictHostKeyChecking=no -o BatchMode=yes'', ''source:/volumes/files/'',
     ''/data/redmine/files'']"

theorem rsync_stays_inside_dogu_volumes_witness:
  "\<exists>t. SyncData sample_names sample_rsync_api sample_syncer Background \<lparr>trace = [], world = ()\<rparr> = (Ok (), t) \<and>
     rsyncs_inside sample_syncer (trace t) \<and>
     map fst (trace t) = [FetchSystemInfo, SetExport ''redmine'', ReadDir ''/data/redmine'',
       StartRsync sample_args, WaitRsync sample_args]"
proof -
  let ?m = "SyncData sample_names sample_rsync_api sample_syncer Background" and ?s = "\<lparr>trace = [], world = ()\<rparr>"
  let ?t = "snd (?m ?s)"
  have "fst (?m ?s) = Ok ()" by code_simp
  then have run: "?m ?s = (Ok (), ?t)" by (metis prod.collapse)
  have calls: "map fst (trace ?t) = [FetchSystemInfo, SetExport ''redmine'', ReadDir ''/data/redmine'',
       StartRsync sample_args, WaitRsync sample_args]" by code_simp
  have "doguVolumeBasePath sample_syncer \<noteq> []" by (simp add: sample_syncer_def)
  from wpD [OF rsync_stays_inside_dogu_volumes [OF sample_plain_answers this] run]
  have "rsyncs_inside sample_syncer (trace ?t)" by (auto simp only: st.simps append_Nil)
  with run calls show ?thesis by (intro exI [of _ ?t] conjI)
qed

end
