(* ===== verification/Config_Import.thy ===== *)
theory Config_Import imports Config Domain begin

text \<open>
  Importing the configuration of the exporter (\<open>migration/config/\<close>): the global
  configuration, the configurations of the dogus and the backup schedules. The registry
  library, the repositories, the files and the backup API are parameters; the library is
  described by laws on the map that a configuration stands for.
\<close>

section \<open>The registry library and the repositories\<close>

text \<open>
  A configuration of type \<open>'c\<close>: empty, with a key set, the value of a key, all entries in
  the order in which a loop over them visits them. \<open>range_map\<close> is the order in which a loop
  visits a Go map that is given by its entries.
\<close>

record 'c config_lib =
  CreateConfig :: 'c
  cfg_Set :: "'c \<Rightarrow> string \<Rightarrow> string \<Rightarrow> err + 'c"
  cfg_Get :: "'c \<Rightarrow> string \<Rightarrow> string option"
  cfg_GetAll :: "'c \<Rightarrow> (string \<times> string) list"
  range_map :: "(string \<times> string) list \<Rightarrow> (string \<times> string) list"

definition config_lib_ok :: "'c config_lib \<Rightarrow> bool" where
  "config_lib_ok lib \<longleftrightarrow>
     cfg_Get lib (CreateConfig lib) = Map.empty \<and>
     (\<forall>c k v c'. cfg_Set lib c k v = Inr c' \<longrightarrow> cfg_Get lib c' = (cfg_Get lib c)(k \<mapsto> v)) \<and>
     (\<forall>c. map_of (cfg_GetAll lib c) = cfg_Get lib c \<and> distinct (map fst (cfg_GetAll lib c))) \<and>
     (\<forall>m. set (range_map lib m) = set m)"

lemma config_lib_okD:
  assumes "config_lib_ok lib"
  shows "cfg_Get lib (CreateConfig lib) = Map.empty"
    and "cfg_Set lib c k v = Inr c' \<Longrightarrow> cfg_Get lib c' = (cfg_Get lib c)(k \<mapsto> v)"
    and "map_of (cfg_GetAll lib c) = cfg_Get lib c" "distinct (map fst (cfg_GetAll lib c))"
    and "set (range_map lib m) = set m"
  using assms by (simp_all add: config_lib_ok_def)

datatype repo = NormalRepo | SensitiveRepo

datatype bs_event = ScheduleEvent string bool | ForeignEvent

record ('w, 'c) config_api =
  ca_GetConfig :: "ctx \<Rightarrow> ('w, Configuration) go"
  global_Get :: "('w, 'c) go"
  global_Create :: "'c \<Rightarrow> ('w, 'c) go"
  global_Update :: "'c \<Rightarrow> ('w, 'c) go"
  dogu_Get :: "repo \<Rightarrow> string \<Rightarrow> ('w, 'c) go"
  dogu_Create :: "repo \<Rightarrow> string \<Rightarrow> 'c \<Rightarrow> ('w, 'c) go"
  dogu_Update :: "repo \<Rightarrow> string \<Rightarrow> 'c \<Rightarrow> ('w, 'c) go"
  OpenFile :: "string \<Rightarrow> ('w, unit) go"
  yaml_Write :: "string \<Rightarrow> (string \<Rightarrow> string option) \<Rightarrow> ('w, unit) go"
  file_Close :: "string \<Rightarrow> ('w, unit) go"
  schedule_Watch :: "string \<Rightarrow> ('w, bs_event list) go"
  schedule_Stop :: "string \<Rightarrow> ('w, unit) go"
  schedule_Delete :: "string \<Rightarrow> ('w, unit) go"
  schedule_Create :: "string \<Rightarrow> string \<Rightarrow> string \<Rightarrow> ('w, unit) go"

text \<open>The calls that change something.\<close>

datatype 'c config_call =
    CreateGlobal | UpdateGlobal 'c
  | CreateDogu repo string | UpdateDogu repo string 'c
  | WriteLocal string "string \<Rightarrow> string option"
  | DeleteSchedule string | CreateSchedule string string string

type_synonym ('w, 'c, 'a) cgo = "(('c config_call, 'w) st, 'a) go"

definition missing :: "err \<Rightarrow> bool" where
  "missing err \<longleftrightarrow> is_registry_not_found err \<or> is_not_found err"

section \<open>The global configuration (\<open>global.go\<close>)\<close>

definition globalConfigKeysToKeep :: "string list" where
  "globalConfigKeysToKeep = [''certificate/*'', ''k8s/*'', ''proxy/*'', ''fqdn'', ''alternativeFQDNs'', ''maintenance'']"

definition matchesAnyKeyByPattern :: "string \<Rightarrow> string list \<Rightarrow> bool" where
  "matchesAnyKeyByPattern key keyPatterns =
     (let key = trim_prefix ''/'' key in list_ex (\<lambda>pattern. path_match pattern key) keyPatterns)"

definition addConfigToKeepToRegistry ::
    "'c config_lib \<Rightarrow> string list \<Rightarrow> 'c \<Rightarrow> 'c \<Rightarrow> ('s, 'c) go" where
  "addConfigToKeepToRegistry lib additionalKeysToKeep previousGlobalConfig gc =
     for_acc (\<lambda>(key, value) gc.
         if matchesAnyKeyByPattern key globalConfigKeysToKeep \<or> trim_prefix ''/'' key \<in> set additionalKeysToKeep
         then orWrap (''failed to set previous config key '' @ key) (pure (cfg_Set lib gc key value))
         else ret gc)
       (cfg_GetAll lib previousGlobalConfig) gc"

definition get_global :: "'c config_lib \<Rightarrow> ('w, 'c) config_api \<Rightarrow> ('w, 'c, 'c) cgo" where
  "get_global lib api =
     handle (quietly (global_Get api))
       (\<lambda>err. if \<not> missing err then fail (errorf_w ''failed to get global config'' err)
         else orWrap ''failed to create global config'' (extern CreateGlobal (global_Create api (CreateConfig lib))))
       ret"

definition import_global_entries :: "'c config_lib \<Rightarrow> string list \<Rightarrow> GlobalConfig \<Rightarrow> 'c \<Rightarrow> ('s, 'c) go" where
  "import_global_entries lib additionalKeysToKeep config gc =
     for_acc (\<lambda>kv gc.
         if matchesAnyKeyByPattern (kv_Key kv) globalConfigKeysToKeep then ret gc
         else if trim_prefix ''/'' (kv_Key kv) \<in> set additionalKeysToKeep then ret gc
         else orWrap (''failed to set config key '' @ kv_Key kv) (pure (cfg_Set lib gc (kv_Key kv) (kv_Value kv))))
       config gc"

definition importGlobalConfig ::
    "'c config_lib \<Rightarrow> ('w, 'c) config_api \<Rightarrow> string list \<Rightarrow> GlobalConfig \<Rightarrow> ('w, 'c, unit) cgo" where
  "importGlobalConfig lib api additionalKeysToKeep config =
     andThen (get_global lib api) (\<lambda>previousGlobalConfig.
     andThen (addConfigToKeepToRegistry lib additionalKeysToKeep previousGlobalConfig (CreateConfig lib)) (\<lambda>gc.
     andThen (import_global_entries lib additionalKeysToKeep config gc) (\<lambda>gc.
     andThen (orWrap ''failed to save new global config'' (extern (UpdateGlobal gc) (global_Update api gc))) (\<lambda>_.
     ret ()))))"

section \<open>The configurations of the dogus (\<open>dogu.go\<close>)\<close>

definition nginxDoguName :: string where "nginxDoguName = ''nginx''"

definition getLocalConfigFileForDogu :: "string \<Rightarrow> string \<Rightarrow> string" where
  "getLocalConfigFileForDogu dataBasePath dogu = path_join [dataBasePath, dogu @ ''/localConfig/local.yaml'']"

text \<open>The format of two messages ends in a line break.\<close>

definition errorf_wn :: "string \<Rightarrow> err \<Rightarrow> err" where
  "errorf_wn p e = Wrapped (p @ '': '' @ err_msg e @ [CHR 10]) e"

definition setOriginalValueForKey ::
    "'c config_lib \<Rightarrow> 'c \<Rightarrow> string \<Rightarrow> (string \<times> string) list \<Rightarrow> (string \<times> string) list" where
  "setOriginalValueForKey lib originalValues keyToSet configValuesToSet =
     (case cfg_Get lib originalValues keyToSet of
        Some original \<Rightarrow> AList.update keyToSet original configValuesToSet
      | None \<Rightarrow> configValuesToSet)"

definition values_to_set ::
    "'c config_lib \<Rightarrow> 'c \<Rightarrow> string list \<Rightarrow> KeyValue list \<Rightarrow> (string \<times> string) list" where
  "values_to_set lib originalValues excludedKeys exporterDoguConfig =
     fold (\<lambda>kv configValuesToSet.
         if trim_prefix ''/'' (kv_Key kv) \<in> set excludedKeys
         then setOriginalValueForKey lib originalValues (kv_Key kv) configValuesToSet
         else AList.update (kv_Key kv) (kv_Value kv) configValuesToSet)
       exporterDoguConfig []"

definition setValueInRegistry :: "'c config_lib \<Rightarrow> 'c \<Rightarrow> string \<Rightarrow> string \<Rightarrow> ('s, 'c) go" where
  "setValueInRegistry lib registryDoguConfig key value =
     handle (pure (cfg_Set lib registryDoguConfig key value)) (\<lambda>err. fail (errorf_wn (''failed to set key '' @ key) err)) ret"

definition get_dogu_config ::
    "'c config_lib \<Rightarrow> ('w, 'c) config_api \<Rightarrow> repo \<Rightarrow> string \<Rightarrow> ('w, 'c, 'c) cgo" where
  "get_dogu_config lib api repo doguName =
     handle (quietly (dogu_Get api repo doguName))
       (\<lambda>err. if \<not> missing err then fail (errorf_w ''failed to get original dogu config'' err)
         else orWrap ''failed to create new dogu config''
           (extern (CreateDogu repo doguName) (dogu_Create api repo doguName (CreateConfig lib))))
       ret"

definition importDoguConfigWithRepo ::
    "'c config_lib \<Rightarrow> ('w, 'c) config_api \<Rightarrow> string \<Rightarrow> KeyValue list \<Rightarrow> repo \<Rightarrow> string list \<Rightarrow> ('w, 'c, unit) cgo" where
  "importDoguConfigWithRepo lib api doguName exporterDoguConfig repo excludedKeys =
     andThen (get_dogu_config lib api repo doguName) (\<lambda>originalValues.
     andThen (for_acc (\<lambda>(keyToSet, valueToSet) registryDoguConfig.
           handle (setValueInRegistry lib registryDoguConfig keyToSet valueToSet)
             (\<lambda>err. fail (errorf_wn (''failed to set key '' @ keyToSet) err)) ret)
         (range_map lib (values_to_set lib originalValues excludedKeys exporterDoguConfig)) (CreateConfig lib))
       (\<lambda>registryDoguConfig.
     andThen (orWrap ''failed to save dogu config''
       (extern (UpdateDogu repo doguName registryDoguConfig) (dogu_Update api repo doguName registryDoguConfig))) (\<lambda>_.
     ret ())))"

definition importLocalConfig ::
    "('w, 'c) config_api \<Rightarrow> string \<Rightarrow> string \<Rightarrow> KeyValue list \<Rightarrow> ('w, 'c, unit) cgo" where
  "importLocalConfig api dataBasePath dogu dc =
     (if dc = [] then ret ()
      else let localConfigFile = getLocalConfigFileForDogu dataBasePath dogu;
               cfgData = fold (\<lambda>kv m. m(kv_Key kv \<mapsto> kv_Value kv)) dc Map.empty
        in andThen (orWrap (''failed to open local config file at '' @ [CHR 39] @ localConfigFile @ [CHR 39])
             (quietly (OpenFile api localConfigFile))) (\<lambda>_.
           deferring (quietly (file_Close api localConfigFile))
             (orWrap (''failed to write local config file to '' @ [CHR 39] @ localConfigFile @ [CHR 39])
               (extern (WriteLocal localConfigFile cfgData) (yaml_Write api localConfigFile cfgData)))))"

record cesDoguConfigImporter =
  dataBasePath :: string
  excludedDoguConfigKeys :: "string \<Rightarrow> string list"

definition importDoguConfig ::
    "'c config_lib \<Rightarrow> ('w, 'c) config_api \<Rightarrow> cesDoguConfigImporter \<Rightarrow> DoguConfig \<Rightarrow> ('w, 'c, unit) cgo" where
  "importDoguConfig lib api dci dc =
     (let doguName = dc_Name dc; excludedKeys = excludedDoguConfigKeys dci doguName;
          quoted = [CHR 39] @ doguName @ [CHR 39] in
      andThen (orWrap (''failed to import dogu config for dogu '' @ quoted)
        (importDoguConfigWithRepo lib api doguName (dc_NormalConfig dc) NormalRepo excludedKeys)) (\<lambda>_.
      andThen (orWrap (''failed to import sensitive dogu config for dogu '' @ quoted)
        (importDoguConfigWithRepo lib api doguName (dc_SensitiveConfig dc) SensitiveRepo excludedKeys)) (\<lambda>_.
      handle (importLocalConfig api (dataBasePath dci) doguName (dc_LocalConfig dc))
        (\<lambda>err. if is_err_not_exist err then ret ()
          else fail (errorf_w (''failed to import local config for dogu '' @ quoted) err)) ret)))"

definition importDoguConfigs ::
    "'c config_lib \<Rightarrow> ('w, 'c) config_api \<Rightarrow> cesDoguConfigImporter \<Rightarrow> DoguConfig list \<Rightarrow> ('w, 'c, unit) cgo" where
  "importDoguConfigs lib api dci config =
     for_each (\<lambda>dc. if dc_Name dc = nginxDoguName then ret ()
       else orWrap (''failed to import dogu config for dogu '' @ [CHR 39] @ dc_Name dc @ [CHR 39])
         (importDoguConfig lib api dci dc)) config"

section \<open>The backup schedules (\<open>backup.go\<close>)\<close>

definition veleroBackupProvider :: string where "veleroBackupProvider = ''velero''"

text \<open>
  The wait for the deletion. The events are those that the loop receives before the timeout
  ends the wait. A closed channel delivers events without an object over and over: they do
  not end the wait, the timeout does.
\<close>

primrec wait_deleted :: "string \<Rightarrow> bs_event list \<Rightarrow> err option" where
  "wait_deleted scheduleName [] = Some (ErrorString (''timeout while waiting for backup schedule '' @
     [CHR 39] @ scheduleName @ [CHR 39] @ '' to be deleted''))"
| "wait_deleted scheduleName (event # events) = (case event of
     ForeignEvent \<Rightarrow> wait_deleted scheduleName events
   | ScheduleEvent name deleted \<Rightarrow>
       if name \<noteq> scheduleName then wait_deleted scheduleName events
       else if deleted then None else wait_deleted scheduleName events)"

definition bsi_delete :: "('w, 'c) config_api \<Rightarrow> string \<Rightarrow> ('w, 'c, unit) cgo" where
  "bsi_delete api scheduleName =
     andThen (orWrap (''failed to watch backup schedule resource '' @ [CHR 39] @ scheduleName @ [CHR 39])
       (quietly (schedule_Watch api scheduleName))) (\<lambda>events.
     deferring (quietly (schedule_Stop api scheduleName))
       (handle (extern (DeleteSchedule scheduleName) (schedule_Delete api scheduleName))
         (\<lambda>err. if is_not_found err then ret ()
           else fail (errorf_w (''failed to delete backup schedule resource'' @ [CHR 39] @ scheduleName @ [CHR 39]) err))
         (\<lambda>_. return_err (wait_deleted scheduleName events))))"

primrec importBackupSchedules :: "('w, 'c) config_api \<Rightarrow> BackupSchedule list \<Rightarrow> ('w, 'c, unit) cgo" where
  "importBackupSchedules api [] = ret ()"
| "importBackupSchedules api (schedule # config) =
     handle (bsi_delete api (bs_Name schedule))
       (\<lambda>err. if is_not_found err then ret () else importBackupSchedules api config)
       (\<lambda>_. andThen (orWrap (''failed to create backup schedule '' @ [CHR 39] @ bs_Name schedule @ [CHR 39])
           (extern (CreateSchedule (bs_Name schedule) (bs_Schedule schedule) veleroBackupProvider)
             (schedule_Create api (bs_Name schedule) (bs_Schedule schedule) veleroBackupProvider))) (\<lambda>_.
         importBackupSchedules api config))"

section \<open>The importer (\<open>importer.go\<close>)\<close>

record ConfigImporter =
  ci_additionalKeysToKeep :: "string list"
  ci_doguConfigImporter :: cesDoguConfigImporter

definition NewConfigImporter :: "string \<Rightarrow> string list \<Rightarrow> DoguConfigurationKeys list \<Rightarrow> ConfigImporter" where
  "NewConfigImporter base excludedGlobalConfigKeys excludedDoguConfiguration =
     \<lparr>ci_additionalKeysToKeep = excludedGlobalConfigKeys,
      ci_doguConfigImporter = \<lparr>dataBasePath = base,
        excludedDoguConfigKeys = fold (\<lambda>configs m. m(dck_DoguName configs := m (dck_DoguName configs) @ Keys configs))
          excludedDoguConfiguration (\<lambda>_. [])\<rparr>\<rparr>"

definition SyncConfig :: "'c config_lib \<Rightarrow> ('w, 'c) config_api \<Rightarrow> ConfigImporter \<Rightarrow> ctx \<Rightarrow> ('w, 'c, unit) cgo" where
  "SyncConfig lib api ci ctx =
     andThen (orWrap ''failed to get configuration from exporter'' (quietly (ca_GetConfig api ctx))) (\<lambda>config.
     andThen (orWrap ''failed to import global configuration''
       (importGlobalConfig lib api (ci_additionalKeysToKeep ci) (cfg_GlobalConfig config))) (\<lambda>_.
     andThen (orWrap ''failed to import dogu configuration''
       (importDoguConfigs lib api (ci_doguConfigImporter ci) (cfg_DoguConfigs config))) (\<lambda>_.
     orWrap ''failed to import backup schedules'' (importBackupSchedules api (cfg_BackupSchedules config)))))"

section \<open>What an import writes\<close>

text \<open>
  The contents the new configurations are to have, as maps: a key that is kept has its old
  value, every other key the last value that the exporter sent for it.
\<close>

definition entries :: "KeyValue list \<Rightarrow> (string \<times> string) list" where
  "entries kvs = map (\<lambda>kv. (kv_Key kv, kv_Value kv)) kvs"

definition exported :: "KeyValue list \<Rightarrow> string \<Rightarrow> string option" where
  "exported kvs = map_of (rev (entries kvs))"

text \<open>
  The keys that are always kept, without the patterns: three single keys, and those directly below
  three directories. The comment of \<open>excludedGlobalConfigurationKeys\<close> in \<open>values.yaml\<close> promises more,
  all keys that start with one of the directories (\<open>promised_kept\<close>).
\<close>

definition kept_directories :: "string list" where
  "kept_directories = [''certificate/'', ''k8s/'', ''proxy/'']"

definition kept_single :: "string list" where
  "kept_single = [''fqdn'', ''alternativeFQDNs'', ''maintenance'']"

definition in_directory :: "string \<Rightarrow> string \<Rightarrow> bool" where
  "in_directory dir key \<longleftrightarrow> take (length dir) key = dir"

definition always_kept :: "string \<Rightarrow> bool" where
  "always_kept k = (let key = trim_prefix ''/'' k in key \<in> set kept_single \<or>
     list_ex (\<lambda>dir. in_directory dir key \<and> slash \<notin> set (drop (length dir) key)) kept_directories)"

definition promised_kept :: "string \<Rightarrow> bool" where
  "promised_kept k = (let key = trim_prefix ''/'' k in key \<in> set kept_single \<or>
     list_ex (\<lambda>dir. in_directory dir key) kept_directories)"

lemma path_match_directory:
  assumes "CHR ''*'' \<notin> set dir"
  shows "path_match (dir @ ''*'') key \<longleftrightarrow> in_directory dir key \<and> slash \<notin> set (drop (length dir) key)"
proof -
  have "in_directory dir key \<longleftrightarrow> (\<exists>rest. key = dir @ rest)"
    unfolding in_directory_def by (metis append_eq_conv_conj)
  then show ?thesis
    by (auto simp: path_match_literal_prefix [OF assms] path_match_star)
qed

lemma matches_always_kept: "matchesAnyKeyByPattern key globalConfigKeysToKeep = always_kept key"
proof -
  have patterns: "globalConfigKeysToKeep = map (\<lambda>dir. dir @ ''*'') kept_directories @ kept_single"
    by (simp add: globalConfigKeysToKeep_def kept_directories_def kept_single_def)
  have "list_all (\<lambda>p. CHR ''*'' \<notin> set p) (kept_directories @ kept_single)" by code_simp
  then show ?thesis
    unfolding matchesAnyKeyByPattern_def always_kept_def Let_def patterns list_ex_append
    by (auto simp: list_ex_iff list_all_iff path_match_directory path_match_literal)
qed

definition global_key_kept :: "string list \<Rightarrow> string \<Rightarrow> bool" where
  "global_key_kept additionalKeysToKeep key \<longleftrightarrow>
     always_kept key \<or> trim_prefix ''/'' key \<in> set additionalKeysToKeep"

definition merged_global :: "string list \<Rightarrow> (string \<Rightarrow> string option) \<Rightarrow> GlobalConfig \<Rightarrow> string \<Rightarrow> string option" where
  "merged_global additionalKeysToKeep previous config =
     (\<lambda>k. if global_key_kept additionalKeysToKeep k then previous k else exported config k)"

definition merged_dogu :: "string list \<Rightarrow> (string \<Rightarrow> string option) \<Rightarrow> KeyValue list \<Rightarrow> string \<Rightarrow> string option" where
  "merged_dogu excludedKeys original config =
     (\<lambda>k. case exported config k of None \<Rightarrow> None
        | Some v \<Rightarrow> if trim_prefix ''/'' k \<in> set excludedKeys then original k else Some v)"

lemma exported_simps [simp]:
  "exported [] = Map.empty"
  "exported (kvs @ [kv]) = (exported kvs)(kv_Key kv \<mapsto> kv_Value kv)"
  by (simp_all add: exported_def entries_def)

text \<open>A loop of sets gives the map with the entries added, the later ones over the earlier ones.\<close>

lemma for_acc_sets:
  assumes "config_lib_ok lib" "for_acc f xs c s = (Ok c', t)"
    and "\<And>x c s c' t. f x c s = (Ok c', t) \<Longrightarrow> t = s \<and> cfg_Get lib c' = g x (cfg_Get lib c)"
  shows "t = s \<and> cfg_Get lib c' = fold g xs (cfg_Get lib c)"
  using assms(2)
proof (induction xs arbitrary: c s)
  case Nil
  then show ?case by (auto simp: ret_def)
next
  case (Cons x xs)
  then obtain d u where "f x c s = (Ok d, u)" "for_acc f xs d u = (Ok c', t)" by (auto simp: ok_iffs)
  with assms(3) Cons.IH show ?case by fastforce
qed

lemma fold_sets: "fold (\<lambda>(k, v) m. if P k then m(k \<mapsto> v) else m) xs m =
    (\<lambda>k. if P k then (case map_of (rev xs) k of None \<Rightarrow> m k | Some v \<Rightarrow> Some v) else m k)"
proof (induction xs rule: rev_induct)
  case (snoc x xs)
  then show ?case by (cases x) (auto simp: fun_eq_iff)
qed (simp add: fun_eq_iff)

lemma map_of_rev_distinct: "distinct (map fst xs) \<Longrightarrow> map_of (rev xs) = map_of xs"
  by (rule map_of_inject_set [THEN iffD2]) (simp_all add: rev_map [symmetric])

lemma kept_entries:
  assumes "config_lib_ok lib" "addConfigToKeepToRegistry lib keys prev gc s = (Ok gc', t)"
    and "cfg_Get lib gc = Map.empty"
  shows "t = s \<and> cfg_Get lib gc' = (\<lambda>k. if global_key_kept keys k then cfg_Get lib prev k else None)"
proof -
  have "t = s \<and> cfg_Get lib gc' = fold (\<lambda>(k, v) m. if global_key_kept keys k then m(k \<mapsto> v) else m)
      (cfg_GetAll lib prev) (cfg_Get lib gc)"
    by (rule for_acc_sets [OF assms(1) assms(2) [unfolded addConfigToKeepToRegistry_def]])
      (auto simp: ok_iffs global_key_kept_def matches_always_kept config_lib_okD [OF assms(1)] split: if_splits)
  then show ?thesis
    by (simp add: fold_sets assms(3) map_of_rev_distinct config_lib_okD [OF assms(1)] fun_eq_iff split: option.splits)
qed

lemma imported_entries:
  assumes "config_lib_ok lib" "import_global_entries lib keys config gc s = (Ok gc', t)"
  shows "t = s \<and> cfg_Get lib gc' = (\<lambda>k. if global_key_kept keys k then cfg_Get lib gc k
    else case exported config k of None \<Rightarrow> cfg_Get lib gc k | Some v \<Rightarrow> Some v)"
proof -
  have "t = s \<and> cfg_Get lib gc' = fold (\<lambda>kv m. if \<not> global_key_kept keys (kv_Key kv) then m(kv_Key kv \<mapsto> kv_Value kv) else m)
      config (cfg_Get lib gc)"
    by (rule for_acc_sets [OF assms(1) assms(2) [unfolded import_global_entries_def]])
      (auto simp: ok_iffs global_key_kept_def matches_always_kept config_lib_okD [OF assms(1)] split: if_splits)
  moreover have "fold (\<lambda>kv m. if \<not> global_key_kept keys (kv_Key kv) then m(kv_Key kv \<mapsto> kv_Value kv) else m) config m =
      fold (\<lambda>(k, v) m. if \<not> global_key_kept keys k then m(k \<mapsto> v) else m) (entries config) m" for m
    by (simp add: entries_def fold_map comp_def)
  ultimately show ?thesis
    by (simp add: fold_sets exported_def fun_eq_iff)
qed

text \<open>The configuration that was there before, as a repository answered or created it.\<close>

definition previous_config :: "('w, 'c) go \<Rightarrow> ('w, 'c) go \<Rightarrow> 'w \<Rightarrow> 'c \<Rightarrow> bool" where
  "previous_config get create w c \<longleftrightarrow> (case get w of
     (Ok a, v) \<Rightarrow> c = a | (Err e, v) \<Rightarrow> missing e \<and> fst (create v) = Ok c | (Panic p, v) \<Rightarrow> False)"

lemma get_global_Ok:
  assumes "get_global lib api s = (Ok c, t)"
  shows "previous_config (global_Get api) (global_Create api (CreateConfig lib)) (world s) c \<and>
    (\<exists>es. trace t = trace s @ es \<and> set (map fst es) \<subseteq> {CreateGlobal})"
  using assms
  by (auto simp: get_global_def previous_config_def handle_def quietly_def extern_def orWrap_def ret_def fail_def
      split: prod.splits result.splits if_splits)

text \<open>
  C33: an import of the global configuration without an error ends in an update that the
  repository accepted, and the configuration it wrote stands for the merged map: the three single
  keys, the keys directly below \<open>certificate/\<close>, \<open>k8s/\<close> and \<open>proxy/\<close> and the configured additional keys
  have the values they had before, also when they had none, every other key the last value the
  exporter sent, and nothing else is left of the old configuration. In particular a key deeper below
  one of the directories, which the documentation of the configuration counts among those that are
  always kept, has the exporter's value, or is lost when the exporter sent none.
\<close>

theorem importGlobalConfig_refines_merge:
  assumes "config_lib_ok lib"
  shows "wp (importGlobalConfig lib api keys config) (\<lambda>r t. case r of
     Ok _ \<Rightarrow> \<exists>prev gc es. previous_config (global_Get api) (global_Create api (CreateConfig lib)) (world s) prev \<and>
       trace t = trace s @ es @ [(UpdateGlobal gc, Fine)] \<and> set (map fst es) \<subseteq> {CreateGlobal} \<and>
       cfg_Get lib gc = merged_global keys (cfg_Get lib prev) config \<and>
       (\<forall>k. promised_kept k \<and> \<not> global_key_kept keys k \<longrightarrow> cfg_Get lib gc k = exported config k)
   | _ \<Rightarrow> True) s"
proof -
  have "\<exists>prev gc es. previous_config (global_Get api) (global_Create api (CreateConfig lib)) (world s) prev \<and>
       trace t = trace s @ es @ [(UpdateGlobal gc, Fine)] \<and> set (map fst es) \<subseteq> {CreateGlobal} \<and>
       cfg_Get lib gc = merged_global keys (cfg_Get lib prev) config \<and>
       (\<forall>k. promised_kept k \<and> \<not> global_key_kept keys k \<longrightarrow> cfg_Get lib gc k = exported config k)"
    if run: "importGlobalConfig lib api keys config s = (Ok (), t)" for t
  proof -
    from run obtain prev u c1 v c2 w x where steps:
      "get_global lib api s = (Ok prev, u)"
      "addConfigToKeepToRegistry lib keys prev (CreateConfig lib) u = (Ok c1, v)"
      "import_global_entries lib keys config c1 v = (Ok c2, w)"
      "extern (UpdateGlobal c2) (global_Update api c2) w = (Ok x, t)"
      by (auto simp: importGlobalConfig_def ok_iffs)
    from get_global_Ok [OF steps(1)] obtain es where prev:
      "previous_config (global_Get api) (global_Create api (CreateConfig lib)) (world s) prev"
      "trace u = trace s @ es" "set (map fst es) \<subseteq> {CreateGlobal}" by blast
    note kept = kept_entries [OF assms steps(2) config_lib_okD(1) [OF assms]]
    note new = imported_entries [OF assms steps(3)]
    have "cfg_Get lib c2 = merged_global keys (cfg_Get lib prev) config"
      using kept new by (auto simp: merged_global_def fun_eq_iff split: option.splits)
    moreover from this have "\<forall>k. promised_kept k \<and> \<not> global_key_kept keys k \<longrightarrow> cfg_Get lib c2 k = exported config k"
      by (simp add: merged_global_def)
    moreover have "trace t = trace s @ es @ [(UpdateGlobal c2, Fine)]"
      using steps(4) kept new prev(2) by (auto simp: extern_def split: prod.splits)
    ultimately show ?thesis using prev by blast
  qed
  then show ?thesis by (intro wpI) (auto split: result.splits)
qed

lemma values_to_set_map:
  "map_of (values_to_set lib orig excl config) = merged_dogu excl (cfg_Get lib orig) config \<and>
   distinct (map fst (values_to_set lib orig excl config))"
proof (induction config rule: rev_induct)
  case Nil
  then show ?case by (simp add: values_to_set_def merged_dogu_def fun_eq_iff)
next
  case (snoc kv config)
  have step: "values_to_set lib orig excl (config @ [kv]) =
      (if trim_prefix ''/'' (kv_Key kv) \<in> set excl
       then setOriginalValueForKey lib orig (kv_Key kv) (values_to_set lib orig excl config)
       else AList.update (kv_Key kv) (kv_Value kv) (values_to_set lib orig excl config))"
    by (simp add: values_to_set_def)
  have "map_of (values_to_set lib orig excl (config @ [kv])) = merged_dogu excl (cfg_Get lib orig) (config @ [kv])"
    using snoc unfolding step
    by (auto simp: setOriginalValueForKey_def merged_dogu_def update_conv' fun_eq_iff split: option.splits)
  moreover have "distinct (map fst (values_to_set lib orig excl (config @ [kv])))"
    using snoc unfolding step
    by (auto simp: setOriginalValueForKey_def distinct_update simp del: distinct_map split: option.splits)
  ultimately show ?case by blast
qed

lemma map_of_same_set:
  assumes "set xs = set ys" "distinct (map fst ys)"
  shows "map_of xs = map_of ys"
proof
  fix k
  show "map_of xs k = map_of ys k"
  proof (cases "map_of xs k")
    case None
    then have "k \<notin> fst ` set ys" using assms(1) by (simp add: map_of_eq_None_iff)
    then have "map_of ys k = None" by (simp add: map_of_eq_None_iff)
    with None show ?thesis by simp
  next
    case (Some v)
    then have "(k, v) \<in> set ys" using assms(1) map_of_SomeD by fast
    with Some assms(2) show ?thesis by simp
  qed
qed

lemma get_dogu_config_Ok:
  assumes "get_dogu_config lib api repo n s = (Ok c, t)"
  shows "previous_config (dogu_Get api repo n) (dogu_Create api repo n (CreateConfig lib)) (world s) c \<and>
    (\<exists>es. trace t = trace s @ es \<and> set (map fst es) \<subseteq> {CreateDogu repo n})"
  using assms
  by (auto simp: get_dogu_config_def previous_config_def handle_def quietly_def extern_def orWrap_def ret_def fail_def
      split: prod.splits result.splits if_splits)

lemma dogu_entries:
  assumes "config_lib_ok lib"
    and "for_acc (\<lambda>(k, v) c. handle (setValueInRegistry lib c k v) (\<lambda>err. fail (h k err)) ret)
      (range_map lib (values_to_set lib orig excl config)) (CreateConfig lib) s = (Ok c', t)"
  shows "t = s \<and> cfg_Get lib c' = merged_dogu excl (cfg_Get lib orig) config"
proof -
  let ?vs = "values_to_set lib orig excl config"
  have "t = s \<and> cfg_Get lib c' = fold (\<lambda>(k, v) m. if True then m(k \<mapsto> v) else m) (range_map lib ?vs) (cfg_Get lib (CreateConfig lib))"
    by (rule for_acc_sets [OF assms])
      (auto simp: setValueInRegistry_def handle_def pure_def ret_def fail_def config_lib_okD [OF assms(1)]
        split: sum.splits)
  moreover have "map_of (rev (range_map lib ?vs)) = map_of ?vs"
    by (rule map_of_same_set) (simp_all add: config_lib_okD [OF assms(1)] values_to_set_map)
  ultimately show ?thesis
    by (simp add: fold_sets [where P = "\<lambda>_. True", simplified] config_lib_okD [OF assms(1)] values_to_set_map
        fun_eq_iff split: option.splits)
qed

text \<open>
  C34: an import of the configuration of a dogu into a repository without an error ends in an
  update that the repository accepted, and the configuration it wrote stands for the merged
  map: the keys that the exporter sent, an excluded one with the value it had before if any,
  the others with the last value sent. An excluded key that the exporter did not send is
  not among them: its old value is lost.
\<close>

theorem importDoguConfig_refines_merge:
  assumes "config_lib_ok lib"
  shows "wp (importDoguConfigWithRepo lib api n config repo excl) (\<lambda>r t. case r of
     Ok _ \<Rightarrow> \<exists>prev c es. previous_config (dogu_Get api repo n) (dogu_Create api repo n (CreateConfig lib)) (world s) prev \<and>
       trace t = trace s @ es @ [(UpdateDogu repo n c, Fine)] \<and> set (map fst es) \<subseteq> {CreateDogu repo n} \<and>
       cfg_Get lib c = merged_dogu excl (cfg_Get lib prev) config
   | _ \<Rightarrow> True) s"
proof -
  have "\<exists>prev c es. previous_config (dogu_Get api repo n) (dogu_Create api repo n (CreateConfig lib)) (world s) prev \<and>
       trace t = trace s @ es @ [(UpdateDogu repo n c, Fine)] \<and> set (map fst es) \<subseteq> {CreateDogu repo n} \<and>
       cfg_Get lib c = merged_dogu excl (cfg_Get lib prev) config"
    if run: "importDoguConfigWithRepo lib api n config repo excl s = (Ok (), t)" for t
  proof -
    from run obtain prev u c v x where steps:
      "get_dogu_config lib api repo n s = (Ok prev, u)"
      "for_acc (\<lambda>(k, v) c. handle (setValueInRegistry lib c k v)
          (\<lambda>err. fail (errorf_wn (''failed to set key '' @ k) err)) ret)
        (range_map lib (values_to_set lib prev excl config)) (CreateConfig lib) u = (Ok c, v)"
      "extern (UpdateDogu repo n c) (dogu_Update api repo n c) v = (Ok x, t)"
      unfolding importDoguConfigWithRepo_def andThen_Ok_iff orWrap_Ok_iff ret_Ok_iff by blast
    from get_dogu_config_Ok [OF steps(1)] obtain es where prev:
      "previous_config (dogu_Get api repo n) (dogu_Create api repo n (CreateConfig lib)) (world s) prev"
      "trace u = trace s @ es" "set (map fst es) \<subseteq> {CreateDogu repo n}" by blast
    note new = dogu_entries [OF assms steps(2)]
    have "trace t = trace s @ es @ [(UpdateDogu repo n c, Fine)]"
      using steps(3) new prev(2) by (auto simp: extern_def split: prod.splits)
    with new prev show ?thesis by blast
  qed
  then show ?thesis by (intro wpI) (auto split: result.splits)
qed

text \<open>The loss, on the map: an excluded key that is not sent has no value after the merge.\<close>

lemma excluded_key_lost:
  "exported config k = None \<Longrightarrow> merged_dogu excl orig config k = None"
  by (simp add: merged_dogu_def)

section \<open>Instances for the witnesses\<close>

definition sample_lib :: "(string \<times> string) list config_lib" where
  "sample_lib = \<lparr>CreateConfig = [], cfg_Set = \<lambda>c k v. Inr (AList.update k v c), cfg_Get = \<lambda>c. map_of (AList.clearjunk c),
     cfg_GetAll = AList.clearjunk, range_map = id\<rparr>"

lemma sample_lib_ok: "config_lib_ok sample_lib"
  by (auto simp: config_lib_ok_def sample_lib_def map_of_clearjunk update_conv' distinct_clearjunk simp del: distinct_map)

definition sample_prev :: "(string \<times> string) list" where
  "sample_prev = [(''fqdn'', ''target''), (''k8s/x'', ''1''), (''old'', ''2''), (''k8s/a/b'', ''3'')]"

definition sample_config_api :: "(unit, (string \<times> string) list) config_api" where
  "sample_config_api = \<lparr>
     ca_GetConfig = \<lambda>_. answers (Err ContextCanceled), global_Get = answers (Ok sample_prev),
     global_Create = \<lambda>c. answers (Ok c), global_Update = \<lambda>c. answers (Ok c),
     dogu_Get = \<lambda>_ _. answers (Ok sample_prev), dogu_Create = \<lambda>_ _ c. answers (Ok c), dogu_Update = \<lambda>_ _ c. answers (Ok c),
     OpenFile = \<lambda>_. answers (Ok ()), yaml_Write = \<lambda>_ _. answers (Ok ()), file_Close = \<lambda>_. answers (Ok ()),
     schedule_Watch = \<lambda>_. answers (Ok []), schedule_Stop = \<lambda>_. answers (Ok ()), schedule_Delete = \<lambda>_. answers (Ok ()),
     schedule_Create = \<lambda>_ _ _. answers (Ok ())\<rparr>"

definition sample_sent :: "KeyValue list" where
  "sample_sent = [\<lparr>kv_Key = ''fqdn'', kv_Value = ''source''\<rparr>, \<lparr>kv_Key = ''theme'', kv_Value = ''dark''\<rparr>]"

definition sample_start :: "((string \<times> string) list config_call, unit) st" where
  "sample_start = \<lparr>trace = [], world = ()\<rparr>"

lemma sample_global: "fst (importGlobalConfig sample_lib sample_config_api [] sample_sent sample_start) = Ok ()"
  by code_simp

lemma sample_dogu: "fst (importDoguConfigWithRepo sample_lib sample_config_api ''x'' sample_sent NormalRepo [''fqdn'', ''old''] sample_start) = Ok ()"
  by code_simp

text \<open>The sample has a nested key below \<open>k8s/\<close>, which the import loses.\<close>

lemma sample_nested: "promised_kept ''k8s/a/b'' \<and> \<not> global_key_kept [] ''k8s/a/b'' \<and>
    cfg_Get sample_lib sample_prev ''k8s/a/b'' = Some ''3'' \<and> exported sample_sent ''k8s/a/b'' = None"
  by code_simp

theorem importGlobalConfig_refines_merge_witness:
  "\<exists>gc t. importGlobalConfig sample_lib sample_config_api [] sample_sent sample_start = (Ok (), t) \<and>
     (UpdateGlobal gc, Fine) \<in> set (trace t) \<and> cfg_Get sample_lib gc = merged_global [] (cfg_Get sample_lib sample_prev) sample_sent \<and>
     cfg_Get sample_lib sample_prev ''k8s/a/b'' = Some ''3'' \<and> cfg_Get sample_lib gc ''k8s/a/b'' = None"
proof -
  obtain t where run: "importGlobalConfig sample_lib sample_config_api [] sample_sent sample_start = (Ok (), t)"
    using sample_global by (metis prod.collapse)
  from wpD [OF importGlobalConfig_refines_merge [OF sample_lib_ok] run] obtain prev gc es where
    prev: "previous_config (global_Get sample_config_api) (global_Create sample_config_api (CreateConfig sample_lib))
      (world sample_start) prev"
    and gc: "trace t = trace sample_start @ es @ [(UpdateGlobal gc, Fine)]"
      "cfg_Get sample_lib gc = merged_global [] (cfg_Get sample_lib prev) sample_sent"
      "cfg_Get sample_lib gc ''k8s/a/b'' = exported sample_sent ''k8s/a/b''" using sample_nested by auto
  from prev have "prev = sample_prev" by (simp add: previous_config_def sample_config_api_def answers_def)
  with run gc sample_nested show ?thesis by auto
qed

theorem importDoguConfig_refines_merge_witness:
  "\<exists>c prev t. importDoguConfigWithRepo sample_lib sample_config_api ''x'' sample_sent NormalRepo [''fqdn'', ''old''] sample_start = (Ok (), t) \<and>
     (UpdateDogu NormalRepo ''x'' c, Fine) \<in> set (trace t) \<and>
     cfg_Get sample_lib c = merged_dogu [''fqdn'', ''old''] (cfg_Get sample_lib prev) sample_sent"
proof -
  let ?m = "importDoguConfigWithRepo sample_lib sample_config_api ''x'' sample_sent NormalRepo [''fqdn'', ''old'']"
  obtain t where run: "?m sample_start = (Ok (), t)"
    using sample_dogu by (metis prod.collapse)
  from wpD [OF importDoguConfig_refines_merge [OF sample_lib_ok] run] obtain prev c es where
    "trace t = trace sample_start @ es @ [(UpdateDogu NormalRepo ''x'' c, Fine)]"
    "cfg_Get sample_lib c = merged_dogu [''fqdn'', ''old''] (cfg_Get sample_lib prev) sample_sent" by auto
  with run show ?thesis by auto
qed

end
