(* ===== verification/Fqdn.thy ===== *)
theory Fqdn imports Config_Import begin

text \<open>
  Changing the FQDN and the certificate of the importing system (\<open>migration/fqdn/\<close>). The
  manager of the FQDN (\<open>fqdn.go\<close>) and that of the certificate (\<open>certificate.go\<close>) implement
  one interface, the locale \<open>changer\<close>; the service (\<open>service.go\<close>) is proved on the locale
  \<open>change_service\<close>, which extends two of them, and the result holds for the code by
  interpretation.
\<close>

section \<open>The interfaces\<close>

text \<open>A secret or config map; its data may be a nil map. Bytes are strings, nil bytes the empty one.\<close>

record k8s_object =
  obj_Name :: string
  obj_ResourceVersion :: string
  obj_Data :: "(string \<Rightarrow> string option) option"

definition data_map :: "k8s_object \<Rightarrow> string \<Rightarrow> string option" where
  "data_map obj = (case obj_Data obj of None \<Rightarrow> Map.empty | Some m \<Rightarrow> m)"

definition value_at :: "(string \<Rightarrow> string option) \<Rightarrow> string \<Rightarrow> string" where
  "value_at m k = (case m k of None \<Rightarrow> [] | Some v \<Rightarrow> v)"

text \<open>\<open>secretRepository\<close> and \<open>configMapRepository\<close>\<close>

record 'w object_repo =
  o_Get :: "string \<Rightarrow> ('w, k8s_object) go"
  o_Create :: "k8s_object \<Rightarrow> ('w, unit) go"
  o_Update :: "k8s_object \<Rightarrow> ('w, unit) go"
  o_Delete :: "string \<Rightarrow> ('w, unit) go"

text \<open>
  The environment: the registry library, the retry helper, the repositories, the exporter;
  and what of the world the theorems observe, the secrets, the config maps and the global
  configuration.
\<close>

record ('w, 'c) fqdn_env =
  fe_lib :: "'c config_lib"
  fe_OnError :: "'w retry"
  secret_repo :: "'w object_repo"
  cmap_repo :: "'w object_repo"
  gc_Get :: "('w, 'c) go"
  gc_SaveOrMerge :: "'c \<Rightarrow> ('w, unit) go"
  fe_GetConfig :: "('w, Configuration) go"
  secrets_in :: "'w \<Rightarrow> string \<Rightarrow> (string \<Rightarrow> string option) option"
  cmaps_in :: "'w \<Rightarrow> string \<Rightarrow> (string \<Rightarrow> string option) option"
  config_in :: "'w \<Rightarrow> string \<Rightarrow> string option"

text \<open>Assignments to entries of a map, which panic when the map is nil.\<close>

definition nil_map :: string where
  "nil_map = ''assignment to entry in nil map''"

definition written :: "(string \<times> string) list \<Rightarrow> (string \<Rightarrow> string option) \<Rightarrow> string \<Rightarrow> string option" where
  "written kvs m = fold (\<lambda>(k, v) m. m(k \<mapsto> v)) kvs m"

definition put_data :: "(string \<times> string) list \<Rightarrow> k8s_object \<Rightarrow> ('s, k8s_object) go" where
  "put_data kvs obj = (case obj_Data obj of
     None \<Rightarrow> panic nil_map
   | Some m \<Rightarrow> ret (obj\<lparr>obj_Data := Some (written kvs m)\<rparr>))"

definition retriable :: "err \<Rightarrow> bool" where
  "retriable err \<longleftrightarrow> \<not> is_not_found err"

text \<open>The interface of both managers; \<open>'u\<close> is the change they take.\<close>

record ('w, 'u) changer_if =
  Backup :: "('w, unit) go"
  DeleteBackup :: "('w, unit) go"
  Restore :: "('w, unit) go"
  Update :: "'u \<Rightarrow> ('w, unit) go"

section \<open>The certificate (\<open>certificate.go\<close>)\<close>

definition ecosystemCertificateName :: string where "ecosystemCertificateName = ''ecosystem-certificate''"
definition certFileName :: string where "certFileName = ''tls.crt''"
definition keyFileName :: string where "keyFileName = ''tls.key''"
definition certificateBackupName :: string where "certificateBackupName = ecosystemCertificateName @ ''-backup''"

record SecretChange =
  Certificate :: string
  CertificateKey :: string

definition cert_update :: "('w, 'c) fqdn_env \<Rightarrow> string \<Rightarrow> SecretChange \<Rightarrow> ('w, unit) go" where
  "cert_update E secretName tlsKeyPair =
     andThen (orWrap ''failed to get secret for certificate'' (o_Get (secret_repo E) secretName)) (\<lambda>certificateSecret.
     andThen (put_data [(certFileName, Certificate tlsKeyPair), (keyFileName, CertificateKey tlsKeyPair)] certificateSecret)
       (\<lambda>certificateSecret.
     orWrap ''failed to update secret for certificate'' (o_Update (secret_repo E) certificateSecret)))"

definition cert_Update :: "('w, 'c) fqdn_env \<Rightarrow> SecretChange \<Rightarrow> ('w, unit) go" where
  "cert_Update E tlsKeyPair = RetryOnConflict (fe_OnError E) (cert_update E ecosystemCertificateName tlsKeyPair)"

definition cert_updateBackup :: "('w, 'c) fqdn_env \<Rightarrow> SecretChange \<Rightarrow> ('w, unit) go" where
  "cert_updateBackup E tlsKeyPair = RetryOnConflict (fe_OnError E) (cert_update E certificateBackupName tlsKeyPair)"

definition key_pair :: "k8s_object \<Rightarrow> SecretChange" where
  "key_pair obj = \<lparr>Certificate = value_at (data_map obj) certFileName, CertificateKey = value_at (data_map obj) keyFileName\<rparr>"

definition cert_backup :: "('w, 'c) fqdn_env \<Rightarrow> ('w, unit) go" where
  "cert_backup E =
     andThen (orWrap ''failed to get secret for certificate'' (o_Get (secret_repo E) ecosystemCertificateName)) (\<lambda>certificateSecret.
     let backup = certificateSecret\<lparr>obj_Name := certificateBackupName, obj_ResourceVersion := []\<rparr> in
     handle (o_Create (secret_repo E) backup)
       (\<lambda>err. if is_already_exists err
          then orWrap ''failed to update backup for certificate'' (cert_updateBackup E (key_pair backup))
          else fail (errorf_w ''failed to create secret for backup certificate'' err))
       ret)"

definition cert_Backup :: "('w, 'c) fqdn_env \<Rightarrow> ('w, unit) go" where
  "cert_Backup E = fe_OnError E retriable (cert_backup E)"

definition cert_restore :: "('w, 'c) fqdn_env \<Rightarrow> ('w, unit) go" where
  "cert_restore E =
     andThen (orWrap ''failed to get secret for backup certificate'' (o_Get (secret_repo E) certificateBackupName)) (\<lambda>backup.
     orWrap ''failed to update certificate'' (cert_Update E (key_pair backup)))"

definition cert_Restore :: "('w, 'c) fqdn_env \<Rightarrow> ('w, unit) go" where
  "cert_Restore E = fe_OnError E retriable (cert_restore E)"

definition cert_DeleteBackup :: "('w, 'c) fqdn_env \<Rightarrow> ('w, unit) go" where
  "cert_DeleteBackup E =
     handle (fe_OnError E retriable (o_Delete (secret_repo E) certificateBackupName))
       (\<lambda>err. if is_not_found err then ret ()
         else fail (errorf_w ''failed to delete secret for certificate backup'' err)) ret"

definition ecosystemCertificate :: "('w, 'c) fqdn_env \<Rightarrow> ('w, SecretChange) changer_if" where
  "ecosystemCertificate E = \<lparr>Backup = cert_Backup E, DeleteBackup = cert_DeleteBackup E,
     Restore = cert_Restore E, Update = cert_Update E\<rparr>"

section \<open>The FQDN (\<open>fqdn.go\<close>)\<close>

definition fqdnBackupConfigMapName :: string where "fqdnBackupConfigMapName = ''ecosystem-fqdn-backup''"
definition fqdnKey :: string where "fqdnKey = ''fqdn''"
definition alternativeFQDNsKey :: string where "alternativeFQDNsKey = ''alternativeFQDNs''"
definition certTypeKey :: string where "certTypeKey = ''certificate-type''"

definition globalCfgFQDNKey :: string where "globalCfgFQDNKey = ''fqdn''"
definition globalCfgAlternativeFQDNsKey :: string where "globalCfgAlternativeFQDNsKey = ''alternativeFQDNs''"
definition globalCfgCertTypeKey :: string where "globalCfgCertTypeKey = ''certificate/type''"
definition globalCfgCertKey :: string where "globalCfgCertKey = ''certificate/server.crt''"
definition globalCfgPrivateKey :: string where "globalCfgPrivateKey = ''certificate/server.key''"

record ConfigChange =
  FQDN :: string
  CertType :: string
  AlternativeFQDNs :: string

definition createFQDNBackup :: "(string \<Rightarrow> string option) \<Rightarrow> err + ConfigChange" where
  "createFQDNBackup globalConfig = (case globalConfig globalCfgFQDNKey of
     None \<Rightarrow> Inl (ErrorString ''could not find fqdn in global config'')
   | Some fqdn \<Rightarrow> (case globalConfig globalCfgCertTypeKey of
       None \<Rightarrow> Inl (ErrorString ''could not find certificate/type in global config'')
     | Some certType \<Rightarrow>
         Inr \<lparr>FQDN = fqdn, CertType = certType, AlternativeFQDNs = value_at globalConfig globalCfgAlternativeFQDNsKey\<rparr>))"

definition backup_entries :: "ConfigChange \<Rightarrow> (string \<times> string) list" where
  "backup_entries b = [(certTypeKey, CertType b), (fqdnKey, FQDN b), (alternativeFQDNsKey, AlternativeFQDNs b)]"

definition createFQDNBackupConfigMap :: "ConfigChange \<Rightarrow> k8s_object" where
  "createFQDNBackupConfigMap backup = \<lparr>obj_Name = fqdnBackupConfigMapName, obj_ResourceVersion = [],
     obj_Data = Some (Map.empty(fqdnKey \<mapsto> FQDN backup, alternativeFQDNsKey \<mapsto> AlternativeFQDNs backup,
       certTypeKey \<mapsto> CertType backup))\<rparr>"

definition fqdn_updateBackup :: "('w, 'c) fqdn_env \<Rightarrow> ConfigChange \<Rightarrow> ('w, unit) go" where
  "fqdn_updateBackup E b = RetryOnConflict (fe_OnError E)
     (andThen (orWrap ''could not get backup config map for fqdn'' (o_Get (cmap_repo E) fqdnBackupConfigMapName)) (\<lambda>backupCM.
      andThen (put_data (backup_entries b) backupCM) (\<lambda>backupCM.
      orWrap ''failed to update config map for fqdn'' (o_Update (cmap_repo E) backupCM))))"

definition fqdn_backup :: "('w, 'c) fqdn_env \<Rightarrow> ('w, unit) go" where
  "fqdn_backup E =
     andThen (orWrap ''could not get global config'' (gc_Get E)) (\<lambda>globalConfigMap.
     andThen (orWrap ''could not create fqdn backup from global config''
       (pure (createFQDNBackup (cfg_Get (fe_lib E) globalConfigMap)))) (\<lambda>fqdnBackup.
     handle (o_Create (cmap_repo E) (createFQDNBackupConfigMap fqdnBackup))
       (\<lambda>err. if is_already_exists err
          then orWrap ''failed to update backup for fqdn'' (fqdn_updateBackup E fqdnBackup)
          else fail (errorf_w ''failed to create config map for fqdn backup'' err))
       ret))"

definition fqdn_Backup :: "('w, 'c) fqdn_env \<Rightarrow> ('w, unit) go" where
  "fqdn_Backup E = fe_OnError E retriable (fqdn_backup E)"

definition fqdn_Update :: "('w, 'c) fqdn_env \<Rightarrow> ConfigChange \<Rightarrow> ('w, unit) go" where
  "fqdn_Update E c =
     andThen (orWrap ''could not get global config'' (gc_Get E)) (\<lambda>globalConfig.
     andThen (orWrap ''failed to set new fqdn in global config''
       (pure (cfg_Set (fe_lib E) globalConfig globalCfgFQDNKey (FQDN c)))) (\<lambda>globalConfig.
     andThen (orWrap ''failed to set new alternativeFQDNs in global config''
       (pure (cfg_Set (fe_lib E) globalConfig globalCfgAlternativeFQDNsKey (AlternativeFQDNs c)))) (\<lambda>globalConfig.
     andThen (orWrap ''failed to set new cert type in global config''
       (pure (cfg_Set (fe_lib E) globalConfig globalCfgCertTypeKey (CertType c)))) (\<lambda>globalConfig.
     orWrap ''failed to save global config'' (fe_OnError E retriable (gc_SaveOrMerge E globalConfig))))))"

definition config_change :: "(string \<Rightarrow> string option) \<Rightarrow> ConfigChange" where
  "config_change m = \<lparr>FQDN = value_at m fqdnKey, CertType = value_at m certTypeKey,
     AlternativeFQDNs = value_at m alternativeFQDNsKey\<rparr>"

definition fqdn_restore :: "('w, 'c) fqdn_env \<Rightarrow> ('w, unit) go" where
  "fqdn_restore E =
     andThen (orWrap ''failed to get config mapo for fqdn backup'' (o_Get (cmap_repo E) fqdnBackupConfigMapName)) (\<lambda>backup.
     orWrap ''failed to update fqdn'' (fqdn_Update E (config_change (data_map backup))))"

definition fqdn_Restore :: "('w, 'c) fqdn_env \<Rightarrow> ('w, unit) go" where
  "fqdn_Restore E = fe_OnError E retriable (fqdn_restore E)"

definition fqdn_DeleteBackup :: "('w, 'c) fqdn_env \<Rightarrow> ('w, unit) go" where
  "fqdn_DeleteBackup E =
     handle (fe_OnError E retriable (o_Delete (cmap_repo E) fqdnBackupConfigMapName))
       (\<lambda>err. if is_not_found err then ret ()
         else fail (errorf_w ''failed to delete config map for fqdn backup'' err)) ret"

definition fqdnManager :: "('w, 'c) fqdn_env \<Rightarrow> ('w, ConfigChange) changer_if" where
  "fqdnManager E = \<lparr>Backup = fqdn_Backup E, DeleteBackup = fqdn_DeleteBackup E,
     Restore = fqdn_Restore E, Update = fqdn_Update E\<rparr>"

section \<open>The service (\<open>service.go\<close>)\<close>

record Change =
  ch_ConfigChange :: ConfigChange
  ch_SecretChange :: SecretChange

definition isValid :: "Change \<Rightarrow> err option" where
  "isValid c =
     (if FQDN (ch_ConfigChange c) = [] then Some (ErrorString ''fqdn is empty'')
      else if CertType (ch_ConfigChange c) = [] then Some (ErrorString ''certificate type is empty'')
      else if Certificate (ch_SecretChange c) = [] then Some (ErrorString ''certificate is empty'')
      else if CertificateKey (ch_SecretChange c) = [] then Some (ErrorString ''certificate key is empty'')
      else None)"

definition take_entry :: "KeyValue \<Rightarrow> Change \<Rightarrow> Change" where
  "take_entry kv change =
     (let sanitizedKey = trim_prefix ''/'' (kv_Key kv);
          cc = ch_ConfigChange change; sc = ch_SecretChange change in
      if sanitizedKey = globalCfgFQDNKey then change\<lparr>ch_ConfigChange := cc\<lparr>FQDN := kv_Value kv\<rparr>\<rparr>
      else if sanitizedKey = globalCfgAlternativeFQDNsKey then change\<lparr>ch_ConfigChange := cc\<lparr>AlternativeFQDNs := kv_Value kv\<rparr>\<rparr>
      else if sanitizedKey = globalCfgCertTypeKey then change\<lparr>ch_ConfigChange := cc\<lparr>CertType := kv_Value kv\<rparr>\<rparr>
      else if sanitizedKey = globalCfgCertKey then change\<lparr>ch_SecretChange := sc\<lparr>Certificate := kv_Value kv\<rparr>\<rparr>
      else if sanitizedKey = globalCfgPrivateKey then change\<lparr>ch_SecretChange := sc\<lparr>CertificateKey := kv_Value kv\<rparr>\<rparr>
      else change)"

definition createChangeRequest :: "GlobalConfig \<Rightarrow> err + Change" where
  "createChangeRequest globalCfg =
     (let change = fold take_entry globalCfg
        \<lparr>ch_ConfigChange = \<lparr>FQDN = [], CertType = [], AlternativeFQDNs = []\<rparr>,
         ch_SecretChange = \<lparr>Certificate = [], CertificateKey = []\<rparr>\<rparr>
      in case isValid change of
        Some err \<Rightarrow> Inl (errorf_w ''invalid global config'' err)
      | None \<Rightarrow> Inr change)"

definition svc_backup :: "('w, ConfigChange) changer_if \<Rightarrow> ('w, SecretChange) changer_if \<Rightarrow> ('w, unit) go" where
  "svc_backup fqdn cert =
     andThen (orWrap ''failed to backup fqdn'' (Backup fqdn)) (\<lambda>_.
     orWrap ''failed to backup certificate'' (Backup cert))"

definition svc_deleteBackup :: "('w, ConfigChange) changer_if \<Rightarrow> ('w, SecretChange) changer_if \<Rightarrow> ('w, unit) go" where
  "svc_deleteBackup fqdn cert =
     andThen (orWrap ''failed to delete backup for fqdn'' (DeleteBackup fqdn)) (\<lambda>_.
     orWrap ''failed to delete backup for certificate'' (DeleteBackup cert))"

definition svc_update :: "('w, ConfigChange) changer_if \<Rightarrow> ('w, SecretChange) changer_if \<Rightarrow> Change \<Rightarrow> ('w, unit) go" where
  "svc_update fqdn cert c =
     andThen (orWrap ''failed to update fqdn'' (Update fqdn (ch_ConfigChange c))) (\<lambda>_.
     orWrap ''failed to update certificate'' (Update cert (ch_SecretChange c)))"

definition svc_restore :: "('w, ConfigChange) changer_if \<Rightarrow> ('w, SecretChange) changer_if \<Rightarrow> ('w, unit) go" where
  "svc_restore fqdn cert =
     andThen (orWrap ''failed to restore certificate'' (Restore cert)) (\<lambda>_.
     orWrap ''failed to restore fqdn'' (Restore fqdn))"

text \<open>
  A deferred closure that reads the named result \<open>err\<close>. When the body panics, \<open>err\<close> holds
  what was assigned before, never a restore error, so that the closure is given nil.
\<close>

definition deferring_err :: "(err option \<Rightarrow> ('s, unit) go) \<Rightarrow> ('s, 'a) go \<Rightarrow> ('s, 'a) go" where
  "deferring_err d m = (\<lambda>s. case m s of (r, t) \<Rightarrow>
     (case d (case r of Err e \<Rightarrow> Some e | _ \<Rightarrow> None) t of (Panic p, u) \<Rightarrow> (Panic p, u) | (_, u) \<Rightarrow> (r, u)))"

definition delete_unless_needed ::
    "('w, ConfigChange) changer_if \<Rightarrow> ('w, SecretChange) changer_if \<Rightarrow> err option \<Rightarrow> ('w, unit) go" where
  "delete_unless_needed fqdn cert err =
     (case err of
        Some e \<Rightarrow> if is_restore_error e then ret () else attempt (svc_deleteBackup fqdn cert) (\<lambda>_. ret ())
      | None \<Rightarrow> attempt (svc_deleteBackup fqdn cert) (\<lambda>_. ret ()))"

definition change_body ::
    "('w, Configuration) go \<Rightarrow> ('w, ConfigChange) changer_if \<Rightarrow> ('w, SecretChange) changer_if \<Rightarrow> ('w, unit) go" where
  "change_body GetConfig fqdn cert =
     andThen (orWrap ''failed to get config from exporter'' GetConfig) (\<lambda>exporterConfig.
     andThen (orWrap ''failed to create change request for fqdn''
       (pure (createChangeRequest (cfg_GlobalConfig exporterConfig)))) (\<lambda>changeReq.
     handle (svc_update fqdn cert changeReq)
       (\<lambda>err. handle (svc_restore fqdn cert)
          (\<lambda>rErr. fail (RestoreError rErr (errorf_w ''failed to update fqdn or certificate'' err)))
          (\<lambda>_. fail (errorf_w ''failed to update fqdn or certificate'' err)))
       ret))"

definition ChangeFQDN ::
    "('w, Configuration) go \<Rightarrow> ('w, ConfigChange) changer_if \<Rightarrow> ('w, SecretChange) changer_if \<Rightarrow> ('w, unit) go" where
  "ChangeFQDN GetConfig fqdn cert =
     andThen (orWrap ''failed to create backup'' (svc_backup fqdn cert)) (\<lambda>_.
     deferring_err (delete_unless_needed fqdn cert) (change_body GetConfig fqdn cert))"

text \<open>\<open>NewService\<close> builds the service from the two managers.\<close>

definition NewService_ChangeFQDN :: "('w, 'c) fqdn_env \<Rightarrow> ('w, unit) go" where
  "NewService_ChangeFQDN E = ChangeFQDN (fe_GetConfig E) (fqdnManager E) (ecosystemCertificate E)"

section \<open>The contract of a changer\<close>

text \<open>
  A changer looks after a value: it knows the current one and a saved one. \<open>other\<close> is what
  it must not touch. A law says what an operation leaves alone however it ends, and what it
  achieves when it ends without an error.
\<close>

locale changer =
  fixes env_ok :: "'e \<Rightarrow> bool"
    and current :: "'e \<Rightarrow> 'w \<Rightarrow> 'v option"
    and saved :: "'e \<Rightarrow> 'w \<Rightarrow> 'v option"
    and other :: "'e \<Rightarrow> 'w \<Rightarrow> 'o"
    and ops :: "'e \<Rightarrow> ('w, 'u) changer_if"
    and wanted :: "'u \<Rightarrow> 'v"
  assumes Backup: "env_ok E \<Longrightarrow> wp (Backup (ops E)) (\<lambda>r t. current E t = current E s \<and> other E t = other E s \<and>
      (case r of Ok _ \<Rightarrow> saved E t = current E s | _ \<Rightarrow> True)) s"
    and DeleteBackup: "env_ok E \<Longrightarrow> wp (DeleteBackup (ops E)) (\<lambda>r t. current E t = current E s \<and> other E t = other E s) s"
    and Restore: "env_ok E \<Longrightarrow> wp (Restore (ops E)) (\<lambda>r t. saved E t = saved E s \<and> other E t = other E s \<and>
      (case r of Ok _ \<Rightarrow> current E t = saved E s | _ \<Rightarrow> True)) s"
    and Update: "env_ok E \<Longrightarrow> wp (Update (ops E) u) (\<lambda>r t. saved E t = saved E s \<and> other E t = other E s \<and>
      (case r of Ok _ \<Rightarrow> current E t = Some (wanted u) | _ \<Rightarrow> True)) s"

text \<open>
  The service needs two changers that leave each other alone, and an exporter whose answer
  changes nothing here.
\<close>

locale change_service =
  f: changer env_ok f_cur f_sav "\<lambda>E w. (c_cur E w, c_sav E w)" f_ops f_want +
  c: changer env_ok c_cur c_sav "\<lambda>E w. (f_cur E w, f_sav E w)" c_ops c_want
  for env_ok :: "'e \<Rightarrow> bool"
    and f_cur :: "'e \<Rightarrow> 'w \<Rightarrow> 'f option" and f_sav :: "'e \<Rightarrow> 'w \<Rightarrow> 'f option"
    and c_cur :: "'e \<Rightarrow> 'w \<Rightarrow> 'g option" and c_sav :: "'e \<Rightarrow> 'w \<Rightarrow> 'g option"
    and f_ops :: "'e \<Rightarrow> ('w, ConfigChange) changer_if" and f_want :: "ConfigChange \<Rightarrow> 'f"
    and c_ops :: "'e \<Rightarrow> ('w, SecretChange) changer_if" and c_want :: "SecretChange \<Rightarrow> 'g" +
  fixes getConfig :: "'e \<Rightarrow> ('w, Configuration) go"
  assumes getConfig: "env_ok E \<Longrightarrow> wp (getConfig E) (\<lambda>r t. f_cur E t = f_cur E s \<and> f_sav E t = f_sav E s \<and>
      c_cur E t = c_cur E s \<and> c_sav E t = c_sav E s) s"
begin

lemma backups: "env_ok E \<Longrightarrow> wp (svc_backup (f_ops E) (c_ops E)) (\<lambda>r t. f_cur E t = f_cur E s \<and> c_cur E t = c_cur E s \<and>
    (case r of Ok _ \<Rightarrow> f_sav E t = f_cur E s \<and> c_sav E t = c_cur E s | _ \<Rightarrow> True)) s"
  by (auto simp: svc_backup_def split: result.splits intro!: wp_mono [OF f.Backup] wp_mono [OF c.Backup])

lemma deletes: "env_ok E \<Longrightarrow> wp (svc_deleteBackup (f_ops E) (c_ops E)) (\<lambda>r t. f_cur E t = f_cur E s \<and> c_cur E t = c_cur E s) s"
  by (auto simp: svc_deleteBackup_def split: result.splits intro!: wp_mono [OF f.DeleteBackup] wp_mono [OF c.DeleteBackup])

lemma updates: "env_ok E \<Longrightarrow> wp (svc_update (f_ops E) (c_ops E) ch) (\<lambda>r t. f_sav E t = f_sav E s \<and> c_sav E t = c_sav E s \<and>
    (case r of Ok _ \<Rightarrow> f_cur E t = Some (f_want (ch_ConfigChange ch)) \<and> c_cur E t = Some (c_want (ch_SecretChange ch))
     | _ \<Rightarrow> True)) s"
  by (auto simp: svc_update_def split: result.splits intro!: wp_mono [OF f.Update] wp_mono [OF c.Update])

lemma restores: "env_ok E \<Longrightarrow> wp (svc_restore (f_ops E) (c_ops E)) (\<lambda>r t. f_sav E t = f_sav E s \<and> c_sav E t = c_sav E s \<and>
    (case r of Ok _ \<Rightarrow> f_cur E t = f_sav E s \<and> c_cur E t = c_sav E s | _ \<Rightarrow> True)) s"
  by (auto simp: svc_restore_def split: result.splits intro!: wp_mono [OF f.Restore] wp_mono [OF c.Restore])

definition requested :: "'e \<Rightarrow> Change \<Rightarrow> bool" where
  "requested E ch \<longleftrightarrow> (\<exists>w v cfg. getConfig E w = (Ok cfg, v) \<and> createChangeRequest (cfg_GlobalConfig cfg) = Inr ch)"

lemma body:
  assumes "env_ok E" "f_sav E s = f_cur E s" "c_sav E s = c_cur E s"
  shows "wp (change_body (getConfig E) (f_ops E) (c_ops E)) (\<lambda>r t. case r of
     Ok _ \<Rightarrow> \<exists>ch. requested E ch \<and> f_cur E t = Some (f_want (ch_ConfigChange ch)) \<and> c_cur E t = Some (c_want (ch_SecretChange ch))
   | Err e \<Rightarrow> f_cur E t = f_cur E s \<and> c_cur E t = c_cur E s \<or>
       is_restore_error e \<and> f_sav E t = f_cur E s \<and> c_sav E t = c_cur E s
   | Panic _ \<Rightarrow> True) s"
proof -
  obtain q u where g: "getConfig E s = (q, u)" by fastforce
  note G = wp_eq [where m = "getConfig E", OF g]
  have same: "f_cur E u = f_cur E s" "f_sav E u = f_cur E s" "c_cur E u = c_cur E s" "c_sav E u = c_cur E s"
    using wpD [OF getConfig [OF assms(1)] g] assms(2,3) by auto
  show ?thesis
  proof (cases q)
    case (Ok cfg)
    show ?thesis
    proof (cases "createChangeRequest (cfg_GlobalConfig cfg)")
      case (Inl e)
      with Ok same show ?thesis by (simp add: change_body_def G)
    next
      case (Inr ch)
      with g Ok have "requested E ch" unfolding requested_def by blast
      with Ok Inr same show ?thesis
        by (auto simp: change_body_def G split: result.splits
            intro!: wp_mono [OF updates [OF assms(1)]] wp_mono [OF restores [OF assms(1)]])
    qed
  qed (use same in \<open>simp_all add: change_body_def G\<close>)
qed

text \<open>
  A failed change leaves the values as they were, or says by its error that the restore failed
  and then both backups are there.
\<close>

lemma change_or_restore:
  assumes "env_ok E"
  shows "wp (ChangeFQDN (getConfig E) (f_ops E) (c_ops E)) (\<lambda>r t. case r of
     Ok _ \<Rightarrow> \<exists>ch. requested E ch \<and> f_cur E t = Some (f_want (ch_ConfigChange ch)) \<and> c_cur E t = Some (c_want (ch_SecretChange ch))
   | Err e \<Rightarrow> f_cur E t = f_cur E s \<and> c_cur E t = c_cur E s \<or>
       is_restore_error e \<and> f_sav E t = f_cur E s \<and> c_sav E t = c_cur E s
   | Panic _ \<Rightarrow> True) s"
proof -
  obtain q u where b: "svc_backup (f_ops E) (c_ops E) s = (q, u)" by fastforce
  note B = wp_eq [where m = "svc_backup (f_ops E) (c_ops E)", OF b]
  have bs: "f_cur E u = f_cur E s" "c_cur E u = c_cur E s"
      "case q of Ok _ \<Rightarrow> f_sav E u = f_cur E s \<and> c_sav E u = c_cur E s | _ \<Rightarrow> True"
    using wpD [OF backups [OF assms] b] by auto
  show ?thesis
  proof (cases q)
    case (Ok x)
    obtain r v where m: "change_body (getConfig E) (f_ops E) (c_ops E) u = (r, v)" by fastforce
    from bs Ok have "f_sav E u = f_cur E u" "c_sav E u = c_cur E u" by auto
    note body_u = wpD [OF body [OF assms this] m]
    obtain d w where d: "delete_unless_needed (f_ops E) (c_ops E) (case r of Err e \<Rightarrow> Some e | _ \<Rightarrow> None) v = (d, w)"
      by fastforce
    have "wp (delete_unless_needed (f_ops E) (c_ops E) err) (\<lambda>_ t. f_cur E t = f_cur E v \<and> c_cur E t = c_cur E v \<and>
        (case err of Some e \<Rightarrow> is_restore_error e \<longrightarrow> f_sav E t = f_sav E v \<and> c_sav E t = c_sav E v | None \<Rightarrow> True)) v" for err
      by (cases err) (auto simp: delete_unless_needed_def split: result.splits
          intro!: wp_mono [OF deletes [OF assms]])
    note del = wpD [OF this d]
    have "wp (deferring_err (delete_unless_needed (f_ops E) (c_ops E)) (change_body (getConfig E) (f_ops E) (c_ops E))) Q u =
        Q (case d of Panic p \<Rightarrow> Panic p | _ \<Rightarrow> r) w" for Q
      by (cases d) (simp_all add: wp_def deferring_err_def m d)
    then have result: "wp (ChangeFQDN (getConfig E) (f_ops E) (c_ops E)) Q s = Q (case d of Panic p \<Rightarrow> Panic p | _ \<Rightarrow> r) w" for Q
      by (simp add: ChangeFQDN_def B Ok)
    have cur: "f_cur E w = f_cur E v" "c_cur E w = c_cur E v" using del by simp_all
    let ?Q = "\<lambda>r t. case r of
       Ok _ \<Rightarrow> \<exists>ch. requested E ch \<and> f_cur E t = Some (f_want (ch_ConfigChange ch)) \<and> c_cur E t = Some (c_want (ch_SecretChange ch))
     | Err e \<Rightarrow> f_cur E t = f_cur E s \<and> c_cur E t = c_cur E s \<or>
         is_restore_error e \<and> f_sav E t = f_cur E s \<and> c_sav E t = c_cur E s
     | Panic _ \<Rightarrow> True"
    have "?Q r w"
    proof (cases r)
      case r: (Ok y)
      from body_u cur show ?thesis by (simp only: r result.case)
    next
      case r: (Err e)
      from body_u del cur bs(1,2) show ?thesis by (simp only: r result.case option.case) metis
    qed simp
    then have "?Q (case d of Panic p \<Rightarrow> Panic p | _ \<Rightarrow> r) w" by (cases d) simp_all
    then show ?thesis unfolding result .
  qed (use bs in \<open>simp_all add: ChangeFQDN_def B\<close>)
qed

end

section \<open>The environment\<close>

text \<open>
  The documented behaviour of a repository: a read changes nothing and answers what is
  there, a write touches the object of its name only and, when it succeeds, that object has
  the data that was sent. \<open>rest\<close> is the part of the world that other operations work on.
\<close>

definition without :: "string \<Rightarrow> ('w \<Rightarrow> string \<Rightarrow> 'd option) \<Rightarrow> 'w \<Rightarrow> string \<Rightarrow> 'd option" where
  "without n view w = (view w)(n := None)"

definition repo_ok :: "'w object_repo \<Rightarrow> ('w \<Rightarrow> string \<Rightarrow> (string \<Rightarrow> string option) option) \<Rightarrow> ('w \<Rightarrow> 'o) \<Rightarrow> bool" where
  "repo_ok R view rest \<longleftrightarrow>
     (\<forall>n w r v. o_Get R n w = (r, v) \<longrightarrow> rest v = rest w \<and> view v = view w \<and>
        (\<forall>x. r = Ok x \<longrightarrow> obj_Name x = n \<and> view w n = Some (data_map x))) \<and>
     (\<forall>x w r v. o_Create R x w = (r, v) \<longrightarrow> rest v = rest w \<and>
        without (obj_Name x) view v = without (obj_Name x) view w \<and>
        (r = Ok () \<longrightarrow> view v (obj_Name x) = Some (data_map x))) \<and>
     (\<forall>x w r v. o_Update R x w = (r, v) \<longrightarrow> rest v = rest w \<and>
        without (obj_Name x) view v = without (obj_Name x) view w \<and>
        (r = Ok () \<longrightarrow> view v (obj_Name x) = Some (data_map x))) \<and>
     (\<forall>n w r v. o_Delete R n w = (r, v) \<longrightarrow> rest v = rest w \<and> without n view v = without n view w)"

definition fqdn_env_ok :: "('w, 'c) fqdn_env \<Rightarrow> bool" where
  "fqdn_env_ok E \<longleftrightarrow> config_lib_ok (fe_lib E) \<and> retry_ok (fe_OnError E) \<and>
     repo_ok (secret_repo E) (secrets_in E) (\<lambda>w. (cmaps_in E w, config_in E w)) \<and>
     repo_ok (cmap_repo E) (cmaps_in E) (\<lambda>w. (secrets_in E w, config_in E w)) \<and>
     (\<forall>w r v. gc_Get E w = (r, v) \<longrightarrow> secrets_in E v = secrets_in E w \<and> cmaps_in E v = cmaps_in E w \<and>
        config_in E v = config_in E w \<and> (\<forall>c. r = Ok c \<longrightarrow> cfg_Get (fe_lib E) c = config_in E w)) \<and>
     (\<forall>c w r v. gc_SaveOrMerge E c w = (r, v) \<longrightarrow> secrets_in E v = secrets_in E w \<and> cmaps_in E v = cmaps_in E w \<and>
        (r = Ok () \<longrightarrow> config_in E v = cfg_Get (fe_lib E) c)) \<and>
     (\<forall>w r v. fe_GetConfig E w = (r, v) \<longrightarrow> secrets_in E v = secrets_in E w \<and> cmaps_in E v = cmaps_in E w \<and>
        config_in E v = config_in E w)"

lemma fqdn_env_okD:
  assumes "fqdn_env_ok E"
  shows "config_lib_ok (fe_lib E)" "retry_ok (fe_OnError E)"
    "repo_ok (secret_repo E) (secrets_in E) (\<lambda>w. (cmaps_in E w, config_in E w))"
    "repo_ok (cmap_repo E) (cmaps_in E) (\<lambda>w. (secrets_in E w, config_in E w))"
  using assms unfolding fqdn_env_ok_def by blast+

lemma wp_gc_Get:
  assumes "fqdn_env_ok E"
  shows "wp (gc_Get E) (\<lambda>r v. secrets_in E v = secrets_in E w \<and> cmaps_in E v = cmaps_in E w \<and> config_in E v = config_in E w \<and>
    (case r of Ok c \<Rightarrow> cfg_Get (fe_lib E) c = config_in E w | _ \<Rightarrow> True)) w"
  using assms unfolding fqdn_env_ok_def by (intro wpI) (simp split: result.splits)

lemma wp_SaveOrMerge:
  assumes "fqdn_env_ok E"
  shows "wp (gc_SaveOrMerge E c) (\<lambda>r v. secrets_in E v = secrets_in E w \<and> cmaps_in E v = cmaps_in E w \<and>
    (case r of Ok _ \<Rightarrow> config_in E v = cfg_Get (fe_lib E) c | _ \<Rightarrow> True)) w"
  using assms unfolding fqdn_env_ok_def by (intro wpI) (simp split: result.splits)

lemma wp_fe_GetConfig:
  assumes "fqdn_env_ok E"
  shows "wp (fe_GetConfig E) (\<lambda>r v. secrets_in E v = secrets_in E w \<and> cmaps_in E v = cmaps_in E w \<and> config_in E v = config_in E w) w"
  using assms unfolding fqdn_env_ok_def by (intro wpI) blast

lemma wp_repo:
  assumes "repo_ok R view rest"
  shows "wp (o_Get R n) (\<lambda>r v. rest v = rest w \<and> view v = view w \<and>
      (case r of Ok x \<Rightarrow> obj_Name x = n \<and> view w n = Some (data_map x) | _ \<Rightarrow> True)) w"
    and "wp (o_Create R x) (\<lambda>r v. rest v = rest w \<and> without (obj_Name x) view v = without (obj_Name x) view w \<and>
      (case r of Ok _ \<Rightarrow> view v (obj_Name x) = Some (data_map x) | _ \<Rightarrow> True)) w"
    and "wp (o_Update R x) (\<lambda>r v. rest v = rest w \<and> without (obj_Name x) view v = without (obj_Name x) view w \<and>
      (case r of Ok _ \<Rightarrow> view v (obj_Name x) = Some (data_map x) | _ \<Rightarrow> True)) w"
    and "wp (o_Delete R n) (\<lambda>r v. rest v = rest w \<and> without n view v = without n view w) w"
proof -
  show "wp (o_Get R n) (\<lambda>r v. rest v = rest w \<and> view v = view w \<and>
      (case r of Ok x \<Rightarrow> obj_Name x = n \<and> view w n = Some (data_map x) | _ \<Rightarrow> True)) w"
  proof (rule wpI)
    fix r v assume "o_Get R n w = (r, v)"
    with assms have "rest v = rest w \<and> view v = view w \<and> (\<forall>x. r = Ok x \<longrightarrow> obj_Name x = n \<and> view w n = Some (data_map x))"
      unfolding repo_ok_def by blast
    then show "rest v = rest w \<and> view v = view w \<and>
      (case r of Ok x \<Rightarrow> obj_Name x = n \<and> view w n = Some (data_map x) | _ \<Rightarrow> True)"
      by (cases r) simp_all
  qed
  show "wp (o_Create R x) (\<lambda>r v. rest v = rest w \<and> without (obj_Name x) view v = without (obj_Name x) view w \<and>
      (case r of Ok _ \<Rightarrow> view v (obj_Name x) = Some (data_map x) | _ \<Rightarrow> True)) w"
    using assms unfolding repo_ok_def by (intro wpI) (simp split: result.splits)
  show "wp (o_Update R x) (\<lambda>r v. rest v = rest w \<and> without (obj_Name x) view v = without (obj_Name x) view w \<and>
      (case r of Ok _ \<Rightarrow> view v (obj_Name x) = Some (data_map x) | _ \<Rightarrow> True)) w"
    using assms unfolding repo_ok_def by (intro wpI) (simp split: result.splits)
  show "wp (o_Delete R n) (\<lambda>r v. rest v = rest w \<and> without n view v = without n view w) w"
    using assms unfolding repo_ok_def by (intro wpI) blast
qed

text \<open>What each run of a function keeps and what it achieves at its end, the retried call does.\<close>

lemma wp_retry_obs:
  assumes "retry_ok R"
    and "\<And>w. wp fn (\<lambda>r v. obs v = obs w \<and> (case r of Ok _ \<Rightarrow> G (obs w) v | _ \<Rightarrow> True)) w"
  shows "wp (R p fn) (\<lambda>r v. obs v = obs w \<and> (case r of Ok _ \<Rightarrow> G (obs w) v | _ \<Rightarrow> True)) w"
proof (rule wp_retry [OF assms(1), where I = "\<lambda>v. obs v = obs w"])
  show "wp fn (\<lambda>r v. (obs v = obs w \<and> (case r of Ok _ \<Rightarrow> G (obs w) v | _ \<Rightarrow> True)) \<and>
      (case r of Err e \<Rightarrow> obs v = obs w | _ \<Rightarrow> True)) u" if "obs u = obs w" for u
    by (rule wp_mono [OF assms(2)]) (auto simp: that split: result.splits)
qed simp

text \<open>Reading an object and writing it back with some entries set.\<close>

lemma wp_write_entries:
  assumes "repo_ok R view rest"
  shows "wp (andThen (orWrap p (o_Get R n)) (\<lambda>x. andThen (put_data kvs x) (\<lambda>x. orWrap q (o_Update R x))))
    (\<lambda>r v. (rest v, without n view v) = (rest w, without n view w) \<and>
      (case r of Ok _ \<Rightarrow> \<exists>m. view v n = Some (written kvs m) | _ \<Rightarrow> True)) w"
proof -
  obtain r v where g: "o_Get R n w = (r, v)" by fastforce
  note G = wp_eq [where m = "o_Get R n", OF g] and get = wpD [OF wp_repo(1) [OF assms] g]
  show ?thesis
  proof (cases r)
    case (Ok x)
    have "without n view v = without n view w" using get by (simp add: without_def)
    with Ok get show ?thesis
      by (auto simp: G put_data_def data_map_def split: option.splits result.splits
          intro!: wp_mono [OF wp_repo(3) [OF assms]])
  qed (use get in \<open>simp_all add: G without_def\<close>)
qed

section \<open>The certificate is a changer\<close>

definition pair_of :: "(string \<Rightarrow> string option) \<Rightarrow> string \<times> string" where
  "pair_of m = (value_at m certFileName, value_at m keyFileName)"

definition cert_current :: "('w, 'c) fqdn_env \<Rightarrow> 'w \<Rightarrow> (string \<times> string) option" where
  "cert_current E w = map_option pair_of (secrets_in E w ecosystemCertificateName)"

definition cert_saved :: "('w, 'c) fqdn_env \<Rightarrow> 'w \<Rightarrow> (string \<times> string) option" where
  "cert_saved E w = map_option pair_of (secrets_in E w certificateBackupName)"

definition pair_wanted :: "SecretChange \<Rightarrow> string \<times> string" where
  "pair_wanted c = (Certificate c, CertificateKey c)"

abbreviation not_secrets :: "('w, 'c) fqdn_env \<Rightarrow> 'w \<Rightarrow> (string \<Rightarrow> (string \<Rightarrow> string option) option) \<times> (string \<Rightarrow> string option)" where
  "not_secrets E w \<equiv> (cmaps_in E w, config_in E w)"

text \<open>What the operations on the secret \<open>n\<close> leave alone.\<close>

definition beside :: "string \<Rightarrow> ('w, 'c) fqdn_env \<Rightarrow> 'w \<Rightarrow>
    ((string \<Rightarrow> (string \<Rightarrow> string option) option) \<times> (string \<Rightarrow> string option)) \<times>
    (string \<Rightarrow> (string \<Rightarrow> string option) option)" where
  "beside n E w = (not_secrets E w, without n (secrets_in E) w)"

lemma cert_names [simp]: "certificateBackupName \<noteq> ecosystemCertificateName" "ecosystemCertificateName \<noteq> certificateBackupName"
  "keyFileName \<noteq> certFileName" "certFileName \<noteq> keyFileName"
  by (simp_all add: certificateBackupName_def ecosystemCertificateName_def certFileName_def keyFileName_def)

lemma beside_D:
  assumes "beside n E v = beside n E w"
  shows "not_secrets E v = not_secrets E w" "m \<noteq> n \<Longrightarrow> secrets_in E v m = secrets_in E w m"
proof -
  show "not_secrets E v = not_secrets E w" using assms by (simp add: beside_def)
  have "without n (secrets_in E) v m = without n (secrets_in E) w m" using assms by (simp add: beside_def)
  then show "m \<noteq> n \<Longrightarrow> secrets_in E v m = secrets_in E w m" by (simp add: without_def)
qed

lemma pair_written [simp]: "pair_of (written [(certFileName, a), (keyFileName, b)] m) = (a, b)"
  by (simp add: pair_of_def written_def value_at_def)

lemma cert_update_at:
  assumes "fqdn_env_ok E"
  shows "wp (cert_update E n c) (\<lambda>r v. beside n E v = beside n E w \<and>
    (case r of Ok _ \<Rightarrow> map_option pair_of (secrets_in E v n) = Some (pair_wanted c) | _ \<Rightarrow> True)) w"
  unfolding cert_update_def beside_def
  by (rule wp_mono [OF wp_write_entries [OF fqdn_env_okD(3) [OF assms]]])
    (auto simp: pair_wanted_def split: result.splits)

lemma cert_update_retried:
  assumes "fqdn_env_ok E"
  shows "wp (RetryOnConflict (fe_OnError E) (cert_update E n c)) (\<lambda>r v. beside n E v = beside n E w \<and>
    (case r of Ok _ \<Rightarrow> map_option pair_of (secrets_in E v n) = Some (pair_wanted c) | _ \<Rightarrow> True)) w"
  unfolding RetryOnConflict_def
  by (rule wp_retry_obs [OF fqdn_env_okD(2) [OF assms],
        where G = "\<lambda>_ v. map_option pair_of (secrets_in E v n) = Some (pair_wanted c)"]) (rule cert_update_at [OF assms])

lemma key_pair_wanted [simp]: "pair_wanted (key_pair x) = pair_of (data_map x)"
  by (simp add: pair_wanted_def key_pair_def pair_of_def)

lemma cert_backup_saves:
  assumes "fqdn_env_ok E"
  shows "wp (cert_backup E) (\<lambda>r v. beside certificateBackupName E v = beside certificateBackupName E w \<and>
    (case r of Ok _ \<Rightarrow> cert_saved E v = cert_current E w | _ \<Rightarrow> True)) w"
proof -
  obtain r v where g: "o_Get (secret_repo E) ecosystemCertificateName w = (r, v)" by fastforce
  note G = wp_eq [where m = "o_Get (secret_repo E) ecosystemCertificateName", OF g]
    and get = wpD [OF wp_repo(1) [OF fqdn_env_okD(3) [OF assms]] g]
  have same: "beside certificateBackupName E v = beside certificateBackupName E w"
    using get by (simp add: beside_def without_def)
  show ?thesis
  proof (cases r)
    case (Ok x)
    let ?b = "x\<lparr>obj_Name := certificateBackupName, obj_ResourceVersion := []\<rparr>"
    have cur: "cert_current E w = Some (pair_of (data_map x))" "data_map ?b = data_map x"
      using get Ok by (simp_all add: cert_current_def data_map_def)
    obtain q u where c: "o_Create (secret_repo E) ?b v = (q, u)" by fastforce
    note C = wp_eq [where m = "o_Create (secret_repo E) ?b", OF c]
    have create: "beside certificateBackupName E u = beside certificateBackupName E v"
      "case q of Ok _ \<Rightarrow> secrets_in E u certificateBackupName = Some (data_map x) | _ \<Rightarrow> True"
      using wpD [OF wp_repo(2) [OF fqdn_env_okD(3) [OF assms]] c] cur(2)
      by (auto simp: beside_def split: result.splits)
    show ?thesis
    proof (cases q)
      case q: (Err e)
      show ?thesis
        using Ok q create same cur
        by (auto simp: cert_backup_def cert_updateBackup_def Let_def G C cert_saved_def split: result.splits
            intro!: wp_mono [OF cert_update_retried [OF assms]])
    qed (use Ok create same cur in \<open>simp_all add: cert_backup_def Let_def G C cert_saved_def\<close>)
  qed (use same in \<open>simp_all add: cert_backup_def G\<close>)
qed

lemma cert_restore_sets:
  assumes "fqdn_env_ok E"
  shows "wp (cert_restore E) (\<lambda>r v. beside ecosystemCertificateName E v = beside ecosystemCertificateName E w \<and>
    (case r of Ok _ \<Rightarrow> cert_current E v = cert_saved E w | _ \<Rightarrow> True)) w"
proof -
  obtain r v where g: "o_Get (secret_repo E) certificateBackupName w = (r, v)" by fastforce
  note G = wp_eq [where m = "o_Get (secret_repo E) certificateBackupName", OF g]
    and get = wpD [OF wp_repo(1) [OF fqdn_env_okD(3) [OF assms]] g]
  have same: "beside ecosystemCertificateName E v = beside ecosystemCertificateName E w"
    using get by (simp add: beside_def without_def)
  show ?thesis
  proof (cases r)
    case (Ok x)
    have "cert_saved E w = Some (pair_of (data_map x))" using get Ok by (simp add: cert_saved_def)
    with Ok same show ?thesis
      by (auto simp: cert_restore_def cert_Update_def G cert_current_def split: result.splits
          intro!: wp_mono [OF cert_update_retried [OF assms]])
  qed (use same in \<open>simp_all add: cert_restore_def G\<close>)
qed

section \<open>The FQDN is a changer\<close>

definition triple_of :: "(string \<Rightarrow> string option) \<Rightarrow> string \<times> string \<times> string" where
  "triple_of m = (value_at m fqdnKey, value_at m alternativeFQDNsKey, value_at m certTypeKey)"

definition fqdn_current :: "('w, 'c) fqdn_env \<Rightarrow> 'w \<Rightarrow> (string \<times> string \<times> string) option" where
  "fqdn_current E w = Some (value_at (config_in E w) globalCfgFQDNKey,
     value_at (config_in E w) globalCfgAlternativeFQDNsKey, value_at (config_in E w) globalCfgCertTypeKey)"

definition fqdn_saved :: "('w, 'c) fqdn_env \<Rightarrow> 'w \<Rightarrow> (string \<times> string \<times> string) option" where
  "fqdn_saved E w = map_option triple_of (cmaps_in E w fqdnBackupConfigMapName)"

definition triple_wanted :: "ConfigChange \<Rightarrow> string \<times> string \<times> string" where
  "triple_wanted c = (FQDN c, AlternativeFQDNs c, CertType c)"

lemma fqdn_keys [simp]:
  "fqdnKey \<noteq> alternativeFQDNsKey" "fqdnKey \<noteq> certTypeKey" "alternativeFQDNsKey \<noteq> certTypeKey"
  "alternativeFQDNsKey \<noteq> fqdnKey" "certTypeKey \<noteq> fqdnKey" "certTypeKey \<noteq> alternativeFQDNsKey"
  "globalCfgFQDNKey \<noteq> globalCfgAlternativeFQDNsKey" "globalCfgFQDNKey \<noteq> globalCfgCertTypeKey"
  "globalCfgAlternativeFQDNsKey \<noteq> globalCfgCertTypeKey" "globalCfgAlternativeFQDNsKey \<noteq> globalCfgFQDNKey"
  "globalCfgCertTypeKey \<noteq> globalCfgFQDNKey" "globalCfgCertTypeKey \<noteq> globalCfgAlternativeFQDNsKey"
  by (simp_all add: fqdnKey_def alternativeFQDNsKey_def certTypeKey_def globalCfgFQDNKey_def
      globalCfgAlternativeFQDNsKey_def globalCfgCertTypeKey_def)

lemma triple_written [simp]:
  "triple_of (written (backup_entries b) m) = triple_wanted b"
  "triple_of (data_map (createFQDNBackupConfigMap b)) = triple_wanted b"
  "triple_wanted (config_change m) = triple_of m"
  by (simp_all add: triple_of_def triple_wanted_def written_def backup_entries_def value_at_def data_map_def
      createFQDNBackupConfigMap_def config_change_def)

lemma fqdn_updateBackup_saves:
  assumes "fqdn_env_ok E"
  shows "wp (fqdn_updateBackup E b) (\<lambda>r v. (secrets_in E v, config_in E v) = (secrets_in E w, config_in E w) \<and>
    (case r of Ok _ \<Rightarrow> fqdn_saved E v = Some (triple_wanted b) | _ \<Rightarrow> True)) w"
  unfolding fqdn_updateBackup_def RetryOnConflict_def
proof (rule wp_retry_obs [OF fqdn_env_okD(2) [OF assms], where G = "\<lambda>_ v. fqdn_saved E v = Some (triple_wanted b)"])
  fix w
  show "wp (andThen (orWrap ''could not get backup config map for fqdn'' (o_Get (cmap_repo E) fqdnBackupConfigMapName))
      (\<lambda>x. andThen (put_data (backup_entries b) x) (\<lambda>x. orWrap ''failed to update config map for fqdn'' (o_Update (cmap_repo E) x))))
    (\<lambda>r v. (secrets_in E v, config_in E v) = (secrets_in E w, config_in E w) \<and>
      (case r of Ok _ \<Rightarrow> fqdn_saved E v = Some (triple_wanted b) | _ \<Rightarrow> True)) w"
    by (rule wp_mono [OF wp_write_entries [OF fqdn_env_okD(4) [OF assms]]])
      (auto simp: fqdn_saved_def split: result.splits)
qed

lemma fqdn_backup_saves:
  assumes "fqdn_env_ok E"
  shows "wp (fqdn_backup E) (\<lambda>r v. (secrets_in E v, config_in E v) = (secrets_in E w, config_in E w) \<and>
    (case r of Ok _ \<Rightarrow> fqdn_saved E v = fqdn_current E w | _ \<Rightarrow> True)) w"
proof -
  obtain r v where g: "gc_Get E w = (r, v)" by fastforce
  note G = wp_eq [where m = "gc_Get E", OF g] and get = wpD [OF wp_gc_Get [OF assms] g]
  show ?thesis
  proof (cases r)
    case (Ok x)
    show ?thesis
    proof (cases "createFQDNBackup (cfg_Get (fe_lib E) x)")
      case (Inl e)
      with Ok get show ?thesis by (simp add: fqdn_backup_def G)
    next
      case (Inr b)
      have cur: "fqdn_current E w = Some (triple_wanted b)"
        using Inr get Ok
        by (auto simp: createFQDNBackup_def fqdn_current_def triple_wanted_def value_at_def split: option.splits)
      obtain q u where c: "o_Create (cmap_repo E) (createFQDNBackupConfigMap b) v = (q, u)" by fastforce
      note C = wp_eq [where m = "o_Create (cmap_repo E) (createFQDNBackupConfigMap b)", OF c]
      have create: "secrets_in E u = secrets_in E v" "config_in E u = config_in E v"
        "case q of Ok _ \<Rightarrow> fqdn_saved E u = Some (triple_wanted b) | _ \<Rightarrow> True"
        using wpD [OF wp_repo(2) [OF fqdn_env_okD(4) [OF assms]] c]
        by (auto simp: fqdn_saved_def createFQDNBackupConfigMap_def [of b, THEN arg_cong [where f = obj_Name], simplified]
            split: result.splits)
      show ?thesis
      proof (cases q)
        case q: (Err e)
        show ?thesis
          using Ok Inr q create get cur
          by (auto simp: fqdn_backup_def G C split: result.splits
              intro!: wp_mono [OF fqdn_updateBackup_saves [OF assms]])
      qed (use Ok Inr create get cur in \<open>simp_all add: fqdn_backup_def G C\<close>)
    qed
  qed (use get in \<open>simp_all add: fqdn_backup_def G\<close>)
qed

lemma fqdn_Update_sets:
  assumes "fqdn_env_ok E"
  shows "wp (fqdn_Update E c) (\<lambda>r v. (secrets_in E v, cmaps_in E v) = (secrets_in E w, cmaps_in E w) \<and>
    (case r of Ok _ \<Rightarrow> fqdn_current E v = Some (triple_wanted c) | _ \<Rightarrow> True)) w"
proof -
  obtain r v where g: "gc_Get E w = (r, v)" by fastforce
  note G = wp_eq [where m = "gc_Get E", OF g] and get = wpD [OF wp_gc_Get [OF assms] g]
  note set = config_lib_okD(2) [OF fqdn_env_okD(1) [OF assms]]
  have save: "wp (fe_OnError E retriable (gc_SaveOrMerge E x)) (\<lambda>r u. (secrets_in E u, cmaps_in E u) = (secrets_in E v, cmaps_in E v) \<and>
      (case r of Ok _ \<Rightarrow> config_in E u = cfg_Get (fe_lib E) x | _ \<Rightarrow> True)) v" for x
    by (rule wp_retry_obs [OF fqdn_env_okD(2) [OF assms], where G = "\<lambda>_ u. config_in E u = cfg_Get (fe_lib E) x"])
      (auto intro!: wp_mono [OF wp_SaveOrMerge [OF assms]])
  have current: "fqdn_current E u = Some (triple_wanted c)"
    if "config_in E u = cfg_Get (fe_lib E) x3" "cfg_Set (fe_lib E) x globalCfgFQDNKey (FQDN c) = Inr x1"
      "cfg_Set (fe_lib E) x1 globalCfgAlternativeFQDNsKey (AlternativeFQDNs c) = Inr x2"
      "cfg_Set (fe_lib E) x2 globalCfgCertTypeKey (CertType c) = Inr x3" for u x x1 x2 x3
    using that by (simp add: fqdn_current_def triple_wanted_def value_at_def set [OF that(4)] set [OF that(3)] set [OF that(2)])
  show ?thesis
    using get
    by (auto simp: fqdn_Update_def G split: result.splits sum.splits intro!: wp_mono [OF save] current)
qed

lemma fqdn_restore_sets:
  assumes "fqdn_env_ok E"
  shows "wp (fqdn_restore E) (\<lambda>r v. (secrets_in E v, cmaps_in E v) = (secrets_in E w, cmaps_in E w) \<and>
    (case r of Ok _ \<Rightarrow> fqdn_current E v = fqdn_saved E w | _ \<Rightarrow> True)) w"
proof -
  obtain r v where g: "o_Get (cmap_repo E) fqdnBackupConfigMapName w = (r, v)" by fastforce
  note G = wp_eq [where m = "o_Get (cmap_repo E) fqdnBackupConfigMapName", OF g]
    and get = wpD [OF wp_repo(1) [OF fqdn_env_okD(4) [OF assms]] g]
  show ?thesis
  proof (cases r)
    case (Ok x)
    have "fqdn_saved E w = Some (triple_of (data_map x))" using get Ok by (simp add: fqdn_saved_def)
    with Ok get show ?thesis
      by (auto simp: fqdn_restore_def G split: result.splits intro!: wp_mono [OF fqdn_Update_sets [OF assms]])
  qed (use get in \<open>simp_all add: fqdn_restore_def G\<close>)
qed

section \<open>The code is an instance\<close>

lemma cert_Backup_saves:
  assumes "fqdn_env_ok E"
  shows "wp (cert_Backup E) (\<lambda>r v. beside certificateBackupName E v = beside certificateBackupName E w \<and>
    (case r of Ok _ \<Rightarrow> cert_saved E v = cert_current E w | _ \<Rightarrow> True)) w"
proof -
  have G: "map_option pair_of (snd (beside certificateBackupName E w) ecosystemCertificateName) = cert_current E w" for w
    by (simp add: cert_current_def beside_def without_def)
  show ?thesis
    unfolding cert_Backup_def
    using wp_retry_obs [OF fqdn_env_okD(2) [OF assms], where obs = "beside certificateBackupName E" and fn = "cert_backup E"
        and G = "\<lambda>b t. cert_saved E t = map_option pair_of (snd b ecosystemCertificateName)"]
      cert_backup_saves [OF assms]
    unfolding G by blast
qed

lemma cert_Restore_sets:
  assumes "fqdn_env_ok E"
  shows "wp (cert_Restore E) (\<lambda>r v. beside ecosystemCertificateName E v = beside ecosystemCertificateName E w \<and>
    (case r of Ok _ \<Rightarrow> cert_current E v = cert_saved E w | _ \<Rightarrow> True)) w"
proof -
  have G: "map_option pair_of (snd (beside ecosystemCertificateName E w) certificateBackupName) = cert_saved E w" for w
    by (simp add: cert_saved_def beside_def without_def)
  show ?thesis
    unfolding cert_Restore_def
    using wp_retry_obs [OF fqdn_env_okD(2) [OF assms], where obs = "beside ecosystemCertificateName E" and fn = "cert_restore E"
        and G = "\<lambda>b t. cert_current E t = map_option pair_of (snd b certificateBackupName)"]
      cert_restore_sets [OF assms]
    unfolding G by blast
qed

lemma any_result: "(case r of Ok _ \<Rightarrow> True | Err _ \<Rightarrow> True | Panic _ \<Rightarrow> True) = True"
  by (cases r) simp_all

lemma delete_backup_frame:
  assumes "repo_ok R view rest" "retry_ok S"
  shows "wp (handle (S p (o_Delete R n)) (\<lambda>err. if is_not_found err then ret () else fail (h err)) ret)
    (\<lambda>_ v. (rest v, without n view v) = (rest w, without n view w)) w"
proof -
  have "wp (S p (o_Delete R n)) (\<lambda>_ v. (rest v, without n view v) = (rest w, without n view w)) w"
    using wp_retry_obs [OF assms(2), where obs = "\<lambda>v. (rest v, without n view v)" and G = "\<lambda>_ _. True" and fn = "o_Delete R n"]
      wp_repo(4) [OF assms(1)] by (simp add: any_result)
  then show ?thesis by simp (erule wp_mono, simp split: result.splits)
qed

lemma same_fqdn: "not_secrets E t = not_secrets E s \<Longrightarrow> fqdn_current E t = fqdn_current E s \<and> fqdn_saved E t = fqdn_saved E s"
  by (simp add: fqdn_current_def fqdn_saved_def)

lemma beside_fqdn:
  assumes "beside n E t = beside n E s"
  shows "(fqdn_current E t, fqdn_saved E t) = (fqdn_current E s, fqdn_saved E s)"
  using same_fqdn [OF beside_D(1) [OF assms]] by simp

lemma beside_cert_current:
  assumes "beside certificateBackupName E t = beside certificateBackupName E s"
  shows "cert_current E t = cert_current E s"
  unfolding cert_current_def beside_D(2) [OF assms cert_names(2)] ..

lemma beside_cert_saved:
  assumes "beside ecosystemCertificateName E t = beside ecosystemCertificateName E s"
  shows "cert_saved E t = cert_saved E s"
  unfolding cert_saved_def beside_D(2) [OF assms cert_names(1)] ..

interpretation cert: changer fqdn_env_ok cert_current cert_saved "\<lambda>E w. (fqdn_current E w, fqdn_saved E w)"
  ecosystemCertificate pair_wanted
proof
  fix E :: "('w, 'c) fqdn_env" and s :: 'w and u
  assume ok: "fqdn_env_ok E"
  show "wp (Backup (ecosystemCertificate E)) (\<lambda>r t. cert_current E t = cert_current E s \<and>
      (fqdn_current E t, fqdn_saved E t) = (fqdn_current E s, fqdn_saved E s) \<and>
      (case r of Ok _ \<Rightarrow> cert_saved E t = cert_current E s | _ \<Rightarrow> True)) s"
    unfolding ecosystemCertificate_def changer_if.simps
    by (rule wp_mono [OF cert_Backup_saves [OF ok]], elim conjE, intro conjI)
      (assumption | erule beside_cert_current | erule beside_fqdn)+
  show "wp (DeleteBackup (ecosystemCertificate E)) (\<lambda>r t. cert_current E t = cert_current E s \<and>
      (fqdn_current E t, fqdn_saved E t) = (fqdn_current E s, fqdn_saved E s)) s"
    unfolding ecosystemCertificate_def changer_if.simps cert_DeleteBackup_def
    by (rule wp_mono [OF delete_backup_frame [OF fqdn_env_okD(3) [OF ok] fqdn_env_okD(2) [OF ok]]], fold beside_def, intro conjI)
      (assumption | erule beside_cert_current | erule beside_fqdn)+
  show "wp (Restore (ecosystemCertificate E)) (\<lambda>r t. cert_saved E t = cert_saved E s \<and>
      (fqdn_current E t, fqdn_saved E t) = (fqdn_current E s, fqdn_saved E s) \<and>
      (case r of Ok _ \<Rightarrow> cert_current E t = cert_saved E s | _ \<Rightarrow> True)) s"
    unfolding ecosystemCertificate_def changer_if.simps
    by (rule wp_mono [OF cert_Restore_sets [OF ok]], elim conjE, intro conjI)
      (assumption | erule beside_cert_saved | erule beside_fqdn)+
  show "wp (Update (ecosystemCertificate E) u) (\<lambda>r t. cert_saved E t = cert_saved E s \<and>
      (fqdn_current E t, fqdn_saved E t) = (fqdn_current E s, fqdn_saved E s) \<and>
      (case r of Ok _ \<Rightarrow> cert_current E t = Some (pair_wanted u) | _ \<Rightarrow> True)) s"
    unfolding ecosystemCertificate_def changer_if.simps cert_Update_def cert_current_def
    by (rule wp_mono [OF cert_update_retried [OF ok]], elim conjE, intro conjI)
      (assumption | erule beside_cert_saved | erule beside_fqdn)+
qed

lemma fqdn_Backup_saves:
  assumes "fqdn_env_ok E"
  shows "wp (fqdn_Backup E) (\<lambda>r v. (secrets_in E v, config_in E v) = (secrets_in E w, config_in E w) \<and>
    (case r of Ok _ \<Rightarrow> fqdn_saved E v = fqdn_current E w | _ \<Rightarrow> True)) w"
proof -
  let ?cur = "\<lambda>c. Some (value_at c globalCfgFQDNKey, value_at c globalCfgAlternativeFQDNsKey, value_at c globalCfgCertTypeKey)"
  have G: "?cur (snd (secrets_in E w, config_in E w)) = fqdn_current E w" for w
    by (simp add: fqdn_current_def)
  show ?thesis
    unfolding fqdn_Backup_def
    using wp_retry_obs [OF fqdn_env_okD(2) [OF assms], where obs = "\<lambda>v. (secrets_in E v, config_in E v)" and fn = "fqdn_backup E"
        and G = "\<lambda>b t. fqdn_saved E t = ?cur (snd b)"] fqdn_backup_saves [OF assms]
    unfolding G by blast
qed

lemma fqdn_Restore_sets:
  assumes "fqdn_env_ok E"
  shows "wp (fqdn_Restore E) (\<lambda>r v. (secrets_in E v, cmaps_in E v) = (secrets_in E w, cmaps_in E w) \<and>
    (case r of Ok _ \<Rightarrow> fqdn_current E v = fqdn_saved E w | _ \<Rightarrow> True)) w"
proof -
  have G: "map_option triple_of (snd (secrets_in E w, cmaps_in E w) fqdnBackupConfigMapName) = fqdn_saved E w" for w
    by (simp add: fqdn_saved_def)
  show ?thesis
    unfolding fqdn_Restore_def
    using wp_retry_obs [OF fqdn_env_okD(2) [OF assms], where obs = "\<lambda>v. (secrets_in E v, cmaps_in E v)" and fn = "fqdn_restore E"
        and G = "\<lambda>b t. fqdn_current E t = map_option triple_of (snd b fqdnBackupConfigMapName)"] fqdn_restore_sets [OF assms]
    unfolding G by blast
qed

lemma same_cert: "secrets_in E t = secrets_in E s \<Longrightarrow> (cert_current E t, cert_saved E t) = (cert_current E s, cert_saved E s)"
  by (simp add: cert_current_def cert_saved_def)

interpretation fqdn: changer fqdn_env_ok fqdn_current fqdn_saved "\<lambda>E w. (cert_current E w, cert_saved E w)"
  fqdnManager triple_wanted
proof
  fix E :: "('w, 'c) fqdn_env" and s :: 'w and u
  assume ok: "fqdn_env_ok E"
  show "wp (Backup (fqdnManager E)) (\<lambda>r t. fqdn_current E t = fqdn_current E s \<and>
      (cert_current E t, cert_saved E t) = (cert_current E s, cert_saved E s) \<and>
      (case r of Ok _ \<Rightarrow> fqdn_saved E t = fqdn_current E s | _ \<Rightarrow> True)) s"
    unfolding fqdnManager_def changer_if.simps
    by (rule wp_mono [OF fqdn_Backup_saves [OF ok]]) (simp add: cert_current_def cert_saved_def fqdn_current_def)
  show "wp (DeleteBackup (fqdnManager E)) (\<lambda>r t. fqdn_current E t = fqdn_current E s \<and>
      (cert_current E t, cert_saved E t) = (cert_current E s, cert_saved E s)) s"
    unfolding fqdnManager_def changer_if.simps fqdn_DeleteBackup_def
    by (rule wp_mono [OF delete_backup_frame [OF fqdn_env_okD(4) [OF ok] fqdn_env_okD(2) [OF ok]]])
      (simp add: cert_current_def cert_saved_def fqdn_current_def)
  show "wp (Restore (fqdnManager E)) (\<lambda>r t. fqdn_saved E t = fqdn_saved E s \<and>
      (cert_current E t, cert_saved E t) = (cert_current E s, cert_saved E s) \<and>
      (case r of Ok _ \<Rightarrow> fqdn_current E t = fqdn_saved E s | _ \<Rightarrow> True)) s"
    unfolding fqdnManager_def changer_if.simps
    by (rule wp_mono [OF fqdn_Restore_sets [OF ok]]) (simp add: cert_current_def cert_saved_def fqdn_saved_def)
  show "wp (Update (fqdnManager E) u) (\<lambda>r t. fqdn_saved E t = fqdn_saved E s \<and>
      (cert_current E t, cert_saved E t) = (cert_current E s, cert_saved E s) \<and>
      (case r of Ok _ \<Rightarrow> fqdn_current E t = Some (triple_wanted u) | _ \<Rightarrow> True)) s"
    unfolding fqdnManager_def changer_if.simps
    by (rule wp_mono [OF fqdn_Update_sets [OF ok]]) (simp add: cert_current_def cert_saved_def fqdn_saved_def)
qed

interpretation change: change_service fqdn_env_ok fqdn_current fqdn_saved cert_current cert_saved
  fqdnManager triple_wanted ecosystemCertificate pair_wanted fe_GetConfig
proof
  fix E :: "('w, 'c) fqdn_env" and s :: 'w
  assume "fqdn_env_ok E"
  from wp_fe_GetConfig [OF this]
  show "wp (fe_GetConfig E) (\<lambda>r t. fqdn_current E t = fqdn_current E s \<and> fqdn_saved E t = fqdn_saved E s \<and>
      cert_current E t = cert_current E s \<and> cert_saved E t = cert_saved E s) s"
    by (rule wp_mono) (simp add: cert_current_def cert_saved_def fqdn_current_def fqdn_saved_def)
qed

section \<open>Properties\<close>

text \<open>The interpretation above says this of the service that \<open>NewService\<close> builds.\<close>

lemma ChangeFQDN_outcome:
  assumes "fqdn_env_ok E"
  shows "wp (NewService_ChangeFQDN E) (\<lambda>r t. case r of
     Ok _ \<Rightarrow> \<exists>w v cfg ch. fe_GetConfig E w = (Ok cfg, v) \<and> createChangeRequest (cfg_GlobalConfig cfg) = Inr ch \<and>
       fqdn_current E t = Some (triple_wanted (ch_ConfigChange ch)) \<and> cert_current E t = Some (pair_wanted (ch_SecretChange ch))
   | Err e \<Rightarrow> fqdn_current E t = fqdn_current E s \<and> cert_current E t = cert_current E s \<or>
       is_restore_error e \<and> fqdn_saved E t = fqdn_current E s \<and> cert_saved E t = cert_current E s
   | Panic _ \<Rightarrow> True) s"
  unfolding NewService_ChangeFQDN_def
  by (rule wp_mono [OF change.change_or_restore [OF assms]])
    (auto simp: change.requested_def split: result.splits)

text \<open>
  C5: a change of the FQDN is atomic up to a reported failure of the restore. When it returns
  nil, the global configuration and the certificate are those that the exporter's
  configuration asked for. When it returns an error, either FQDN and certificate are what
  they were before, or the error is a restore error and both backups are there, holding the
  former values. This rests on the documented behaviour of the repositories and the retry
  helper.
\<close>

theorem ChangeFQDN_changes_or_restores:
  assumes "fqdn_env_ok E"
  shows "wp (NewService_ChangeFQDN E) (\<lambda>r t. case r of
     Ok _ \<Rightarrow> \<exists>w v cfg ch. fe_GetConfig E w = (Ok cfg, v) \<and> createChangeRequest (cfg_GlobalConfig cfg) = Inr ch \<and>
       fqdn_current E t = Some (triple_wanted (ch_ConfigChange ch)) \<and> cert_current E t = Some (pair_wanted (ch_SecretChange ch))
   | Err e \<Rightarrow> fqdn_current E t = fqdn_current E s \<and> cert_current E t = cert_current E s \<or>
       is_restore_error e \<and> fqdn_saved E t = fqdn_current E s \<and> cert_saved E t = cert_current E s
   | Panic _ \<Rightarrow> True) s"
  by (rule ChangeFQDN_outcome [OF assms])

definition last_value :: "GlobalConfig \<Rightarrow> string \<Rightarrow> string" where
  "last_value cfg key = fold (\<lambda>kv v. if trim_prefix ''/'' (kv_Key kv) = key then kv_Value kv else v) cfg []"

lemma cfg_keys [simp]:
  "globalCfgCertKey \<noteq> globalCfgPrivateKey" "globalCfgPrivateKey \<noteq> globalCfgCertKey"
  "globalCfgCertKey \<notin> {globalCfgFQDNKey, globalCfgAlternativeFQDNsKey, globalCfgCertTypeKey}"
  "globalCfgPrivateKey \<notin> {globalCfgFQDNKey, globalCfgAlternativeFQDNsKey, globalCfgCertTypeKey}"
  by (simp_all add: globalCfgCertKey_def globalCfgPrivateKey_def globalCfgFQDNKey_def
      globalCfgAlternativeFQDNsKey_def globalCfgCertTypeKey_def)

text \<open>
  C35: a change request is built exactly from configurations that have a value for the FQDN,
  the certificate type, the certificate and its key; the values are the last ones given for
  each key, with or without a leading slash.
\<close>

theorem createChangeRequest_complete:
  "createChangeRequest cfg =
     (let change = \<lparr>ch_ConfigChange = \<lparr>FQDN = last_value cfg globalCfgFQDNKey, CertType = last_value cfg globalCfgCertTypeKey,
            AlternativeFQDNs = last_value cfg globalCfgAlternativeFQDNsKey\<rparr>,
          ch_SecretChange = \<lparr>Certificate = last_value cfg globalCfgCertKey, CertificateKey = last_value cfg globalCfgPrivateKey\<rparr>\<rparr>
      in case isValid change of Some e \<Rightarrow> Inl (errorf_w ''invalid global config'' e) | None \<Rightarrow> Inr change)"
proof -
  have "fold take_entry cfg \<lparr>ch_ConfigChange = \<lparr>FQDN = [], CertType = [], AlternativeFQDNs = []\<rparr>,
         ch_SecretChange = \<lparr>Certificate = [], CertificateKey = []\<rparr>\<rparr> =
      \<lparr>ch_ConfigChange = \<lparr>FQDN = last_value cfg globalCfgFQDNKey, CertType = last_value cfg globalCfgCertTypeKey,
            AlternativeFQDNs = last_value cfg globalCfgAlternativeFQDNsKey\<rparr>,
          ch_SecretChange = \<lparr>Certificate = last_value cfg globalCfgCertKey, CertificateKey = last_value cfg globalCfgPrivateKey\<rparr>\<rparr>"
  proof (induction cfg rule: rev_induct)
    case (snoc kv cfg)
    have step: "last_value (cfg @ [kv]) key =
        (if trim_prefix ''/'' (kv_Key kv) = key then kv_Value kv else last_value cfg key)" for key
      by (simp add: last_value_def)
    from snoc cfg_keys show ?case by (auto simp: step take_entry_def Let_def simp del: trim_prefix.simps)
  qed (simp add: last_value_def)
  then show ?thesis by (simp add: createChangeRequest_def)
qed

section \<open>An instance for the witness\<close>

text \<open>A world that consists of the objects and the configuration, and repositories that work on it.\<close>

record small_world =
  sw_secrets :: "string \<Rightarrow> (string \<Rightarrow> string option) option"
  sw_cmaps :: "string \<Rightarrow> (string \<Rightarrow> string option) option"
  sw_config :: "(string \<times> string) list"

definition small_repo :: "('w \<Rightarrow> string \<Rightarrow> (string \<Rightarrow> string option) option) \<Rightarrow>
    ((string \<Rightarrow> (string \<Rightarrow> string option) option) \<Rightarrow> 'w \<Rightarrow> 'w) \<Rightarrow> 'w object_repo" where
  "small_repo view put = \<lparr>
     o_Get = \<lambda>n w. (case view w n of None \<Rightarrow> (Err (StatusError NotFound []), w)
       | Some m \<Rightarrow> (Ok \<lparr>obj_Name = n, obj_ResourceVersion = [], obj_Data = Some m\<rparr>, w)),
     o_Create = \<lambda>x w. (case view w (obj_Name x) of Some _ \<Rightarrow> (Err (StatusError AlreadyExists []), w)
       | None \<Rightarrow> (Ok (), put ((view w)(obj_Name x \<mapsto> data_map x)) w)),
     o_Update = \<lambda>x w. (case view w (obj_Name x) of None \<Rightarrow> (Err (StatusError NotFound []), w)
       | Some _ \<Rightarrow> (Ok (), put ((view w)(obj_Name x \<mapsto> data_map x)) w)),
     o_Delete = \<lambda>n w. (Ok (), put ((view w)(n := None)) w)\<rparr>"

lemma small_repo_ok:
  assumes "\<And>f w. view (put f w) = f" "\<And>f w. rest (put f w) = rest w"
  shows "repo_ok (small_repo view put) view rest"
  by (auto simp: repo_ok_def small_repo_def without_def data_map_def assms split: option.splits)

definition small_env :: "(small_world, (string \<times> string) list) fqdn_env" where
  "small_env = \<lparr>fe_lib = sample_lib, fe_OnError = retry_times 1,
     secret_repo = small_repo sw_secrets (\<lambda>f w. w\<lparr>sw_secrets := f\<rparr>),
     cmap_repo = small_repo sw_cmaps (\<lambda>f w. w\<lparr>sw_cmaps := f\<rparr>),
     gc_Get = \<lambda>w. (Ok (sw_config w), w), gc_SaveOrMerge = \<lambda>c w. (Ok (), w\<lparr>sw_config := c\<rparr>),
     fe_GetConfig = answers (Ok \<lparr>cfg_GlobalConfig = map (\<lambda>k. \<lparr>kv_Key = k, kv_Value = ''new''\<rparr>)
         [globalCfgFQDNKey, globalCfgCertTypeKey, globalCfgCertKey, globalCfgPrivateKey],
       cfg_DoguConfigs = [], cfg_BackupSchedules = []\<rparr>),
     secrets_in = sw_secrets, cmaps_in = sw_cmaps, config_in = (\<lambda>w. cfg_Get sample_lib (sw_config w))\<rparr>"

lemma small_env_ok: "fqdn_env_ok small_env"
  unfolding fqdn_env_ok_def
  by (intro conjI) (auto simp: small_env_def sample_lib_ok retry_times_ok answers_def intro!: small_repo_ok)

definition small_start :: small_world where
  "small_start = \<lparr>sw_secrets = [ecosystemCertificateName \<mapsto> [certFileName \<mapsto> ''old'', keyFileName \<mapsto> ''old'']],
     sw_cmaps = Map.empty, sw_config = [(globalCfgFQDNKey, ''old''), (globalCfgCertTypeKey, ''old'')]\<rparr>"

theorem ChangeFQDN_changes_or_restores_witness:
  "\<exists>t. NewService_ChangeFQDN small_env small_start = (Ok (), t) \<and>
     fqdn_current small_env t = Some (''new'', [], ''new'') \<and> cert_current small_env t = Some (''new'', ''new'')"
proof -
  have "fst (NewService_ChangeFQDN small_env small_start) = Ok ()" by code_simp
  then obtain t where run: "NewService_ChangeFQDN small_env small_start = (Ok (), t)" by (metis prod.collapse)
  from wpD [OF ChangeFQDN_changes_or_restores [OF small_env_ok] run] obtain w v cfg ch where
    cfg: "fe_GetConfig small_env w = (Ok cfg, v)" "createChangeRequest (cfg_GlobalConfig cfg) = Inr ch" and
    cur: "fqdn_current small_env t = Some (triple_wanted (ch_ConfigChange ch))"
      "cert_current small_env t = Some (pair_wanted (ch_SecretChange ch))" by auto
  have "triple_wanted (ch_ConfigChange ch) = (''new'', [], ''new'') \<and> pair_wanted (ch_SecretChange ch) = (''new'', ''new'')"
    using cfg by (auto simp: small_env_def answers_def createChangeRequest_complete last_value_def isValid_def Let_def
        triple_wanted_def pair_wanted_def globalCfgFQDNKey_def globalCfgCertTypeKey_def globalCfgCertKey_def
        globalCfgPrivateKey_def globalCfgAlternativeFQDNsKey_def)
  with run cur show ?thesis by simp
qed

end
