(* ===== verification/Exporter_Client.thy ===== *)
theory Exporter_Client imports Config Domain begin

text \<open>
  The client of the exporter (\<open>api/exporter/\<close>, \<open>migration/exportmode.go\<close>): the HTTP client
  with its TLS options, the GET and POST requests, the data transfer types with their
  translation to the types of the migration, and the services. The services use the client
  through the interface \<open>apiClient\<close>; its contract is the locale \<open>api_client\<close>, which
  \<open>Client\<close> is proved to fulfil.
\<close>

section \<open>The HTTP client and its options (\<open>client.go\<close>)\<close>

record tls_Config =
  InsecureSkipVerify :: bool
  RootCAs :: "string list option"

text \<open>An \<open>http.RoundTripper\<close>: an \<open>http.Transport\<close> with its \<open>TLSClientConfig\<close>, or another one.\<close>

datatype RoundTripper = Transport "tls_Config option" | OtherTripper

record http_Client =
  http_Transport :: "RoundTripper option"

text \<open>
  Certificate pools are lists of PEM texts: \<open>x509.SystemCertPool\<close> may fail, and
  \<open>AppendCertsFromPEM\<close> adds a text that holds a certificate.
\<close>

record x509_lib =
  SystemCertPool :: "err + string list"
  pem_has_certificate :: "string \<Rightarrow> bool"

definition AppendCertsFromPEM :: "x509_lib \<Rightarrow> string list \<Rightarrow> string \<Rightarrow> string list \<times> bool" where
  "AppendCertsFromPEM x pool pem =
     (if pem_has_certificate x pem then (pool @ [pem], True) else (pool, False))"

type_synonym HTTPClientOption = "http_Client \<Rightarrow> http_Client"

definition WithCustomHTTPClient :: "http_Client \<Rightarrow> HTTPClientOption" where
  "WithCustomHTTPClient httpClient = (\<lambda>client. httpClient)"

definition getTransportConfig :: "http_Client \<Rightarrow> tls_Config option" where
  "getTransportConfig client = (case http_Transport client of
     None \<Rightarrow> None
   | Some OtherTripper \<Rightarrow> None
   | Some (Transport tlsClientConfig) \<Rightarrow> tlsClientConfig)"

definition WithInsecure :: HTTPClientOption where
  "WithInsecure client =
     (let tlsClientConfig = (case getTransportConfig client of
          None \<Rightarrow> \<lparr>InsecureSkipVerify = False, RootCAs = None\<rparr> | Some c \<Rightarrow> c)
      in client\<lparr>http_Transport := Some (Transport (Some (tlsClientConfig\<lparr>InsecureSkipVerify := True\<rparr>)))\<rparr>)"

definition getCustomCAFileName :: "string \<Rightarrow> string" where
  "getCustomCAFileName fileName = ''/etc/custom-certs/exporter/'' @ fileName"

definition WithCustomCAs :: "x509_lib \<Rightarrow> fs \<Rightarrow> API \<Rightarrow> HTTPClientOption" where
  "WithCustomCAs x files cfg client =
     (case files (getCustomCAFileName (api_TLSCertificateName cfg)) of
        Inl err \<Rightarrow> client
      | Inr caCert \<Rightarrow>
          (let rootCAs = (case SystemCertPool x of Inl _ \<Rightarrow> [] | Inr pool \<Rightarrow> pool) in
           case AppendCertsFromPEM x rootCAs caCert of (pool, ok) \<Rightarrow>
             if \<not> ok then client
             else client\<lparr>http_Transport :=
               Some (Transport (Some \<lparr>InsecureSkipVerify = False, RootCAs = Some pool\<rparr>))\<rparr>))"

record Client =
  baseUrl :: string
  apiKey :: string
  httpClient :: http_Client

definition exporterBasePath :: string where
  "exporterBasePath = ''/ces-exporter''"

definition NewClient :: "string \<Rightarrow> string \<Rightarrow> HTTPClientOption list \<Rightarrow> Client" where
  "NewClient hostName key options =
     \<lparr>baseUrl = ''https://'' @ hostName @ exporterBasePath, apiKey = key,
      httpClient = fold (\<lambda>option client. option client) options \<lparr>http_Transport = None\<rparr>\<rparr>"

text \<open>\<open>NewServiceFromConfig\<close> up to the client it hands to \<open>NewService\<close>.\<close>

definition NewServiceFromConfig :: "x509_lib \<Rightarrow> fs \<Rightarrow> API \<Rightarrow> Client" where
  "NewServiceFromConfig x files cfg =
     (let options = (if api_SkipTLSVerify cfg then [WithInsecure] else [WithCustomCAs x files cfg])
      in NewClient (ExporterHost cfg) (ExporterApiKey cfg) options)"

section \<open>Requests\<close>

definition apiKeyAuthName :: string where
  "apiKeyAuthName = ''X-CES-EXPORTER-API-KEY''"

record request =
  req_Method :: string
  req_URL :: string
  req_Header :: "(string \<times> string) list"
  req_Body :: "string option"

text \<open>
  \<open>Header.Set\<close> replaces the values of a key, which it writes in the canonical form: capital letters at
  the start and after each hyphen, small ones elsewhere. The key is made of valid bytes here.
\<close>

definition ascii_between :: "char \<Rightarrow> char \<Rightarrow> char \<Rightarrow> bool" where
  "ascii_between a b c \<longleftrightarrow> (of_char a :: nat) \<le> of_char c \<and> (of_char c :: nat) \<le> of_char b"

fun canonical_rest :: "bool \<Rightarrow> string \<Rightarrow> string" where
  "canonical_rest upper [] = []"
| "canonical_rest upper (c # cs) =
     (if upper \<and> ascii_between (CHR ''a'') (CHR ''z'') c then char_of (of_char c - 32 :: nat)
      else if \<not> upper \<and> ascii_between (CHR ''A'') (CHR ''Z'') c then char_of (of_char c + 32 :: nat)
      else c) # canonical_rest (c = CHR ''-'') cs"

definition Header_Set :: "string \<Rightarrow> string \<Rightarrow> (string \<times> string) list \<Rightarrow> (string \<times> string) list" where
  "Header_Set key val header =
     filter (\<lambda>(k, _). k \<noteq> canonical_rest True key) header @ [(canonical_rest True key, val)]"

record 'w response =
  StatusCode :: int
  Body_ReadAll :: "('w, string) go"
  Body_Close :: "('w, unit) go"

text \<open>
  The network: \<open>url.JoinPath\<close>, \<open>http.NewRequestWithContext\<close> (which may refuse the URL), and
  \<open>Do\<close>. The state keeps, beside the world, the exchanges that were completed: the
  request, the status code and the body of the response.
\<close>

record 'w http_lib =
  url_JoinPath :: "string \<Rightarrow> string \<Rightarrow> err + string"
  NewRequest :: "string \<Rightarrow> string \<Rightarrow> err option"
  http_Do :: "http_Client \<Rightarrow> request \<Rightarrow> ('w, 'w response) go"

record 'w net =
  exchanges :: "(request \<times> int \<times> string) list"
  outside :: 'w

definition on_net :: "('w, 'a) go \<Rightarrow> ('w net, 'a) go" where
  "on_net m = (\<lambda>s. case m (outside s) of (r, w) \<Rightarrow> (r, s\<lparr>outside := w\<rparr>))"

definition log_exchange :: "request \<Rightarrow> int \<Rightarrow> string \<Rightarrow> ('w net, unit) go" where
  "log_exchange req code body = modify (\<lambda>s. s\<lparr>exchanges := exchanges s @ [(req, code, body)]\<rparr>)"

definition StatusOK :: int where
  "StatusOK = 200"

text \<open>The common part of the two requests, from the header on.\<close>

definition execute_request :: "'w http_lib \<Rightarrow> Client \<Rightarrow> request \<Rightarrow> ('w net, string) go" where
  "execute_request lib c request =
     (let req = request\<lparr>req_Header := Header_Set apiKeyAuthName (apiKey c) (req_Header request)\<rparr> in
     andThen (orWrap (''request to '' @ req_URL req @ '' failed with an error'')
       (on_net (http_Do lib (httpClient c) req))) (\<lambda>response.
     deferring (on_net (Body_Close response))
       (handle (on_net (Body_ReadAll response))
         (\<lambda>_. fail (ErrorString (''failed to read response body for '' @ req_URL req)))
         (\<lambda>responseMsg.
            andThen (log_exchange req (StatusCode response) responseMsg) (\<lambda>_.
            if StatusCode response \<noteq> StatusOK then
              fail (ErrorString (''received unexpected response to '' @ req_URL req @ '' (wanted '' @
                show_int StatusOK @ '' got '' @ show_int (StatusCode response) @ '')''))
            else ret responseMsg)))))"

definition DoGetRequest :: "'w http_lib \<Rightarrow> Client \<Rightarrow> ctx \<Rightarrow> string \<Rightarrow> ('w net, string) go" where
  "DoGetRequest lib c ctx path =
     andThen (orWrap ''failed to create request url'' (pure (url_JoinPath lib (baseUrl c) path))) (\<lambda>requestUrl.
     andThen (orWrap (''failed to create request to '' @ requestUrl)
       (return_err (NewRequest lib ''GET'' requestUrl))) (\<lambda>_.
     execute_request lib c
       \<lparr>req_Method = ''GET'', req_URL = requestUrl, req_Header = [], req_Body = None\<rparr>))"

definition DoPostRequest ::
    "'w http_lib \<Rightarrow> Client \<Rightarrow> ctx \<Rightarrow> string \<Rightarrow> string option \<Rightarrow> ('w net, string) go" where
  "DoPostRequest lib c ctx path body =
     andThen (orWrap (''failed to join url path '' @ path) (pure (url_JoinPath lib (baseUrl c) path))) (\<lambda>requestUrl.
     andThen (orWrap (''failed to create request to '' @ requestUrl)
       (return_err (NewRequest lib ''POST'' requestUrl))) (\<lambda>_.
     execute_request lib c
       \<lparr>req_Method = ''POST'', req_URL = requestUrl, req_Header = [], req_Body = body\<rparr>))"

text \<open>The interface \<open>apiClient\<close> of \<open>interface.go\<close>, and the client as one.\<close>

record 's apiClient =
  DoGet :: "ctx \<Rightarrow> string \<Rightarrow> ('s, string) go"
  DoPost :: "ctx \<Rightarrow> string \<Rightarrow> string option \<Rightarrow> ('s, string) go"

definition client_api :: "'w http_lib \<Rightarrow> Client \<Rightarrow> 'w net apiClient" where
  "client_api lib c = \<lparr>DoGet = DoGetRequest lib c, DoPost = DoPostRequest lib c\<rparr>"

section \<open>Data transfer types and their translation\<close>

record ExportMode_dto =
  x_IsActive :: bool

record DoguVolume_dto =
  x_SizeInBytes :: int64

record Dogu_dto =
  x_Dogu_Name :: string
  x_Dogu_Version :: string
  x_Dogu_Volume :: DoguVolume_dto

record Component_dto =
  x_Component_Name :: string
  x_Component_Version :: string

record SystemInfo_dto =
  x_FQDN :: string
  x_IsMultinode :: bool
  x_Dogus :: "Dogu_dto list"
  x_Components :: "Component_dto list"

record DoguExport_dto =
  x_Dogu :: string
  x_VolumePath :: string
  x_ExporterPort :: int

record KeyValue_dto =
  x_Key :: string
  x_Value :: string

record DoguConfig_dto =
  x_Name :: string
  x_NormalConfig :: "KeyValue_dto list"
  x_LocalConfig :: "KeyValue_dto list"
  x_SensitiveConfig :: "KeyValue_dto list"

record BackupSchedule_dto =
  x_bs_Name :: string
  x_Schedule :: string

record Configuration_dto =
  x_GlobalConfig :: "KeyValue_dto list"
  x_DoguConfigs :: "DoguConfig_dto list"
  x_BackupSchedules :: "BackupSchedule_dto list"

record Message =
  msg_Title :: string
  msg_Text :: string

record MaintenanceMode =
  mm_Activate :: bool
  mm_Message :: Message

record MaintenanceModeStatus =
  mms_IsActive :: bool

definition mapSlice :: "'a list \<Rightarrow> ('a \<Rightarrow> 'b) \<Rightarrow> 'b list" where
  "mapSlice input mapFn = map mapFn input"

definition toMigrationSystemInfo :: "SystemInfo_dto \<Rightarrow> SystemInfo" where
  "toMigrationSystemInfo systemInfo =
     \<lparr>si_FQDN = x_FQDN systemInfo,
      si_IsMultinode = x_IsMultinode systemInfo,
      si_Dogus = mapSlice (x_Dogus systemInfo) (\<lambda>dogu.
        \<lparr>dogu_Name = x_Dogu_Name dogu, dogu_Version = x_Dogu_Version dogu,
         dogu_Volume = \<lparr>SizeInBytes = x_SizeInBytes (x_Dogu_Volume dogu)\<rparr>\<rparr>),
      si_Components = mapSlice (x_Components systemInfo) (\<lambda>comp.
        \<lparr>component_Name = x_Component_Name comp, component_Version = x_Component_Version comp\<rparr>)\<rparr>"

definition toMigrationDoguExport :: "DoguExport_dto \<Rightarrow> DoguExport" where
  "toMigrationDoguExport doguExport =
     \<lparr>de_Dogu = x_Dogu doguExport, de_VolumePath = x_VolumePath doguExport,
      de_ExporterPort = x_ExporterPort doguExport\<rparr>"

definition mapKeyValue :: "KeyValue_dto \<Rightarrow> KeyValue" where
  "mapKeyValue kv = \<lparr>kv_Key = x_Key kv, kv_Value = x_Value kv\<rparr>"

definition toMigrationConfiguration :: "Configuration_dto \<Rightarrow> Configuration" where
  "toMigrationConfiguration configuration =
     \<lparr>cfg_GlobalConfig = mapSlice (x_GlobalConfig configuration) mapKeyValue,
      cfg_DoguConfigs = mapSlice (x_DoguConfigs configuration) (\<lambda>dc.
        \<lparr>dc_Name = x_Name dc,
         dc_NormalConfig = mapSlice (x_NormalConfig dc) mapKeyValue,
         dc_LocalConfig = mapSlice (x_LocalConfig dc) mapKeyValue,
         dc_SensitiveConfig = mapSlice (x_SensitiveConfig dc) mapKeyValue\<rparr>),
      cfg_BackupSchedules = mapSlice (x_BackupSchedules configuration) (\<lambda>bs.
        \<lparr>bs_Name = x_bs_Name bs, bs_Schedule = x_Schedule bs\<rparr>)\<rparr>"

section \<open>Services\<close>

text \<open>\<open>encoding/json\<close> on the types above, and \<open>%q\<close> of a response.\<close>

record json_lib =
  decode_ExportMode :: "string \<Rightarrow> err + ExportMode_dto"
  decode_SystemInfo :: "string \<Rightarrow> err + SystemInfo_dto"
  decode_DoguExport :: "string \<Rightarrow> err + DoguExport_dto"
  decode_Configuration :: "string \<Rightarrow> err + Configuration_dto"
  decode_MaintenanceModeStatus :: "string \<Rightarrow> err + MaintenanceModeStatus"
  encode_MaintenanceMode :: "MaintenanceMode \<Rightarrow> err + string"
  verb_q :: "string \<Rightarrow> string"

definition pathHealth :: string where "pathHealth = ''/health''"
definition pathExportMode :: string where "pathExportMode = ''/export/mode''"
definition pathSystemInfo :: string where "pathSystemInfo = ''/system-info''"
definition exportModeEndpoint :: string where "exportModeEndpoint = ''/export/dogu''"
definition pathConfiguration :: string where "pathConfiguration = ''/configuration''"
definition endpointMaintenanceMode :: string where "endpointMaintenanceMode = ''/maintenance/mode''"

definition GetIsHealthy :: "'s apiClient \<Rightarrow> ctx \<Rightarrow> ('s, bool) go" where
  "GetIsHealthy api ctx =
     andThen (orWrap ''failed to get exporter health status'' (DoGet api ctx pathHealth)) (\<lambda>_.
     ret True)"

definition GetExportMode :: "json_lib \<Rightarrow> 's apiClient \<Rightarrow> ctx \<Rightarrow> ('s, bool) go" where
  "GetExportMode json api ctx =
     andThen (orWrap ''failed to check whether export mode is ready'' (DoGet api ctx pathExportMode)) (\<lambda>result.
     andThen (orWrap (''failed to parse export mode response: '' @ verb_q json result)
       (pure (decode_ExportMode json result))) (\<lambda>exportMode.
     ret (x_IsActive exportMode)))"

definition ExportModeValidator_Validate :: "json_lib \<Rightarrow> 's apiClient \<Rightarrow> ctx \<Rightarrow> ('s, unit) go" where
  "ExportModeValidator_Validate json api ctx =
     andThen (orWrap ''failed to validate export mode'' (GetExportMode json api ctx)) (\<lambda>isActive.
     if \<not> isActive then fail (ErrorString ''export mode is not active'') else ret ())"

definition GetSystemInfo :: "json_lib \<Rightarrow> 's apiClient \<Rightarrow> ctx \<Rightarrow> ('s, SystemInfo) go" where
  "GetSystemInfo json api ctx =
     andThen (orWrap ''failed to get system info'' (DoGet api ctx pathSystemInfo)) (\<lambda>result.
     andThen (orWrap (''failed to parse system info response: '' @ verb_q json result)
       (pure (decode_SystemInfo json result))) (\<lambda>systemInfo.
     ret (toMigrationSystemInfo systemInfo)))"

definition GetExportDogu :: "json_lib \<Rightarrow> 's apiClient \<Rightarrow> ctx \<Rightarrow> ('s, DoguExport) go" where
  "GetExportDogu json api ctx =
     andThen (orWrap ''failed to get export dogu'' (DoGet api ctx exportModeEndpoint)) (\<lambda>result.
     andThen (orWrap (''failed to parse export dogu response: '' @ verb_q json result)
       (pure (decode_DoguExport json result))) (\<lambda>doguExport.
     ret (toMigrationDoguExport doguExport)))"

definition SetExportDogu :: "json_lib \<Rightarrow> 's apiClient \<Rightarrow> ctx \<Rightarrow> string \<Rightarrow> ('s, DoguExport) go" where
  "SetExportDogu json api ctx doguName =
     (let apiPath = path_join [exportModeEndpoint, doguName] in
     andThen (orWrap ''failed to set export dogu'' (DoPost api ctx apiPath None)) (\<lambda>result.
     andThen (orWrap (''failed to parse export dogu response: '' @ verb_q json result)
       (pure (decode_DoguExport json result))) (\<lambda>doguExport.
     ret (toMigrationDoguExport doguExport))))"

definition GetConfig :: "json_lib \<Rightarrow> 's apiClient \<Rightarrow> ctx \<Rightarrow> ('s, Configuration) go" where
  "GetConfig json api ctx =
     andThen (orWrap ''error getting configuration from exporter'' (DoGet api ctx pathConfiguration)) (\<lambda>res.
     andThen (orWrap ''could not unmarshal configuration from exporter''
       (pure (decode_Configuration json res))) (\<lambda>config.
     ret (toMigrationConfiguration config)))"

definition decodeMaintenanceModeStatus :: "json_lib \<Rightarrow> string \<Rightarrow> ('s, MaintenanceModeStatus) go" where
  "decodeMaintenanceModeStatus json result =
     orWrap ''failed to decode maintenance mode status'' (pure (decode_MaintenanceModeStatus json result))"

definition GetMaintenanceModeStatus :: "json_lib \<Rightarrow> 's apiClient \<Rightarrow> ctx \<Rightarrow> ('s, bool) go" where
  "GetMaintenanceModeStatus json api ctx =
     andThen (orWrap ''failed to get maintenance mode status'' (DoGet api ctx endpointMaintenanceMode)) (\<lambda>result.
     andThen (orWrap ''failed to decode maintenance mode status''
       (decodeMaintenanceModeStatus json result)) (\<lambda>response.
     ret (mms_IsActive response)))"

definition verb_t :: "bool \<Rightarrow> string" where
  "verb_t b = (if b then ''true'' else ''false'')"

definition setMaintenanceMode :: "json_lib \<Rightarrow> 's apiClient \<Rightarrow> ctx \<Rightarrow> MaintenanceMode \<Rightarrow> ('s, unit) go" where
  "setMaintenanceMode json api ctx mode =
     andThen (orWrap ''failed to encode maintenance mode'' (pure (encode_MaintenanceMode json mode))) (\<lambda>buf.
     andThen (orWrap ''failed to set maintenance mode''
       (DoPost api ctx endpointMaintenanceMode (Some buf))) (\<lambda>result.
     andThen (orWrap ''failed to decode maintenance mode status''
       (decodeMaintenanceModeStatus json result)) (\<lambda>response.
     if mms_IsActive response \<noteq> mm_Activate mode then
       fail (ErrorString (''received unexpected mode status in response: '' @ verb_t (mms_IsActive response)))
     else ret ())))"

definition EnableWithMessage :: "json_lib \<Rightarrow> 's apiClient \<Rightarrow> ctx \<Rightarrow> string \<Rightarrow> string \<Rightarrow> ('s, unit) go" where
  "EnableWithMessage json api ctx title message =
     setMaintenanceMode json api ctx
       \<lparr>mm_Activate = True, mm_Message = \<lparr>msg_Title = title, msg_Text = message\<rparr>\<rparr>"

record MaintenanceModeService =
  message :: "Message option"

definition NewMaintenanceModeService :: MaintenanceModeService where
  "NewMaintenanceModeService = \<lparr>message = None\<rparr>"

definition SetMessage :: "string \<Rightarrow> string \<Rightarrow> MaintenanceModeService \<Rightarrow> MaintenanceModeService" where
  "SetMessage title text s = s\<lparr>message := Some \<lparr>msg_Title = title, msg_Text = text\<rparr>\<rparr>"

definition Enable :: "MaintenanceModeService \<Rightarrow> json_lib \<Rightarrow> 's apiClient \<Rightarrow> ctx \<Rightarrow> ('s, unit) go" where
  "Enable s json api ctx = (case message s of
     None \<Rightarrow> EnableWithMessage json api ctx [] []
   | Some m \<Rightarrow> EnableWithMessage json api ctx (msg_Title m) (msg_Text m))"

definition Disable :: "json_lib \<Rightarrow> 's apiClient \<Rightarrow> ctx \<Rightarrow> ('s, unit) go" where
  "Disable json api ctx = setMaintenanceMode json api ctx
     \<lparr>mm_Activate = False, mm_Message = \<lparr>msg_Title = [], msg_Text = []\<rparr>\<rparr>"

section \<open>The contract of the client\<close>

text \<open>Does a response of the exporter confirm the maintenance mode that was asked for?\<close>

definition confirms :: "json_lib \<Rightarrow> MaintenanceMode \<Rightarrow> string \<Rightarrow> bool" where
  "confirms json mode res \<longleftrightarrow> (case decode_MaintenanceModeStatus json res of
     Inl _ \<Rightarrow> False | Inr st \<Rightarrow> mms_IsActive st = mm_Activate mode)"

text \<open>
  What the services rely on: an error-free call answers the body of exactly one exchange
  that the exporter accepted for the requested path; a call that fails leaves no such
  exchange. \<open>answered\<close> reads the accepted exchanges off the state.
\<close>

type_synonym exchange = "string \<times> string \<times> string option \<times> string"

locale api_client =
  fixes api :: "'s apiClient"
    and answered :: "'s \<Rightarrow> exchange list"
    and url :: "string \<Rightarrow> string"
  assumes get: "wp (DoGet api ctx p) (\<lambda>r t. case r of
        Ok res \<Rightarrow> answered t = answered s @ [(''GET'', url p, None, res)]
      | Err _ \<Rightarrow> answered t = answered s
      | Panic _ \<Rightarrow> True) s"
    and post: "wp (DoPost api ctx p body) (\<lambda>r t. case r of
        Ok res \<Rightarrow> answered t = answered s @ [(''POST'', url p, body, res)]
      | Err _ \<Rightarrow> answered t = answered s
      | Panic _ \<Rightarrow> True) s"
begin

lemma get_cases:
  obtains res t where "DoGet api ctx p s = (Ok res, t)"
      "answered t = answered s @ [(''GET'', url p, None, res)]"
  | e t where "DoGet api ctx p s = (Err e, t)" "answered t = answered s"
  | q t where "DoGet api ctx p s = (Panic q, t)"
proof -
  obtain r t where "DoGet api ctx p s = (r, t)" by fastforce
  with wpD [OF get this] show ?thesis using that by (cases r) auto
qed

lemma post_cases:
  obtains res t where "DoPost api ctx p body s = (Ok res, t)"
      "answered t = answered s @ [(''POST'', url p, body, res)]"
  | e t where "DoPost api ctx p body s = (Err e, t)" "answered t = answered s"
  | q t where "DoPost api ctx p body s = (Panic q, t)"
proof -
  obtain r t where "DoPost api ctx p body s = (r, t)" by fastforce
  with wpD [OF post this] show ?thesis using that by (cases r) auto
qed

lemma GetExportMode_spec:
  "wp (GetExportMode json api ctx) (\<lambda>r t. case r of
     Ok b \<Rightarrow> \<exists>res. answered t = answered s @ [(''GET'', url pathExportMode, None, res)] \<and>
       decode_ExportMode json res = Inr \<lparr>x_IsActive = b\<rparr>
   | _ \<Rightarrow> True) s"
  by (cases rule: get_cases [of ctx pathExportMode s])
    (auto simp: GetExportMode_def wp_eq [where m = "DoGet api ctx pathExportMode"] split: sum.splits)

lemma Validate_spec:
  "wp (ExportModeValidator_Validate json api ctx) (\<lambda>r t. case r of
     Ok _ \<Rightarrow> \<exists>res. answered t = answered s @ [(''GET'', url pathExportMode, None, res)] \<and>
       decode_ExportMode json res = Inr \<lparr>x_IsActive = True\<rparr>
   | _ \<Rightarrow> True) s"
  unfolding ExportModeValidator_Validate_def wp_andThen wp_orWrap
  by (rule wp_mono [OF GetExportMode_spec [of json ctx s]]) (auto split: result.splits)

lemma GetSystemInfo_spec:
  "wp (GetSystemInfo json api ctx) (\<lambda>r t. case r of
     Ok info \<Rightarrow> \<exists>res dto. answered t = answered s @ [(''GET'', url pathSystemInfo, None, res)] \<and>
       decode_SystemInfo json res = Inr dto \<and> info = toMigrationSystemInfo dto
   | _ \<Rightarrow> True) s"
  by (cases rule: get_cases [of ctx pathSystemInfo s])
    (auto simp: GetSystemInfo_def wp_eq [where m = "DoGet api ctx pathSystemInfo"] split: sum.splits)

lemma GetConfig_spec:
  "wp (GetConfig json api ctx) (\<lambda>r t. case r of
     Ok cfg \<Rightarrow> \<exists>res dto. answered t = answered s @ [(''GET'', url pathConfiguration, None, res)] \<and>
       decode_Configuration json res = Inr dto \<and> cfg = toMigrationConfiguration dto
   | _ \<Rightarrow> True) s"
  by (cases rule: get_cases [of ctx pathConfiguration s])
    (auto simp: GetConfig_def wp_eq [where m = "DoGet api ctx pathConfiguration"] split: sum.splits)

lemma SetExportDogu_spec:
  "wp (SetExportDogu json api ctx d) (\<lambda>r t. case r of
     Ok x \<Rightarrow> \<exists>res dto. answered t =
         answered s @ [(''POST'', url (path_join [exportModeEndpoint, d]), None, res)] \<and>
       decode_DoguExport json res = Inr dto \<and> x = toMigrationDoguExport dto
   | _ \<Rightarrow> True) s"
  by (cases rule: post_cases [of ctx "path_join [exportModeEndpoint, d]" None s])
    (auto simp: SetExportDogu_def Let_def
      wp_eq [where m = "DoPost api ctx (path_join [exportModeEndpoint, d]) None"] split: sum.splits)

lemma setMaintenanceMode_spec:
  "wp (setMaintenanceMode json api ctx mode) (\<lambda>r t. case r of
     Ok _ \<Rightarrow> \<exists>body res. encode_MaintenanceMode json mode = Inr body \<and>
       answered t = answered s @ [(''POST'', url endpointMaintenanceMode, Some body, res)] \<and>
       confirms json mode res
   | Err _ \<Rightarrow> answered t = answered s \<or>
       (\<exists>body res. answered t = answered s @ [(''POST'', url endpointMaintenanceMode, Some body, res)] \<and>
         \<not> confirms json mode res)
   | Panic _ \<Rightarrow> True) s"
proof (cases "encode_MaintenanceMode json mode")
  case (Inr body)
  then show ?thesis
    by (cases rule: post_cases [of ctx endpointMaintenanceMode "Some body" s])
      (auto simp: setMaintenanceMode_def decodeMaintenanceModeStatus_def confirms_def
        wp_eq [where m = "DoPost api ctx endpointMaintenanceMode (Some body)"] split: sum.splits)
qed (simp add: setMaintenanceMode_def)

end

section \<open>The client fulfils the contract\<close>

text \<open>
  The accepted exchanges of a client: those it authenticated with its key and that were
  answered with status 200.
\<close>

definition answered_by :: "Client \<Rightarrow> 'w net \<Rightarrow> exchange list" where
  "answered_by c s = map (\<lambda>(req, code, res). (req_Method req, req_URL req, req_Body req, res))
     (filter (\<lambda>(req, code, res). code = StatusOK \<and> req_Header req = [(''X-Ces-Exporter-Api-Key'', apiKey c)]) (exchanges s))"

definition request_url :: "'w http_lib \<Rightarrow> Client \<Rightarrow> string \<Rightarrow> string" where
  "request_url lib c path = (case url_JoinPath lib (baseUrl c) path of Inl _ \<Rightarrow> [] | Inr u \<Rightarrow> u)"

lemma wp_on_net [wp, simp]: "wp (on_net m) Q s = wp m (\<lambda>r w. Q r (s\<lparr>outside := w\<rparr>)) (outside s)"
  by (simp add: wp_def on_net_def split: prod.splits)

lemma wp_log_exchange [wp, simp]:
  "wp (log_exchange req code body) Q s = Q (Ok ()) (s\<lparr>exchanges := exchanges s @ [(req, code, body)]\<rparr>)"
  by (simp add: log_exchange_def)

text \<open>
  How a request ends: a completed exchange is the last one on the list, and its body is
  the result exactly when the status code is 200.
\<close>

definition exchanged :: "request \<Rightarrow> 'w net \<Rightarrow> string result \<Rightarrow> 'w net \<Rightarrow> bool" where
  "exchanged req s r t \<longleftrightarrow> (case r of
     Ok res \<Rightarrow> exchanges t = exchanges s @ [(req, StatusOK, res)]
   | Err _ \<Rightarrow> exchanges t = exchanges s \<or>
       (\<exists>code res. code \<noteq> StatusOK \<and> exchanges t = exchanges s @ [(req, code, res)])
   | Panic _ \<Rightarrow> \<exists>log. exchanges t = exchanges s @ log \<and> length log \<le> 1)"

lemma Header_Set_canonical [code_unfold]:
  "Header_Set apiKeyAuthName key header =
     filter (\<lambda>(k, _). k \<noteq> ''X-Ces-Exporter-Api-Key'') header @ [(''X-Ces-Exporter-Api-Key'', key)]"
proof -
  have "canonical_rest True apiKeyAuthName = ''X-Ces-Exporter-Api-Key''" by code_simp
  then show ?thesis by (simp add: Header_Set_def)
qed

lemma Header_Set_key: "Header_Set apiKeyAuthName key [] = [(''X-Ces-Exporter-Api-Key'', key)]"
  by (simp add: Header_Set_canonical)

lemma execute_request_exchanged:
  "wp (execute_request lib c request)
     (exchanged (request\<lparr>req_Header := Header_Set apiKeyAuthName (apiKey c) (req_Header request)\<rparr>) s) s"
proof -
  let ?req = "request\<lparr>req_Header := Header_Set apiKeyAuthName (apiKey c) (req_Header request)\<rparr>"
  obtain r w where d: "http_Do lib (httpClient c) ?req (outside s) = (r, w)" by fastforce
  show ?thesis
  proof (cases r)
    case (Ok response)
    obtain r2 w2 where b: "Body_ReadAll response w = (r2, w2)" by fastforce
    obtain r3 w3 where cl: "Body_Close response w2 = (r3, w3)" by fastforce
    show ?thesis
      using Ok
      by (cases r2; cases r3)
        (auto simp: execute_request_def Let_def exchanged_def
          wp_eq [where m = "http_Do lib (httpClient c) ?req", OF d]
          wp_eq [where m = "Body_ReadAll response", OF b]
          wp_eq [where m = "Body_Close response", OF cl])
  qed (simp_all add: execute_request_def Let_def exchanged_def
      wp_eq [where m = "http_Do lib (httpClient c) ?req", OF d])
qed

lemma DoGetRequest_exchanged:
  "wp (DoGetRequest lib c ctx p) (exchanged \<lparr>req_Method = ''GET'', req_URL = request_url lib c p,
     req_Header = [(''X-Ces-Exporter-Api-Key'', apiKey c)], req_Body = None\<rparr> s) s"
  using execute_request_exchanged [of lib c "\<lparr>req_Method = ''GET'', req_URL = request_url lib c p, req_Header = [], req_Body = None\<rparr>" s]
  by (cases "url_JoinPath lib (baseUrl c) p")
    (auto simp: DoGetRequest_def request_url_def Header_Set_key exchanged_def [of _ _ "Err _"]
      split: option.splits)

lemma DoPostRequest_exchanged:
  "wp (DoPostRequest lib c ctx p body) (exchanged \<lparr>req_Method = ''POST'', req_URL = request_url lib c p,
     req_Header = [(''X-Ces-Exporter-Api-Key'', apiKey c)], req_Body = body\<rparr> s) s"
  using execute_request_exchanged [of lib c "\<lparr>req_Method = ''POST'', req_URL = request_url lib c p, req_Header = [], req_Body = body\<rparr>" s]
  by (cases "url_JoinPath lib (baseUrl c) p")
    (auto simp: DoPostRequest_def request_url_def Header_Set_key exchanged_def [of _ _ "Err _"]
      split: option.splits)

interpretation cl: api_client "client_api lib c" "answered_by c" "request_url lib c" for lib c
proof
  show "wp (DoGet (client_api lib c) ctx p) (\<lambda>r t. case r of
      Ok res \<Rightarrow> answered_by c t = answered_by c s @ [(''GET'', request_url lib c p, None, res)]
    | Err _ \<Rightarrow> answered_by c t = answered_by c s | Panic _ \<Rightarrow> True) s" for ctx p s
    unfolding client_api_def apiClient.simps
    by (rule wp_mono [OF DoGetRequest_exchanged])
      (auto simp: exchanged_def answered_by_def split: result.splits)
  show "wp (DoPost (client_api lib c) ctx p body) (\<lambda>r t. case r of
      Ok res \<Rightarrow> answered_by c t = answered_by c s @ [(''POST'', request_url lib c p, body, res)]
    | Err _ \<Rightarrow> answered_by c t = answered_by c s | Panic _ \<Rightarrow> True) s" for ctx p body s
    unfolding client_api_def apiClient.simps
    by (rule wp_mono [OF DoPostRequest_exchanged])
      (auto simp: exchanged_def answered_by_def split: result.splits)
qed

section \<open>Properties\<close>

text \<open>
  C17: a GET or POST request authenticates with the API key of the client in the header
  \<open>X-CES-EXPORTER-API-KEY\<close>, and no other, goes to the joined URL, and returns a body without an error exactly when the exporter answered
  with status 200; it then returns that body. Any other status, and any failure on the
  way, is an error.
\<close>

theorem client_answers_only_200:
  "wp (DoGetRequest lib c ctx p) (exchanged \<lparr>req_Method = ''GET'', req_URL = request_url lib c p,
     req_Header = [(''X-Ces-Exporter-Api-Key'', apiKey c)], req_Body = None\<rparr> s) s \<and>
   wp (DoPostRequest lib c ctx p body) (exchanged \<lparr>req_Method = ''POST'', req_URL = request_url lib c p,
     req_Header = [(''X-Ces-Exporter-Api-Key'', apiKey c)], req_Body = body\<rparr> s) s"
  by (simp add: DoGetRequest_exchanged DoPostRequest_exchanged)

text \<open>
  C16: setting the maintenance mode through the client reports success exactly when the
  exporter accepted the POST of the encoded mode and confirmed in its response that the
  mode is as asked for; in every other case it is an error, also when the exporter
  accepted the request but answered the opposite mode or something unreadable.
\<close>

theorem maintenance_mode_confirmed:
  "wp (setMaintenanceMode json (client_api lib c) ctx mode) (\<lambda>r t. case r of
     Ok _ \<Rightarrow> \<exists>body res. encode_MaintenanceMode json mode = Inr body \<and>
       answered_by c t =
         answered_by c s @ [(''POST'', request_url lib c endpointMaintenanceMode, Some body, res)] \<and>
       confirms json mode res
   | Err _ \<Rightarrow> answered_by c t = answered_by c s \<or>
       (\<exists>body res. answered_by c t =
          answered_by c s @ [(''POST'', request_url lib c endpointMaintenanceMode, Some body, res)] \<and>
         \<not> confirms json mode res)
   | Panic _ \<Rightarrow> True) s"
  by (rule cl.setMaintenanceMode_spec)

text \<open>
  C18: the export mode counts as valid only when the exporter answered the query of this
  very call with an active export mode.
\<close>

theorem export_mode_validated:
  "wp (ExportModeValidator_Validate json (client_api lib c) ctx) (\<lambda>r t. case r of
     Ok _ \<Rightarrow> \<exists>res. answered_by c t =
         answered_by c s @ [(''GET'', request_url lib c pathExportMode, None, res)] \<and>
       decode_ExportMode json res = Inr \<lparr>x_IsActive = True\<rparr>
   | _ \<Rightarrow> True) s"
  by (rule cl.Validate_spec)

text \<open>The translations lose nothing: they are injective.\<close>

lemma inj_mapKeyValue: "inj mapKeyValue"
  by (rule injI, rule KeyValue_dto.equality) (simp_all add: mapKeyValue_def)

lemma toMigrationSystemInfo_inject: "inj toMigrationSystemInfo"
proof (rule injI)
  fix x y assume eq: "toMigrationSystemInfo x = toMigrationSystemInfo y"
  let ?d = "\<lambda>dogu :: Dogu_dto. \<lparr>dogu_Name = x_Dogu_Name dogu, dogu_Version = x_Dogu_Version dogu,
         dogu_Volume = \<lparr>SizeInBytes = x_SizeInBytes (x_Dogu_Volume dogu)\<rparr>\<rparr>"
  let ?c = "\<lambda>comp :: Component_dto. \<lparr>component_Name = x_Component_Name comp, component_Version = x_Component_Version comp\<rparr>"
  have d: "inj ?d" by (rule injI, rule Dogu_dto.equality) (auto intro: DoguVolume_dto.equality)
  have c: "inj ?c" by (rule injI, rule Component_dto.equality) auto
  from eq show "x = y"
    by (intro SystemInfo_dto.equality)
      (simp_all add: toMigrationSystemInfo_def mapSlice_def map_injective [OF _ d]
        inj_map_eq_map [OF d] inj_map_eq_map [OF c])
qed

text \<open>
  C19: the TLS verification of the exporter's certificate is switched off exactly when the
  configuration says so; otherwise the client trusts its default authorities or, when a
  readable custom certificate is mounted, the system's authorities and that certificate.
  A custom certificate that cannot be read or parsed leaves the default in place.
\<close>

theorem exporter_tls_policy:
  "http_Transport (httpClient (NewServiceFromConfig x files cfg)) =
     (if api_SkipTLSVerify cfg then Some (Transport (Some \<lparr>InsecureSkipVerify = True, RootCAs = None\<rparr>))
      else case files (getCustomCAFileName (api_TLSCertificateName cfg)) of
        Inl _ \<Rightarrow> None
      | Inr pem \<Rightarrow>
          if pem_has_certificate x pem
          then Some (Transport (Some \<lparr>InsecureSkipVerify = False,
            RootCAs = Some ((case SystemCertPool x of Inl _ \<Rightarrow> [] | Inr pool \<Rightarrow> pool) @ [pem])\<rparr>))
          else None)"
  by (simp add: NewServiceFromConfig_def NewClient_def WithInsecure_def WithCustomCAs_def
      getTransportConfig_def AppendCertsFromPEM_def Let_def split: sum.splits)

end
