(* ===== verification/Import_Job.thy ===== *)
theory Import_Job imports Process Rsync Fqdn Exporter_Client begin

text \<open>
  The import job (\<open>cmd/import-job/\<close>), the binary that runs in the cluster of the importer:
  the start of the process and the composition of the data synchronisation, the import of
  the configuration and the change of the FQDN. All of them work on one world, that of the
  HTTP client with the cluster, the files and the child processes outside.
\<close>

section \<open>The executer (\<open>executer.go\<close>)\<close>

record 's ImportExecuter =
  dataSyncer :: "ctx \<Rightarrow> ('s, unit) go"
  configSyncer :: "ctx \<Rightarrow> ('s, unit) go"
  fqdnChanger :: "ctx \<Rightarrow> ('s, unit) go"

text \<open>
  What the job finds outside: the libraries, the files, the configuration of the connection to
  the cluster, and the repositories that the registry library makes of the clients.
\<close>

record ('w, 'c, 'r) job_env =
  je_names :: name_lib
  je_json :: json_lib
  je_http :: "'w http_lib"
  je_x509 :: x509_lib
  je_files :: "'w net \<Rightarrow> fs"
  je_config :: Config.config_lib
  je_quote :: "string \<Rightarrow> string"
  je_KubeConfig :: "('w net, 'r) go"
  je_k8s :: "'r k8s_lib"
  je_registry :: "'c Config_Import.config_lib"
  je_rsync :: "'w net rsync_api"
  je_repos :: "K8sClients \<Rightarrow> ('w net, 'c) config_api"
  je_fqdn :: "K8sClients \<Rightarrow> ('w net, 'c) fqdn_env"

text \<open>The parts of the environment that the components get, with the services of the exporter.\<close>

definition job_rsync_api :: "('w, 'c, 'r) job_env \<Rightarrow> 'w net apiClient \<Rightarrow> 'w net rsync_api" where
  "job_rsync_api env api = (je_rsync env)\<lparr>rs_GetSystemInfo := GetSystemInfo (je_json env) api,
     rs_SetExportDogu := SetExportDogu (je_json env) api\<rparr>"

definition job_config_api :: "('w, 'c, 'r) job_env \<Rightarrow> 'w net apiClient \<Rightarrow> K8sClients \<Rightarrow> ('w net, 'c) config_api" where
  "job_config_api env api cs = (je_repos env cs)\<lparr>ca_GetConfig := GetConfig (je_json env) api\<rparr>"

definition job_fqdn_env :: "('w, 'c, 'r) job_env \<Rightarrow> 'w net apiClient \<Rightarrow> K8sClients \<Rightarrow> ctx \<Rightarrow> ('w net, 'c) fqdn_env" where
  "job_fqdn_env env api cs ctx = (je_fqdn env cs)\<lparr>fe_GetConfig := GetConfig (je_json env) api ctx\<rparr>"

definition NewImportExecuter ::
    "('w, 'c, 'r) job_env \<Rightarrow> Job \<Rightarrow> 'w net apiClient \<Rightarrow> K8sClients \<Rightarrow> 'w net process ImportExecuter" where
  "NewImportExecuter env cfg api cs =
     (let ds = NewRsyncSyncer (ExporterHost (jb_API cfg)) (User (jb_SSH cfg)) (PrivateSSHKeyPath (jb_SSH cfg))
            (Exclude (jb_JobConfig cfg)) (DoguVolumeBasePath (jb_JobConfig cfg)) (ExcludedDogus (jb_General cfg))
            (ChecksumDogus (jb_JobConfig cfg)) (Verbose (jb_JobConfig cfg));
          ci = NewConfigImporter (DoguVolumeBasePath (jb_JobConfig cfg))
            (AdditionalExcludedGlobalConfigurationKeys (jb_JobConfig cfg)) (ExcludedDoguConfigurations (jb_JobConfig cfg)) in
      \<lparr>dataSyncer = \<lambda>ctx. on_rest (untraced (SyncData (je_names env) (job_rsync_api env api) ds ctx)),
       configSyncer = \<lambda>ctx. on_rest (untraced (SyncConfig (je_registry env) (job_config_api env api cs) ci ctx)),
       fqdnChanger = \<lambda>ctx. on_rest (NewService_ChangeFQDN (job_fqdn_env env api cs ctx))\<rparr>)"

datatype job_call = CopyData | CopyConfig | ChangeFqdn

definition join_failure :: "err option \<Rightarrow> err option \<Rightarrow> err option" where
  "join_failure syncError e = (case e of None \<Rightarrow> syncError | Some err \<Rightarrow> join2 syncError (Some err))"

definition Start :: "'s ImportExecuter \<Rightarrow> ctx \<Rightarrow> ((job_call, 's) st, unit) go" where
  "Start j ctx =
     attempt (extern CopyData (dataSyncer j ctx)) (\<lambda>e.
     let syncError = join_failure None e in
     attempt (extern CopyConfig (configSyncer j ctx)) (\<lambda>e.
     case join_failure syncError e of
       Some err \<Rightarrow> fail err
     | None \<Rightarrow>
         if \<not> TriggerFQDNChange ctx then ret ()
         else orWrap ''failed to change fqdn'' (extern ChangeFqdn (fqdnChanger j ctx))))"

section \<open>The process (\<open>main.go\<close>)\<close>

text \<open>\<open>if err != nil { return 1 }\<close>\<close>

definition or_exit :: "('s, 'a) go \<Rightarrow> ('a \<Rightarrow> ('s, int) go) \<Rightarrow> ('s, int) go" where
  "or_exit m k = handle m (\<lambda>_. ret 1) k"

definition job_client :: "('w, 'c, 'r) job_env \<Rightarrow> Job \<Rightarrow> 'w net \<Rightarrow> Client" where
  "job_client env cfg w = NewServiceFromConfig (je_x509 env) (je_files env w) (jb_API cfg)"

definition run_executer ::
    "('w, 'c, 'r) job_env \<Rightarrow> Job \<Rightarrow> Client \<Rightarrow> ctx \<Rightarrow> ((job_call, 'w net process) st, int) go" where
  "run_executer env jobConfig c ctx =
     or_exit (quietly (on_rest (je_KubeConfig env))) (\<lambda>k8sRestConfig.
     or_exit (CreateK8SClientSet (je_k8s env) k8sRestConfig (Namespace (jb_General jobConfig))) (\<lambda>k8sClientSet.
     or_exit (Start (NewImportExecuter env jobConfig (client_api (je_http env) c) k8sClientSet) ctx) (\<lambda>_.
     ret 0)))"

definition run :: "('w, 'c, 'r) job_env \<Rightarrow> environ \<Rightarrow> ((job_call, 'w net process) st, int) go" where
  "run env os =
     (let ctx = SetTriggerFQDNChangeFromEnv os Background in
      or_exit (quietly (on_rest (reading (je_files env) (ReadJobConfig (je_config env) os)))) (\<lambda>jobConfig.
      or_exit (quietly (InitStructuredLogger
         [WithLevel (je_quote env) (Level (jb_Logging jobConfig)), WithComponent ''import-job''])) (\<lambda>_.
      andThen get_state (\<lambda>s. run_executer env jobConfig (job_client env jobConfig (rest_of (world s))) ctx))))"

section \<open>What the executer does\<close>

text \<open>
  The outcome of \<open>Start\<close>: the calls with their endings, and the error, which reports every
  failure.
\<close>

definition both_synced :: "ending \<Rightarrow> ending \<Rightarrow> bool" where
  "both_synced e1 e2 \<longleftrightarrow> e1 = Fine \<and> e2 = Fine"

definition failure :: "ending \<Rightarrow> err list" where
  "failure e = (case e of Failed x \<Rightarrow> reported x | _ \<Rightarrow> [])"

definition start_outcome :: "bool \<Rightarrow> (job_call \<times> ending) list \<Rightarrow> unit result \<Rightarrow> bool" where
  "start_outcome trigger es r = (case r of
     Ok _ \<Rightarrow> es = fine ([CopyData, CopyConfig] @ (if trigger then [ChangeFqdn] else []))
   | Err e \<Rightarrow>
       (\<exists>e1 e2. es = [(CopyData, e1), (CopyConfig, e2)] \<and> \<not> both_synced e1 e2 \<and> reported e = failure e1 @ failure e2) \<or>
       (\<exists>x. trigger \<and> es = fine [CopyData, CopyConfig] @ [(ChangeFqdn, Failed x)] \<and> e = errorf_w ''failed to change fqdn'' x)
   | Panic p \<Rightarrow> run_end es = Panicked p)"

lemma join_failure_simps [simp]:
  "join_failure s None = s" "join_failure None (Some e) = Some (Joined [e])"
  "join_failure (Some d) (Some e) = Some (Joined [d, e])"
  by (simp_all add: join_failure_def errors_join_def map_filter_simps)

lemma start_outcome_simps:
  "start_outcome trigger (fine [CopyData, CopyConfig]) (Ok ()) \<longleftrightarrow> \<not> trigger"
  "start_outcome trigger [(CopyData, Fine), (CopyConfig, Fine), (ChangeFqdn, ending_of r)]
     (case r of Err x \<Rightarrow> Err (errorf_w ''failed to change fqdn'' x) | _ \<Rightarrow> r) \<longleftrightarrow> trigger \<or> (\<exists>p. r = Panic p)"
  "start_outcome trigger [(CopyData, Panicked p)] (Panic p)"
  "start_outcome trigger [(CopyData, e1), (CopyConfig, Panicked p)] (Panic p)"
  "\<not> both_synced e1 e2 \<Longrightarrow> reported e = failure e1 @ failure e2 \<Longrightarrow> start_outcome trigger [(CopyData, e1), (CopyConfig, e2)] (Err e)"
  by (auto simp: start_outcome_def split: result.splits)

lemma Start_spec:
  "wp (Start j ctx) (\<lambda>r t. \<exists>es. trace t = trace s @ es \<and> start_outcome (TriggerFQDNChange ctx) es r \<and>
     ((\<exists>x. r = Ok x) \<longrightarrow> TriggerFQDNChange ctx \<longrightarrow> (\<exists>u. fqdnChanger j ctx u = (Ok (), world t)))) s"
proof -
  obtain r1 w1 where d: "dataSyncer j ctx (world s) = (r1, w1)" by fastforce
  obtain r2 w2 where c: "configSyncer j ctx w1 = (r2, w2)" by fastforce
  obtain r3 w3 where f: "fqdnChanger j ctx w2 = (r3, w3)" by fastforce
  note eqs = wp_eq [where m = "dataSyncer j ctx", OF d] wp_eq [where m = "configSyncer j ctx", OF c]
    wp_eq [where m = "fqdnChanger j ctx", OF f]
  show ?thesis
  proof (cases r1)
    case r1: (Ok a)
    show ?thesis
    proof (cases r2)
      case r2: (Ok b)
      show ?thesis
      proof (cases "TriggerFQDNChange ctx")
        case True
        have out: "start_outcome True [(CopyData, Fine), (CopyConfig, Fine), (ChangeFqdn, ending_of r3)]
            (case r3 of Err x \<Rightarrow> Err (errorf_w ''failed to change fqdn'' x) | _ \<Rightarrow> r3)"
          by (simp only: start_outcome_simps(2) simp_thms)
        show ?thesis
        proof (cases r3)
          case (Ok x)
          then have "\<exists>u. fqdnChanger j ctx u = (Ok (), w3)" using f by auto
          with out True Ok show ?thesis by (simp add: Start_def eqs r1 r2 cong del: result.case_cong)
        qed (use out True in \<open>simp_all add: Start_def eqs r1 r2 cong del: result.case_cong\<close>)
      qed (simp add: Start_def eqs r1 r2 start_outcome_def)
    qed (simp_all add: Start_def eqs r1 start_outcome_simps both_synced_def failure_def)
  next
    case r1: (Err e)
    show ?thesis
      by (cases r2) (simp_all add: Start_def eqs r1 start_outcome_simps both_synced_def failure_def)
  qed (simp add: Start_def eqs start_outcome_simps)
qed

section \<open>The exit status\<close>

text \<open>
  What the job relies on: the laws of the registry library, the retry helper and the
  repositories, and that a question to the exporter leaves the objects of the own cluster alone.
\<close>

definition job_env_ok :: "('w, 'c, 'r) job_env \<Rightarrow> bool" where
  "job_env_ok env \<longleftrightarrow> (\<forall>c cs ctx. fqdn_env_ok (job_fqdn_env env (client_api (je_http env) c) cs ctx))"

definition wants_fqdn :: "environ \<Rightarrow> bool" where
  "wants_fqdn os \<longleftrightarrow> Getenv os envTriggerFQDNChange = ''true''"

text \<open>The FQDN and the certificate in the cluster are those of a configuration that the exporter sent.\<close>

definition taken_over :: "('w, 'c, 'r) job_env \<Rightarrow> 'w net \<Rightarrow> bool" where
  "taken_over env w \<longleftrightarrow> (\<exists>c cs ctx u v cfg ch.
     GetConfig (je_json env) (client_api (je_http env) c) ctx u = (Ok cfg, v) \<and>
     createChangeRequest (cfg_GlobalConfig cfg) = Inr ch \<and>
     fqdn_current (je_fqdn env cs) w = Some (triple_wanted (ch_ConfigChange ch)) \<and>
     cert_current (je_fqdn env cs) w = Some (pair_wanted (ch_SecretChange ch)))"

definition fqdn_as_wanted :: "('w, 'c, 'r) job_env \<Rightarrow> bool \<Rightarrow> 'w net \<Rightarrow> bool" where
  "fqdn_as_wanted env trigger w \<longleftrightarrow> (trigger \<longrightarrow> taken_over env w)"

text \<open>The calls of a job that failed: none when it failed before the executer, or those of the executer.\<close>

definition job_failed :: "bool \<Rightarrow> (job_call \<times> ending) list \<Rightarrow> bool" where
  "job_failed trigger es \<longleftrightarrow> es = [] \<or> (\<exists>e. start_outcome trigger es (Err e))"

definition exit_outcome :: "('w, 'c, 'r) job_env \<Rightarrow> bool \<Rightarrow> (job_call \<times> ending) list \<Rightarrow> 'w net \<Rightarrow> int \<Rightarrow> bool" where
  "exit_outcome env trigger es w code \<longleftrightarrow>
     (if code = 0 then es = fine ([CopyData, CopyConfig] @ (if trigger then [ChangeFqdn] else [])) \<and> fqdn_as_wanted env trigger w
      else code = 1 \<and> job_failed trigger es)"

definition exits :: "('w, 'c, 'r) job_env \<Rightarrow> bool \<Rightarrow> (job_call, 'w net process) st \<Rightarrow> int result \<Rightarrow>
    (job_call, 'w net process) st \<Rightarrow> bool" where
  "exits env trigger s r t \<longleftrightarrow> (case r of
     Ok code \<Rightarrow> \<exists>es. trace t = trace s @ es \<and> exit_outcome env trigger es (rest_of (world t)) code
   | Err _ \<Rightarrow> False | Panic _ \<Rightarrow> True)"

lemma wp_or_exit [wp]:
  "wp (or_exit m k) Q s = wp m (\<lambda>r t. case r of Ok a \<Rightarrow> wp (k a) Q t | Err _ \<Rightarrow> Q (Ok 1) t | Panic p \<Rightarrow> Q (Panic p) t) s"
  by (simp add: or_exit_def)

lemma exits_early: "trace t = trace s \<Longrightarrow> exits env trigger s (Ok 1) t"
  by (simp add: exits_def exit_outcome_def job_failed_def)

lemma exits_panic [simp]: "exits env trigger s (Panic p) t"
  by (simp add: exits_def)

lemma exits_trace: "exits env trigger u r t \<Longrightarrow> trace u = trace s \<Longrightarrow> exits env trigger s r t"
  by (simp add: exits_def)

text \<open>A first step that leaves the list of calls alone.\<close>

lemma exits_step:
  assumes "\<And>r t. m s = (r, t) \<Longrightarrow> trace t = trace s" "\<And>a t. trace t = trace s \<Longrightarrow> wp (k a) (exits env trigger s) t"
  shows "wp (or_exit m k) (exits env trigger s) s"
  unfolding wp_or_exit using assms by (intro wpI) (auto split: result.splits intro: exits_early)

lemma trace_quietly: "quietly m s = (r, t) \<Longrightarrow> trace t = trace s"
  by (auto simp: quietly_def split: prod.splits)

lemma taken_overI:
  assumes "job_env_ok env"
    and "NewService_ChangeFQDN (job_fqdn_env env (client_api (je_http env) c) cs ctx) u = (Ok (), w)"
  shows "taken_over env w"
proof -
  from assms(1) have ok: "fqdn_env_ok (job_fqdn_env env (client_api (je_http env) c) cs ctx)"
    by (simp add: job_env_ok_def)
  from wpD [OF ChangeFQDN_outcome [OF ok] assms(2)] show ?thesis
    unfolding taken_over_def by (fastforce simp: job_fqdn_env_def fqdn_current_def cert_current_def)
qed

lemma fqdnChanger_new:
  "fqdnChanger (NewImportExecuter env cfg api cs) ctx = on_rest (NewService_ChangeFQDN (job_fqdn_env env api cs ctx))"
  by (simp add: NewImportExecuter_def Let_def)

lemma executer_exits:
  fixes env :: "('w, 'c, 'r) job_env"
  assumes "job_env_ok env"
  shows "wp (or_exit (Start (NewImportExecuter env cfg (client_api (je_http env) c) cs) ctx) (\<lambda>_. ret 0))
    (exits env (TriggerFQDNChange ctx) s) s"
  unfolding wp_or_exit
proof (rule wp_mono [OF Start_spec])
  let ?j = "NewImportExecuter env cfg (client_api (je_http env) c) cs"
  fix r and t :: "(job_call, 'w net process) st"
  assume "\<exists>es. trace t = trace s @ es \<and> start_outcome (TriggerFQDNChange ctx) es r \<and>
    ((\<exists>x. r = Ok x) \<longrightarrow> TriggerFQDNChange ctx \<longrightarrow> (\<exists>u. fqdnChanger ?j ctx u = (Ok (), world t)))"
  then obtain es where es: "trace t = trace s @ es" "start_outcome (TriggerFQDNChange ctx) es r"
    "(\<exists>x. r = Ok x) \<longrightarrow> TriggerFQDNChange ctx \<longrightarrow> (\<exists>u. fqdnChanger ?j ctx u = (Ok (), world t))"
    by (elim exE conjE)
  show "case r of Ok a \<Rightarrow> wp (ret 0) (exits env (TriggerFQDNChange ctx) s) t
    | Err _ \<Rightarrow> exits env (TriggerFQDNChange ctx) s (Ok 1) t | Panic p \<Rightarrow> exits env (TriggerFQDNChange ctx) s (Panic p) t"
  proof (cases r)
    case (Ok x)
    have "fqdn_as_wanted env (TriggerFQDNChange ctx) (rest_of (world t))"
      unfolding fqdn_as_wanted_def
    proof
      assume "TriggerFQDNChange ctx"
      with es(3) Ok obtain u where "fqdnChanger ?j ctx u = (Ok (), world t)" by blast
      from taken_overI [OF assms on_rest_run [OF this [unfolded fqdnChanger_new]]] show "taken_over env (rest_of (world t))" .
    qed
    with es Ok show ?thesis by (auto simp: exits_def exit_outcome_def start_outcome_def)
  next
    case (Err e)
    with es show ?thesis by (auto simp: exits_def exit_outcome_def job_failed_def)
  qed simp
qed

lemma run_executer_exits:
  fixes env :: "('w, 'c, 'r) job_env"
  assumes "job_env_ok env"
  shows "wp (run_executer env cfg c ctx) (exits env (TriggerFQDNChange ctx) s) s"
  unfolding run_executer_def
proof (rule exits_step)
  fix k8sRestConfig and t :: "(job_call, 'w net process) st"
  assume t: "trace t = trace s"
  show "wp (or_exit (CreateK8SClientSet (je_k8s env) k8sRestConfig (Namespace (jb_General cfg))) (\<lambda>k8sClientSet.
      or_exit (Start (NewImportExecuter env cfg (client_api (je_http env) c) k8sClientSet) ctx) (\<lambda>_. ret 0)))
    (exits env (TriggerFQDNChange ctx) s) t"
    unfolding wp_or_exit [where m = "CreateK8SClientSet lib x n" for lib x n]
  proof (rule wpI)
    fix r u assume "CreateK8SClientSet (je_k8s env) k8sRestConfig (Namespace (jb_General cfg)) t = (r, u)"
    from CreateK8SClientSet_state [OF this] t have u: "trace u = trace s" by simp
    show "case r of Ok cs \<Rightarrow> wp (or_exit (Start (NewImportExecuter env cfg (client_api (je_http env) c) cs) ctx) (\<lambda>_. ret 0))
          (exits env (TriggerFQDNChange ctx) s) u
      | Err _ \<Rightarrow> exits env (TriggerFQDNChange ctx) s (Ok 1) u | Panic p \<Rightarrow> exits env (TriggerFQDNChange ctx) s (Panic p) u"
    proof (cases r)
      case (Ok cs)
      show ?thesis
        unfolding Ok result.case by (rule wp_mono [OF executer_exits [OF assms]]) (rule exits_trace [OF _ u])
    qed (simp_all add: exits_early [OF u])
  qed
qed (rule trace_quietly)

lemma trigger_from_env: "TriggerFQDNChange (SetTriggerFQDNChangeFromEnv os Background) = wants_fqdn os"
  by (simp add: SetTriggerFQDNChangeFromEnv_def wants_fqdn_def)

lemma run_exits:
  assumes "job_env_ok env"
  shows "wp (run env os) (exits env (wants_fqdn os) s) s"
  unfolding run_def Let_def
proof (rule exits_step)
  fix cfg :: Job and t :: "(job_call, 'a net process) st"
  assume t: "trace t = trace s"
  let ?log = "quietly (InitStructuredLogger [WithLevel (je_quote env) (Level (jb_Logging cfg)), WithComponent ''import-job''])"
  show "wp (or_exit ?log (\<lambda>_. andThen get_state (\<lambda>s. run_executer env cfg (job_client env cfg (rest_of (world s)))
      (SetTriggerFQDNChangeFromEnv os Background)))) (exits env (wants_fqdn os) s) t"
    unfolding wp_or_exit
  proof (rule wpI)
    fix r and u :: "(job_call, 'a net process) st"
    assume "?log t = (r, u)"
    then have u: "trace u = trace s" using t trace_quietly by metis
    show "case r of Ok a \<Rightarrow> wp (andThen get_state (\<lambda>s. run_executer env cfg (job_client env cfg (rest_of (world s)))
          (SetTriggerFQDNChangeFromEnv os Background))) (exits env (wants_fqdn os) s) u
      | Err _ \<Rightarrow> exits env (wants_fqdn os) s (Ok 1) u | Panic p \<Rightarrow> exits env (wants_fqdn os) s (Panic p) u"
    proof (cases r)
      case (Ok a)
      show ?thesis
        unfolding Ok result.case wp_andThen wp_get_state trigger_from_env [symmetric]
        by (rule wp_mono [OF run_executer_exits [OF assms]]) (rule exits_trace [OF _ u])
    qed (simp_all add: exits_early [OF u])
  qed
qed (rule trace_quietly)

text \<open>
  C4: the exit status of the import job says what happened. The process returns 0 or 1. It
  returns 0 exactly when the data and the configuration were synchronised and, if the
  environment asks for it, the FQDN was changed, each once, in this order and without an
  error; then the FQDN and the certificate of the own cluster are the ones that the exporter
  sent. It returns 1 when it failed before the executer, or when the executer failed: the
  configuration is synchronised even if the data failed, but the FQDN is only touched when both
  went well, and the error reports the failure of each. This composes the executer with the
  change service, the repositories and the exporter's client.
\<close>

theorem import_job_exit_status:
  assumes "job_env_ok env"
  shows "wp (run env os) (\<lambda>r t. case r of
     Ok code \<Rightarrow> \<exists>es. trace t = trace s @ es \<and>
       (if code = 0
        then es = fine ([CopyData, CopyConfig] @ (if wants_fqdn os then [ChangeFqdn] else [])) \<and>
          fqdn_as_wanted env (wants_fqdn os) (rest_of (world t))
        else code = 1 \<and> job_failed (wants_fqdn os) es)
   | Err _ \<Rightarrow> False | Panic _ \<Rightarrow> True) s"
  by (rule wp_mono [OF run_exits [OF assms]]) (simp only: exits_def exit_outcome_def)

section \<open>An instance for the witness\<close>

text \<open>
  The small world of the FQDN service behind an exporter that answers every request: it has no
  dogus and sends a configuration with a new FQDN and certificate.
\<close>

definition job_http :: "small_world http_lib" where
  "job_http = \<lparr>url_JoinPath = (\<lambda>a b. Inr (a @ b)), NewRequest = (\<lambda>_ _. None),
     http_Do = (\<lambda>_ _. answers (Ok \<lparr>StatusCode = StatusOK, Body_ReadAll = answers (Ok ''{}''), Body_Close = answers (Ok ())\<rparr>))\<rparr>"

definition job_json :: json_lib where
  "job_json = \<lparr>decode_ExportMode = (\<lambda>_. Inr \<lparr>x_IsActive = True\<rparr>),
     decode_SystemInfo = (\<lambda>_. Inr \<lparr>x_FQDN = [], x_IsMultinode = False, x_Dogus = [], x_Components = []\<rparr>),
     decode_DoguExport = (\<lambda>_. Inl (ErrorString [])),
     decode_Configuration = (\<lambda>_. Inr \<lparr>x_GlobalConfig = map (\<lambda>k. \<lparr>x_Key = k, x_Value = ''new''\<rparr>)
         [globalCfgFQDNKey, globalCfgCertTypeKey, globalCfgCertKey, globalCfgPrivateKey],
       x_DoguConfigs = [], x_BackupSchedules = []\<rparr>),
     decode_MaintenanceModeStatus = (\<lambda>_. Inl (ErrorString [])), encode_MaintenanceMode = (\<lambda>_. Inl (ErrorString [])),
     verb_q = (\<lambda>s. s)\<rparr>"

definition job_config_lib :: Config.config_lib where
  "job_config_lib = \<lparr>RegisterDefaultTranslations = None, RegisterValidation = (\<lambda>_ _. None), Var = (\<lambda>_ _. True),
     T_Logging = \<lparr>yaml_Unmarshal = (\<lambda>_. Inr (co_Logging sample_coordinator)), validate_Struct = (\<lambda>_. None)\<rparr>,
     T_API = \<lparr>yaml_Unmarshal = (\<lambda>_. Inr sample_API), validate_Struct = (\<lambda>_. None)\<rparr>,
     T_Migration = \<lparr>yaml_Unmarshal = (\<lambda>_. Inr (co_Migration sample_coordinator)), validate_Struct = (\<lambda>_. None)\<rparr>,
     T_SSH = \<lparr>yaml_Unmarshal = (\<lambda>_. Inr sample_SSH), validate_Struct = (\<lambda>_. None)\<rparr>,
     T_JobConfig = \<lparr>yaml_Unmarshal = (\<lambda>_. Inr sample_job_config), validate_Struct = (\<lambda>_. None)\<rparr>,
     T_JobContainer = \<lparr>yaml_Unmarshal = (\<lambda>_. Inr (co_JobContainer sample_coordinator)), validate_Struct = (\<lambda>_. None)\<rparr>,
     T_Smtp = \<lparr>yaml_Unmarshal = (\<lambda>_. Inr (co_Smtp sample_coordinator)), validate_Struct = (\<lambda>_. None)\<rparr>\<rparr>"

definition job_repo :: "(small_world \<Rightarrow> string \<Rightarrow> (string \<Rightarrow> string option) option) \<Rightarrow>
    ((string \<Rightarrow> (string \<Rightarrow> string option) option) \<Rightarrow> small_world \<Rightarrow> small_world) \<Rightarrow> small_world net object_repo" where
  "job_repo view put = small_repo (\<lambda>s. view (outside s)) (\<lambda>f s. s\<lparr>outside := put f (outside s)\<rparr>)"

definition job_sample_fqdn :: "(small_world net, (string \<times> string) list) fqdn_env" where
  "job_sample_fqdn = \<lparr>fe_lib = sample_lib, fe_OnError = retry_times 1,
     secret_repo = job_repo sw_secrets (\<lambda>f w. w\<lparr>sw_secrets := f\<rparr>), cmap_repo = job_repo sw_cmaps (\<lambda>f w. w\<lparr>sw_cmaps := f\<rparr>),
     gc_Get = (\<lambda>s. (Ok (sw_config (outside s)), s)), gc_SaveOrMerge = (\<lambda>c s. (Ok (), s\<lparr>outside := (outside s)\<lparr>sw_config := c\<rparr>\<rparr>)),
     fe_GetConfig = answers (Err ContextCanceled),
     secrets_in = (\<lambda>s. sw_secrets (outside s)), cmaps_in = (\<lambda>s. sw_cmaps (outside s)),
     config_in = (\<lambda>s. cfg_Get sample_lib (sw_config (outside s)))\<rparr>"

definition job_sample_repos :: "(small_world net, (string \<times> string) list) config_api" where
  "job_sample_repos = \<lparr>
     ca_GetConfig = (\<lambda>_. answers (Err ContextCanceled)), global_Get = (\<lambda>s. (Ok (sw_config (outside s)), s)),
     global_Create = (\<lambda>c. answers (Ok c)), global_Update = (\<lambda>c s. (Ok c, s\<lparr>outside := (outside s)\<lparr>sw_config := c\<rparr>\<rparr>)),
     dogu_Get = (\<lambda>_ _. answers (Ok [])), dogu_Create = (\<lambda>_ _ c. answers (Ok c)), dogu_Update = (\<lambda>_ _ c. answers (Ok c)),
     OpenFile = (\<lambda>_. answers (Ok ())), yaml_Write = (\<lambda>_ _. answers (Ok ())), file_Close = (\<lambda>_. answers (Ok ())),
     schedule_Watch = (\<lambda>_. answers (Ok [])), schedule_Stop = (\<lambda>_. answers (Ok ())), schedule_Delete = (\<lambda>_. answers (Ok ())),
     schedule_Create = (\<lambda>_ _ _. answers (Ok ()))\<rparr>"

definition job_sample_rsync :: "small_world net rsync_api" where
  "job_sample_rsync = \<lparr>rs_GetSystemInfo = (\<lambda>_. answers (Err ContextCanceled)), rs_SetExportDogu = (\<lambda>_ _. answers (Err ContextCanceled)),
     os_ReadDir = (\<lambda>_. answers (Ok [])), cmd_StdoutPipe = (\<lambda>_. answers (Ok ())), cmd_StderrPipe = (\<lambda>_. answers (Ok ())),
     cmd_Start = (\<lambda>_. answers (Ok ())), cmd_print_output = (\<lambda>_ w. w), cmd_Wait = (\<lambda>_. answers (Ok ()))\<rparr>"

definition sample_job_env :: "(small_world, (string \<times> string) list, unit) job_env" where
  "sample_job_env = \<lparr>je_names = sample_names, je_json = job_json, je_http = job_http,
     je_x509 = \<lparr>SystemCertPool = Inr [], pem_has_certificate = (\<lambda>_. False)\<rparr>, je_files = (\<lambda>_ _. Inr []),
     je_config = job_config_lib, je_quote = (\<lambda>s. s), je_KubeConfig = answers (Ok ()),
     je_k8s = \<lparr>getK8sClientsSet = (\<lambda>_. None), getEcoSystemClient = (\<lambda>_. None), getBlueprintClient = (\<lambda>_. None),
       getComponentsClient = (\<lambda>_. None), getBackupClient = (\<lambda>_. None)\<rparr>,
     je_registry = sample_lib, je_rsync = job_sample_rsync, je_repos = (\<lambda>_. job_sample_repos), je_fqdn = (\<lambda>_. job_sample_fqdn)\<rparr>"

definition sample_environ :: environ where
  "sample_environ = [EnvBaseConfigPathKey \<mapsto> ''/c'', EnvImporterNamespaceKey \<mapsto> ''ecosystem'', envTriggerFQDNChange \<mapsto> ''true'']"

definition sample_process :: "(job_call, small_world net process) st" where
  "sample_process = \<lparr>trace = [], world = \<lparr>default_logger = None, log_writer = [Stdout],
     rest_of = \<lparr>exchanges = [], outside = small_start\<rparr>\<rparr>\<rparr>"

text \<open>A request to this exporter changes only the list of exchanges.\<close>

lemma job_request_outside: "outside (snd (GetConfig job_json (client_api job_http c) ctx s)) = outside s"
proof -
  have "wp (GetConfig job_json (client_api job_http c) ctx) (\<lambda>_ t. outside t = outside s) s"
    by (simp add: GetConfig_def client_api_def DoGetRequest_def execute_request_def Let_def job_http_def job_json_def
        return_err_def split: option.splits)
  then show ?thesis by (simp add: wp_iff)
qed

lemma sample_job_env_ok: "job_env_ok sample_job_env"
  unfolding job_env_ok_def fqdn_env_ok_def
proof (intro allI conjI impI)
  fix c cs ctx
  let ?E = "job_fqdn_env sample_job_env (client_api (je_http sample_job_env) c) cs ctx"
  note env = job_fqdn_env_def sample_job_env_def job_sample_fqdn_def job_repo_def
  show "config_lib_ok (fe_lib ?E)" by (simp add: env sample_lib_ok)
  show "retry_ok (fe_OnError ?E)" by (simp add: env retry_times_ok)
  show "repo_ok (secret_repo ?E) (secrets_in ?E) (\<lambda>w. (cmaps_in ?E w, config_in ?E w))"
    by (simp add: env small_repo_ok)
  show "repo_ok (cmap_repo ?E) (cmaps_in ?E) (\<lambda>w. (secrets_in ?E w, config_in ?E w))"
    by (simp add: env small_repo_ok)
  fix w r v
  assume "fe_GetConfig ?E w = (r, v)"
  then have "outside v = outside w"
    using job_request_outside [of c ctx w] by (simp add: env)
  then show "secrets_in ?E v = secrets_in ?E w" "cmaps_in ?E v = cmaps_in ?E w" "config_in ?E v = config_in ?E w"
    by (simp_all add: env)
qed (auto simp: job_fqdn_env_def sample_job_env_def job_sample_fqdn_def)

lemma sample_job_runs: "fst (run sample_job_env sample_environ sample_process) = Ok 0"
  by code_simp

theorem import_job_exit_status_witness:
  "\<exists>t. run sample_job_env sample_environ sample_process = (Ok 0, t) \<and>
     trace t = fine [CopyData, CopyConfig, ChangeFqdn] \<and> taken_over sample_job_env (rest_of (world t))"
proof -
  obtain t where run: "run sample_job_env sample_environ sample_process = (Ok 0, t)"
    using sample_job_runs by (metis prod.collapse)
  have "wants_fqdn sample_environ" by code_simp
  moreover have "trace sample_process = []" by (simp add: sample_process_def)
  ultimately show ?thesis
    using wpD [OF import_job_exit_status [OF sample_job_env_ok] run] run by (auto simp: fqdn_as_wanted_def)
qed

end
