(* ===== verification/Mail.thy ===== *)
theory Mail imports Config "HOL-Library.List_Lexorder" "HOL-Library.Char_ord" begin

text \<open>
  The mail that reports a migration (\<open>mail/\<close>): the message in its MIME form (\<open>mailer.go\<close>),
  the two ways of sending it over TLS (\<open>tlsSender.go\<close>) and the SMTP client behind them
  (\<open>smtpclient.go\<close>, \<open>smtpclientfactory.go\<close>). Encodings of the standard library that the
  message uses are written out; the network, the files, the clock, random bytes and the
  formatting of times are parameters.
\<close>

section \<open>Encodings\<close>

definition crlf :: string where
  "crlf = [CHR 13, CHR 10]"

text \<open>Base64 with padding, over bytes as numbers.\<close>

definition b64_alphabet :: string where
  "b64_alphabet = ''ABCDEFGHIJKLMNOPQRSTUVWXYZabcdefghijklmnopqrstuvwxyz0123456789+/''"

definition b64_char :: "nat \<Rightarrow> char" where
  "b64_char n = b64_alphabet ! n"

fun b64_bytes :: "nat list \<Rightarrow> string" where
  "b64_bytes [] = []"
| "b64_bytes [a] = [b64_char (a div 4), b64_char ((a mod 4) * 16), CHR ''='', CHR ''='']"
| "b64_bytes [a, b] = [b64_char (a div 4), b64_char ((a mod 4) * 16 + b div 16), b64_char ((b mod 16) * 4), CHR ''='']"
| "b64_bytes (a # b # c # bs) =
     [b64_char (a div 4), b64_char ((a mod 4) * 16 + b div 16), b64_char ((b mod 16) * 4 + c div 64), b64_char (c mod 64)] @
     b64_bytes bs"

definition base64_Encode :: "string \<Rightarrow> string" where
  "base64_Encode data = b64_bytes (map of_char data)"

definition EncodedLen :: "nat \<Rightarrow> nat" where
  "EncodedLen n = (n + 2) div 3 * 4"

text \<open>
  \<open>base64.StdEncoding.Encode(dst, src)\<close> writes into the buffer \<open>dst\<close>: \<open>None\<close> is the index panic of a
  buffer that is too short, and what lies behind the encoded text stays as it was.
\<close>

definition base64_Encode_into :: "string \<Rightarrow> string \<Rightarrow> string option" where
  "base64_Encode_into dst src = (let encoded = base64_Encode src in
     if length dst < length encoded then None else Some (encoded @ drop (length encoded) dst))"

text \<open>
  The writer of quoted-printable text: the finished output, the current line and whether the
  last byte was a carriage return.
\<close>

record qp_writer =
  qp_out :: string
  qp_line :: string
  qp_cr :: bool

definition upperhex :: "nat \<Rightarrow> char" where
  "upperhex n = ''0123456789ABCDEF'' ! n"

definition insertCRLF :: "qp_writer \<Rightarrow> qp_writer" where
  "insertCRLF w = w\<lparr>qp_out := qp_out w @ qp_line w @ crlf, qp_line := []\<rparr>"

definition insertSoftLineBreak :: "qp_writer \<Rightarrow> qp_writer" where
  "insertSoftLineBreak w = insertCRLF (w\<lparr>qp_line := qp_line w @ ''=''\<rparr>)"

definition qp_encode :: "char \<Rightarrow> qp_writer \<Rightarrow> qp_writer" where
  "qp_encode b w =
     (let w = (if 75 - length (qp_line w) < 3 then insertSoftLineBreak w else w); n = of_char b :: nat in
      w\<lparr>qp_line := qp_line w @ [CHR ''='', upperhex (n div 16), upperhex (n mod 16)]\<rparr>)"

definition checkLastByte :: "qp_writer \<Rightarrow> qp_writer" where
  "checkLastByte w =
     (if qp_line w \<noteq> [] \<and> last (qp_line w) \<in> {CHR '' '', CHR 9}
      then qp_encode (last (qp_line w)) (w\<lparr>qp_line := butlast (qp_line w)\<rparr>) else w)"

definition qp_write_byte :: "char \<Rightarrow> qp_writer \<Rightarrow> qp_writer" where
  "qp_write_byte b w =
     (if b = CHR 10 \<or> b = CHR 13 then
        if qp_cr w \<and> b = CHR 10 then w\<lparr>qp_cr := False\<rparr>
        else let w = insertCRLF (checkLastByte w) in if b = CHR 13 then w\<lparr>qp_cr := True\<rparr> else w
      else if (33 \<le> (of_char b :: nat) \<and> (of_char b :: nat) \<le> 126 \<and> b \<noteq> CHR ''='') \<or> b = CHR '' '' \<or> b = CHR 9 then
        let w = (if length (qp_line w) = 75 then insertSoftLineBreak w else w) in
        w\<lparr>qp_line := qp_line w @ [b], qp_cr := False\<rparr>
      else qp_encode b w)"

definition quoted_printable :: "string \<Rightarrow> string" where
  "quoted_printable s =
     (let w = checkLastByte (fold qp_write_byte s \<lparr>qp_out = [], qp_line = [], qp_cr = False\<rparr>) in qp_out w @ qp_line w)"

text \<open>
  The multipart writer: the start of a part with its headers in the order of their keys, and
  the closing line. The first part has no line break before its boundary.
\<close>

definition sorted_headers :: "(string \<times> string) list \<Rightarrow> string" where
  "sorted_headers hs = concat (map (\<lambda>k. k @ '': '' @ the (map_of hs k) @ crlf) (sort (map fst hs)))"

definition CreatePart :: "string \<Rightarrow> bool \<Rightarrow> (string \<times> string) list \<Rightarrow> string" where
  "CreatePart boundary first headers =
     (if first then [] else crlf) @ ''--'' @ boundary @ crlf @ sorted_headers headers @ crlf"

definition multipart_Close :: "string \<Rightarrow> string" where
  "multipart_Close boundary = crlf @ ''--'' @ boundary @ ''--'' @ crlf"

section \<open>The SMTP clients (\<open>smtpclient.go\<close>, \<open>smtpclientfactory.go\<close>)\<close>

record smtp_Auth =
  pa_username :: string
  pa_password :: string
  pa_host :: string

record tls_Config =
  tls_ServerName :: string
  tls_RootCAs :: "string list option"
  tls_InsecureSkipVerify :: bool

text \<open>
  The network and the files. A pool of certificates is the list of the PEM texts that were
  appended to it; \<open>AppendCertsFromPEM\<close> says whether a text holds a certificate. The
  connection that is open is part of the world.
\<close>

record 'w mail_api =
  tls_Dial :: "string \<Rightarrow> tls_Config \<Rightarrow> ('w, unit) go"
  smtp_NewClient :: "string \<Rightarrow> ('w, unit) go"
  smtp_Dial :: "string \<Rightarrow> ('w, unit) go"
  cl_Mail :: "string \<Rightarrow> ('w, unit) go"
  cl_Rcpt :: "string \<Rightarrow> ('w, unit) go"
  cl_Data :: "('w, unit) go"
  cl_Write :: "string \<Rightarrow> ('w, unit) go"
  cl_Close :: "('w, unit) go"
  cl_Quit :: "('w, unit) go"
  cl_Hello :: "string \<Rightarrow> ('w, unit) go"
  cl_Extension :: "string \<Rightarrow> 'w \<Rightarrow> bool"
  cl_StartTLS :: "tls_Config \<Rightarrow> ('w, unit) go"
  cl_Auth :: "smtp_Auth \<Rightarrow> ('w, unit) go"
  smtp_SendMail :: "string \<Rightarrow> smtp_Auth option \<Rightarrow> string \<Rightarrow> string list \<Rightarrow> string \<Rightarrow> ('w, unit) go"
  os_Hostname :: "'w \<Rightarrow> string"
  ml_ReadFile :: "string \<Rightarrow> ('w, string) go"
  systemCertPool :: "('w, string list) go"
  AppendCertsFromPEM :: "string \<Rightarrow> bool"
  ml_GlobalConfig :: "ctx \<Rightarrow> ('w, string \<Rightarrow> string option) go"
  random_boundary :: "'w \<Rightarrow> string"
  random_bytes :: "('w, string) go"
  utc_stamp :: "'w \<Rightarrow> string"
  rfc1123_now :: "'w \<Rightarrow> string"
  format_time :: "int \<Rightarrow> string"

datatype mail_call =
    Dial string | DialTLS string tls_Config
  | Hello string | StartTLS tls_Config | Auth smtp_Auth
  | MailFrom string | RcptTo string | Data | WriteMessage string | CloseMessage | Quit
  | SendMail string "smtp_Auth option" string "string list" string

type_synonym 'w mgo = "((mail_call, 'w) st, unit) go"

definition host_of :: "string \<Rightarrow> string" where
  "host_of addr = hd (split_on CHR '':'' addr)"

definition NewTLSClient :: "'w mail_api \<Rightarrow> string \<Rightarrow> tls_Config \<Rightarrow> ('w, unit) go" where
  "NewTLSClient api addr tlsConfig =
     andThen (tls_Dial api addr tlsConfig) (\<lambda>_. smtp_NewClient api (host_of addr))"

definition NewSMTPClient :: "'w mail_api \<Rightarrow> string \<Rightarrow> ('w, unit) go" where
  "NewSMTPClient api addr = smtp_Dial api addr"

section \<open>Sending over TLS (\<open>tlsSender.go\<close>)\<close>

definition createTLSConfig :: "'w mail_api \<Rightarrow> string \<Rightarrow> string \<Rightarrow> bool \<Rightarrow> ('w, tls_Config) go" where
  "createTLSConfig api customCAPath serverName insecureSkipVerify =
     handle (ml_ReadFile api customCAPath)
       (\<lambda>err. if is_err_not_exist err
          then ret \<lparr>tls_ServerName = serverName, tls_RootCAs = None, tls_InsecureSkipVerify = insecureSkipVerify\<rparr>
          else fail (errorf_w ''failed to read custom CA file'' err))
       (\<lambda>caCert. handle (systemCertPool api)
          (\<lambda>_. ret \<lparr>tls_ServerName = serverName,
             tls_RootCAs = Some (if AppendCertsFromPEM api caCert then [caCert] else []),
             tls_InsecureSkipVerify = insecureSkipVerify\<rparr>)
          (\<lambda>rootCAs. ret \<lparr>tls_ServerName = serverName,
             tls_RootCAs = Some (if AppendCertsFromPEM api caCert then rootCAs @ [caCert] else rootCAs),
             tls_InsecureSkipVerify = insecureSkipVerify\<rparr>))"

definition set_recipients :: "'w mail_api \<Rightarrow> string list \<Rightarrow> 'w mgo" where
  "set_recipients api t =
     for_each (\<lambda>rcpt. orWrap (''failed to set recipient '' @ rcpt) (extern (RcptTo rcpt) (cl_Rcpt api rcpt))) t"

definition prepareMail :: "'w mail_api \<Rightarrow> string \<Rightarrow> string list \<Rightarrow> string \<Rightarrow> 'w mgo" where
  "prepareMail api f t msg =
     andThen (orWrap ''failed to set sender'' (extern (MailFrom f) (cl_Mail api f))) (\<lambda>_.
     andThen (set_recipients api t) (\<lambda>_.
     andThen (orWrap ''failed to get writer from mail server'' (extern Data (cl_Data api))) (\<lambda>_.
     andThen (orWrap ''failed to write message'' (extern (WriteMessage msg) (cl_Write api msg))) (\<lambda>_.
     orWrap ''failed to close message writer'' (extern CloseMessage (cl_Close api))))))"

record tlsSender =
  ts_config :: Smtp
  ts_customCAPath :: string

definition sendMailWithTls ::
    "'w mail_api \<Rightarrow> tlsSender \<Rightarrow> string \<Rightarrow> smtp_Auth option \<Rightarrow> string \<Rightarrow> string list \<Rightarrow> string \<Rightarrow> 'w mgo" where
  "sendMailWithTls api ts addr a from to msg =
     andThen (orWrap ''failed to create TLS config''
       (quietly (createTLSConfig api (ts_customCAPath ts) (host_of addr) (smtp_SkipTLSVerify (ts_config ts))))) (\<lambda>tlsConfig.
     andThen (orWrap ''failed to create smtp tls client''
       (extern (DialTLS addr tlsConfig) (NewTLSClient api addr tlsConfig))) (\<lambda>_.
     deferring (extern Quit (cl_Quit api)) (prepareMail api from to msg)))"

text \<open>The parts of \<open>sendMailWithStartTLS\<close> from the greeting to the authentication.\<close>

definition greet :: "'w mail_api \<Rightarrow> 'w mgo" where
  "greet api = andThen get_state (\<lambda>s.
     orWrap ''failed to register conn'' (extern (Hello (os_Hostname api (world s))) (cl_Hello api (os_Hostname api (world s)))))"

definition init_tls :: "'w mail_api \<Rightarrow> tlsSender \<Rightarrow> string \<Rightarrow> 'w mgo" where
  "init_tls api ts serverName = andThen get_state (\<lambda>s.
     if \<not> cl_Extension api ''STARTTLS'' (world s) then fail (ErrorString ''SMTP server does not support STARTTLS'')
     else
       andThen (orWrap ''failed to create TLS config''
         (quietly (createTLSConfig api (ts_customCAPath ts) serverName (smtp_SkipTLSVerify (ts_config ts))))) (\<lambda>tlsConfig.
       orWrap ''failed to init starttls'' (extern (StartTLS tlsConfig) (cl_StartTLS api tlsConfig))))"

definition authenticate :: "'w mail_api \<Rightarrow> smtp_Auth option \<Rightarrow> 'w mgo" where
  "authenticate api a = (case a of
     None \<Rightarrow> ret ()
   | Some auth \<Rightarrow> andThen get_state (\<lambda>s.
       if cl_Extension api ''AUTH'' (world s)
       then orWrap ''failed to authenticate'' (extern (Auth auth) (cl_Auth api auth)) else ret ()))"

definition start_tls :: "'w mail_api \<Rightarrow> tlsSender \<Rightarrow> string \<Rightarrow> smtp_Auth option \<Rightarrow> 'w mgo" where
  "start_tls api ts serverName a =
     andThen (greet api) (\<lambda>_. andThen (init_tls api ts serverName) (\<lambda>_. authenticate api a))"

definition sendMailWithStartTLS ::
    "'w mail_api \<Rightarrow> tlsSender \<Rightarrow> string \<Rightarrow> smtp_Auth option \<Rightarrow> string \<Rightarrow> string list \<Rightarrow> string \<Rightarrow> 'w mgo" where
  "sendMailWithStartTLS api ts addr a from to msg =
     andThen (orWrap ''failed to create smtp client'' (extern (Dial addr) (NewSMTPClient api addr))) (\<lambda>_.
     deferring (extern Quit (cl_Quit api))
       (andThen (start_tls api ts (host_of addr) a) (\<lambda>_. prepareMail api from to msg)))"

section \<open>The mail (\<open>mailer.go\<close>)\<close>

definition stateMigrationSuccess :: string where "stateMigrationSuccess = ''erfolgreich''"
definition stateMigrationFailure :: string where "stateMigrationFailure = ''nicht erfolgreich''"
definition typeMigrationFinal :: string where "typeMigrationFinal = ''finale Migration''"
definition typeMigrationPartial :: string where "typeMigrationPartial = ''Delta-Migration''"
definition GLOBAL_CONFIG_FQDN_KEY :: string where "GLOBAL_CONFIG_FQDN_KEY = ''fqdn''"

definition mailSubject :: "string \<Rightarrow> string \<Rightarrow> string" where
  "mailSubject instanz result = ''Die Migration der Instanz '' @ instanz @ '' war '' @ result @ ''.''"

definition mailBody :: "string \<Rightarrow> string \<Rightarrow> string \<Rightarrow> string \<Rightarrow> string \<Rightarrow> string \<Rightarrow> string \<Rightarrow> string" where
  "mailBody migrationType source target result start end' errorMsg =
     ''Die '' @ migrationType @ '' von der Instanz '' @ source @ '' zu der Instanz '' @ target @ '' war '' @ result @ ''.'' @
     [CHR 10, CHR 10] @ ''Startzeitpunkt: '' @ start @ [CHR 10] @ ''Endzeitpunkt: '' @ end' @ [CHR 10, CHR 10] @ errorMsg @
     ''Alle weiteren Informationen finden Sie in der Log-Datei im Anhang.''"

definition errorMsgTemplate :: "string \<Rightarrow> string" where
  "errorMsgTemplate m = ''Die Fehlermeldung ist: '' @ m @ [CHR 10, CHR 10]"

datatype SenderService = ImplicitTLS tlsSender | StartTLSService tlsSender | PlainService

record Sender =
  sd_config :: Smtp
  sourceInstance :: string
  senderService :: SenderService
  attachments :: "string list"

text \<open>
  \<open>fmt.Sprintf\<close> with one string argument: it replaces the verb, and reports the argument
  as superfluous when there is none.
\<close>

fun subst_verb :: "string \<Rightarrow> string \<Rightarrow> string option" where
  "subst_verb (c # d # s) a = (if c = CHR ''%'' \<and> d = CHR ''s'' then Some (a @ s) else map_option ((#) c) (subst_verb (d # s) a))"
| "subst_verb s a = None"

definition Sprintf_s :: "string \<Rightarrow> string \<Rightarrow> string" where
  "Sprintf_s fmt a = (case subst_verb fmt a of Some r \<Rightarrow> r | None \<Rightarrow> fmt @ ''%!(EXTRA string='' @ a @ '')'')"

definition initialCAPath :: string where
  "initialCAPath = ''/etc/custom-certs/mail/%s''"

text \<open>
  \<open>customCAPath\<close> is a variable of the package that \<open>CreateSender\<close> assigns: it is the state
  here. The senders read it when they send; the program creates one sender, so that they
  hold the value of its creation.
\<close>

definition CreateSender :: "Smtp \<Rightarrow> string \<Rightarrow> string list \<Rightarrow> (string, Sender) go" where
  "CreateSender config source files = (\<lambda>customCAPath.
     let path = Sprintf_s customCAPath (smtp_TLSCertificateName config);
         ts = \<lparr>ts_config = config, ts_customCAPath = path\<rparr>;
         mode = TlsMode config;
         make = (\<lambda>service. (Ok \<lparr>sd_config = config, sourceInstance = source, senderService = service,
           attachments = files\<rparr>, path)) in
     if mode = TLSModeImplicit \<or> mode = ''true'' then make (ImplicitTLS ts)
     else if mode = TLSModeStartTLS then make (StartTLSService ts)
     else if mode = TLSModeNone \<or> mode = ''false'' \<or> mode = [] then make PlainService
     else (Err (ErrorString (''invalid tlsMode(implicit, starttls, none): '' @ mode)), customCAPath))"

definition run_service ::
    "'w mail_api \<Rightarrow> SenderService \<Rightarrow> string \<Rightarrow> smtp_Auth option \<Rightarrow> string \<Rightarrow> string list \<Rightarrow> string \<Rightarrow> 'w mgo" where
  "run_service api service addr a from to msg = (case service of
     ImplicitTLS ts \<Rightarrow> sendMailWithTls api ts addr a from to msg
   | StartTLSService ts \<Rightarrow> sendMailWithStartTLS api ts addr a from to msg
   | PlainService \<Rightarrow> extern (SendMail addr a from to msg) (smtp_SendMail api addr a from to msg))"

definition auth :: "Sender \<Rightarrow> smtp_Auth option" where
  "auth s = (if Username (sd_config s) \<noteq> [] \<and> Password (sd_config s) \<noteq> []
     then Some \<lparr>pa_username = Username (sd_config s), pa_password = Password (sd_config s), pa_host = smtp_Server (sd_config s)\<rparr>
     else None)"

definition server :: "Sender \<Rightarrow> string" where
  "server s = smtp_Server (sd_config s) @ '':'' @ show_nat (unat (smtp_Port (sd_config s)))"

definition buildSubject :: "bool \<Rightarrow> string \<Rightarrow> string" where
  "buildSubject success source =
     (let result = (if \<not> success then stateMigrationFailure else stateMigrationSuccess) in mailSubject source result)"

definition getTargetInstance :: "'w mail_api \<Rightarrow> ctx \<Rightarrow> ((mail_call, 'w) st, string) go" where
  "getTargetInstance api ctx =
     andThen (orWrap ''failed to get global config'' (quietly (ml_GlobalConfig api ctx))) (\<lambda>cfg.
     case cfg GLOBAL_CONFIG_FQDN_KEY of
       None \<Rightarrow> fail (ErrorString (''global config does not contain key '' @ GLOBAL_CONFIG_FQDN_KEY))
     | Some fqdn \<Rightarrow> ret fqdn)"

definition formatAsUrl :: "string \<Rightarrow> string" where
  "formatAsUrl instanz = ''https://'' @ instanz"

definition hex_of :: "string \<Rightarrow> string" where
  "hex_of s = concat (map (\<lambda>c. let n = of_char c :: nat in [''0123456789abcdef'' ! (n div 16), ''0123456789abcdef'' ! (n mod 16)]) s)"

definition buildMessageId :: "'w mail_api \<Rightarrow> string \<Rightarrow> ((mail_call, 'w) st, string) go" where
  "buildMessageId api fqdn =
     andThen (handle (quietly (random_bytes api)) (\<lambda>_. ret (replicate 16 (CHR 0x00))) ret) (\<lambda>b.
     andThen get_state (\<lambda>s.
     ret (''<'' @ utc_stamp api (world s) @ ''.'' @ hex_of b @ ''@'' @ fqdn @ ''>'')))"

definition bodyText :: "'w mail_api \<Rightarrow> Sender \<Rightarrow> string \<Rightarrow> err option \<Rightarrow> int \<Rightarrow> int \<Rightarrow> bool \<Rightarrow> string" where
  "bodyText api s targetInstance migrationResult start end' isFinal =
     mailBody (if isFinal then typeMigrationFinal else typeMigrationPartial)
       (formatAsUrl (sourceInstance s)) (formatAsUrl targetInstance)
       (case migrationResult of None \<Rightarrow> stateMigrationSuccess | Some _ \<Rightarrow> stateMigrationFailure)
       (format_time api start) (format_time api end')
       (case migrationResult of None \<Rightarrow> [] | Some e \<Rightarrow> errorMsgTemplate (err_msg e))"

text \<open>Writing to the buffer of the message does not fail; the part is returned here.\<close>

definition writeBodyText ::
    "'w mail_api \<Rightarrow> Sender \<Rightarrow> ctx \<Rightarrow> string \<Rightarrow> err option \<Rightarrow> int \<Rightarrow> int \<Rightarrow> bool \<Rightarrow> ((mail_call, 'w) st, string) go" where
  "writeBodyText api s ctx boundary migrationResult start end' isFinal =
     andThen (orWrap ''failed to get target instance'' (getTargetInstance api ctx)) (\<lambda>targetInstance.
     ret (CreatePart boundary True
         [(''Content-Type'', ''text/plain; charset=utf-8''), (''Content-Transfer-Encoding'', ''quoted-printable'')] @
       quoted_printable (bodyText api s targetInstance migrationResult start end' isFinal)))"

definition attachment_headers :: "string \<Rightarrow> (string \<times> string) list" where
  "attachment_headers filename =
     [(''Content-Type'', ''application/octet-stream''),
      (''Content-Disposition'', ''attachment; filename='' @ [CHR 34] @ path_base filename @ [CHR 34]),
      (''Content-Transfer-Encoding'', ''base64'')]"

definition writeAttachment :: "'w mail_api \<Rightarrow> string \<Rightarrow> string \<Rightarrow> ((mail_call, 'w) st, string) go" where
  "writeAttachment api boundary filename =
     andThen (orWrap ''failed to read file for attachment'' (quietly (ml_ReadFile api filename))) (\<lambda>fileData.
     let attachmentPart = CreatePart boundary False (attachment_headers filename);
         b = replicate (EncodedLen (length fileData)) (CHR 0x00) in
     case base64_Encode_into b fileData of
       None \<Rightarrow> panic ''index out of range''
     | Some b \<Rightarrow> ret (attachmentPart @ b))"

definition mail_headers :: "'w mail_api \<Rightarrow> Sender \<Rightarrow> bool \<Rightarrow> string \<Rightarrow> string \<Rightarrow> string \<Rightarrow> (string \<times> string) list" where
  "mail_headers api s migrationSuccessful boundary messageId date =
     [(''From'', From (sd_config s)),
      (''To'', join_with '', '' (To (sd_config s))),
      (''Subject'', buildSubject migrationSuccessful (sourceInstance s)),
      (''MIME-Version'', ''1.0''),
      (''Content-Type'', ''multipart/mixed; boundary='' @ boundary),
      (''Message-ID'', messageId),
      (''Date'', date)]"

text \<open>\<open>Send\<close> up to the call of the service: the bytes of the message.\<close>

definition compose ::
    "'w mail_api \<Rightarrow> Sender \<Rightarrow> ctx \<Rightarrow> bool \<Rightarrow> err option \<Rightarrow> int \<Rightarrow> int \<Rightarrow> ((mail_call, 'w) st, string) go" where
  "compose api s ctx isFinal migrationResult start end' =
     andThen (orWrap ''failed to get target instance'' (getTargetInstance api ctx)) (\<lambda>targetInstance.
     andThen get_state (\<lambda>t. let boundary = random_boundary api (world t) in
     andThen (buildMessageId api targetInstance) (\<lambda>messageId.
     andThen get_state (\<lambda>t.
     let header = sorted_headers (mail_headers api s (migrationResult = None) boundary messageId (rfc1123_now api (world t))) in
     andThen (orWrap ''failed to write body text''
       (writeBodyText api s ctx boundary migrationResult start end' isFinal)) (\<lambda>part.
     andThen (for_acc (\<lambda>file body.
         handle (writeAttachment api boundary file) (\<lambda>_. ret body) (\<lambda>part. ret (body @ part)))
       (attachments s) (header @ crlf @ part)) (\<lambda>body.
     ret (body @ multipart_Close boundary)))))))"

definition Send ::
    "'w mail_api \<Rightarrow> Sender \<Rightarrow> ctx \<Rightarrow> bool \<Rightarrow> err option \<Rightarrow> int \<Rightarrow> int \<Rightarrow> 'w mgo" where
  "Send api s ctx isFinal migrationResult start end' =
     (if \<not> Enabled (sd_config s) then ret ()
      else if smtp_Server (sd_config s) = [] \<or> smtp_Port (sd_config s) = 0 then ret ()
      else
      andThen (compose api s ctx isFinal migrationResult start end') (\<lambda>msg.
      run_service api (senderService s) (server s) (auth s) (From (sd_config s)) (To (sd_config s)) msg))"

section \<open>What a service does with a message\<close>

text \<open>The commands that deliver a message, in their order.\<close>

definition delivery :: "string \<Rightarrow> string list \<Rightarrow> string \<Rightarrow> mail_call list" where
  "delivery from to msg = MailFrom from # map RcptTo to @ [Data, WriteMessage msg, CloseMessage]"

text \<open>
  Nothing of the mail and no credentials before the connection is encrypted: in a list of
  calls, none of them comes before a TLS handshake that succeeded.
\<close>

definition confidential :: "mail_call \<Rightarrow> bool" where
  "confidential c = (case c of Auth _ \<Rightarrow> True | MailFrom _ \<Rightarrow> True | RcptTo _ \<Rightarrow> True | Data \<Rightarrow> True
     | WriteMessage _ \<Rightarrow> True | CloseMessage \<Rightarrow> True | SendMail _ _ _ _ _ \<Rightarrow> True | _ \<Rightarrow> False)"

definition handshake :: "mail_call \<times> ending \<Rightarrow> bool" where
  "handshake x = (case x of (DialTLS _ _, Fine) \<Rightarrow> True | (StartTLS _, Fine) \<Rightarrow> True | _ \<Rightarrow> False)"

definition secret_until_encrypted :: "(mail_call \<times> ending) list \<Rightarrow> bool" where
  "secret_until_encrypted es \<longleftrightarrow> list_all (\<lambda>(c, e). \<not> confidential c) (takeWhile (\<lambda>x. \<not> handshake x) es)"

lemma secret_append:
  "list_all (\<lambda>(c, e). \<not> confidential c) es \<Longrightarrow> secret_until_encrypted fs \<Longrightarrow> secret_until_encrypted (es @ fs)"
  by (induction es) (auto simp: secret_until_encrypted_def)

lemma secret_after: "list_all (\<lambda>(c, e). \<not> confidential c) es \<Longrightarrow> handshake x \<Longrightarrow> secret_until_encrypted (es @ x # fs)"
  by (induction es) (auto simp: secret_until_encrypted_def)

lemma secret_snoc: "secret_until_encrypted es \<Longrightarrow> \<not> confidential c \<Longrightarrow> secret_until_encrypted (es @ [(c, e)])"
  by (induction es) (auto simp: secret_until_encrypted_def)

lemma call_kinds [simp]:
  "\<not> confidential (Dial a)" "\<not> confidential (DialTLS a cfg)" "\<not> confidential (Hello h)" "\<not> confidential (StartTLS cfg)"
  "\<not> confidential Quit" "handshake (DialTLS a cfg, Fine)" "handshake (StartTLS cfg, Fine)"
  "\<not> handshake (Dial a, e)" "\<not> handshake (Hello h, e)" "\<not> handshake (Quit, e)"
  "\<not> handshake (DialTLS a cfg, Failed x)" "\<not> handshake (DialTLS a cfg, Panicked q)"
  "\<not> handshake (StartTLS cfg, Failed x)" "\<not> handshake (StartTLS cfg, Panicked q)"
  by (simp_all add: confidential_def handshake_def)

lemma secret_simps [simp]:
  "secret_until_encrypted []"
  "handshake x \<Longrightarrow> secret_until_encrypted (x # es)"
  "\<not> handshake (c, e) \<Longrightarrow> secret_until_encrypted ((c, e) # es) \<longleftrightarrow> \<not> confidential c \<and> secret_until_encrypted es"
  by (simp_all add: secret_until_encrypted_def)

lemma secret_single [simp]: "\<not> confidential c \<Longrightarrow> secret_until_encrypted [(c, e)]"
  by (simp add: secret_until_encrypted_def)

lemma for_each_calls:
  "wp (for_each (\<lambda>x. orWrap (p x) (extern (c x) (m x))) xs) (\<lambda>r t. \<exists>es. trace t = trace s @ es \<and>
     set (map fst es) \<subseteq> c ` set xs \<and> (case r of Ok _ \<Rightarrow> es = fine (map c xs) | _ \<Rightarrow> True)) s"
proof (induction xs arbitrary: s)
  case (Cons x xs)
  obtain r w where m: "m x (world s) = (r, w)" by fastforce
  let ?s = "s\<lparr>trace := trace s @ [(c x, ending_of r)], world := w\<rparr>"
  show ?case
  proof (cases r)
    case (Ok a)
    have "wp (for_each (\<lambda>x. orWrap (p x) (extern (c x) (m x))) xs) (\<lambda>r t. \<exists>es. trace t = trace s @ es \<and>
        set (map fst es) \<subseteq> c ` set (x # xs) \<and> (case r of Ok _ \<Rightarrow> es = fine (map c (x # xs)) | _ \<Rightarrow> True)) ?s"
    proof (rule wp_mono [OF Cons.IH])
      fix r t assume "\<exists>es. trace t = trace ?s @ es \<and> set (map fst es) \<subseteq> c ` set xs \<and>
          (case r of Ok _ \<Rightarrow> es = fine (map c xs) | _ \<Rightarrow> True)"
      then obtain es where "trace t = trace ?s @ es" "set (map fst es) \<subseteq> c ` set xs"
          "case r of Ok _ \<Rightarrow> es = fine (map c xs) | _ \<Rightarrow> True" by blast
      with Ok show "\<exists>es. trace t = trace s @ es \<and> set (map fst es) \<subseteq> c ` set (x # xs) \<and>
          (case r of Ok _ \<Rightarrow> es = fine (map c (x # xs)) | _ \<Rightarrow> True)"
        by (intro exI [of _ "(c x, Fine) # es"]) (auto split: result.splits)
    qed
    with Ok show ?thesis by (simp add: wp_eq [where m = "m x", OF m])
  qed (simp_all add: wp_eq [where m = "m x", OF m])
qed simp

lemma prepareMail_delivers:
  "wp (prepareMail api f to msg) (\<lambda>r t. \<exists>es. trace t = trace s @ es \<and>
     (case r of Ok _ \<Rightarrow> es = fine (delivery f to msg) | _ \<Rightarrow> True)) s"
proof -
  obtain r w where m: "cl_Mail api f (world s) = (r, w)" by fastforce
  note M = wp_eq [where m = "cl_Mail api f", OF m]
  let ?s = "s\<lparr>trace := trace s @ [(MailFrom f, ending_of r)], world := w\<rparr>"
  show ?thesis
  proof (cases r)
    case (Ok a)
    let ?rcpts = "set_recipients api to"
    obtain q u where n: "?rcpts ?s = (q, u)" by fastforce
    obtain es where es: "trace u = trace ?s @ es" "case q of Ok _ \<Rightarrow> es = fine (map RcptTo to) | _ \<Rightarrow> True"
      using wpD [OF for_each_calls n [unfolded set_recipients_def]] by blast
    show ?thesis
    proof (cases q)
      case q: (Ok b)
      obtain q1 w1 where d: "cl_Data api (world u) = (q1, w1)" by fastforce
      obtain q2 w2 where e: "cl_Write api msg w1 = (q2, w2)" by fastforce
      obtain q3 w3 where g: "cl_Close api w2 = (q3, w3)" by fastforce
      show ?thesis
        using Ok q es
        by (cases q1; cases q2; cases q3)
          (auto simp: prepareMail_def M delivery_def wp_eq [where m = "?rcpts", OF n [unfolded Ok ending_of_simps]]
            wp_eq [where m = "cl_Data api", OF d] wp_eq [where m = "cl_Write api msg", OF e] wp_eq [where m = "cl_Close api", OF g])
    qed (use Ok es in \<open>simp_all add: prepareMail_def M wp_eq [where m = "?rcpts", OF n [unfolded Ok ending_of_simps]]\<close>)
  qed (simp_all add: prepareMail_def M)
qed

text \<open>
  The contract of a service that sends over TLS: nothing confidential leaves before the
  handshake, and without an error the message was delivered by the commands above.
\<close>

locale tls_service =
  fixes service :: "'w mail_api \<Rightarrow> tlsSender \<Rightarrow> string \<Rightarrow> smtp_Auth option \<Rightarrow> string \<Rightarrow> string list \<Rightarrow> string \<Rightarrow> 'w mgo"
  assumes service: "wp (service api ts addr a from to msg) (\<lambda>r t. \<exists>es. trace t = trace s @ es \<and> secret_until_encrypted es \<and>
      (case r of Ok _ \<Rightarrow> \<exists>pre e. es = pre @ fine (delivery from to msg) @ [(Quit, e)] | _ \<Rightarrow> True)) s"
begin

text \<open>Behind a computation of the message that makes no recorded call, nothing changes.\<close>

lemma after_quiet:
  assumes "wp m (\<lambda>r t. trace t = trace s \<and> (case r of Ok msg \<Rightarrow> P msg | _ \<Rightarrow> True)) s"
  shows "wp (andThen m (\<lambda>msg. service api ts addr a from to msg)) (\<lambda>r t. \<exists>es. trace t = trace s @ es \<and> secret_until_encrypted es \<and>
      (case r of Ok _ \<Rightarrow> \<exists>msg pre e. P msg \<and> es = pre @ fine (delivery from to msg) @ [(Quit, e)] | _ \<Rightarrow> True)) s"
proof -
  obtain r u where m: "m s = (r, u)" by fastforce
  with assms have u: "trace u = trace s" "case r of Ok msg \<Rightarrow> P msg | _ \<Rightarrow> True" by (auto simp: wp_def)
  show ?thesis
  proof (cases r)
    case (Ok msg)
    have "wp (service api ts addr a from to msg) (\<lambda>r t. \<exists>es. trace t = trace s @ es \<and> secret_until_encrypted es \<and>
        (case r of Ok _ \<Rightarrow> \<exists>msg pre e. P msg \<and> es = pre @ fine (delivery from to msg) @ [(Quit, e)] | _ \<Rightarrow> True)) u"
    proof (rule wp_mono [OF service])
      fix r t
      assume "\<exists>es. trace t = trace u @ es \<and> secret_until_encrypted es \<and>
        (case r of Ok _ \<Rightarrow> \<exists>pre e. es = pre @ fine (delivery from to msg) @ [(Quit, e)] | _ \<Rightarrow> True)"
      then obtain es where es: "trace t = trace u @ es" "secret_until_encrypted es"
        "case r of Ok _ \<Rightarrow> \<exists>pre e. es = pre @ fine (delivery from to msg) @ [(Quit, e)] | _ \<Rightarrow> True" by blast
      show "\<exists>es. trace t = trace s @ es \<and> secret_until_encrypted es \<and>
        (case r of Ok _ \<Rightarrow> \<exists>msg pre e. P msg \<and> es = pre @ fine (delivery from to msg) @ [(Quit, e)] | _ \<Rightarrow> True)"
        using es u Ok by (intro exI [of _ es]) (cases r; auto)
    qed
    with m Ok show ?thesis by (simp add: wp_eq [where m = m, OF m])
  qed (use u in \<open>simp_all add: wp_eq [where m = m, OF m]\<close>)
qed

end

lemma greet_calls: "greet api s = (r, t) \<Longrightarrow> \<exists>h e. trace t = trace s @ [(Hello h, e)] \<and> (e = Fine \<longleftrightarrow> (\<exists>x. r = Ok x))"
  by (auto simp: greet_def go_defs split: result.splits prod.splits)

lemma init_tls_calls:
  assumes "init_tls api ts name s = (r, t)"
  shows "(\<forall>x. r \<noteq> Ok x) \<and> trace t = trace s \<or> (\<exists>cfg e. trace t = trace s @ [(StartTLS cfg, e)] \<and> (e = Fine \<longleftrightarrow> (\<exists>x. r = Ok x)))"
  using assms by (auto simp: init_tls_def go_defs split: result.splits prod.splits if_splits)

lemma authenticate_calls: "authenticate api a s = (r, t) \<Longrightarrow> \<exists>es. trace t = trace s @ es"
  by (cases a) (auto simp: authenticate_def go_defs split: result.splits prod.splits if_splits)

lemma start_tls_first:
  assumes run: "start_tls api ts name a s = (r, t)"
  shows "\<exists>es. trace t = trace s @ es \<and> secret_until_encrypted es \<and>
     (case r of Ok _ \<Rightarrow> \<exists>h cfg fs. es = (Hello h, Fine) # (StartTLS cfg, Fine) # fs | _ \<Rightarrow> True)"
proof -
  obtain q u where g: "greet api s = (q, u)" by fastforce
  from greet_calls [OF g] obtain h e where h: "trace u = trace s @ [(Hello h, e)]" "e = Fine \<longleftrightarrow> (\<exists>x. q = Ok x)" by blast
  show ?thesis
  proof (cases q)
    case q: (Ok x)
    obtain q' v where i: "init_tls api ts name u = (q', v)" by fastforce
    show ?thesis
    proof (cases q')
      case q': (Ok y)
      from init_tls_calls [OF i] q' obtain cfg where cfg: "trace v = trace u @ [(StartTLS cfg, Fine)]" by auto
      have "authenticate api a v = (r, t)" using run g q i q' by (simp add: start_tls_def andThen_def handle_def)
      from authenticate_calls [OF this] h cfg q show ?thesis by (auto split: result.splits)
    next
      case (Err e)
      then have "trace t = trace v \<and> r = Err e" using run g q i by (simp add: start_tls_def andThen_def handle_def fail_def)
      with init_tls_calls [OF i] h q Err show ?thesis by auto
    next
      case (Panic e)
      then have "trace t = trace v \<and> r = Panic e" using run g q i by (simp add: start_tls_def andThen_def handle_def)
      with init_tls_calls [OF i] h q Panic show ?thesis by auto
    qed
  qed (use run g h in \<open>auto simp: start_tls_def andThen_def handle_def fail_def\<close>)
qed

interpretation implicit: tls_service sendMailWithTls
proof
  fix api :: "'w mail_api" and ts :: tlsSender and addr a fr rcpts msg and s :: "(mail_call, 'w) st"
  let ?cfg = "createTLSConfig api (ts_customCAPath ts) (host_of addr) (smtp_SkipTLSVerify (ts_config ts))"
  obtain r w where c: "?cfg (world s) = (r, w)" by fastforce
  note C = wp_eq [where m = "?cfg", OF c]
  show "wp (sendMailWithTls api ts addr a fr rcpts msg) (\<lambda>r t. \<exists>es. trace t = trace s @ es \<and> secret_until_encrypted es \<and>
      (case r of Ok _ \<Rightarrow> \<exists>pre e. es = pre @ fine (delivery fr rcpts msg) @ [(Quit, e)] | _ \<Rightarrow> True)) s"
  proof (cases r)
    case r: (Ok cfg)
    obtain r1 w1 where d: "NewTLSClient api addr cfg w = (r1, w1)" by fastforce
    note D = wp_eq [where m = "NewTLSClient api addr cfg", OF d]
    let ?s = "s\<lparr>trace := trace s @ [(DialTLS addr cfg, ending_of r1)], world := w1\<rparr>"
    show ?thesis
    proof (cases r1)
      case r1: (Ok x)
      obtain q u where p: "prepareMail api fr rcpts msg ?s = (q, u)" by fastforce
      obtain es where es: "trace u = trace ?s @ es" "case q of Ok _ \<Rightarrow> es = fine (delivery fr rcpts msg) | _ \<Rightarrow> True"
        using wpD [OF prepareMail_delivers p] by blast
      obtain q' v where quit: "cl_Quit api (world u) = (q', v)" by fastforce
      show ?thesis
        using es r1
        by (cases q'; cases q) (auto simp: sendMailWithTls_def C r D wp_eq [where m = "cl_Quit api", OF quit]
            wp_eq [where m = "prepareMail api fr rcpts msg", OF p [unfolded r1 ending_of_simps]])
    qed (simp_all add: sendMailWithTls_def C r D)
  qed (simp_all add: sendMailWithTls_def C)
qed

interpretation starttls: tls_service sendMailWithStartTLS
proof
  fix api :: "'w mail_api" and ts :: tlsSender and addr a fr rcpts msg and s :: "(mail_call, 'w) st"
  obtain r1 w1 where d: "NewSMTPClient api addr (world s) = (r1, w1)" by fastforce
  note D = wp_eq [where m = "NewSMTPClient api addr", OF d]
  let ?s = "s\<lparr>trace := trace s @ [(Dial addr, ending_of r1)], world := w1\<rparr>"
  show "wp (sendMailWithStartTLS api ts addr a fr rcpts msg) (\<lambda>r t. \<exists>es. trace t = trace s @ es \<and> secret_until_encrypted es \<and>
      (case r of Ok _ \<Rightarrow> \<exists>pre e. es = pre @ fine (delivery fr rcpts msg) @ [(Quit, e)] | _ \<Rightarrow> True)) s"
  proof (cases r1)
    case r1: (Ok x)
    obtain q u where t: "start_tls api ts (host_of addr) a ?s = (q, u)" by fastforce
    note T = wp_eq [where m = "start_tls api ts (host_of addr) a", OF t [unfolded r1 ending_of_simps]]
    obtain es where es: "trace u = trace ?s @ es" "secret_until_encrypted es"
        "case q of Ok _ \<Rightarrow> \<exists>h cfg fs. es = (Hello h, Fine) # (StartTLS cfg, Fine) # fs | _ \<Rightarrow> True"
      using start_tls_first [OF t] by blast
    show ?thesis
    proof (cases q)
      case q: (Ok y)
      obtain q1 v where p: "prepareMail api fr rcpts msg u = (q1, v)" by fastforce
      obtain fs where fs: "trace v = trace u @ fs" "case q1 of Ok _ \<Rightarrow> fs = fine (delivery fr rcpts msg) | _ \<Rightarrow> True"
        using wpD [OF prepareMail_delivers p] by blast
      obtain q' v' where quit: "cl_Quit api (world v) = (q', v')" by fastforce
      show ?thesis
        using es fs q r1
        by (cases q'; cases q1) (auto simp: sendMailWithStartTLS_def D T wp_eq [where m = "cl_Quit api", OF quit]
            wp_eq [where m = "prepareMail api fr rcpts msg", OF p])
    next
      case (Err e)
      obtain q' v' where quit: "cl_Quit api (world u) = (q', v')" by fastforce
      have "secret_until_encrypted ((Dial addr, Fine) # es @ [(Quit, x)])" for x
        using es(2) by (simp add: secret_snoc)
      with es r1 Err show ?thesis
        by (cases q') (auto simp: sendMailWithStartTLS_def D T wp_eq [where m = "cl_Quit api", OF quit])
    next
      case (Panic e)
      obtain q' v' where quit: "cl_Quit api (world u) = (q', v')" by fastforce
      have "secret_until_encrypted ((Dial addr, Fine) # es @ [(Quit, x)])" for x
        using es(2) by (simp add: secret_snoc)
      with es r1 Panic show ?thesis
        by (cases q') (auto simp: sendMailWithStartTLS_def D T wp_eq [where m = "cl_Quit api", OF quit])
    qed
  qed (simp_all add: sendMailWithStartTLS_def D)
qed

section \<open>The message\<close>

text \<open>The computation of the message makes no recorded call.\<close>

definition quiet :: "((mail_call, 'w) st, 'a) go \<Rightarrow> bool" where
  "quiet m \<longleftrightarrow> (\<forall>s r t. m s = (r, t) \<longrightarrow> trace t = trace s)"

lemma quietD: "quiet m \<Longrightarrow> m s = (r, t) \<Longrightarrow> trace t = trace s"
  by (simp add: quiet_def)

lemma quiet_simple [intro!]:
    "quiet (ret a)" "quiet (fail e)" "quiet (panic p)" "quiet get_state" "quiet (quietly m)"
  by (auto simp: quiet_def ret_def fail_def panic_def get_state_def quietly_def split: prod.splits)

lemma quiet_handle [intro!]: "quiet m \<Longrightarrow> (\<And>e. quiet (h e)) \<Longrightarrow> (\<And>a. quiet (k a)) \<Longrightarrow> quiet (handle m h k)"
  unfolding quiet_def by (auto simp: handle_def split: prod.splits result.splits)

lemma quiet_derived [intro!]: "quiet m \<Longrightarrow> (\<And>a. quiet (k a)) \<Longrightarrow> quiet (andThen m k)" "quiet m \<Longrightarrow> quiet (orWrap p m)"
  by (auto simp: andThen_def orWrap_def)

lemma quiet_for_acc [intro!]: "(\<And>x a. quiet (f x a)) \<Longrightarrow> quiet (for_acc f xs a)"
  by (induction xs arbitrary: a) auto

lemma quiet_getTargetInstance [intro!]: "quiet (getTargetInstance api ctx)"
  unfolding getTargetInstance_def by (rule quiet_derived) (auto split: option.splits)

lemma quiet_compose: "quiet (compose api s ctx isFinal res start end')"
  by (auto simp: compose_def buildMessageId_def writeBodyText_def writeAttachment_def Let_def split: option.splits)

text \<open>A message that has a header line.\<close>

definition has_header :: "string \<Rightarrow> string \<Rightarrow> string \<Rightarrow> bool" where
  "has_header msg key v \<longleftrightarrow> (\<exists>pre post. msg = pre @ (key @ '': '' @ v @ crlf) @ post)"

lemma has_header_append: "has_header msg k v \<Longrightarrow> has_header (msg @ rest) k v"
  unfolding has_header_def by (metis append_assoc)

lemma sorted_headers_has:
  assumes "map_of hs k = Some v"
  shows "has_header (sorted_headers hs) k v"
proof -
  have "k \<in> set (sort (map fst hs))"
    using assms by (force dest: map_of_SomeD)
  then obtain ks ls where "sort (map fst hs) = ks @ k # ls" by (meson split_list)
  with assms show ?thesis
    unfolding sorted_headers_def has_header_def by (simp del: append_assoc) (metis append_assoc)
qed

lemma attachments_extend:
  "for_acc (\<lambda>file body. handle (writeAttachment api b file) (\<lambda>_. ret body) (\<lambda>part. ret (body @ part))) files body s = (Ok body', t) \<Longrightarrow>
     \<exists>rest. body' = body @ rest"
proof (induction files arbitrary: body s)
  case (Cons f fs)
  obtain r u where w: "writeAttachment api b f s = (r, u)" by fastforce
  with Cons.prems obtain body1 where b: "\<exists>rest. body1 = body @ rest"
      "for_acc (\<lambda>file body. handle (writeAttachment api b file) (\<lambda>_. ret body) (\<lambda>part. ret (body @ part))) fs body1 u = (Ok body', t)"
    by (cases r) (auto simp: andThen_def handle_def ret_def)
  from Cons.IH [OF b(2)] b(1) show ?case by auto
qed (simp add: ret_def)

lemma compose_subject:
  assumes "compose api s ctx isFinal res start end' st = (Ok msg, t)"
  shows "has_header msg ''Subject'' (buildSubject (res = None) (sourceInstance s))"
proof -
  from assms obtain boundary messageId date part body u v where
    body: "for_acc (\<lambda>file body. handle (writeAttachment api boundary file) (\<lambda>_. ret body) (\<lambda>part. ret (body @ part)))
      (attachments s) (sorted_headers (mail_headers api s (res = None) boundary messageId date) @ crlf @ part) u = (Ok body, v)"
    and msg: "msg = body @ multipart_Close boundary"
    unfolding compose_def Let_def andThen_Ok_iff ret_Ok_iff by blast
  from attachments_extend [OF body] obtain rest where
    "msg = sorted_headers (mail_headers api s (res = None) boundary messageId date) @ (crlf @ part @ rest @ multipart_Close boundary)"
    using msg by auto
  moreover have "map_of (mail_headers api s (res = None) boundary messageId date) ''Subject'' = Some (buildSubject (res = None) (sourceInstance s))"
    by (simp add: mail_headers_def)
  ultimately show ?thesis using has_header_append [OF sorted_headers_has] by simp
qed

section \<open>Properties\<close>

definition sends :: "Sender \<Rightarrow> bool" where
  "sends s \<longleftrightarrow> Enabled (sd_config s) \<and> smtp_Server (sd_config s) \<noteq> [] \<and> smtp_Port (sd_config s) \<noteq> 0"

definition uses_tls :: "Sender \<Rightarrow> bool" where
  "uses_tls s \<longleftrightarrow> (case senderService s of PlainService \<Rightarrow> False | _ \<Rightarrow> True)"

text \<open>
  C36: with a sender that uses TLS, no credentials and no part of the mail leave before a TLS
  handshake that succeeded, however the run goes. When \<open>Send\<close> returns nil, either the
  configuration turns mails off and nothing happened, or one message was delivered to all
  recipients, as the last commands before the connection was closed, whose subject says
  that the migration succeeded exactly when the result given was nil.
\<close>

theorem Send_delivers_over_tls:
  assumes "uses_tls s"
  shows "wp (Send api s ctx isFinal res start end') (\<lambda>r t. \<exists>es. trace t = trace st @ es \<and> secret_until_encrypted es \<and>
     (case r of Ok _ \<Rightarrow>
        if sends s then \<exists>msg pre e. has_header msg ''Subject'' (buildSubject (res = None) (sourceInstance s)) \<and>
          es = pre @ fine (delivery (From (sd_config s)) (To (sd_config s)) msg) @ [(Quit, e)]
        else es = []
      | _ \<Rightarrow> True)) st"
proof (cases "sends s")
  case True
  then have send: "Send api s ctx isFinal res start end' = andThen (compose api s ctx isFinal res start end') (\<lambda>msg.
      run_service api (senderService s) (server s) (auth s) (From (sd_config s)) (To (sd_config s)) msg)"
    by (simp add: Send_def sends_def)
  have msg: "wp (compose api s ctx isFinal res start end') (\<lambda>r t. trace t = trace st \<and>
      (case r of Ok msg \<Rightarrow> has_header msg ''Subject'' (buildSubject (res = None) (sourceInstance s)) | _ \<Rightarrow> True)) st"
    by (rule wpI) (auto dest: quietD [OF quiet_compose] compose_subject split: result.splits)
  show ?thesis
  proof (cases "senderService s")
    case (ImplicitTLS ts)
    then show ?thesis
      using implicit.after_quiet [OF msg, of api ts "server s" "auth s" "From (sd_config s)" "To (sd_config s)"] True
      by (simp only: send run_service_def SenderService.case if_True)
  next
    case (StartTLSService ts)
    then show ?thesis
      using starttls.after_quiet [OF msg, of api ts "server s" "auth s" "From (sd_config s)" "To (sd_config s)"] True
      by (simp only: send run_service_def SenderService.case if_True)
  next
    case PlainService
    with assms show ?thesis by (simp add: uses_tls_def)
  qed
next
  case False
  then show ?thesis by (auto simp: Send_def sends_def)
qed

text \<open>The credentials are not used at all with implicit TLS: the service ignores them.\<close>

lemma implicit_tls_ignores_credentials:
  "sendMailWithTls api ts addr a f rcpts msg = sendMailWithTls api ts addr b f rcpts msg"
  by (simp add: sendMailWithTls_def)

text \<open>
  A mail server reached with STARTTLS: it offers TLS and authentication, every command succeeds,
  and the custom certificate file does not exist.
\<close>

definition sample_mail_api :: "unit mail_api" where
  "sample_mail_api = \<lparr>
     tls_Dial = (\<lambda>_ _. ret ()), smtp_NewClient = (\<lambda>_. ret ()), smtp_Dial = (\<lambda>_. ret ()),
     cl_Mail = (\<lambda>_. ret ()), cl_Rcpt = (\<lambda>_. ret ()), cl_Data = ret (), cl_Write = (\<lambda>_. ret ()),
     cl_Close = ret (), cl_Quit = ret (), cl_Hello = (\<lambda>_. ret ()), cl_Extension = (\<lambda>_ _. True),
     cl_StartTLS = (\<lambda>_. ret ()), cl_Auth = (\<lambda>_. ret ()), smtp_SendMail = (\<lambda>_ _ _ _ _. ret ()),
     os_Hostname = (\<lambda>_. ''importer''), ml_ReadFile = (\<lambda>_. fail (ErrNotExist ''no file'')), systemCertPool = ret [],
     AppendCertsFromPEM = (\<lambda>_. False), ml_GlobalConfig = (\<lambda>_. ret [GLOBAL_CONFIG_FQDN_KEY \<mapsto> ''target.de'']),
     random_boundary = (\<lambda>_. ''b''), random_bytes = ret ''0123456789abcdef'', utc_stamp = (\<lambda>_. ''20250101''),
     rfc1123_now = (\<lambda>_. ''Wed''), format_time = (\<lambda>_. ''01.01.2025'')\<rparr>"

definition sample_smtp :: Smtp where
  "sample_smtp = \<lparr>Enabled = True, smtp_Server = ''mail.de'', smtp_Port = 587, Username = ''u'', Password = ''p'',
     From = ''a@b.de'', To = [''c@d.de''], smtp_SecretName = [], smtp_SecretDataKey = [], TlsMode = TLSModeStartTLS,
     smtp_SkipTLSVerify = False, smtp_TLSCertificateName = ''ca.pem''\<rparr>"

text \<open>The sender of the configuration above: its certificate file is taken from the configured name.\<close>

definition sample_sender :: Sender where
  "sample_sender = \<lparr>sd_config = sample_smtp, sourceInstance = ''source.de'',
     senderService = StartTLSService \<lparr>ts_config = sample_smtp, ts_customCAPath = ''/etc/custom-certs/mail/ca.pem''\<rparr>,
     attachments = [''/var/log/import.log'']\<rparr>"

lemma sample_sender_created:
  "CreateSender sample_smtp ''source.de'' [''/var/log/import.log''] initialCAPath =
     (Ok sample_sender, ''/etc/custom-certs/mail/ca.pem'')"
  by code_simp

lemma sample_target: "getTargetInstance sample_mail_api ctx s = (Ok ''target.de'', s)"
  by (simp add: getTargetInstance_def sample_mail_api_def go_defs)

lemma sample_message_id: "\<exists>i. buildMessageId sample_mail_api fqdn s = (Ok i, s)"
  by (simp add: buildMessageId_def sample_mail_api_def go_defs)

lemma sample_body: "\<exists>part. writeBodyText sample_mail_api sd ctx b res start end' f s = (Ok part, s)"
  by (simp add: writeBodyText_def andThen_def handle_def orWrap_def ret_def sample_target)

lemma sample_attachment: "\<exists>e. writeAttachment sample_mail_api b file s = (Err e, s)"
  by (simp add: writeAttachment_def sample_mail_api_def go_defs)

lemma sample_compose: "\<exists>msg. compose sample_mail_api sample_sender ctx isFinal res start end' s = (Ok msg, s)"
proof -
  let ?b = "random_boundary sample_mail_api ()"
  from sample_message_id obtain i where i: "buildMessageId sample_mail_api ''target.de'' s = (Ok i, s)" by blast
  from sample_body obtain part where
    part: "writeBodyText sample_mail_api sample_sender ctx ?b res start end' isFinal s = (Ok part, s)" by blast
  from sample_attachment obtain e where e: "writeAttachment sample_mail_api ?b ''/var/log/import.log'' s = (Err e, s)" by blast
  have one: "attachments sample_sender = [''/var/log/import.log'']" by (simp add: sample_sender_def)
  show ?thesis
    unfolding compose_def Let_def one
    by (simp add: andThen_def handle_def orWrap_def ret_def get_state_def sample_target i part e)
qed

lemma sample_calls [simp]:
  "smtp_Dial sample_mail_api x = ret ()" "cl_Mail sample_mail_api x = ret ()" "cl_Rcpt sample_mail_api x = ret ()"
  "cl_Data sample_mail_api = ret ()" "cl_Write sample_mail_api x = ret ()" "cl_Close sample_mail_api = ret ()"
  "cl_Quit sample_mail_api = ret ()" "cl_Hello sample_mail_api x = ret ()" "cl_Extension sample_mail_api x w"
  "cl_StartTLS sample_mail_api c = ret ()" "cl_Auth sample_mail_api p = ret ()"
  by (simp_all add: sample_mail_api_def)

lemma sample_config: "\<exists>cfg. createTLSConfig sample_mail_api p name b w = (Ok cfg, w)"
  by (simp add: createTLSConfig_def sample_mail_api_def is_err_not_exist_def ret_def fail_def handle_def)

lemma wp_fst: "wp m (\<lambda>r t. r = Ok x) s \<Longrightarrow> \<exists>t. m s = (Ok x, t)"
  by (cases "m s") (simp add: wp_def)

lemma sample_prepare: "wp (prepareMail sample_mail_api f [x] msg) (\<lambda>r t. r = Ok ()) s"
  by (simp add: prepareMail_def set_recipients_def)

lemma sample_greet: "wp (greet sample_mail_api) (\<lambda>r t. r = Ok ()) s"
  by (simp add: greet_def)

lemma sample_tls: "wp (init_tls sample_mail_api ts name) (\<lambda>r t. r = Ok ()) s"
proof -
  from sample_config obtain cfg where
    "createTLSConfig sample_mail_api (ts_customCAPath ts) name (smtp_SkipTLSVerify (ts_config ts)) (world s) = (Ok cfg, world s)" by blast
  from wp_eq [where m = "createTLSConfig sample_mail_api (ts_customCAPath ts) name (smtp_SkipTLSVerify (ts_config ts))", OF this]
  show ?thesis by (simp add: init_tls_def)
qed

lemma sample_auth: "wp (authenticate sample_mail_api a) (\<lambda>r t. r = Ok ()) s"
  by (cases a) (simp_all add: authenticate_def)

lemma sample_start: "\<exists>t. start_tls sample_mail_api ts name a s = (Ok (), t)"
proof -
  from wp_fst [OF sample_greet] obtain u where "greet sample_mail_api s = (Ok (), u)" by blast
  moreover from wp_fst [OF sample_tls] obtain v where "init_tls sample_mail_api ts name u = (Ok (), v)" by blast
  moreover from wp_fst [OF sample_auth] obtain t where "authenticate sample_mail_api a v = (Ok (), t)" by blast
  ultimately show ?thesis by (simp add: start_tls_def andThen_def handle_def)
qed

lemma sample_service:
  "fst (run_service sample_mail_api (StartTLSService ts) addr a f [x] msg s) = Ok ()"
proof -
  let ?s = "s\<lparr>trace := trace s @ [(Dial addr, Fine)], world := world s\<rparr>"
  from sample_start obtain u where t: "start_tls sample_mail_api ts (host_of addr) a ?s = (Ok (), u)" by blast
  from wp_fst [OF sample_prepare] obtain v where p: "prepareMail sample_mail_api f [x] msg u = (Ok (), v)" by blast
  note wp_eqs = wp_eq [where m = "start_tls sample_mail_api ts (host_of addr) a", OF t]
    wp_eq [where m = "prepareMail sample_mail_api f [x] msg", OF p]
  have "wp (run_service sample_mail_api (StartTLSService ts) addr a f [x] msg) (\<lambda>r t. r = Ok ()) s"
    by (simp only: run_service_def SenderService.case sendMailWithStartTLS_def NewSMTPClient_def sample_calls wp_andThen
        wp_orWrap wp_extern wp_deferring wp_ret result.case ending_of_simps wp_eqs)
  from wp_fst [OF this] show ?thesis by auto
qed

theorem Send_delivers_over_tls_witness:
  "\<exists>t msg pre e. Send sample_mail_api sample_sender Map.empty True None 0 1 \<lparr>trace = [], world = ()\<rparr> = (Ok (), t) \<and>
     secret_until_encrypted (trace t) \<and>
     trace t = pre @ fine (delivery ''a@b.de'' [''c@d.de''] msg) @ [(Quit, e)] \<and>
     has_header msg ''Subject'' ''Die Migration der Instanz source.de war erfolgreich.''"
proof -
  let ?st = "\<lparr>trace = [], world = ()\<rparr> :: (mail_call, unit) st"
  from sample_compose obtain msg where m: "compose sample_mail_api sample_sender Map.empty True None 0 1 ?st = (Ok msg, ?st)" by blast
  have "fst (Send sample_mail_api sample_sender Map.empty True None 0 1 ?st) = Ok ()"
    using sample_service [of _ _ _ _ _ msg ?st]
    by (simp add: Send_def andThen_def handle_def m) (simp add: sample_sender_def sample_smtp_def)
  then obtain t where run: "Send sample_mail_api sample_sender Map.empty True None 0 1 ?st = (Ok (), t)" by (metis prod.collapse)
  have tls: "uses_tls sample_sender" and on: "sends sample_sender"
      and subject: "buildSubject True (sourceInstance sample_sender) = ''Die Migration der Instanz source.de war erfolgreich.''"
      and addr: "From (sd_config sample_sender) = ''a@b.de''" "To (sd_config sample_sender) = [''c@d.de'']"
    by code_simp+
  from wpD [OF Send_delivers_over_tls [OF tls] run] on show ?thesis
    by (simp add: run addr subject) blast
qed

section \<open>Attachments come back\<close>

definition b64_value :: "char \<Rightarrow> nat option" where
  "b64_value c = (let n = length (takeWhile (\<lambda>d. d \<noteq> c) b64_alphabet) in if n < 64 then Some n else None)"

text \<open>A reader of base64 text with padding, the inverse of the encoder.\<close>

fun b64_decode :: "string \<Rightarrow> nat list option" where
  "b64_decode [] = Some []"
| "b64_decode (p # q # x # y # s) =
     (case (b64_value p, b64_value q) of
        (Some i, Some j) \<Rightarrow>
          if x = CHR ''='' \<and> y = CHR ''='' \<and> s = [] then Some [i * 4 + j div 16]
          else (case b64_value x of
            None \<Rightarrow> None
          | Some k \<Rightarrow>
              if y = CHR ''='' \<and> s = [] then Some [i * 4 + j div 16, (j mod 16) * 16 + k div 4]
              else (case b64_value y of
                None \<Rightarrow> None
              | Some l \<Rightarrow> map_option ((@) [i * 4 + j div 16, (j mod 16) * 16 + k div 4, (k mod 4) * 64 + l]) (b64_decode s)))
      | _ \<Rightarrow> None)"
| "b64_decode _ = None"

definition base64_Decode :: "string \<Rightarrow> string option" where
  "base64_Decode s = map_option (map char_of) (b64_decode s)"

lemma b64_value_char: "n < 64 \<Longrightarrow> b64_value (b64_char n) = Some n"
proof -
  have "list_all (\<lambda>n. b64_value (b64_char n) = Some n) [0..<64]" by code_simp
  then show "n < 64 \<Longrightarrow> b64_value (b64_char n) = Some n" by (simp add: list_all_iff)
qed

lemma b64_char_not_pad: "n < 64 \<Longrightarrow> b64_char n \<noteq> CHR ''=''"
proof -
  have "list_all (\<lambda>n. b64_char n \<noteq> CHR ''='') [0..<64]" by code_simp
  then show "n < 64 \<Longrightarrow> b64_char n \<noteq> CHR ''=''" by (simp add: list_all_iff)
qed

lemma b64_digits_less:
  fixes a b c :: nat
  assumes "a < 256" "b < 256" "c < 256"
  shows "a div 4 < 64" "(a mod 4) * 16 + b div 16 < 64" "(b mod 16) * 4 + c div 64 < 64"
  using assms by auto

lemma b64_join:
  fixes i j k l :: nat
  assumes "j < 16" "l < 4"
  shows "(i * 16 + j) div 16 = i" "(i * 16 + j) mod 16 = j" "(k * 4 + l) div 4 = k" "(k * 4 + l) mod 4 = l"
  using assms by simp_all

lemma b64_digits:
  fixes a b c :: nat
  assumes "b < 256" "c < 256"
  shows "a div 4 * 4 + ((a mod 4) * 16 + b div 16) div 16 = a"
    "((a mod 4) * 16 + b div 16) mod 16 * 16 + ((b mod 16) * 4 + c div 64) div 4 = b"
    "((b mod 16) * 4 + c div 64) mod 4 * 64 + c mod 64 = c"
proof -
  have "b div 16 < 16" "c div 64 < 4" using assms by auto
  then show "a div 4 * 4 + ((a mod 4) * 16 + b div 16) div 16 = a"
    "((a mod 4) * 16 + b div 16) mod 16 * 16 + ((b mod 16) * 4 + c div 64) div 4 = b"
    "((b mod 16) * 4 + c div 64) mod 4 * 64 + c mod 64 = c"
    by (simp_all only: b64_join) simp_all
qed

lemma b64_decode_group:
  assumes "i < 64" "j < 64" "k < 64" "l < 64"
  shows "b64_decode (b64_char i # b64_char j # b64_char k # b64_char l # s) =
    map_option ((@) [i * 4 + j div 16, (j mod 16) * 16 + k div 4, (k mod 4) * 64 + l]) (b64_decode s)"
    "b64_decode [b64_char i, b64_char j, b64_char k, CHR ''=''] = Some [i * 4 + j div 16, (j mod 16) * 16 + k div 4]"
    "b64_decode [b64_char i, b64_char j, CHR ''='', CHR ''=''] = Some [i * 4 + j div 16]"
  using assms by (simp_all add: b64_value_char b64_char_not_pad)

lemma b64_decode_bytes: "\<forall>x\<in>set bs. x < 256 \<Longrightarrow> b64_decode (b64_bytes bs) = Some bs"
proof (induction bs rule: b64_bytes.induct)
  case (2 a)
  then have "a < 256" by simp
  then show ?case
    using b64_decode_group(3) [of "a div 4" "(a mod 4) * 16"] b64_digits_less [of a 0 0] b64_digits(1) [of 0 0 a] by simp
next
  case (3 a b)
  then have "a < 256" "b < 256" by simp_all
  then show ?case
    using b64_decode_group(2) [of "a div 4" "(a mod 4) * 16 + b div 16" "(b mod 16) * 4"]
      b64_digits_less [of a b 0] b64_digits(1,2) [of b 0 a] by simp
next
  case (4 a b c bs)
  then have less: "a < 256" "b < 256" "c < 256" and "b64_decode (b64_bytes bs) = Some bs" by simp_all
  then show ?case
    unfolding b64_bytes.simps append.simps
    by (simp only: b64_decode_group(1) [OF b64_digits_less [OF less] mod_less_divisor] b64_digits zero_less_numeral
        option.map append.simps)
qed simp

lemma bytes_less: "\<forall>x\<in>set (map of_char s). x < (256::nat)"
proof
  fix x :: nat assume "x \<in> set (map of_char s)"
  then obtain c :: char where "x = of_char c" by auto
  then show "x < 256" using of_char_mod_256 [of c, where 'a = nat] by (metis mod_less_divisor zero_less_numeral)
qed

lemma base64_Decode_Encode: "base64_Decode (base64_Encode s) = Some s"
  by (simp add: base64_Decode_def base64_Encode_def b64_decode_bytes [OF bytes_less] map_idI)

lemma EncodedLen_step: "EncodedLen (Suc (Suc (Suc n))) = EncodedLen n + 4"
proof -
  have "(n + 2 + 3) div 3 = (n + 2) div 3 + 1" by simp
  then show ?thesis by (simp add: EncodedLen_def)
qed

lemma length_b64_bytes: "length (b64_bytes bs) = EncodedLen (length bs)"
proof (induction bs rule: b64_bytes.induct)
  case (4 a b c bs)
  then show ?case by (simp add: EncodedLen_step)
qed (simp_all add: EncodedLen_def)

section \<open>A reader of the attachments\<close>

text \<open>
  A reader of the part of a message that holds the attachments, written from the MIME standards and
  independent of the writer: lines that end with \<open>crlf\<close>, header fields up to an empty line, the file name
  in quotes, and base64 text up to the next line break. It ends at the closing line of the message.
\<close>

fun read_line :: "string \<Rightarrow> (string \<times> string) option" where
  "read_line (c # d # s) =
     (if c = CHR 13 \<and> d = CHR 10 then Some ([], s) else map_option (\<lambda>(l, t). (c # l, t)) (read_line (d # s)))"
| "read_line s = None"

lemma read_line_shorter: "read_line s = Some (l, t) \<Longrightarrow> length t < length s"
  by (induction s arbitrary: l rule: read_line.induct) (fastforce split: if_splits)+

definition strip_prefix :: "string \<Rightarrow> string \<Rightarrow> string option" where
  "strip_prefix p s = (if take (length p) s = p then Some (drop (length p) s) else None)"

definition read_field :: "string \<Rightarrow> (string \<times> string) option" where
  "read_field l =
     map_option (Pair (takeWhile (\<lambda>c. c \<noteq> CHR '':'') l)) (strip_prefix '': '' (dropWhile (\<lambda>c. c \<noteq> CHR '':'') l))"

function read_headers :: "string \<Rightarrow> ((string \<times> string) list \<times> string) option" where
  "read_headers s = (case read_line s of
     None \<Rightarrow> None
   | Some (l, t) \<Rightarrow> if l = [] then Some ([], t) else (case read_field l of
       None \<Rightarrow> None
     | Some h \<Rightarrow> map_option (\<lambda>(hs, u). (h # hs, u)) (read_headers t)))"
  by pat_completeness auto

termination
  by (relation "measure length") (auto dest: read_line_shorter)

declare read_headers.simps [simp del]

definition read_file_name :: "string \<Rightarrow> string option" where
  "read_file_name v =
     map_option (takeWhile (\<lambda>c. c \<noteq> CHR 34)) (strip_prefix (''attachment; filename='' @ [CHR 34]) v)"

definition read_part :: "string \<Rightarrow> string \<Rightarrow> ((string \<times> string) \<times> string) option" where
  "read_part boundary s =
     Option.bind (strip_prefix (crlf @ ''--'' @ boundary @ crlf) s) (\<lambda>s.
     Option.bind (read_headers s) (\<lambda>(hs, t).
     if map_of hs ''Content-Transfer-Encoding'' \<noteq> Some ''base64'' then None else
     Option.bind (Option.bind (map_of hs ''Content-Disposition'') read_file_name) (\<lambda>name.
     Option.bind (base64_Decode (takeWhile (\<lambda>c. c \<noteq> CHR 13) t)) (\<lambda>data.
     Some ((name, data), dropWhile (\<lambda>c. c \<noteq> CHR 13) t)))))"

function read_attachments :: "string \<Rightarrow> string \<Rightarrow> (string \<times> string) list option" where
  "read_attachments boundary s =
     (if s = crlf @ ''--'' @ boundary @ ''--'' @ crlf then Some []
      else case read_part boundary s of
        None \<Rightarrow> None
      | Some (a, t) \<Rightarrow> if length t < length s then map_option ((#) a) (read_attachments boundary t) else None)"
  by pat_completeness auto

termination
  by (relation "measure (\<lambda>(boundary, s). length s)") auto

declare read_attachments.simps [simp del]

lemma strip_prefix_append [simp]: "strip_prefix p (p @ s) = Some s"
  by (simp add: strip_prefix_def)

lemma read_line_append: "CHR 13 \<notin> set l \<Longrightarrow> read_line (l @ crlf @ t) = Some (l, t)"
proof (induction l)
  case (Cons c l)
  then show ?case by (cases l) (auto simp: crlf_def)
qed (simp add: crlf_def)

lemma read_field_written: "CHR '':'' \<notin> set k \<Longrightarrow> read_field (k @ '': '' @ v) = Some (k, v)"
proof -
  assume k: "CHR '':'' \<notin> set k"
  have "takeWhile (\<lambda>c. c \<noteq> CHR '':'') (k @ '': '' @ v) = k" "dropWhile (\<lambda>c. c \<noteq> CHR '':'') (k @ '': '' @ v) = '': '' @ v"
    using k by (subst takeWhile_append2 dropWhile_append2; auto)+
  then show ?thesis by (simp only: read_field_def strip_prefix_append option.map)
qed

lemma read_headers_field:
  assumes "CHR '':'' \<notin> set k" "CHR 13 \<notin> set k" "CHR 13 \<notin> set v"
  shows "read_headers (k @ '': '' @ v @ crlf @ t) = map_option (\<lambda>(hs, u). ((k, v) # hs, u)) (read_headers t)"
proof -
  have "read_line ((k @ '': '' @ v) @ crlf @ t) = Some (k @ '': '' @ v, t)"
    by (rule read_line_append) (use assms in simp)
  then show ?thesis
    using read_field_written [OF assms(1), of v] by (simp add: read_headers.simps [of "k @ _"])
qed

lemma read_headers_end: "read_headers (crlf @ t) = Some ([], t)"
  using read_line_append [of "[]" t] by (simp add: read_headers.simps [of "crlf @ _"])

lemma b64_char_not_CR: "n < 64 \<Longrightarrow> b64_char n \<noteq> CHR 13"
proof -
  have "list_all (\<lambda>n. b64_char n \<noteq> CHR 13) [0..<64]" by code_simp
  then show "n < 64 \<Longrightarrow> b64_char n \<noteq> CHR 13" by (simp add: list_all_iff)
qed

lemma b64_bytes_not_CR: "\<forall>x\<in>set bs. x < 256 \<Longrightarrow> CHR 13 \<notin> set (b64_bytes bs)"
proof (induction bs rule: b64_bytes.induct)
  case (2 a)
  then show ?case
    using b64_char_not_CR [of "a div 4"] b64_char_not_CR [of "(a mod 4) * 16"] b64_digits_less [of a 0 0] by auto
next
  case (3 a b)
  then show ?case
    using b64_char_not_CR [of "a div 4"] b64_char_not_CR [of "(a mod 4) * 16 + b div 16"]
      b64_char_not_CR [of "(b mod 16) * 4"] b64_digits_less [of a b 0] by auto
next
  case (4 a b c bs)
  then show ?case
    using b64_char_not_CR [of "a div 4"] b64_char_not_CR [of "(a mod 4) * 16 + b div 16"]
      b64_char_not_CR [of "(b mod 16) * 4 + c div 64"] b64_char_not_CR [of "c mod 64"] b64_digits_less [of a b c] by auto
qed simp

lemma base64_Encode_not_CR: "CHR 13 \<notin> set (base64_Encode s)"
  unfolding base64_Encode_def by (rule b64_bytes_not_CR) (use bytes_less in blast)

lemma base64_Encode_fills: "base64_Encode_into (replicate (EncodedLen (length s)) c) s = Some (base64_Encode s)"
  by (simp add: base64_Encode_into_def base64_Encode_def length_b64_bytes)

text \<open>File names that a quoted header field carries unchanged.\<close>

definition plain_name :: "string \<Rightarrow> bool" where
  "plain_name name \<longleftrightarrow> (\<forall>c\<in>set name. c \<notin> {CHR 13, CHR 10, CHR 34, CHR 92})"

lemma attachment_headers_sorted:
  "sorted_headers (attachment_headers f) =
     ''Content-Disposition'' @ '': '' @ (''attachment; filename='' @ [CHR 34] @ path_base f @ [CHR 34]) @ crlf @
     ''Content-Transfer-Encoding'' @ '': '' @ ''base64'' @ crlf @
     ''Content-Type'' @ '': '' @ ''application/octet-stream'' @ crlf"
proof -
  have "sort [''Content-Type'', ''Content-Disposition'', ''Content-Transfer-Encoding''] =
      [''Content-Disposition'', ''Content-Transfer-Encoding'', ''Content-Type'']" by code_simp
  then show ?thesis by (simp add: sorted_headers_def attachment_headers_def)
qed

lemma read_file_name_written:
  assumes "plain_name f"
  shows "read_file_name (''attachment; filename='' @ [CHR 34] @ f @ [CHR 34]) = Some f"
proof -
  have "takeWhile (\<lambda>c. c \<noteq> CHR 34) (f @ [CHR 34]) = f"
    using assms by (subst takeWhile_append2) (auto simp: plain_name_def)
  then show ?thesis
    using strip_prefix_append [of "''attachment; filename='' @ [CHR 34]" "f @ [CHR 34]"]
    by (simp add: read_file_name_def)
qed

lemma read_three_fields:
  assumes "CHR '':'' \<notin> set k1" "CHR 13 \<notin> set k1" "CHR 13 \<notin> set v1" "CHR '':'' \<notin> set k2" "CHR 13 \<notin> set k2"
    "CHR 13 \<notin> set v2" "CHR '':'' \<notin> set k3" "CHR 13 \<notin> set k3" "CHR 13 \<notin> set v3"
  shows "read_headers (k1 @ '': '' @ v1 @ crlf @ k2 @ '': '' @ v2 @ crlf @ k3 @ '': '' @ v3 @ crlf @ crlf @ t) =
    Some ([(k1, v1), (k2, v2), (k3, v3)], t)"
  by (simp only: read_headers_field [OF assms(1-3)] read_headers_field [OF assms(4-6)]
      read_headers_field [OF assms(7-9)] read_headers_end option.map case_prod_conv)

lemma read_attachment_headers:
  assumes "plain_name (path_base f)"
  shows "read_headers (sorted_headers (attachment_headers f) @ crlf @ t) = Some (
    [(''Content-Disposition'', ''attachment; filename='' @ [CHR 34] @ path_base f @ [CHR 34]),
     (''Content-Transfer-Encoding'', ''base64''), (''Content-Type'', ''application/octet-stream'')], t)"
proof -
  have "CHR 13 \<notin> set (''attachment; filename='' @ [CHR 34] @ path_base f @ [CHR 34])"
    using assms by (auto simp: plain_name_def)
  from read_three_fields [OF _ _ this, of "''Content-Disposition''" "''Content-Transfer-Encoding''" "''base64''"
      "''Content-Type''" "''application/octet-stream''" t]
  show ?thesis by (simp add: attachment_headers_sorted)
qed

text \<open>One attachment as the program writes it.\<close>

definition written :: "string \<Rightarrow> string \<times> string \<Rightarrow> string" where
  "written boundary a = CreatePart boundary False (attachment_headers (fst a)) @ base64_Encode (snd a)"

lemma read_part_written:
  assumes "plain_name (path_base f)" "t = CHR 13 # u"
  shows "read_part boundary (written boundary (f, d) @ t) = Some ((path_base f, d), t)"
proof -
  have body: "takeWhile (\<lambda>c. c \<noteq> CHR 13) (base64_Encode d @ t) = base64_Encode d"
      "dropWhile (\<lambda>c. c \<noteq> CHR 13) (base64_Encode d @ t) = t"
    using base64_Encode_not_CR [of d] by (auto simp: assms(2) takeWhile_append dropWhile_append)
  have "written boundary (f, d) @ t = (crlf @ ''--'' @ boundary @ crlf) @
      sorted_headers (attachment_headers f) @ crlf @ base64_Encode d @ t"
    by (simp add: written_def CreatePart_def)
  then have "strip_prefix (crlf @ ''--'' @ boundary @ crlf) (written boundary (f, d) @ t) =
      Some (sorted_headers (attachment_headers f) @ crlf @ base64_Encode d @ t)"
    by (simp only: strip_prefix_append)
  then show ?thesis
    using read_file_name_written [OF assms(1)]
    by (simp add: read_part_def read_attachment_headers [OF assms(1)] body base64_Decode_Encode)
qed

lemma written_starts:
  "\<exists>u. concat (map (written boundary) as) @ multipart_Close boundary = CHR 13 # u"
  by (cases as) (simp_all add: written_def CreatePart_def multipart_Close_def crlf_def)

lemma read_attachments_written:
  assumes "\<forall>a\<in>set as. plain_name (path_base (fst a))"
  shows "read_attachments boundary (concat (map (written boundary) as) @ multipart_Close boundary) =
    Some (map (\<lambda>a. (path_base (fst a), snd a)) as)"
  using assms
proof (induction as)
  case Nil
  then show ?case by (simp add: read_attachments.simps multipart_Close_def)
next
  case (Cons a as)
  let ?t = "concat (map (written boundary) as) @ multipart_Close boundary"
  obtain f d where a: "a = (f, d)" by fastforce
  obtain u where "?t = CHR 13 # u" using written_starts by blast
  with Cons.prems a have part: "read_part boundary (written boundary a @ ?t) = Some ((path_base f, d), ?t)"
    by (simp add: read_part_written)
  have "written boundary a @ ?t \<noteq> crlf @ ''--'' @ boundary @ ''--'' @ crlf"
    by (simp add: written_def CreatePart_def crlf_def)
  moreover have "length ?t < length (written boundary a @ ?t)"
    by (simp add: written_def CreatePart_def crlf_def)
  ultimately show ?case
    using Cons part a by (subst read_attachments.simps) simp
qed

section \<open>The attachments of the message\<close>

text \<open>The files that could be read, with their last path element, and the world after reading them.\<close>

fun read_files :: "'w mail_api \<Rightarrow> string list \<Rightarrow> 'w \<Rightarrow> (string \<times> string) list \<times> 'w" where
  "read_files api [] w = ([], w)"
| "read_files api (f # fs) w = (case ml_ReadFile api f w of
     (Ok data, v) \<Rightarrow> (case read_files api fs v of (as, u) \<Rightarrow> ((path_base f, data) # as, u))
   | (_, v) \<Rightarrow> read_files api fs v)"

text \<open>The configuration, the files and the random bytes are read without a panic.\<close>

definition reads_return :: "'w mail_api \<Rightarrow> ctx \<Rightarrow> bool" where
  "reads_return api ctx \<longleftrightarrow> (\<forall>w v p. ml_GlobalConfig api ctx w \<noteq> (Panic p, v) \<and> random_bytes api w \<noteq> (Panic p, v) \<and>
     (\<forall>f. ml_ReadFile api f w \<noteq> (Panic p, v)))"

text \<open>The only reason not to compose a message: the FQDN of the target cannot be read.\<close>

definition fqdn_missing :: "'w mail_api \<Rightarrow> ctx \<Rightarrow> bool" where
  "fqdn_missing api ctx \<longleftrightarrow>
     (\<exists>w. case fst (ml_GlobalConfig api ctx w) of Ok cfg \<Rightarrow> cfg ''fqdn'' = None | _ \<Rightarrow> True)"

lemma writeAttachment_written:
  "writeAttachment api boundary f s = (case ml_ReadFile api f (world s) of
     (Ok data, v) \<Rightarrow> (Ok (written boundary (f, data)), s\<lparr>world := v\<rparr>)
   | (Err e, v) \<Rightarrow> (Err (errorf_w ''failed to read file for attachment'' e), s\<lparr>world := v\<rparr>)
   | (Panic p, v) \<Rightarrow> (Panic p, s\<lparr>world := v\<rparr>))"
  by (simp add: writeAttachment_def go_defs Let_def base64_Encode_fills written_def split: prod.splits result.splits)

lemma attachments_written:
  assumes "reads_return api ctx"
  shows "wp (for_acc (\<lambda>file body. handle (writeAttachment api boundary file) (\<lambda>_. ret body) (\<lambda>part. ret (body @ part))) files body)
    (\<lambda>r t. \<exists>as. r = Ok (body @ concat (map (written boundary) as)) \<and> fst ` set as \<subseteq> set files \<and>
       read_files api files (world s) = (map (\<lambda>a. (path_base (fst a), snd a)) as, world t)) s"
proof (induction files arbitrary: body s)
  case (Cons f fs)
  obtain q v where read: "ml_ReadFile api f (world s) = (q, v)" by fastforce
  with assms have "\<forall>p. q \<noteq> Panic p" by (auto simp: reads_return_def)
  then consider data where "q = Ok data" | e where "q = Err e" by (cases q) auto
  then show ?case
  proof cases
    case (1 data)
    then have w: "writeAttachment api boundary f s = (Ok (written boundary (f, data)), s\<lparr>world := v\<rparr>)"
      by (simp add: writeAttachment_written read)
    have "wp (for_acc (\<lambda>file body. handle (writeAttachment api boundary file) (\<lambda>_. ret body) (\<lambda>part. ret (body @ part)))
          fs (body @ written boundary (f, data)))
        (\<lambda>r t. \<exists>as. r = Ok (body @ concat (map (written boundary) as)) \<and> fst ` set as \<subseteq> set (f # fs) \<and>
          read_files api (f # fs) (world s) = (map (\<lambda>a. (path_base (fst a), snd a)) as, world t)) (s\<lparr>world := v\<rparr>)"
    proof (rule wp_mono [OF Cons.IH], elim exE conjE)
      fix r t as
      assume "r = Ok ((body @ written boundary (f, data)) @ concat (map (written boundary) as))"
        "fst ` set as \<subseteq> set fs"
        "read_files api fs (world (s\<lparr>world := v\<rparr>)) = (map (\<lambda>a. (path_base (fst a), snd a)) as, world t)"
      with read 1 show "\<exists>as. r = Ok (body @ concat (map (written boundary) as)) \<and> fst ` set as \<subseteq> set (f # fs) \<and>
          read_files api (f # fs) (world s) = (map (\<lambda>a. (path_base (fst a), snd a)) as, world t)"
        by (intro exI [of _ "(f, data) # as"]) auto
    qed
    then show ?thesis by (simp add: wp_eq [where m = "writeAttachment api boundary f", OF w])
  next
    case (2 e)
    then have w: "writeAttachment api boundary f s =
        (Err (errorf_w ''failed to read file for attachment'' e), s\<lparr>world := v\<rparr>)"
      by (simp add: writeAttachment_written read)
    show ?thesis
      by (simp add: wp_eq [where m = "writeAttachment api boundary f", OF w] read 2,
          rule wp_mono [OF Cons.IH]) auto
  qed
qed simp

lemma target_or_missing:
  assumes "reads_return api ctx"
  shows "wp (getTargetInstance api ctx) (\<lambda>r t. case r of Ok _ \<Rightarrow> True | Err _ \<Rightarrow> fqdn_missing api ctx | Panic _ \<Rightarrow> False) s"
proof -
  obtain q v where read: "ml_GlobalConfig api ctx (world s) = (q, v)" by fastforce
  with assms have "\<forall>p. q \<noteq> Panic p" by (auto simp: reads_return_def)
  moreover have "fqdn_missing api ctx" if "case q of Ok cfg \<Rightarrow> cfg ''fqdn'' = None | _ \<Rightarrow> True"
    unfolding fqdn_missing_def by (rule exI [of _ "world s"]) (use that read in simp)
  ultimately show ?thesis
    by (cases q) (auto simp: getTargetInstance_def GLOBAL_CONFIG_FQDN_KEY_def
        wp_eq [where m = "ml_GlobalConfig api ctx", OF read] split: option.split)
qed

lemma message_id_ok:
  assumes "reads_return api ctx"
  shows "wp (buildMessageId api fqdn) (\<lambda>r t. \<exists>i. r = Ok i) s"
proof -
  obtain q v where read: "random_bytes api (world s) = (q, v)" by fastforce
  with assms have "\<forall>p. q \<noteq> Panic p" by (auto simp: reads_return_def)
  then show ?thesis
    by (cases q) (auto simp: buildMessageId_def wp_eq [where m = "random_bytes api", OF read])
qed

lemma body_or_missing:
  assumes "reads_return api ctx"
  shows "wp (writeBodyText api s ctx boundary res start end' isFinal)
    (\<lambda>r t. case r of Ok _ \<Rightarrow> True | Err _ \<Rightarrow> fqdn_missing api ctx | Panic _ \<Rightarrow> False) st"
  unfolding writeBodyText_def
  by (simp, rule wp_mono [OF target_or_missing [OF assms]]) (auto split: result.splits)

lemma wp_then:
  assumes "wp m (\<lambda>r t. case r of Ok a \<Rightarrow> P a t | Err e \<Rightarrow> Q (Err e) t | Panic p \<Rightarrow> Q (Panic p) t) s"
    and "\<And>a t. P a t \<Longrightarrow> wp (k a) Q t"
  shows "wp (andThen m k) Q s"
  unfolding wp_andThen by (rule wp_mono [OF assms(1)]) (use assms(2) in \<open>auto split: result.splits\<close>)

lemma wp_wrapped:
  assumes "wp m P s" "\<And>r t. P r t \<Longrightarrow> Q (case r of Err e \<Rightarrow> Err (errorf_w p e) | _ \<Rightarrow> r) t"
  shows "wp (orWrap p m) Q s"
  unfolding wp_orWrap by (rule wp_mono [OF assms(1)]) (use assms(2) in \<open>fastforce split: result.splits\<close>)

section \<open>The attachments come back\<close>

text \<open>
  C37: a reader of the MIME standards gets the attachments out of a composed message. The message is its
  headers, which announce the boundary, a text and the attachments; the reader recovers from the last the
  files of the sender in their order, each with the last element of its path and exactly its
  bytes, empty files included, without those that could not be read. The message is always composed
  unless the FQDN of the target cannot be read: an attachment that fails does not stop it, and the
  buffer of an encoded file is never too short. The names are to be free of quotes, backslashes
  and line breaks, and the reads must not panic.
\<close>

theorem attachments_come_back:
  assumes "reads_return api ctx" "\<forall>f\<in>set (attachments s). plain_name (path_base f)"
  shows "wp (compose api s ctx isFinal res start end') (\<lambda>r t. case r of
     Ok msg \<Rightarrow> \<exists>headers boundary body rest w files. msg = sorted_headers headers @ crlf @ body @ rest \<and>
       map_of headers ''Content-Type'' = Some (''multipart/mixed; boundary='' @ boundary) \<and>
       read_files api (attachments s) w = (files, world t) \<and> read_attachments boundary rest = Some files
   | Err _ \<Rightarrow> fqdn_missing api ctx | Panic _ \<Rightarrow> False) st"
proof -
  let ?Q = "\<lambda>r t. case r of
     Ok msg \<Rightarrow> \<exists>headers boundary body rest w files. msg = sorted_headers headers @ crlf @ body @ rest \<and>
       map_of headers ''Content-Type'' = Some (''multipart/mixed; boundary='' @ boundary) \<and>
       read_files api (attachments s) w = (files, world t) \<and> read_attachments boundary rest = Some files
   | Err _ \<Rightarrow> fqdn_missing api ctx | Panic _ \<Rightarrow> False"
  have files: "wp (for_acc (\<lambda>file body. handle (writeAttachment api b file) (\<lambda>_. ret body) (\<lambda>part. ret (body @ part)))
      (attachments s) (sorted_headers (mail_headers api s ok b i d) @ crlf @ part))
      (\<lambda>r t. case r of Ok body \<Rightarrow> ?Q (Ok (body @ multipart_Close b)) t | Err e \<Rightarrow> ?Q (Err e) t | Panic p \<Rightarrow> ?Q (Panic p) t) u"
    for b i d part ok u
  proof (rule wp_mono [OF attachments_written [OF assms(1)]], elim exE conjE)
    fix r t as
    assume r: "r = Ok ((sorted_headers (mail_headers api s ok b i d) @ crlf @ part) @ concat (map (written b) as))"
      and as: "fst ` set as \<subseteq> set (attachments s)"
        "read_files api (attachments s) (world u) = (map (\<lambda>a. (path_base (fst a), snd a)) as, world t)"
    have "read_attachments b (concat (map (written b) as) @ multipart_Close b) = Some (map (\<lambda>a. (path_base (fst a), snd a)) as)"
      by (rule read_attachments_written) (use as(1) assms(2) in auto)
    moreover have "map_of (mail_headers api s ok b i d) ''Content-Type'' = Some (''multipart/mixed; boundary='' @ b)"
      by (simp add: mail_headers_def)
    ultimately show "case r of Ok body \<Rightarrow> ?Q (Ok (body @ multipart_Close b)) t | Err e \<Rightarrow> ?Q (Err e) t | Panic p \<Rightarrow> ?Q (Panic p) t"
      unfolding r result.case append_assoc using as(2) by blast
  qed
  have final: "wp (andThen (for_acc (\<lambda>file body. handle (writeAttachment api b file) (\<lambda>_. ret body) (\<lambda>part. ret (body @ part)))
      (attachments s) (sorted_headers (mail_headers api s ok b i d) @ crlf @ part)) (\<lambda>body. ret (body @ multipart_Close b))) ?Q u"
    for b i d part ok u
    unfolding wp_andThen wp_ret by (rule files)
  show ?thesis
    unfolding compose_def Let_def
    apply (rule wp_then [where P = "\<lambda>_ _. True"], rule wp_wrapped [OF target_or_missing [OF assms(1)]])
    apply (auto split: result.splits) [1]
    apply (simp only: wp_andThen [of get_state] wp_get_state result.case)
    apply (rule wp_then [where P = "\<lambda>_ _. True"], rule wp_mono [OF message_id_ok [OF assms(1)]])
    apply force
    apply (simp only: wp_andThen [of get_state] wp_get_state result.case)
    apply (rule wp_then [where P = "\<lambda>_ _. True"], rule wp_wrapped [OF body_or_missing [OF assms(1)]])
    apply (auto split: result.splits) [1]
    apply (rule final)
    done
qed

text \<open>A message with an attachment whose length is no multiple of three and one that cannot be read.\<close>

definition attaching_mail_api :: "unit mail_api" where
  "attaching_mail_api = sample_mail_api\<lparr>
     ml_ReadFile := \<lambda>f. if f = ''/var/log/import.log'' then ret ''done'' else fail (ErrNotExist ''no file'')\<rparr>"

definition attaching_sender :: Sender where
  "attaching_sender = sample_sender\<lparr>attachments := [''/var/log/import.log'', ''/var/log/export.log'']\<rparr>"

lemma attaching_reads_return: "reads_return attaching_mail_api Map.empty"
  by (simp add: reads_return_def attaching_mail_api_def sample_mail_api_def ret_def fail_def)

lemma attaching_fqdn: "\<not> fqdn_missing attaching_mail_api Map.empty"
  by (simp add: fqdn_missing_def attaching_mail_api_def sample_mail_api_def ret_def GLOBAL_CONFIG_FQDN_KEY_def)

theorem attachments_come_back_witness:
  "\<exists>t msg headers boundary body rest. compose attaching_mail_api attaching_sender Map.empty True None 0 1
       \<lparr>trace = [], world = ()\<rparr> = (Ok msg, t) \<and> msg = sorted_headers headers @ crlf @ body @ rest \<and>
     read_attachments boundary rest = Some [(''import.log'', ''done'')]"
proof -
  let ?st = "\<lparr>trace = [], world = ()\<rparr> :: (mail_call, unit) st"
  have plain: "\<forall>f\<in>set (attachments attaching_sender). plain_name (path_base f)" by code_simp
  obtain r t where run: "compose attaching_mail_api attaching_sender Map.empty True None 0 1 ?st = (r, t)" by fastforce
  have files: "fst (read_files attaching_mail_api (attachments attaching_sender) w) = [(''import.log'', ''done'')]" for w
    by (cases w) code_simp
  from wpD [OF attachments_come_back [OF attaching_reads_return plain] run] attaching_fqdn
  obtain msg headers boundary body rest w files where r: "r = Ok msg" and
    msg: "msg = sorted_headers headers @ crlf @ body @ rest"
      "map_of headers ''Content-Type'' = Some (''multipart/mixed; boundary='' @ boundary)"
      "read_files attaching_mail_api (attachments attaching_sender) w = (files, world t)"
      "read_attachments boundary rest = Some files" by (cases r) auto
  with files [of w] have "read_attachments boundary rest = Some [(''import.log'', ''done'')]" by simp
  with run r msg(1) show ?thesis by blast
qed

end
