(* ===== verification/Blueprint_Control.thy ===== *)
theory Blueprint_Control imports Dogu_Control begin

text \<open>
  Stopping the blueprints before a migration and starting them again afterwards
  (\<open>api/importer/blueprintClient.go\<close>). The control remembers which blueprints it stopped,
  so that those that were stopped before stay stopped. It is a second provider of the
  contract \<open>start_stop\<close>.
\<close>

section \<open>The model\<close>

text \<open>
  \<open>Get\<close> answers the optional field \<open>spec.stopped\<close> of the blueprint; \<open>Patch\<close> gets the name
  and the merge patch.
\<close>

record 'w blueprint_api =
  bp_List :: "('w, string list) go"
  bp_Get :: "string \<Rightarrow> ('w, bool option) go"
  bp_Patch :: "string \<Rightarrow> string \<Rightarrow> ('w, unit) go"

record 'w BlueprintControl =
  stoppedBlueprints :: "string list"
  bp_world :: 'w

definition NewBlueprintControl :: "'w \<Rightarrow> 'w BlueprintControl" where
  "NewBlueprintControl w = \<lparr>stoppedBlueprints = [], bp_world = w\<rparr>"

definition on_blueprints :: "('w, 'a) go \<Rightarrow> ('w BlueprintControl, 'a) go" where
  "on_blueprints m = (\<lambda>s. case m (bp_world s) of (r, w) \<Rightarrow> (r, s\<lparr>bp_world := w\<rparr>))"

definition patchBlueprintStop :: string where
  "patchBlueprintStop = ''{\"spec\":{\"stopped\":true}}''"

definition patchBlueprintStart :: string where
  "patchBlueprintStart = ''{\"spec\":{\"stopped\":false}}''"

definition ptr_Deref :: "'a option \<Rightarrow> 'a \<Rightarrow> 'a" where
  "ptr_Deref p d = (case p of None \<Rightarrow> d | Some x \<Rightarrow> x)"

definition startStopBlueprint :: "'w blueprint_api \<Rightarrow> string \<Rightarrow> bool \<Rightarrow> ('w BlueprintControl, bool) go" where
  "startStopBlueprint api blueprintName shouldStop =
     handle (on_blueprints (bp_Get api blueprintName))
       (\<lambda>e. if is_not_found e then ret False
         else fail (errorf_w (''failed to get blueprint '' @ blueprintName) e))
       (\<lambda>blueprint_stopped.
          if ptr_Deref blueprint_stopped False = shouldStop then ret False else
          let patchData = (if shouldStop then patchBlueprintStop else patchBlueprintStart) in
          andThen (orWrap (''failed to patch blueprint '' @ blueprintName @ '' (shouldStop: '' @
              (if shouldStop then ''true'' else ''false'') @ '')'')
            (on_blueprints (bp_Patch api blueprintName patchData))) (\<lambda>_.
          ret True))"

definition StopBlueprint :: "'w blueprint_api \<Rightarrow> ctx \<Rightarrow> ('w BlueprintControl, unit) go" where
  "StopBlueprint api ctx =
     andThen (orWrap ''failed to list all blueprints'' (on_blueprints (bp_List api))) (\<lambda>items.
     for_each (\<lambda>name.
       andThen (orWrap ''failed to stop blueprint'' (startStopBlueprint api name True)) (\<lambda>changed.
       if changed then modify (\<lambda>s. s\<lparr>stoppedBlueprints := stoppedBlueprints s @ [name]\<rparr>) else ret ())) items)"

definition StartBlueprint :: "'w blueprint_api \<Rightarrow> ctx \<Rightarrow> ('w BlueprintControl, unit) go" where
  "StartBlueprint api ctx =
     andThen get_state (\<lambda>s.
     andThen (for_each (\<lambda>blueprintName.
       andThen (orWrap ''failed to start blueprint'' (startStopBlueprint api blueprintName False)) (\<lambda>_.
       ret ())) (stoppedBlueprints s)) (\<lambda>_.
     modify (\<lambda>s. s\<lparr>stoppedBlueprints := []\<rparr>)))"

section \<open>The cluster\<close>

text \<open>
  The behaviour of the blueprint client when nobody else stops or starts blueprints:
  \<open>be_view E w n\<close> is whether the blueprint \<open>n\<close> is stopped, \<open>None\<close> when it does not exist. A patch
  that is answered with an error may have been applied nevertheless, after a timeout for example.
\<close>

record 'w blueprint_env =
  be_api :: "'w blueprint_api"
  be_view :: "'w \<Rightarrow> string \<Rightarrow> bool option"

definition blueprint_env_ok :: "'w blueprint_env \<Rightarrow> bool" where
  "blueprint_env_ok E \<longleftrightarrow>
     (\<forall>w. wp (bp_List (be_api E)) (\<lambda>r v. be_view E v = be_view E w) w) \<and>
     (\<forall>n w. wp (bp_Get (be_api E) n) (\<lambda>r v. be_view E v = be_view E w \<and>
        (case r of Ok st \<Rightarrow> be_view E w n = Some (ptr_Deref st False)
         | Err e \<Rightarrow> \<not> is_not_found e \<or> be_view E w n = None | Panic _ \<Rightarrow> True)) w) \<and>
     (\<forall>n b w. wp (bp_Patch (be_api E) n (if b then patchBlueprintStop else patchBlueprintStart))
        (\<lambda>r v. (\<forall>m. m \<noteq> n \<longrightarrow> be_view E v m = be_view E w m) \<and>
          (be_view E v n = map_option (\<lambda>_. b) (be_view E w n) \<or> (\<forall>x. r \<noteq> Ok x) \<and> be_view E v n = be_view E w n)) w)"

lemma blueprint_env_okD:
  assumes "blueprint_env_ok E"
  shows "bp_List (be_api E) w = (r1, v) \<Longrightarrow> be_view E v = be_view E w"
    and "bp_Get (be_api E) n w = (r2, v) \<Longrightarrow> be_view E v = be_view E w"
    and "bp_Get (be_api E) n w = (Ok st, v) \<Longrightarrow> be_view E w n = Some (ptr_Deref st False)"
    and "bp_Get (be_api E) n w = (Err e, v) \<Longrightarrow> is_not_found e \<Longrightarrow> be_view E w n = None"
    and "bp_Patch (be_api E) n (if b then patchBlueprintStop else patchBlueprintStart) w = (r3, v) \<Longrightarrow>
      (\<forall>m. m \<noteq> n \<longrightarrow> be_view E v m = be_view E w m) \<and>
      (be_view E v n = map_option (\<lambda>_. b) (be_view E w n) \<or> (\<forall>x. r3 \<noteq> Ok x) \<and> be_view E v n = be_view E w n)"
proof -
  note ok = assms [unfolded blueprint_env_ok_def]
  show "bp_List (be_api E) w = (r1, v) \<Longrightarrow> be_view E v = be_view E w"
    using ok wpD [where m = "bp_List (be_api E)"] by blast
  have get: "bp_Get (be_api E) n w = (r, v) \<Longrightarrow> be_view E v = be_view E w \<and>
      (case r of Ok st \<Rightarrow> be_view E w n = Some (ptr_Deref st False)
         | Err e \<Rightarrow> \<not> is_not_found e \<or> be_view E w n = None | Panic _ \<Rightarrow> True)" for r
    using ok wpD [where m = "bp_Get (be_api E) n"] by blast
  show "bp_Get (be_api E) n w = (r2, v) \<Longrightarrow> be_view E v = be_view E w"
    and "bp_Get (be_api E) n w = (Ok st, v) \<Longrightarrow> be_view E w n = Some (ptr_Deref st False)"
    and "bp_Get (be_api E) n w = (Err e, v) \<Longrightarrow> is_not_found e \<Longrightarrow> be_view E w n = None"
    using get [of r2] get [of "Ok st"] get [of "Err e"] by simp_all
  show "bp_Patch (be_api E) n (if b then patchBlueprintStop else patchBlueprintStart) w = (r3, v) \<Longrightarrow>
      (\<forall>m. m \<noteq> n \<longrightarrow> be_view E v m = be_view E w m) \<and>
      (be_view E v n = map_option (\<lambda>_. b) (be_view E w n) \<or> (\<forall>x. r3 \<noteq> Ok x) \<and> be_view E v n = be_view E w n)"
    using ok wpD [where m = "bp_Patch (be_api E) n (if b then patchBlueprintStop else patchBlueprintStart)"] by blast
qed

abbreviation blueprint_stopped :: "'w blueprint_env \<Rightarrow> 'w BlueprintControl \<Rightarrow> string \<Rightarrow> bool option" where
  "blueprint_stopped E s \<equiv> be_view E (bp_world s)"

lemma wp_on_blueprints [wp, simp]:
  "wp (on_blueprints m) Q s = wp m (\<lambda>r w. Q r (s\<lparr>bp_world := w\<rparr>)) (bp_world s)"
  by (simp add: wp_def on_blueprints_def split: prod.splits)

text \<open>The two ways of a call: without a patch, or with one.\<close>

lemma startStopBlueprint_cases:
  assumes "startStopBlueprint api n b s = (r, t)"
  obtains (unpatched) g w where "bp_Get api n (bp_world s) = (g, w)" "t = s\<lparr>bp_world := w\<rparr>"
      "\<And>changed. r = Ok changed \<Longrightarrow> \<not> changed \<and> ((\<exists>st. g = Ok st \<and> ptr_Deref st False = b) \<or> (\<exists>e. g = Err e \<and> is_not_found e))"
    | (patched) st w q v where "bp_Get api n (bp_world s) = (Ok st, w)" "ptr_Deref st False = (\<not> b)"
      "bp_Patch api n (if b then patchBlueprintStop else patchBlueprintStart) w = (q, v)" "t = s\<lparr>bp_world := v\<rparr>"
      "(\<exists>x. q = Ok x) \<longleftrightarrow> (\<exists>x. r = Ok x)" "\<And>changed. r = Ok changed \<Longrightarrow> changed"
proof -
  obtain g w where g: "bp_Get api n (bp_world s) = (g, w)" by fastforce
  show ?thesis
  proof (cases "\<exists>st. g = Ok st \<and> ptr_Deref st False \<noteq> b")
    case True
    then obtain st where st: "g = Ok st" "ptr_Deref st False = (\<not> b)" by auto
    let ?patch = "if b then patchBlueprintStop else patchBlueprintStart"
    obtain q v where p: "bp_Patch api n ?patch w = (q, v)" by fastforce
    have "wp (startStopBlueprint api n b) (\<lambda>r t. t = s\<lparr>bp_world := v\<rparr> \<and> ((\<exists>x. q = Ok x) \<longleftrightarrow> (\<exists>x. r = Ok x)) \<and>
        (\<forall>changed. r = Ok changed \<longrightarrow> changed)) s"
      using st by (cases q) (auto simp: startStopBlueprint_def Let_def wp_eq [where m = "bp_Get api n", OF g]
        wp_eq [where m = "bp_Patch api n ?patch", OF p] split del: if_split)
    from wpD [OF this assms] have "t = s\<lparr>bp_world := v\<rparr> \<and> ((\<exists>x. q = Ok x) \<longleftrightarrow> (\<exists>x. r = Ok x)) \<and> (\<forall>changed. r = Ok changed \<longrightarrow> changed)" .
    with patched [OF g [unfolded st(1)] st(2) p] show ?thesis by blast
  next
    case False
    then have "wp (startStopBlueprint api n b) (\<lambda>r t. t = s\<lparr>bp_world := w\<rparr> \<and>
        (\<forall>changed. r = Ok changed \<longrightarrow> \<not> changed \<and> ((\<exists>st. g = Ok st \<and> ptr_Deref st False = b) \<or> (\<exists>e. g = Err e \<and> is_not_found e)))) s"
      by (cases g) (simp_all add: startStopBlueprint_def wp_eq [where m = "bp_Get api n", OF g])
    from wpD [OF this assms] unpatched [OF g] show ?thesis by blast
  qed
qed

interpretation blueprints: start_stop blueprint_env_ok blueprint_stopped "\<lambda>E n. Some n"
  "\<lambda>E. startStopBlueprint (be_api E)"
proof
  fix E :: "'w blueprint_env" and name b and s :: "'w BlueprintControl"
  assume E: "blueprint_env_ok E"
  note D = blueprint_env_okD [OF E]
  obtain r t where run: "startStopBlueprint (be_api E) name b s = (r, t)" by fastforce
  then have "(\<forall>m. name \<noteq> m \<longrightarrow> blueprint_stopped E t m = blueprint_stopped E s m) \<and>
      (case r of Ok _ \<Rightarrow> blueprint_stopped E t name = map_option (\<lambda>_. b) (blueprint_stopped E s name)
        | _ \<Rightarrow> blueprint_stopped E t name = None \<longleftrightarrow> blueprint_stopped E s name = None)"
  proof (cases rule: startStopBlueprint_cases)
    case (unpatched g w)
    with D(2-4) [of name "bp_world s"] show ?thesis by (cases r) fastforce+
  next
    case (patched st w q v)
    with D(2) [of name "bp_world s"] D(5) [of name b w] show ?thesis by (cases r) fastforce+
  qed
  then show "wp (startStopBlueprint (be_api E) name b) (\<lambda>r t.
      (\<forall>m. Some name \<noteq> Some m \<longrightarrow> blueprint_stopped E t m = blueprint_stopped E s m) \<and>
      (\<forall>m. Some name = Some m \<longrightarrow>
        (case r of Ok _ \<Rightarrow> blueprint_stopped E t m = map_option (\<lambda>_. b) (blueprint_stopped E s m)
           | _ \<Rightarrow> blueprint_stopped E t m = None \<longleftrightarrow> blueprint_stopped E s m = None))) s"
    by (simp add: wp_def run)
qed

section \<open>The list of stopped blueprints\<close>

text \<open>
  The client with an observer: beside the world stands the list of the blueprints for which a patch to
  stop them was answered with an error. It changes nothing else.
\<close>

definition recording :: "'w blueprint_api \<Rightarrow> ('w \<times> string list) blueprint_api" where
  "recording api = \<lparr>bp_List = beside (bp_List api), bp_Get = (\<lambda>n. beside (bp_Get api n)),
     bp_Patch = (\<lambda>n p (w, failed). case bp_Patch api n p w of (r, v) \<Rightarrow>
       (r, (v, if p = patchBlueprintStop \<and> (\<forall>x. r \<noteq> Ok x) then n # failed else failed)))\<rparr>"

definition recorded :: "'w blueprint_env \<Rightarrow> ('w \<times> string list) blueprint_env" where
  "recorded E = \<lparr>be_api = recording (be_api E), be_view = be_view E \<circ> fst\<rparr>"

abbreviation failed_stops :: "('w \<times> string list) BlueprintControl \<Rightarrow> string set" where
  "failed_stops s \<equiv> set (snd (bp_world s))"

lemma patches_differ: "patchBlueprintStart \<noteq> patchBlueprintStop"
  by code_simp

lemma recorded_view [simp]: "be_view (recorded E) w = be_view E (fst w)" "be_api (recorded E) = recording (be_api E)"
  by (simp_all add: recorded_def)

text \<open>What one call does to the world and to the list of the observer.\<close>

lemma recorded_call:
  assumes "blueprint_env_ok E" "startStopBlueprint (recording (be_api E)) n b s = (r, t)"
  shows "stoppedBlueprints t = stoppedBlueprints s"
    and "m \<noteq> n \<Longrightarrow> be_view E (fst (bp_world t)) m = be_view E (fst (bp_world s)) m"
    and "r = Ok changed \<Longrightarrow> changed = (be_view E (fst (bp_world s)) n = Some (\<not> b)) \<and>
      be_view E (fst (bp_world t)) n = map_option (\<lambda>_. b) (be_view E (fst (bp_world s)) n) \<and>
      failed_stops t = failed_stops s"
    and "\<forall>x. r \<noteq> Ok x \<Longrightarrow>
      be_view E (fst (bp_world t)) n = be_view E (fst (bp_world s)) n \<and> failed_stops t = failed_stops s \<or>
      be_view E (fst (bp_world s)) n = Some (\<not> b) \<and> be_view E (fst (bp_world t)) n \<noteq> None \<and>
        failed_stops t = (if b then insert n (failed_stops s) else failed_stops s)"
proof -
  note D = blueprint_env_okD [OF assms(1)]
  have "stoppedBlueprints t = stoppedBlueprints s \<and>
    (\<forall>m. m \<noteq> n \<longrightarrow> be_view E (fst (bp_world t)) m = be_view E (fst (bp_world s)) m) \<and>
    (\<forall>changed. r = Ok changed \<longrightarrow> changed = (be_view E (fst (bp_world s)) n = Some (\<not> b)) \<and>
      be_view E (fst (bp_world t)) n = map_option (\<lambda>_. b) (be_view E (fst (bp_world s)) n) \<and>
      failed_stops t = failed_stops s) \<and>
    ((\<forall>x. r \<noteq> Ok x) \<longrightarrow>
      be_view E (fst (bp_world t)) n = be_view E (fst (bp_world s)) n \<and> failed_stops t = failed_stops s \<or>
      be_view E (fst (bp_world s)) n = Some (\<not> b) \<and> be_view E (fst (bp_world t)) n \<noteq> None \<and>
        failed_stops t = (if b then insert n (failed_stops s) else failed_stops s))"
    using assms(2)
  proof (cases rule: startStopBlueprint_cases)
    case (unpatched g w)
    then have g: "bp_Get (be_api E) n (fst (bp_world s)) = (g, fst w)" "snd w = snd (bp_world s)"
      by (auto simp: recording_def beside_def split: prod.splits)
    with unpatched(2,3) D(2-4) [of n "fst (bp_world s)"] show ?thesis by (cases r) fastforce+
  next
    case (patched st w q v)
    then have g: "bp_Get (be_api E) n (fst (bp_world s)) = (Ok st, fst w)" "snd w = snd (bp_world s)"
      by (auto simp: recording_def beside_def split: prod.splits)
    have p: "bp_Patch (be_api E) n (if b then patchBlueprintStop else patchBlueprintStart) (fst w) = (q, fst v)"
      "set (snd v) = (if b \<and> (\<forall>x. q \<noteq> Ok x) then insert n (failed_stops s) else failed_stops s)"
      using patched(3) g(2) patches_differ by (auto simp: recording_def split: prod.splits if_splits)
    have was: "be_view E (fst (bp_world s)) n = Some (\<not> b)" "be_view E (fst w) = be_view E (fst (bp_world s))"
      using D(2,3) [OF g(1)] patched(2) by auto
    with D(5) [OF p(1)] p(2) patched(4-6) show ?thesis by (cases r) auto
  qed
  then show "stoppedBlueprints t = stoppedBlueprints s"
    and "m \<noteq> n \<Longrightarrow> be_view E (fst (bp_world t)) m = be_view E (fst (bp_world s)) m"
    and "r = Ok changed \<Longrightarrow> changed = (be_view E (fst (bp_world s)) n = Some (\<not> b)) \<and>
      be_view E (fst (bp_world t)) n = map_option (\<lambda>_. b) (be_view E (fst (bp_world s)) n) \<and>
      failed_stops t = failed_stops s"
    and "\<forall>x. r \<noteq> Ok x \<Longrightarrow>
      be_view E (fst (bp_world t)) n = be_view E (fst (bp_world s)) n \<and> failed_stops t = failed_stops s \<or>
      be_view E (fst (bp_world s)) n = Some (\<not> b) \<and> be_view E (fst (bp_world t)) n \<noteq> None \<and>
        failed_stops t = (if b then insert n (failed_stops s) else failed_stops s)"
    by blast+
qed

text \<open>
  The invariant of the control, relative to the state \<open>orig\<close> of the blueprints before it
  was created: a listed blueprint was running, a failed stop was that of a running blueprint, and every
  other blueprint is as it was.
\<close>

definition in_order :: "(string \<Rightarrow> bool option) \<Rightarrow> string set \<Rightarrow> (string \<Rightarrow> bool option) \<Rightarrow> bool" where
  "in_order orig touched view \<longleftrightarrow>
     (\<forall>n. if n \<in> touched then orig n = Some False \<and> view n \<noteq> None else view n = orig n)"

lemma in_order_touch:
  assumes "in_order orig K v" "\<And>m. m \<noteq> n \<Longrightarrow> u m = v m" "n \<in> K \<or> v n = Some False" "u n \<noteq> None"
  shows "in_order orig (insert n K) u"
  unfolding in_order_def
proof
  fix m
  have "orig n = Some False" using assms(1,3) unfolding in_order_def by metis
  with assms(1,2,4) show "if m \<in> insert n K then orig m = Some False \<and> u m \<noteq> None else u m = orig m"
    by (cases "m = n") (auto simp: in_order_def)
qed

lemma in_order_same: "in_order orig K v \<Longrightarrow> (\<And>m. u m = v m) \<Longrightarrow> in_order orig K u"
  by (simp add: in_order_def)

definition stopped_inv :: "'w blueprint_env \<Rightarrow> (string \<Rightarrow> bool option) \<Rightarrow> ('w \<times> string list) BlueprintControl \<Rightarrow> bool" where
  "stopped_inv E orig s \<longleftrightarrow>
     in_order orig (set (stoppedBlueprints s) \<union> failed_stops s) (be_view E (fst (bp_world s)))"

lemma stopped_inv_stop:
  assumes E: "blueprint_env_ok E" and run: "startStopBlueprint (recording (be_api E)) n True s = (r, t)"
    and inv: "stopped_inv E orig s"
  shows "r = Ok True \<Longrightarrow> stopped_inv E orig (t\<lparr>stoppedBlueprints := stoppedBlueprints t @ [n]\<rparr>)"
    and "r \<noteq> Ok True \<Longrightarrow> stopped_inv E orig t"
proof -
  let ?K = "set (stoppedBlueprints s) \<union> failed_stops s"
  let ?v = "be_view E (fst (bp_world s))" and ?u = "be_view E (fst (bp_world t))"
  note C = recorded_call [OF E run]
  have touch: "in_order orig (insert n ?K) ?u" if "?v n = Some False" "?u n \<noteq> None"
    using in_order_touch [OF inv [unfolded stopped_inv_def], of n ?u] C(2) that by blast
  note same = in_order_same [OF inv [unfolded stopped_inv_def], of ?u]
  show "stopped_inv E orig (t\<lparr>stoppedBlueprints := stoppedBlueprints t @ [n]\<rparr>)" if "r = Ok True"
    using touch C(1) C(3) [OF that] by (simp add: stopped_inv_def)
  have pass: "stopped_inv E orig t" if "?u n = ?v n" "failed_stops t = failed_stops s"
    using same C(1) C(2) that unfolding stopped_inv_def by metis
  show "stopped_inv E orig t" if "r \<noteq> Ok True"
  proof (cases "\<exists>c. r = Ok c")
    case True
    with that have ok: "r = Ok False" by auto
    from C(3) [OF this] have "?v n \<noteq> Some False" "?u n = map_option (\<lambda>_. True) (?v n)" by simp_all
    then have "?u n = ?v n" by (cases "?v n") auto
    with pass C(3) [OF ok] show ?thesis by blast
  next
    case False
    then have "\<forall>c. r \<noteq> Ok c" by blast
    from C(4) [OF this] pass touch C(1) show ?thesis by (auto simp: stopped_inv_def)
  qed
qed

lemma stopped_inv_start:
  assumes E: "blueprint_env_ok E" and run: "startStopBlueprint (recording (be_api E)) n False s = (r, t)"
    and inv: "stopped_inv E orig s" and n: "n \<in> set (stoppedBlueprints s)"
  shows "stopped_inv E orig t" "stoppedBlueprints t = stoppedBlueprints s"
    and "m \<noteq> n \<Longrightarrow> be_view E (fst (bp_world t)) m = be_view E (fst (bp_world s)) m"
    and "r = Ok c \<Longrightarrow> be_view E (fst (bp_world t)) n = Some False"
proof -
  let ?v = "be_view E (fst (bp_world s))" and ?u = "be_view E (fst (bp_world t))"
  note C = recorded_call [OF E run]
  have some: "?v n \<noteq> None" using inv n unfolding stopped_inv_def in_order_def by (metis UnI1)
  have "failed_stops t = failed_stops s \<and> ?u n \<noteq> None"
  proof (cases "\<exists>c. r = Ok c")
    case True
    then obtain c where "r = Ok c" by blast
    from C(3) [OF this] some show ?thesis by simp
  next
    case False
    then have "\<forall>c. r \<noteq> Ok c" by blast
    from C(4) [OF this] some show ?thesis by auto
  qed
  then have failed: "failed_stops t = failed_stops s" and there: "?u n \<noteq> None" by blast+
  have "insert n (set (stoppedBlueprints s) \<union> failed_stops s) = set (stoppedBlueprints s) \<union> failed_stops s"
    using n by blast
  with in_order_touch [OF inv [unfolded stopped_inv_def], of n ?u] C(1,2) n failed there
  show "stopped_inv E orig t" by (simp add: stopped_inv_def)
  show "stoppedBlueprints t = stoppedBlueprints s" by (rule C(1))
  show "m \<noteq> n \<Longrightarrow> ?u m = ?v m" by (rule C(2))
  show "r = Ok c \<Longrightarrow> ?u n = Some False" using C(3) some by (cases "?v n") auto
qed

lemma StopBlueprint_keeps:
  assumes E: "blueprint_env_ok E"
  shows "keeps (stopped_inv E orig) (StopBlueprint (recording (be_api E)) ctx)"
proof -
  let ?add = "\<lambda>name changed. if changed
     then modify (\<lambda>s :: ('a \<times> string list) BlueprintControl. s\<lparr>stoppedBlueprints := stoppedBlueprints s @ [name]\<rparr>) else ret ()"
  have body: "keeps (stopped_inv E orig)
      (andThen (orWrap p (startStopBlueprint (recording (be_api E)) name True)) (?add name))" for name p
    unfolding keeps_def
  proof (intro allI impI)
    fix s assume inv: "stopped_inv E orig s"
    obtain r t where run: "startStopBlueprint (recording (be_api E)) name True s = (r, t)" by fastforce
    note T = stopped_inv_stop [OF E run inv]
    show "wp (andThen (orWrap p (startStopBlueprint (recording (be_api E)) name True)) (?add name))
       (\<lambda>_ t. stopped_inv E orig t) s"
      using T by (cases r) (simp_all add: wp_eq [where m = "startStopBlueprint (recording (be_api E)) name True", OF run])
  qed
  have list: "keeps (stopped_inv E orig) (orWrap p (on_blueprints (bp_List (recording (be_api E)))))" for p
    unfolding keeps_def
  proof (intro allI impI)
    fix s assume inv: "stopped_inv E orig s"
    obtain r v where l: "bp_List (be_api E) (fst (bp_world s)) = (r, v)" by fastforce
    with blueprint_env_okD(1) [OF E l] inv
    show "wp (orWrap p (on_blueprints (bp_List (recording (be_api E))))) (\<lambda>_ t. stopped_inv E orig t) s"
      by (cases r) (simp_all add: recording_def wp_eq [where m = "bp_List (be_api E)", OF l] stopped_inv_def)
  qed
  show ?thesis unfolding StopBlueprint_def by (intro keeps_andThen keeps_for_each list body)
qed

lemma StartBlueprint_keeps:
  assumes E: "blueprint_env_ok E"
  shows "keeps (stopped_inv E orig) (StartBlueprint (recording (be_api E)) ctx)"
  unfolding keeps_def
proof (intro allI impI)
  fix s assume inv: "stopped_inv E orig s"
  let ?ns = "stoppedBlueprints s"
  let ?f = "\<lambda>n. andThen (orWrap ''failed to start blueprint'' (startStopBlueprint (recording (be_api E)) n False)) (\<lambda>_. ret ())"
  let ?I = "\<lambda>ns t. stoppedBlueprints t = ?ns \<and> stopped_inv E orig t \<and>
    (\<forall>n \<in> set ns. be_view E (fst (bp_world t)) n = Some False)"
  have "wp (for_each ?f ?ns) (\<lambda>r t. case r of Ok _ \<Rightarrow> ?I ?ns t | _ \<Rightarrow> stopped_inv E orig t) s"
  proof (rule wp_for_each [where I = ?I and E = "\<lambda>_. stopped_inv E orig"])
    show "?I [] s" using inv by simp
    fix ys x zs t assume ns: "?ns = ys @ x # zs" and I: "?I ys t"
    obtain r u where run: "startStopBlueprint (recording (be_api E)) x False t = (r, u)" by fastforce
    have "x \<in> set (stoppedBlueprints t)" using I ns by simp
    note T = stopped_inv_start [OF E run _ this, of orig]
    have all: "be_view E (fst (bp_world u)) n = Some False" if "r = Ok c" "n \<in> set (ys @ [x])" for c n
      using that T(3,4) I by (cases "n = x") auto
    show "wp (?f x) (\<lambda>r t. case r of Ok _ \<Rightarrow> ?I (ys @ [x]) t | _ \<Rightarrow> stopped_inv E orig t) t"
      using T(1,2) I all by (cases r) (simp_all add: wp_eq [where m = "startStopBlueprint (recording (be_api E)) x False", OF run])
  qed
  moreover have "stopped_inv E orig (t\<lparr>stoppedBlueprints := []\<rparr>)" if I: "?I ?ns t" for t
    using I unfolding stopped_inv_def in_order_def by (auto; metis)
  ultimately show "wp (StartBlueprint (recording (be_api E)) ctx) (\<lambda>_ t. stopped_inv E orig t) s"
    unfolding StartBlueprint_def wp_andThen wp_get_state result.case
    by (elim wp_mono) (simp split: result.splits)
qed

text \<open>Every history of calls, however each of them ends.\<close>

inductive bc_run :: "'w blueprint_api \<Rightarrow> 'w BlueprintControl \<Rightarrow> 'w BlueprintControl \<Rightarrow> bool" for api where
  bc_new: "bc_run api s s"
| bc_stop: "bc_run api s t \<Longrightarrow> StopBlueprint api ctx t = (r, u) \<Longrightarrow> bc_run api s u"
| bc_start: "bc_run api s t \<Longrightarrow> StartBlueprint api ctx t = (r, u) \<Longrightarrow> bc_run api s u"

lemma bc_run_inv:
  assumes "bc_run (recording (be_api E)) s t" "blueprint_env_ok E" "stopped_inv E orig s"
  shows "stopped_inv E orig t"
  using assms
proof (induction rule: bc_run.induct)
  case (bc_stop s t ctx r u)
  then show ?case using keepsD [OF StopBlueprint_keeps] by blast
next
  case (bc_start s t ctx r u)
  then show ?case using keepsD [OF StartBlueprint_keeps] by blast
qed

section \<open>Properties\<close>


text \<open>
  A cluster for the witness: one blueprint runs, one is stopped, and the patches of a third are
  applied and then answered with a timeout.
\<close>

definition sample_bps :: "(string \<times> bool) list \<Rightarrow> string \<Rightarrow> bool option" where
  "sample_bps = map_of"

definition sample_blueprint_api :: "(string \<times> bool) list blueprint_api" where
  "sample_blueprint_api = \<lparr>bp_List = (\<lambda>w. (Ok (map fst w), w)),
     bp_Get = (\<lambda>n w. case map_of w n of None \<Rightarrow> (Err (StatusError NotFound ''not found''), w)
       | Some b \<Rightarrow> (Ok (if b then Some True else None), w)),
     bp_Patch = (\<lambda>n p w. (if n = ''slow'' then Err DeadlineExceeded else Ok (),
       map (\<lambda>(m, b). (m, if m = n then p = patchBlueprintStop else b)) w))\<rparr>"

definition sample_blueprint_env :: "(string \<times> bool) list blueprint_env" where
  "sample_blueprint_env = \<lparr>be_api = sample_blueprint_api, be_view = sample_bps\<rparr>"

lemma sample_blueprint_env_ok: "blueprint_env_ok sample_blueprint_env"
proof -
  have "map_of (map (\<lambda>(m, b). (m, if m = n then c else b)) w) =
      (\<lambda>m. if m = n then map_option (\<lambda>_. c) (map_of w n) else map_of w m)" for n c and w :: "(string \<times> bool) list"
    by (induction w) (auto simp: fun_eq_iff)
  then show ?thesis
    using patches_differ
    by (auto simp: blueprint_env_ok_def wp_def sample_blueprint_env_def sample_blueprint_api_def sample_bps_def ptr_Deref_def
        split: option.splits)
qed


end
