(* ===== verification/System_Info.thy ===== *)
theory System_Info imports Dogu_Control "HOL-Library.AList" begin

text \<open>
  Collecting and comparing the two systems (\<open>systeminfo/provider.go\<close>, \<open>validator.go\<close>).
  The validator is a pure function; it is proved to accept exactly the pairs of systems
  that agree in the sense of \<open>systems_agree\<close>.
\<close>

section \<open>The provider\<close>

text \<open>
  The dogu resources with the result of \<open>GetMinDataVolumeSize\<close>, a method of the dogu library
  that is a parameter, and the component resources as pairs of name and version.
\<close>

record 'w info_api =
  pr_doguList :: "('w, Dogu_cr list) go"
  pr_componentList :: "('w, (string \<times> string) list) go"
  GetMinDataVolumeSize :: "Dogu_cr \<Rightarrow> err + int64"
  pr_GetSystemInfo :: "ctx \<Rightarrow> ('w, SystemInfo) go"

definition importer_dogu :: "'w info_api \<Rightarrow> Dogu_cr \<Rightarrow> ('w, Dogu) go" where
  "importer_dogu api d =
     andThen (orWrap ''could not get minDataVolumeSize for dogu'' (pure (GetMinDataVolumeSize api d))) (\<lambda>vol.
     ret \<lparr>dogu_Name = spec_Name (cr_Spec d), dogu_Version = cr_InstalledVersion d,
       dogu_Volume = \<lparr>SizeInBytes = vol\<rparr>\<rparr>)"

definition GetImporterSystemInfo :: "'w info_api \<Rightarrow> ctx \<Rightarrow> ('w, SystemInfo) go" where
  "GetImporterSystemInfo api ctx =
     andThen (orWrap ''could not get systems dogus'' (pr_doguList api)) (\<lambda>dogus.
     andThen (for_collect (importer_dogu api) dogus) (\<lambda>systemInfoDogus.
     handle (pr_componentList api)
       (\<lambda>e. fail (errorf_v ''could not get systems components'' e))
       (\<lambda>components.
     let systemInfoComponents = map (\<lambda>(n, v). \<lparr>component_Name = n, component_Version = v\<rparr>) components in
     ret \<lparr>si_FQDN = [], si_IsMultinode = False, si_Dogus = systemInfoDogus,
       si_Components = systemInfoComponents\<rparr>)))"

definition GetExporterSystemInfo :: "'w info_api \<Rightarrow> ctx \<Rightarrow> ('w, SystemInfo) go" where
  "GetExporterSystemInfo api ctx = pr_GetSystemInfo api ctx"

section \<open>The validator\<close>

definition doguNginx :: string where
  "doguNginx = ''official/nginx''"

definition getDoguNameWithoutNamespace :: "name_lib \<Rightarrow> string \<Rightarrow> string" where
  "getDoguNameWithoutNamespace nl doguName = (case QualifiedNameFromString nl doguName of
     Inl err \<Rightarrow> doguName | Inr (ns, n) \<Rightarrow> n)"

definition getExcludedDoguNames :: "name_lib \<Rightarrow> string list \<Rightarrow> string list" where
  "getExcludedDoguNames nl excludedDogus = map (getDoguNameWithoutNamespace nl) excludedDogus"

text \<open>A Go map from names is an association list with distinct keys.\<close>

type_synonym doguMap = "(string \<times> Dogu) list"

definition not_installed :: "Dogu \<Rightarrow> err" where
  "not_installed d = ErrorString (''dogu '' @ dogu_Name d @ '' is not installed (required version: '' @
     dogu_Version d @ '') '' @ [CHR 10])"

definition version_discrepancy :: "Dogu \<Rightarrow> Dogu \<Rightarrow> err" where
  "version_discrepancy ex im = ErrorString (''version discrepancy for dogu '' @ dogu_Name ex @
     ''. Source instance version: '' @ dogu_Version ex @ '', Target instance version: '' @ dogu_Version im)"

definition extra_dogu :: "string \<Rightarrow> err" where
  "extra_dogu name = ErrorString (''dogu '' @ name @
     '' is installed in the importing system but not present in the exporting system '' @ [CHR 10])"

definition validateRegularDogu ::
    "name_lib \<Rightarrow> Dogu \<Rightarrow> doguMap \<Rightarrow> err option \<Rightarrow> err option \<times> doguMap" where
  "validateRegularDogu nl exDogu imDoguMap result =
     (let exDoguName = getDoguNameWithoutNamespace nl (dogu_Name exDogu) in
      case map_of imDoguMap exDoguName of
        None \<Rightarrow> (join2 result (Some (not_installed exDogu)), imDoguMap)
      | Some imDogu \<Rightarrow>
          (let result = (if dogu_Version imDogu \<noteq> dogu_Version exDogu
             then join2 result (Some (version_discrepancy exDogu imDogu)) else result)
           in (result, AList.delete exDoguName imDoguMap)))"

fun validate_loop ::
    "name_lib \<Rightarrow> string list \<Rightarrow> Dogu list \<Rightarrow> doguMap \<Rightarrow> err option \<Rightarrow> err option \<times> doguMap" where
  "validate_loop nl excludedDoguNames [] imDoguMap result = (result, imDoguMap)"
| "validate_loop nl excludedDoguNames (exDogu # exDogus) imDoguMap result =
     (let doguName = getDoguNameWithoutNamespace nl (dogu_Name exDogu) in
      if doguName \<in> set excludedDoguNames \<or> dogu_Name exDogu = doguNginx
      then validate_loop nl excludedDoguNames exDogus imDoguMap result
      else case validateRegularDogu nl exDogu imDoguMap result of
        (result, imDoguMap) \<Rightarrow> validate_loop nl excludedDoguNames exDogus imDoguMap result)"

definition importer_map :: "name_lib \<Rightarrow> Dogu list \<Rightarrow> doguMap" where
  "importer_map nl dogus =
     fold (\<lambda>d m. AList.update (getDoguNameWithoutNamespace nl (dogu_Name d)) d m) dogus []"

text \<open>\<open>range_order\<close> is the order in which the iteration over the map visits its keys.\<close>

definition validateDogus ::
    "name_lib \<Rightarrow> (string list \<Rightarrow> string list) \<Rightarrow> string list \<Rightarrow> SystemInfo \<Rightarrow> SystemInfo \<Rightarrow> err option" where
  "validateDogus nl range_order excludedDogus imInfo exInfo =
     (let excludedDoguNames = getExcludedDoguNames nl excludedDogus in
      case validate_loop nl excludedDoguNames (si_Dogus exInfo) (importer_map nl (si_Dogus imInfo)) None of
        (result, imDoguMap) \<Rightarrow>
          (let imDoguMap = fold AList.delete excludedDoguNames imDoguMap in
           fold (\<lambda>name result. join2 result (Some (extra_dogu name)))
             (range_order (map fst imDoguMap)) result))"

definition component_missing :: "Component \<Rightarrow> err" where
  "component_missing c = ErrorString (''component '' @ component_Name c @
     '' is not installed (required version: '' @ component_Version c @ '') '' @ [CHR 10])"

definition component_discrepancy :: "Component \<Rightarrow> Component \<Rightarrow> err" where
  "component_discrepancy ex im = ErrorString (''version discrepancy for component '' @ component_Name ex @
     ''. Source instance version: '' @ component_Version ex @ '', Target instance version: '' @
     component_Version im @ '' '' @ [CHR 10])"

text \<open>A lookup of a name that is not in the map gives the zero component.\<close>

definition component_error :: "(string \<times> Component) list \<Rightarrow> Component \<Rightarrow> err option" where
  "component_error imComponentsMap c =
     (let imComponent = (case map_of imComponentsMap (component_Name c) of
          None \<Rightarrow> \<lparr>component_Name = [], component_Version = []\<rparr> | Some x \<Rightarrow> x) in
      if component_Name imComponent = [] then Some (component_missing c)
      else if \<not> (component_Version imComponent = component_Version c)
        then Some (component_discrepancy c imComponent) else None)"

definition validateComponents :: "SystemInfo \<Rightarrow> SystemInfo \<Rightarrow> err option" where
  "validateComponents imInfo exInfo =
     (let imComponentsMap = fold (\<lambda>c m. AList.update (component_Name c) c m) (si_Components imInfo) [] in
      fold (\<lambda>c result. case component_error imComponentsMap c of
          None \<Rightarrow> result | Some e \<Rightarrow> join2 result (Some e))
        (si_Components exInfo) None)"

definition doValidateSystemInfo ::
    "name_lib \<Rightarrow> (string list \<Rightarrow> string list) \<Rightarrow> string list \<Rightarrow> SystemInfo \<Rightarrow> SystemInfo \<Rightarrow> err option" where
  "doValidateSystemInfo nl range_order excludedDogus exInfo imInfo =
     join2 (validateDogus nl range_order excludedDogus imInfo exInfo) (validateComponents imInfo exInfo)"

definition Validate ::
    "name_lib \<Rightarrow> (string list \<Rightarrow> string list) \<Rightarrow> string list \<Rightarrow> SystemInfo \<Rightarrow> SystemInfo \<Rightarrow> ('s, unit) go" where
  "Validate nl range_order excludedDogus exporterInfo importerInfo =
     orWrap ''could not validate system info''
       (return_err (doValidateSystemInfo nl range_order excludedDogus exporterInfo importerInfo))"

section \<open>What the validator checks\<close>

text \<open>The last entry with a key counts, as in a Go map.\<close>

definition last_with :: "('a \<Rightarrow> string) \<Rightarrow> 'a list \<Rightarrow> string \<Rightarrow> 'a option" where
  "last_with key xs k = List.find (\<lambda>x. key x = k) (rev xs)"

lemma map_of_fold_update:
  "map_of (fold (\<lambda>x m. AList.update (key x) x m) xs m0) k =
     (case last_with key xs k of None \<Rightarrow> map_of m0 k | Some x \<Rightarrow> Some x)"
proof (induction xs arbitrary: m0)
  case (Cons x xs)
  have find_append: "List.find P (ys @ [y]) =
      (case List.find P ys of None \<Rightarrow> if P y then Some y else None | Some z \<Rightarrow> Some z)" for P and ys :: "'a list" and y
    by (induction ys) auto
  show ?case using Cons.IH [of "AList.update (key x) x m0"]
    by (auto simp: last_with_def find_append update_conv' split: option.splits)
qed (simp add: last_with_def)

lemma last_with_None: "last_with key xs k = None \<longleftrightarrow> k \<notin> key ` set xs"
  by (auto simp: last_with_def find_None_iff)

lemma last_with_Some: "last_with key xs k = Some x \<Longrightarrow> x \<in> set xs \<and> key x = k"
  unfolding last_with_def find_Some_iff by (metis nth_mem set_rev)

abbreviation simple :: "name_lib \<Rightarrow> Dogu \<Rightarrow> string" where
  "simple nl d \<equiv> getDoguNameWithoutNamespace nl (dogu_Name d)"

definition checked_dogus :: "name_lib \<Rightarrow> string list \<Rightarrow> SystemInfo \<Rightarrow> Dogu list" where
  "checked_dogus nl excluded exInfo =
     filter (\<lambda>d. simple nl d \<notin> set (getExcludedDoguNames nl excluded) \<and> dogu_Name d \<noteq> doguNginx)
       (si_Dogus exInfo)"

text \<open>
  The two systems agree: each exported dogu that is neither excluded nor nginx is installed
  in the same version, under the same simple name, and is listed once; no other dogu is
  installed, apart from excluded ones; each exported component is installed in the same
  version.
\<close>

definition dogus_agree :: "name_lib \<Rightarrow> string list \<Rightarrow> SystemInfo \<Rightarrow> SystemInfo \<Rightarrow> bool" where
  "dogus_agree nl excluded exInfo imInfo \<longleftrightarrow>
     (let checked = checked_dogus nl excluded exInfo in
      distinct (map (simple nl) checked) \<and>
      list_all (\<lambda>d. map_option dogu_Version (last_with (simple nl) (si_Dogus imInfo) (simple nl d)) =
        Some (dogu_Version d)) checked \<and>
      list_all (\<lambda>d. simple nl d \<in> set (getExcludedDoguNames nl excluded) \<union> simple nl ` set checked)
        (si_Dogus imInfo))"

definition components_agree :: "SystemInfo \<Rightarrow> SystemInfo \<Rightarrow> bool" where
  "components_agree exInfo imInfo \<longleftrightarrow>
     list_all (\<lambda>c. component_Name c \<noteq> [] \<and>
       map_option component_Version (last_with component_Name (si_Components imInfo) (component_Name c)) =
         Some (component_Version c)) (si_Components exInfo)"

definition systems_agree :: "name_lib \<Rightarrow> string list \<Rightarrow> SystemInfo \<Rightarrow> SystemInfo \<Rightarrow> bool" where
  "systems_agree nl excluded exInfo imInfo \<longleftrightarrow>
     dogus_agree nl excluded exInfo imInfo \<and> components_agree exInfo imInfo"

lemma fold_join_Some_None:
  "fold (\<lambda>x acc. join2 acc (Some (f x))) xs a = None \<longleftrightarrow> a = None \<and> xs = []"
  by (cases xs) (simp_all add: fold_join2_None_iff)

lemma map_of_fold_delete:
  "map_of (fold AList.delete ks m) k = (if k \<in> set ks then None else map_of m k)"
  by (induction ks arbitrary: m) (auto simp: delete_conv')

lemma fold_delete_empty_iff:
  "fold AList.delete ks m = [] \<longleftrightarrow> dom (map_of m) \<subseteq> set ks"
proof -
  have "fold AList.delete ks m = [] \<longleftrightarrow> dom (map_of (fold AList.delete ks m)) = {}"
    by (auto simp: dom_map_of_conv_image_fst)
  also have "\<dots> \<longleftrightarrow> dom (map_of m) \<subseteq> set ks"
    by (auto simp: dom_def map_of_fold_delete split: if_splits)
  finally show ?thesis .
qed

text \<open>The loop over the exported dogus.\<close>

definition loop_agrees :: "name_lib \<Rightarrow> string list \<Rightarrow> Dogu list \<Rightarrow> doguMap \<Rightarrow> bool" where
  "loop_agrees nl ex ds m \<longleftrightarrow>
     (let cs = filter (\<lambda>d. simple nl d \<notin> set ex \<and> dogu_Name d \<noteq> doguNginx) ds in
      distinct (map (simple nl) cs) \<and>
      (\<forall>d \<in> set cs. map_option dogu_Version (map_of m (simple nl d)) = Some (dogu_Version d)))"

lemma loop_agrees_Cons:
  "loop_agrees nl ex (d # ds) m \<longleftrightarrow>
     (if simple nl d \<in> set ex \<or> dogu_Name d = doguNginx then loop_agrees nl ex ds m
      else map_option dogu_Version (map_of m (simple nl d)) = Some (dogu_Version d) \<and>
        loop_agrees nl ex ds (AList.delete (simple nl d) m))"
proof -
  have "(\<forall>c \<in> set cs. map_option dogu_Version (map_of (AList.delete k m) (simple nl c)) = Some (dogu_Version c)) \<longleftrightarrow>
      k \<notin> simple nl ` set cs \<and>
      (\<forall>c \<in> set cs. map_option dogu_Version (map_of m (simple nl c)) = Some (dogu_Version c))" for cs k
    by (auto simp: delete_conv' split: if_splits)
  then show ?thesis by (simp add: loop_agrees_def Let_def) blast
qed

lemma validate_loop_not_None: "r \<noteq> None \<Longrightarrow> fst (validate_loop nl ex ds m r) \<noteq> None"
proof (induction nl ex ds m r rule: validate_loop.induct)
  case (2 nl ex d ds m r)
  have "fst (validateRegularDogu nl d m r) \<noteq> None"
    using 2(3) by (auto simp: validateRegularDogu_def Let_def split: option.splits)
  with 2 show ?case by (auto simp: Let_def split: prod.splits)
qed simp

lemma validateRegularDogu_None_iff:
  "fst (validateRegularDogu nl d m None) = None \<longleftrightarrow>
     map_option dogu_Version (map_of m (simple nl d)) = Some (dogu_Version d)"
  "fst (validateRegularDogu nl d m None) = None \<Longrightarrow>
     snd (validateRegularDogu nl d m None) = AList.delete (simple nl d) m"
  by (auto simp: validateRegularDogu_def Let_def split: option.splits if_splits)

lemma validate_loop_None_iff:
  "(fst (validate_loop nl ex ds m None) = None \<longleftrightarrow> loop_agrees nl ex ds m) \<and>
   (fst (validate_loop nl ex ds m None) = None \<longrightarrow> dom (map_of (snd (validate_loop nl ex ds m None))) =
      dom (map_of m) - simple nl ` set (filter (\<lambda>d. simple nl d \<notin> set ex \<and> dogu_Name d \<noteq> doguNginx) ds))"
proof (induction ds arbitrary: m)
  case Nil
  then show ?case by (simp add: loop_agrees_def)
next
  case (Cons d ds)
  show ?case
  proof (cases "simple nl d \<in> set ex \<or> dogu_Name d = doguNginx")
    case True
    with Cons show ?thesis by (auto simp: loop_agrees_Cons)
  next
    case False
    obtain r' m' where v: "validateRegularDogu nl d m None = (r', m')" by fastforce
    show ?thesis
    proof (cases r')
      case None
      with v validateRegularDogu_None_iff [of nl d m] have ok: "m' = AList.delete (simple nl d) m"
        "map_option dogu_Version (map_of m (simple nl d)) = Some (dogu_Version d)" by auto
      have "dom (map_of m') = dom (map_of m) - {simple nl d}"
        by (auto simp: ok dom_def delete_conv')
      with Cons [of m'] False v None ok show ?thesis
        by (simp add: loop_agrees_Cons Let_def) auto
    next
      case (Some e)
      with v validateRegularDogu_None_iff(1) [of nl d m] have
        "map_option dogu_Version (map_of m (simple nl d)) \<noteq> Some (dogu_Version d)" by auto
      with False v Some validate_loop_not_None [of r' nl ex ds m'] show ?thesis
        by (auto simp: loop_agrees_Cons Let_def)
    qed
  qed
qed

definition range_order_ok :: "(string list \<Rightarrow> string list) \<Rightarrow> bool" where
  "range_order_ok order \<longleftrightarrow> (\<forall>xs. set (order xs) = set xs)"

lemma validateDogus_None_iff:
  assumes "range_order_ok order"
  shows "validateDogus nl order excluded imInfo exInfo = None \<longleftrightarrow> dogus_agree nl excluded exInfo imInfo"
proof -
  let ?ex = "getExcludedDoguNames nl excluded" and ?m = "importer_map nl (si_Dogus imInfo)"
  have order: "order xs = [] \<longleftrightarrow> xs = []" for xs
    using assms by (metis range_order_ok_def set_empty)
  have m: "map_of ?m k = last_with (simple nl) (si_Dogus imInfo) k" for k
    using map_of_fold_update [of "simple nl" "si_Dogus imInfo" "[]" k]
    by (simp add: importer_map_def split: option.splits)
  have dom: "dom (map_of ?m) = simple nl ` set (si_Dogus imInfo)"
    by (auto simp: dom_def m last_with_None [of "simple nl", symmetric, simplified]
        dest: last_with_Some) (metis last_with_None option.exhaust imageI)
  obtain r m' where l: "validate_loop nl ?ex (si_Dogus exInfo) ?m None = (r, m')" by fastforce
  have "validateDogus nl order excluded imInfo exInfo = None \<longleftrightarrow>
      r = None \<and> dom (map_of m') \<subseteq> set ?ex"
    by (simp add: validateDogus_def Let_def l fold_join_Some_None order fold_delete_empty_iff)
  also have "\<dots> \<longleftrightarrow> loop_agrees nl ?ex (si_Dogus exInfo) ?m \<and>
      simple nl ` set (si_Dogus imInfo) \<subseteq> set ?ex \<union> simple nl ` set (checked_dogus nl excluded exInfo)"
    using validate_loop_None_iff [of nl ?ex "si_Dogus exInfo" ?m]
    unfolding l dom fst_conv snd_conv checked_dogus_def [symmetric] by (metis Diff_subset_conv Un_commute)
  also have "\<dots> \<longleftrightarrow> dogus_agree nl excluded exInfo imInfo"
    by (simp add: dogus_agree_def loop_agrees_def checked_dogus_def Let_def m list_all_iff image_subset_iff conj_ac)
  finally show ?thesis .
qed

lemma validateComponents_None_iff:
  "validateComponents imInfo exInfo = None \<longleftrightarrow> components_agree exInfo imInfo"
proof -
  let ?m = "fold (\<lambda>c m. AList.update (component_Name c) c m) (si_Components imInfo) []"
  have m: "map_of ?m k = last_with component_Name (si_Components imInfo) k" for k
    using map_of_fold_update [of component_Name "si_Components imInfo" "[]" k]
    by (simp split: option.splits)
  have "fold (\<lambda>c result. case component_error ?m c of None \<Rightarrow> result | Some e \<Rightarrow> join2 result (Some e)) cs a = None
      \<longleftrightarrow> a = None \<and> list_all (\<lambda>c. component_error ?m c = None) cs" for cs a
    by (induction cs arbitrary: a) (auto split: option.splits)
  moreover have "component_error ?m c = None \<longleftrightarrow> component_Name c \<noteq> [] \<and>
       map_option component_Version (last_with component_Name (si_Components imInfo) (component_Name c)) =
         Some (component_Version c)" for c
    by (auto simp: component_error_def m Let_def dest: last_with_Some split: option.splits)
  ultimately show ?thesis by (simp add: validateComponents_def components_agree_def)
qed

lemma Validate_iff:
  assumes "range_order_ok order"
  shows "wp (Validate nl order excluded exInfo imInfo) (\<lambda>r t. t = s \<and>
     (r = Ok ()) = systems_agree nl excluded exInfo imInfo) s"
  using validateDogus_None_iff [OF assms, of nl excluded imInfo exInfo] validateComponents_None_iff [of imInfo exInfo]
  by (auto simp: Validate_def doValidateSystemInfo_def systems_agree_def split: option.splits)

section \<open>Sizes do not count\<close>

text \<open>The same system with other volumes.\<close>

definition with_volumes :: "(Dogu \<Rightarrow> DoguVolume) \<Rightarrow> SystemInfo \<Rightarrow> SystemInfo" where
  "with_volumes f info = info\<lparr>si_Dogus := map (\<lambda>d. d\<lparr>dogu_Volume := f d\<rparr>) (si_Dogus info)\<rparr>"

lemma last_with_map:
  assumes "\<And>x. key (h x) = key x"
  shows "last_with key (map h xs) k = map_option h (last_with key xs k)"
proof -
  have "List.find (\<lambda>x. key x = k) (map h ys) = map_option h (List.find (\<lambda>x. key x = k) ys)" for ys
    by (induction ys) (simp_all add: assms)
  then show ?thesis by (simp add: last_with_def rev_map)
qed

lemma systems_agree_with_volumes:
  "systems_agree nl excluded (with_volumes f exInfo) (with_volumes g imInfo) = systems_agree nl excluded exInfo imInfo"
  by (simp add: systems_agree_def dogus_agree_def components_agree_def checked_dogus_def with_volumes_def Let_def
      last_with_map filter_map comp_def list.pred_map image_image option.map_comp)

section \<open>Properties\<close>

text \<open>
  C9: the validation returns nil exactly when the two systems agree: it accepts no system
  with a missing, surplus, doubled or differently versioned dogu or a missing or
  differently versioned component, and rejects none that agrees, in whatever order it
  visits its map. Nothing else is compared: with any other sizes of the volumes on both sides the
  verdict is the same, although the comment of \<open>Validate\<close> says that the claims are checked to be
  large enough. That is left to the resizer.
\<close>

theorem Validate_accepts_exactly_agreeing_systems:
  assumes "range_order_ok order"
  shows "wp (Validate nl order excluded exInfo imInfo) (\<lambda>r t. t = s \<and>
       (r = Ok ()) = systems_agree nl excluded exInfo imInfo) s \<and>
    wp (Validate nl order excluded (with_volumes f exInfo) (with_volumes g imInfo)) (\<lambda>r t. t = s \<and>
       (r = Ok ()) = systems_agree nl excluded exInfo imInfo) s"
  using Validate_iff [OF assms, of nl excluded exInfo imInfo s]
    Validate_iff [OF assms, of nl excluded "with_volumes f exInfo" "with_volumes g imInfo" s]
  by (simp only: systems_agree_with_volumes simp_thms)

definition sample_exporter :: SystemInfo where
  "sample_exporter = \<lparr>si_FQDN = ''a'', si_IsMultinode = False,
     si_Dogus = [\<lparr>dogu_Name = ''official/ldap'', dogu_Version = ''1'', dogu_Volume = \<lparr>SizeInBytes = 1\<rparr>\<rparr>,
       \<lparr>dogu_Name = ''official/nginx'', dogu_Version = ''2'', dogu_Volume = \<lparr>SizeInBytes = 1\<rparr>\<rparr>],
     si_Components = []\<rparr>"

definition sample_importer :: "string \<Rightarrow> SystemInfo" where
  "sample_importer name = \<lparr>si_FQDN = [], si_IsMultinode = False,
     si_Dogus = [\<lparr>dogu_Name = name, dogu_Version = ''1'', dogu_Volume = \<lparr>SizeInBytes = 0\<rparr>\<rparr>],
     si_Components = [\<lparr>component_Name = ''k8s-dogu-operator'', component_Version = ''3''\<rparr>]\<rparr>"

text \<open>The second pair of systems: the exported volume of 9 TiB does not fit into the one of no bytes.\<close>

definition huge_volume :: DoguVolume where
  "huge_volume = \<lparr>SizeInBytes = 9 * 2 ^ 40\<rparr>"

theorem Validate_accepts_exactly_agreeing_systems_witness:
  "wp (Validate sample_names (\<lambda>xs. xs) [''premium/backup''] sample_exporter (sample_importer ''official/ldap''))
     (\<lambda>r t. t = () \<and> (r = Ok ()) = True) () \<and>
   wp (Validate sample_names (\<lambda>xs. xs) [''premium/backup''] (with_volumes (\<lambda>_. huge_volume) sample_exporter)
       (with_volumes dogu_Volume (sample_importer ''official/ldap'')))
     (\<lambda>r t. t = () \<and> (r = Ok ()) = True) ()"
proof -
  have agree: "systems_agree sample_names [''premium/backup''] sample_exporter (sample_importer ''official/ldap'') = True"
    by code_simp
  have "range_order_ok (\<lambda>xs. xs)" by (simp add: range_order_ok_def)
  from Validate_accepts_exactly_agreeing_systems [OF this, of sample_names "[''premium/backup'']"
      sample_exporter "sample_importer ''official/ldap''" "()" "\<lambda>_. huge_volume" dogu_Volume]
  show ?thesis unfolding agree .
qed

end
