(* ===== verification/Volume_Resizer.thy ===== *)
theory Volume_Resizer imports System_Info begin

text \<open>
  Growing the volumes of the importing system (\<open>systeminfo/dogu_volume_resizer.go\<close>). The
  resize of each dogu runs in a goroutine of its own: each is a task that makes one API
  call per step, and the loop that starts them is one more goroutine, which handles one dogu per step. A
  scheduler, a parameter, picks which of them makes the next step. It sees the dogus and tasks that are
  left and the world, and since one of the first two changes in every step it can be any interleaving.
\<close>

section \<open>The model\<close>

definition defaultWaitSecondsBetweenRetries :: nat where "defaultWaitSecondsBetweenRetries = 10"
definition defaultMaxWaitMinutes :: nat where "defaultMaxWaitMinutes = 10"

definition maxRetries :: nat where
  "maxRetries = (defaultMaxWaitMinutes * 60) div defaultWaitSecondsBetweenRetries"

text \<open>
  The clients; \<open>pvc_Get\<close> answers the storage capacity of the volume claim in bytes.
  \<open>descriptor\<close> answers for each volume of a dogu version if it needs a backup. The first three are
  called by the goroutines.
\<close>

record 'w resize_api =
  rz_Get :: "string \<Rightarrow> 'w \<Rightarrow> (err + Dogu_cr) \<times> 'w"
  rz_Update :: "Dogu_cr \<Rightarrow> 'w \<Rightarrow> (err + unit) \<times> 'w"
  pvc_Get :: "string \<Rightarrow> 'w \<Rightarrow> (err + int) \<times> 'w"
  ParseVersion :: "string \<Rightarrow> err + string"
  descriptor :: "string \<Rightarrow> string \<Rightarrow> ('w, bool list) go"
  sleep :: "'w \<Rightarrow> 'w"
  rz_quote :: "string \<Rightarrow> string"

definition hasVolumeWithBackup :: "name_lib \<Rightarrow> 'w resize_api \<Rightarrow> Dogu \<Rightarrow> ('w, bool) go" where
  "hasVolumeWithBackup nl api importerDogu =
     andThen (orWrap ''failed to parse importer dogu version''
       (pure (ParseVersion api (dogu_Version importerDogu)))) (\<lambda>version.
     andThen (orWrap ''failed to get qualified dogu name''
       (pure (QualifiedNameFromString nl (dogu_Name importerDogu)))) (\<lambda>qualifiedDoguName.
     andThen (orWrap (''failed to get dogu desciptor for importerDogu '' @ QualifiedName_String nl qualifiedDoguName)
       (descriptor api (snd qualifiedDoguName) version)) (\<lambda>volumes.
     ret (list_ex id volumes))))"

text \<open>
  One resize as a sequence of steps: \<open>Getting\<close> the dogu resource, \<open>Updating\<close> it, \<open>Polling\<close> the
  claim with the number of retries made, and \<open>Finished\<close> with the error of \<open>resize\<close>.
\<close>

datatype resize_task =
    Getting string int64
  | Updating string Dogu_cr int64
  | Polling string nat int64
  | is_Finished: Finished (result_of: "err option")

definition polling_error :: "string \<Rightarrow> err \<Rightarrow> err" where
  "polling_error doguName e = errorf_w (''error waiting for pvc of dogu '' @ doguName @ '' to be resized'') e"

definition too_many_retries :: "'w resize_api \<Rightarrow> string \<Rightarrow> err" where
  "too_many_retries api doguName = ErrorString (''maximum amount of retries reached for the resize of dogu '' @
     rz_quote api doguName @ '' volume'')"

fun resize_step :: "name_lib \<Rightarrow> 'w resize_api \<Rightarrow> resize_task \<Rightarrow> 'w \<Rightarrow> resize_task \<times> 'w" where
  "resize_step nl api (Getting fullDoguName newSize) w =
     (case QualifiedNameFromString nl fullDoguName of
        Inl e \<Rightarrow> (Finished (Some (errorf_w (''dogu '' @ fullDoguName @ '' name is not a qualified dogu name'') e)), w)
      | Inr (ns, doguName) \<Rightarrow> (case rz_Get api doguName w of
          (Inl e, v) \<Rightarrow> (Finished (Some (errorf_w (''dogu '' @ rz_quote api doguName @ '' could not be found'') e)), v)
        | (Inr dogu, v) \<Rightarrow> (Updating doguName dogu newSize, v)))"
| "resize_step nl api (Updating doguName dogu newSize) w =
     (case rz_Update api (dogu\<lparr>cr_Spec := (cr_Spec dogu)\<lparr>spec_MinDataVolumeSize := sint newSize\<rparr>\<rparr>) w of
        (Inl e, v) \<Rightarrow> (Finished (Some (errorf_w (''dogu '' @ rz_quote api doguName @
          '' does not have enough volume capacity and the volume could not be resized'') e)), v)
      | (Inr _, v) \<Rightarrow> (Polling doguName 0 newSize, v))"
| "resize_step nl api (Polling doguName retries newSize) w =
     (let retries = retries + 1 in
      if retries > maxRetries
      then (Finished (Some (polling_error doguName (too_many_retries api doguName))), w)
      else (case pvc_Get api doguName (sleep api w) of
          (Inl _, v) \<Rightarrow> (Polling doguName retries newSize, v)
        | (Inr actualStorage, v) \<Rightarrow> (if sint newSize \<le> actualStorage then Finished None
             else Polling doguName retries newSize, v)))"
| "resize_step nl api (Finished e) w = (Finished e, w)"

text \<open>How many steps a task may still make.\<close>

fun work :: "resize_task \<Rightarrow> nat" where
  "work (Getting _ _) = maxRetries + 4"
| "work (Updating _ _ _) = maxRetries + 3"
| "work (Polling _ retries _) = (maxRetries - retries) + 2"
| "work (Finished _) = 1"

lemma resize_step_work: "resize_step nl api t w = (t', v) \<Longrightarrow> \<not> is_Finished t \<Longrightarrow> work t' < work t"
  by (cases t) (auto simp: Let_def split: prod.splits sum.splits if_splits)

text \<open>
  One round of the loop: the error so far with what the round adds to it, and the goroutine that it
  starts, under the name its error is reported with.
\<close>

definition resize_one ::
    "name_lib \<Rightarrow> 'w resize_api \<Rightarrow> string list \<Rightarrow> Dogu list \<Rightarrow> Dogu \<Rightarrow> err option \<Rightarrow>
      ('w, err option \<times> (string \<times> resize_task) list) go" where
  "resize_one nl api excludedDoguNames importerDogus exporterDogu err =
     (if simple nl exporterDogu \<in> set excludedDoguNames then ret (err, [])
      else case List.find (\<lambda>dogu. dogu_Name dogu = dogu_Name exporterDogu) importerDogus of
        None \<Rightarrow> ret (join2 err
          (Some (ErrorString (''failed to find dogu '' @ dogu_Name exporterDogu @ '' in the importing system''))), [])
      | Some importerDogu \<Rightarrow>
          handle (hasVolumeWithBackup nl api importerDogu)
            (\<lambda>errBackup. ret (join2 err (Some (errorf_w (''failed to check if dogu has volume needing backup for dogu '' @
                dogu_Name importerDogu) errBackup)), []))
            (\<lambda>hasVolumeWithBackup.
               if \<not> hasVolumeWithBackup then ret (err, [])
               else if sint (SizeInBytes (dogu_Volume exporterDogu)) > sint (SizeInBytes (dogu_Volume importerDogu))
               then ret (err, [(dogu_Name exporterDogu,
                    Getting (dogu_Name importerDogu) (SizeInBytes (dogu_Volume exporterDogu)))])
               else ret (err, [])))"

definition sent_error :: "string \<Rightarrow> err option \<Rightarrow> err list" where
  "sent_error name resizeErr = (case resizeErr of None \<Rightarrow> [] | Some e \<Rightarrow> [errorf_w (''failed to resize dogu '' @ name) e])"

definition without :: "nat \<Rightarrow> 'a list \<Rightarrow> 'a list" where
  "without i xs = take i xs @ drop (Suc i) xs"

definition total_work :: "(string \<times> resize_task) list \<Rightarrow> nat" where
  "total_work tasks = sum_list (map (work \<circ> snd) tasks)"

lemma work_pos: "work t > 0"
  by (cases t) simp_all

lemma total_work_append [simp]: "total_work (xs @ ys) = total_work xs + total_work ys"
  by (simp add: total_work_def)

lemma total_work_split:
  "i < length ts \<Longrightarrow> total_work ts = total_work (without i ts) + work (snd (ts ! i))"
  "i < length ts \<Longrightarrow> total_work (ts[i := (n, t)]) = total_work (without i ts) + work t"
  by (subst id_take_nth_drop [of i ts], simp, simp add: total_work_def without_def)
    (simp add: total_work_def without_def upd_conv_take_nth_drop)

lemma resize_one_starts:
  assumes "resize_one nl api ex ims d err w = (Ok (err', new), v)"
  shows "new = [] \<or> (\<exists>im :: Dogu. new = [(dogu_Name d, Getting (dogu_Name im) (SizeInBytes (dogu_Volume d)))])"
proof (cases "List.find (\<lambda>dogu. dogu_Name dogu = dogu_Name d) ims")
  case None
  with assms show ?thesis by (auto simp: resize_one_def ret_def split: if_splits)
next
  case (Some im)
  with assms have "new = [] \<or> new = [(dogu_Name d, Getting (dogu_Name im) (SizeInBytes (dogu_Volume d)))]"
    by (auto simp: resize_one_def go_defs split: if_splits prod.splits result.splits)
  then show ?thesis by blast
qed

lemma picks_dogu:
  assumes "\<not> (dogus = [] \<and> tasks = [])" "\<not> k mod (length tasks + (if dogus = [] then 0 else 1)) < length tasks"
  shows "dogus \<noteq> []"
  using assms by (auto split: if_splits)

type_synonym 'w scheduler = "Dogu list \<Rightarrow> (string \<times> resize_task) list \<Rightarrow> 'w \<Rightarrow> nat"

text \<open>
  The loop and the goroutines until all have ended: the dogus that the loop has not seen, the error
  that it has joined, the tasks that run, and the errors on the channel in the order in which they were
  sent. The channel has room for all of them, and is read when the loop is over. The last step of a task
  sends its error.
\<close>

function resize_all ::
    "name_lib \<Rightarrow> 'w resize_api \<Rightarrow> 'w scheduler \<Rightarrow> string list \<Rightarrow> Dogu list \<Rightarrow>
      Dogu list \<Rightarrow> err option \<Rightarrow> (string \<times> resize_task) list \<Rightarrow> err list \<Rightarrow> ('w, err option) go" where
  "resize_all nl api pick ex importerDogus dogus err tasks errorsChan w =
     (if dogus = [] \<and> tasks = [] then (Ok (fold (\<lambda>e err. join2 err (Some e)) errorsChan err), w) else
      let i = pick dogus tasks w mod (length tasks + (if dogus = [] then 0 else 1)) in
      if i < length tasks then
        (let (name, t) = tasks ! i in
         if is_Finished t
         then resize_all nl api pick ex importerDogus dogus err (without i tasks) (errorsChan @ sent_error name (result_of t)) w
         else let (t', v) = resize_step nl api t w in
           resize_all nl api pick ex importerDogus dogus err (tasks[i := (name, t')]) errorsChan v)
      else let (r, v) = resize_one nl api ex importerDogus (hd dogus) err w in
        (case r of
           Ok (err', new) \<Rightarrow> resize_all nl api pick ex importerDogus (tl dogus) err' (tasks @ new) errorsChan v
         | Err e \<Rightarrow> (Err e, v)
         | Panic p \<Rightarrow> (Panic p, v)))"
  by pat_completeness auto

termination
proof (relation "measure (\<lambda>(nl, api, pick, ex, ims, dogus, err, tasks, errs, w).
    total_work tasks + (maxRetries + 5) * length dogus)", goal_cases)
  case (2 nl api pick ex ims dogus err tasks errs w i p name t)
  then show ?case using work_pos [of t] total_work_split(1) [of i tasks] by (auto dest: arg_cong [where f = snd])
next
  case (3 nl api pick ex ims dogus err tasks errs w i p name t q t' v)
  then have "work t' < work t" "snd (tasks ! i) = t"
    using resize_step_work [of nl api t w t' v] by (auto dest: arg_cong [where f = snd])
  with 3 total_work_split [of i tasks] show ?case by simp
next
  case (4 nl api pick ex ims dogus err tasks errs w i q r v p err' new)
  then obtain d ds where d: "dogus = d # ds" using picks_dogu [of dogus tasks] by (cases dogus) auto
  with 4 resize_one_starts [of nl api ex ims d err w err' new v] have "total_work new \<le> maxRetries + 4"
    by (auto simp: total_work_def)
  with d show ?case by simp
qed simp

declare resize_all.simps [simp del]

text \<open>\<open>NewDoguVolumeResizer\<close> adds nginx to the excluded dogus.\<close>

definition NewDoguVolumeResizer :: "string list \<Rightarrow> string list" where
  "NewDoguVolumeResizer excludedDogus = excludedDogus @ [doguNginx]"

definition ResizeDogusIfNeeded ::
    "name_lib \<Rightarrow> 'w resize_api \<Rightarrow> 'w scheduler \<Rightarrow> string list \<Rightarrow> ctx \<Rightarrow> Dogu list \<Rightarrow> Dogu list \<Rightarrow> ('w, unit) go" where
  "ResizeDogusIfNeeded nl api pick excludedDogus ctx exporterDogus importerDogus =
     andThen (resize_all nl api pick (getExcludedDoguNames nl excludedDogus) importerDogus exporterDogus None [] []) return_err"

section \<open>The volumes\<close>

text \<open>
  The documented behaviour of the clients: volumes never shrink, a claim answers its
  capacity, and the descriptors of dogus do not change.
\<close>

record 'w resize_view =
  capacity :: "'w \<Rightarrow> string \<Rightarrow> int"
  backed_up :: "string \<Rightarrow> string \<Rightarrow> bool"

definition grows :: "'w resize_view \<Rightarrow> 'w \<Rightarrow> 'w \<Rightarrow> bool" where
  "grows V w v \<longleftrightarrow> (\<forall>n. capacity V w n \<le> capacity V v n)"

lemma grows_refl [simp]: "grows V w w"
  and grows_trans [trans]: "grows V a b \<Longrightarrow> grows V b c \<Longrightarrow> grows V a c"
  by (auto simp: grows_def intro: order_trans)

definition resize_api_ok :: "'w resize_api \<Rightarrow> 'w resize_view \<Rightarrow> bool" where
  "resize_api_ok api V \<longleftrightarrow>
     (\<forall>n w r v. rz_Get api n w = (r, v) \<longrightarrow> grows V w v) \<and>
     (\<forall>d w r v. rz_Update api d w = (r, v) \<longrightarrow> grows V w v) \<and>
     (\<forall>w. grows V w (sleep api w)) \<and>
     (\<forall>n w r v. pvc_Get api n w = (r, v) \<longrightarrow> grows V w v \<and> (\<forall>c. r = Inr c \<longrightarrow> capacity V v n = c)) \<and>
     (\<forall>n ver w r v. descriptor api n ver w = (r, v) \<longrightarrow> grows V w v \<and>
        (\<forall>vols. r = Ok vols \<longrightarrow> list_ex id vols = backed_up V n ver))"

lemma resize_api_okD:
  assumes "resize_api_ok api V"
  shows "rz_Get api n w = (r, v) \<Longrightarrow> grows V w v"
    and "rz_Update api d w = (r', v) \<Longrightarrow> grows V w v"
    and "grows V w (sleep api w)"
    and "pvc_Get api n w = (r'', v) \<Longrightarrow> grows V w v"
    and "pvc_Get api n w = (Inr c, v) \<Longrightarrow> capacity V v n = c"
    and "descriptor api n ver w = (q, v) \<Longrightarrow> grows V w v"
    and "descriptor api n ver w = (Ok vols, v) \<Longrightarrow> list_ex id vols = backed_up V n ver"
  using assms unfolding resize_api_ok_def by blast+

definition large_enough :: "name_lib \<Rightarrow> 'w resize_view \<Rightarrow> 'w \<Rightarrow> string \<Rightarrow> int64 \<Rightarrow> bool" where
  "large_enough nl V w name sz \<longleftrightarrow> (case QualifiedNameFromString nl name of
     Inl _ \<Rightarrow> False | Inr (ns, n) \<Rightarrow> sint sz \<le> capacity V w n)"

lemma large_enough_grows: "large_enough nl V w name sz \<Longrightarrow> grows V w v \<Longrightarrow> large_enough nl V v name sz"
  by (auto simp: large_enough_def grows_def split: sum.splits intro: order_trans)

lemma large_enough_less: "large_enough nl V w name a \<Longrightarrow> sint b \<le> sint a \<Longrightarrow> large_enough nl V w name b"
  by (auto simp: large_enough_def split: sum.splits)

text \<open>The aim of a task, in the final state.\<close>

fun aim :: "name_lib \<Rightarrow> 'w resize_view \<Rightarrow> resize_task \<Rightarrow> 'w \<Rightarrow> bool" where
  "aim nl V (Getting full sz) w = large_enough nl V w full sz"
| "aim nl V (Updating n d sz) w = (sint sz \<le> capacity V w n)"
| "aim nl V (Polling n k sz) w = (sint sz \<le> capacity V w n)"
| "aim nl V (Finished e) w = (e = None)"

lemma resize_step_aim:
  assumes "resize_api_ok api V" "resize_step nl api t w = (t', u)" "\<not> is_Finished t"
    and "grows V u v" "aim nl V t' v"
  shows "aim nl V t v"
proof (cases t)
  case (Getting full sz)
  with assms show ?thesis by (auto simp: large_enough_def split: sum.splits prod.splits)
next
  case (Updating n d sz)
  with assms show ?thesis by (auto split: sum.splits prod.splits)
next
  case (Polling n k sz)
  have "sint sz \<le> capacity V v n" if "pvc_Get api n x = (Inr c, u)" "sint sz \<le> c" for x c
    using resize_api_okD(5) [OF assms(1) that(1)] that(2) assms(4)
    by (auto simp: grows_def dest: spec [where x = n] intro: order_trans)
  with Polling assms(2,4,5) show ?thesis
    by (auto simp: Let_def split: sum.splits prod.splits if_splits)
qed (use assms in simp)

lemma resize_step_grows:
  assumes "resize_api_ok api V" "resize_step nl api t w = (t', u)"
  shows "grows V w u"
proof (cases t)
  case (Getting full sz)
  with assms show ?thesis
    by (auto dest: resize_api_okD(1) split: sum.splits prod.splits)
next
  case (Updating n d sz)
  with assms show ?thesis
    by (auto dest: resize_api_okD(2) split: sum.splits prod.splits)
next
  case (Polling n k sz)
  have "grows V w u" if "pvc_Get api n (sleep api w) = (q, u)" for q
    using resize_api_okD(3) [OF assms(1), of w] resize_api_okD(4) [OF assms(1) that] by (rule grows_trans)
  with Polling assms show ?thesis
    by (auto simp: Let_def split: sum.splits prod.splits if_splits)
qed (use assms in auto)

lemma set_nth_split: "i < length xs \<Longrightarrow> set xs = insert (xs ! i) (set (without i xs))"
  using arg_cong [OF id_take_nth_drop, where f = set, of i xs] by (simp add: without_def)

lemma set_update_split: "i < length xs \<Longrightarrow> set (xs[i := x]) = insert x (set (without i xs))"
  unfolding without_def by (auto simp: upd_conv_take_nth_drop)

section \<open>The loop\<close>

definition needs_backup :: "name_lib \<Rightarrow> 'w resize_api \<Rightarrow> 'w resize_view \<Rightarrow> Dogu \<Rightarrow> bool" where
  "needs_backup nl api V d \<longleftrightarrow> (case ParseVersion api (dogu_Version d) of
     Inl _ \<Rightarrow> False
   | Inr version \<Rightarrow> (case QualifiedNameFromString nl (dogu_Name d) of
       Inl _ \<Rightarrow> False | Inr (ns, n) \<Rightarrow> backed_up V n version))"

lemma hasVolumeWithBackup_spec:
  assumes "resize_api_ok api V"
  shows "wp (hasVolumeWithBackup nl api d) (\<lambda>r t. grows V s t \<and>
     (case r of Ok b \<Rightarrow> b = needs_backup nl api V d | _ \<Rightarrow> True)) s"
proof (cases "ParseVersion api (dogu_Version d)")
  case version: (Inr version)
  show ?thesis
  proof (cases "QualifiedNameFromString nl (dogu_Name d)")
    case (Inr q)
    obtain ns n where q: "q = (ns, n)" by fastforce
    obtain r t where run: "descriptor api n version s = (r, t)" by fastforce
    note D = wp_eq [where m = "descriptor api n version", OF run]
    show ?thesis
      using resize_api_okD(6) [OF assms run] resize_api_okD(7) [OF assms, of n version s] run
      by (cases r) (simp_all add: hasVolumeWithBackup_def version Inr q D needs_backup_def)
  qed (simp add: hasVolumeWithBackup_def version)
qed (simp add: hasVolumeWithBackup_def)

text \<open>
  What there is to be true for an exported dogu: it is excluded, or the importing system has the dogu,
  and if this has a volume that needs a backup then \<open>room\<close> holds for the dogu.
\<close>

definition provided ::
    "name_lib \<Rightarrow> 'w resize_api \<Rightarrow> 'w resize_view \<Rightarrow> string list \<Rightarrow> Dogu list \<Rightarrow> (Dogu \<Rightarrow> int64 \<Rightarrow> bool) \<Rightarrow> Dogu \<Rightarrow> bool" where
  "provided nl api V ex importerDogus room d \<longleftrightarrow> simple nl d \<in> set ex \<or>
     (case List.find (\<lambda>dogu. dogu_Name dogu = dogu_Name d) importerDogus of
        None \<Rightarrow> False
      | Some im \<Rightarrow> needs_backup nl api V im \<longrightarrow> room im (SizeInBytes (dogu_Volume d)))"

text \<open>
  The room there is in the end: the size that is declared for the dogu was large enough from the start,
  or its claim has the capacity.
\<close>

definition declared_or_large :: "name_lib \<Rightarrow> 'w resize_view \<Rightarrow> 'w \<Rightarrow> Dogu \<Rightarrow> int64 \<Rightarrow> bool" where
  "declared_or_large nl V w im sz \<longleftrightarrow> sint sz \<le> sint (SizeInBytes (dogu_Volume im)) \<or> large_enough nl V w (dogu_Name im) sz"

lemma find_in_set: "List.find P xs = Some x \<Longrightarrow> x \<in> set xs"
  by (auto simp: find_Some_iff)

lemma provided_mono:
  "provided nl api V ex ims f d \<Longrightarrow> (\<And>im sz. im \<in> set ims \<Longrightarrow> needs_backup nl api V im \<Longrightarrow> f im sz \<Longrightarrow> g im sz) \<Longrightarrow>
     provided nl api V ex ims g d"
  unfolding provided_def by (auto split: option.splits dest: find_in_set)

lemma resize_one_spec:
  assumes ok: "resize_api_ok api V" and run: "resize_one nl api ex ims d err w = (Ok (err', new), v)"
  shows "grows V w v"
    and "err' = None \<Longrightarrow> err = None"
    and "err' = None \<Longrightarrow> \<forall>(n, t) \<in> set new. aim nl V t x \<Longrightarrow> provided nl api V ex ims (declared_or_large nl V x) d"
proof -
  have "grows V w v \<and> (err' = None \<longrightarrow> err = None) \<and>
    (err' = None \<longrightarrow> (\<forall>(n, t) \<in> set new. aim nl V t x) \<longrightarrow> provided nl api V ex ims (declared_or_large nl V x) d)"
  proof (cases "simple nl d \<in> set ex")
    case True
    with run show ?thesis by (auto simp: resize_one_def ret_def provided_def)
  next
    case checked: False
    show ?thesis
    proof (cases "List.find (\<lambda>dogu. dogu_Name dogu = dogu_Name d) ims")
      case None
      with run checked show ?thesis by (auto simp: resize_one_def ret_def)
    next
      case (Some im)
      obtain b u where h: "hasVolumeWithBackup nl api im w = (b, u)" by fastforce
      note H = wpD [OF hasVolumeWithBackup_spec [OF ok] h]
      from run checked Some h H show ?thesis
        by (cases b) (auto simp: resize_one_def provided_def declared_or_large_def handle_def ret_def split: if_splits)
    qed
  qed
  then show "grows V w v" "err' = None \<Longrightarrow> err = None"
    and "err' = None \<Longrightarrow> \<forall>(n, t) \<in> set new. aim nl V t x \<Longrightarrow> provided nl api V ex ims (declared_or_large nl V x) d"
    by blast+
qed

lemma fold_join2_None: "fold (\<lambda>e err. join2 err (Some e)) es err = None \<longleftrightarrow> err = None \<and> es = []"
  by (cases es) (simp_all add: fold_join2_None_iff)

text \<open>All goroutines ended without an error: each reached its aim.\<close>

lemma resize_all_nil:
  assumes "resize_all nl api pick ex ims dogus err tasks errs w = (Ok None, v)" "resize_api_ok api V"
  shows "err = None \<and> errs = [] \<and> grows V w v \<and> (\<forall>(n, t) \<in> set tasks. aim nl V t v) \<and>
    list_all (provided nl api V ex ims (declared_or_large nl V v)) dogus"
  using assms
proof (induction nl api pick ex ims dogus err tasks errs w rule: resize_all.induct)
  case (1 nl api pick ex ims dogus err tasks errs w)
  note unfold = resize_all.simps [of nl api pick ex ims dogus err tasks errs w]
  show ?case
  proof (cases "dogus = [] \<and> tasks = []")
    case True
    from 1(4) [unfolded unfold if_P [OF True]] True show ?thesis by (simp add: fold_join2_None)
  next
    case False
    define i where "i = pick dogus tasks w mod (length tasks + (if dogus = [] then 0 else 1))"
    note run = 1(4) [unfolded unfold if_not_P [OF False] Let_def, folded i_def]
    show ?thesis
    proof (cases "i < length tasks")
      case i: True
      obtain n t where nt: "tasks ! i = (n, t)" by fastforce
      show ?thesis
      proof (cases "is_Finished t")
        case True
        from run i nt True have "resize_all nl api pick ex ims dogus err (without i tasks) (errs @ sent_error n (result_of t)) w = (Ok None, v)"
          by simp
        from 1(1) [OF False i_def i nt [symmetric] refl True this 1(5)] True nt show ?thesis
          by (cases t) (auto simp: set_nth_split [OF i] sent_error_def split: option.splits)
      next
        case unfinished: False
        obtain t' u where step: "resize_step nl api t w = (t', u)" by fastforce
        from run i nt unfinished step have "resize_all nl api pick ex ims dogus err (tasks[i := (n, t')]) errs u = (Ok None, v)"
          by simp
        from 1(2) [OF False i_def i nt [symmetric] refl unfinished step [symmetric] refl this 1(5)]
        have IH: "err = None" "errs = []" "grows V u v" "\<forall>(n, t) \<in> set (tasks[i := (n, t')]). aim nl V t v"
          "list_all (provided nl api V ex ims (declared_or_large nl V v)) dogus" by blast+
        have "aim nl V t v"
          using resize_step_aim [OF 1(5) step unfinished IH(3)] IH(4) by (simp add: set_update_split [OF i])
        moreover have "grows V w v" using resize_step_grows [OF 1(5) step] IH(3) by (rule grows_trans)
        ultimately show ?thesis
          using IH nt by (simp add: set_nth_split [OF i] set_update_split [OF i])
      qed
    next
      case i: False
      then obtain d ds where d: "dogus = d # ds"
        using picks_dogu [OF False, of "pick dogus tasks w"] unfolding i_def by (cases dogus) auto
      obtain r u where one: "resize_one nl api ex ims (hd dogus) err w = (r, u)" by fastforce
      from run i one obtain err' new where r: "r = Ok (err', new)"
        and rest: "resize_all nl api pick ex ims (tl dogus) err' (tasks @ new) errs u = (Ok None, v)"
        by (cases r) auto
      from 1(3) [OF False i_def i one [symmetric] refl r refl rest 1(5)]
      have IH: "err' = None" "errs = []" "grows V u v" "\<forall>(n, t) \<in> set (tasks @ new). aim nl V t v"
        "list_all (provided nl api V ex ims (declared_or_large nl V v)) ds" by (simp_all add: d)
      note S = resize_one_spec [OF 1(5) one [unfolded r d list.sel]]
      have "provided nl api V ex ims (declared_or_large nl V v) d" using S(3) [of v] IH by auto
      moreover have "grows V w v" using S(1) IH(3) by (rule grows_trans)
      ultimately show ?thesis using S(2) IH d by auto
    qed
  qed
qed

section \<open>How often the resizes wait\<close>

text \<open>The clients with a counter of the sleeps beside them, which changes nothing else.\<close>

definition counted :: "'w resize_api \<Rightarrow> ('w \<times> nat) resize_api" where
  "counted api = \<lparr>rz_Get = (\<lambda>n. beside (rz_Get api n)), rz_Update = (\<lambda>d. beside (rz_Update api d)),
     pvc_Get = (\<lambda>n. beside (pvc_Get api n)), ParseVersion = ParseVersion api,
     descriptor = (\<lambda>n v. beside (descriptor api n v)), sleep = (\<lambda>(w, k). (sleep api w, Suc k)), rz_quote = rz_quote api\<rparr>"

text \<open>The sleeps that a task has left.\<close>

fun sleeps :: "resize_task \<Rightarrow> nat" where
  "sleeps (Polling _ retries _) = maxRetries - retries"
| "sleeps (Finished _) = 0"
| "sleeps _ = maxRetries"

definition all_sleeps :: "(string \<times> resize_task) list \<Rightarrow> nat" where
  "all_sleeps tasks = sum_list (map (sleeps \<circ> snd) tasks)"

lemma all_sleeps_append [simp]: "all_sleeps (xs @ ys) = all_sleeps xs + all_sleeps ys"
  by (simp add: all_sleeps_def)

lemma all_sleeps_split:
  "i < length ts \<Longrightarrow> all_sleeps ts = all_sleeps (without i ts) + sleeps (snd (ts ! i))"
  "i < length ts \<Longrightarrow> all_sleeps (ts[i := (n, t)]) = all_sleeps (without i ts) + sleeps t"
  by (subst id_take_nth_drop [of i ts], simp, simp add: all_sleeps_def without_def)
    (simp add: all_sleeps_def without_def upd_conv_take_nth_drop)

lemma resize_step_sleeps:
  assumes "resize_step nl (counted api) t w = (t', v)"
  shows "snd v + sleeps t' \<le> snd w + sleeps t"
  using assms
  by (cases t) (auto simp: counted_def beside_def Let_def split: prod.splits sum.splits if_splits)

lemma resize_one_sleeps:
  assumes "resize_one nl (counted api) ex ims d err w = (r, v)"
  shows "snd v = snd w" "r = Ok (err', new) \<Longrightarrow> all_sleeps new \<le> maxRetries"
proof -
  have backup: "wp (hasVolumeWithBackup nl (counted api) im) (\<lambda>r t. snd t = snd w) w" for im
    by (auto simp: hasVolumeWithBackup_def counted_def intro!: wpI split: sum.splits result.splits)
  have "wp (resize_one nl (counted api) ex ims d err) (\<lambda>r t. snd t = snd w) w"
    by (auto simp: resize_one_def split: option.splits result.splits intro!: wp_mono [OF backup])
  from wpD [OF this assms] show "snd v = snd w" .
  show "r = Ok (err', new) \<Longrightarrow> all_sleeps new \<le> maxRetries"
    using resize_one_starts assms by (fastforce simp: all_sleeps_def)
qed

lemma resize_all_sleeps:
  "resize_all nl (counted api) pick ex ims dogus err tasks errs w = (r, v) \<Longrightarrow>
     snd v \<le> snd w + all_sleeps tasks + maxRetries * length dogus"
proof (induction nl "counted api" pick ex ims dogus err tasks errs w rule: resize_all.induct)
  case (1 nl pick ex ims dogus err tasks errs w)
  note unfold = resize_all.simps [of nl "counted api" pick ex ims dogus err tasks errs w]
  show ?case
  proof (cases "dogus = [] \<and> tasks = []")
    case True
    from 1(4) [unfolded unfold if_P [OF True]] show ?thesis by simp
  next
    case False
    define i where "i = pick dogus tasks w mod (length tasks + (if dogus = [] then 0 else 1))"
    note run = 1(4) [unfolded unfold if_not_P [OF False] Let_def, folded i_def]
    show ?thesis
    proof (cases "i < length tasks")
      case i: True
      obtain n t where nt: "tasks ! i = (n, t)" by fastforce
      show ?thesis
      proof (cases "is_Finished t")
        case True
        from run i nt True have "resize_all nl (counted api) pick ex ims dogus err (without i tasks) (errs @ sent_error n (result_of t)) w = (r, v)"
          by simp
        from 1(1) [OF False i_def i nt [symmetric] refl True this] show ?thesis
          by (simp add: all_sleeps_split(1) [OF i])
      next
        case unfinished: False
        obtain t' u where step: "resize_step nl (counted api) t w = (t', u)" by (rule prod.exhaust)
        from run i nt unfinished step have "resize_all nl (counted api) pick ex ims dogus err (tasks[i := (n, t')]) errs u = (r, v)"
          by simp
        from 1(2) [OF False i_def i nt [symmetric] refl unfinished step [symmetric] refl this] resize_step_sleeps [OF step] nt
        show ?thesis by (simp add: all_sleeps_split [OF i])
      qed
    next
      case i: False
      then obtain d ds where d: "dogus = d # ds"
        using picks_dogu [OF False, of "pick dogus tasks w"] unfolding i_def by (cases dogus) auto
      obtain q u where one: "resize_one nl (counted api) ex ims (hd dogus) err w = (q, u)" by (rule prod.exhaust)
      note S = resize_one_sleeps [OF one]
      show ?thesis
      proof (cases q)
        case (Ok p)
        obtain err' new where p: "p = (err', new)" by fastforce
        from run i one Ok p have "resize_all nl (counted api) pick ex ims (tl dogus) err' (tasks @ new) errs u = (r, v)"
          by simp
        from 1(3) [OF False i_def i one [symmetric] refl Ok p [symmetric] this] S(1) S(2) [OF Ok [unfolded p]]
        show ?thesis by (simp add: d)
      qed (use run i one S in auto)
    qed
  qed
qed

section \<open>Properties\<close>

text \<open>
  The declared sizes are met: each dogu of the importing system with a volume to back up has a claim of
  at least the size that is declared for it. This fails after a resize that timed out, which has raised
  the declared size.
\<close>

definition declared_met :: "name_lib \<Rightarrow> 'w resize_api \<Rightarrow> 'w resize_view \<Rightarrow> 'w \<Rightarrow> Dogu list \<Rightarrow> bool" where
  "declared_met nl api V w importerDogus \<longleftrightarrow> list_all (\<lambda>im. needs_backup nl api V im \<longrightarrow>
     large_enough nl V w (dogu_Name im) (SizeInBytes (dogu_Volume im))) importerDogus"

text \<open>
  C24: when \<open>ResizeDogusIfNeeded\<close> returns without an error, however the loop and the goroutines were
  scheduled, then for each exported dogu that is not excluded the importing system has the dogu, and
  if this dogu has a volume that needs a backup, its size was declared at least as large as the exported
  one from the start, or its claim has reached that capacity. If the claims had the declared sizes
  at the start, every such claim now has the capacity of the exported volume. A dogu with a large
  declared size is not looked at: after a resize that timed out the next migration passes it although
  its claim is still too small (\<open>timed_out_resize_passes\<close>). Sizes are
  compared as signed 64-bit numbers. The resizes end by themselves: the model is a total
  function, each goroutine makes at most 64 steps.
\<close>

theorem ResizeDogusIfNeeded_makes_room:
  assumes "resize_api_ok api V"
  shows "wp (ResizeDogusIfNeeded nl api pick excluded ctx exporterDogus importerDogus) (\<lambda>r t. case r of
     Ok _ \<Rightarrow> list_all (provided nl api V (getExcludedDoguNames nl excluded) importerDogus (declared_or_large nl V t)) exporterDogus \<and>
       (declared_met nl api V s importerDogus \<longrightarrow>
         list_all (provided nl api V (getExcludedDoguNames nl excluded) importerDogus
           (\<lambda>im sz. large_enough nl V t (dogu_Name im) sz)) exporterDogus)
   | _ \<Rightarrow> True) s"
proof -
  let ?ex = "getExcludedDoguNames nl excluded"
  obtain r t where run: "resize_all nl api pick ?ex importerDogus exporterDogus None [] [] s = (r, t)" by fastforce
  have large: "large_enough nl V t (dogu_Name im) sz"
    if "declared_met nl api V s importerDogus" "grows V s t" "im \<in> set importerDogus" "needs_backup nl api V im"
      "declared_or_large nl V t im sz" for im sz
  proof -
    have "large_enough nl V s (dogu_Name im) (SizeInBytes (dogu_Volume im))"
      using that(1,3,4) by (simp add: declared_met_def list_all_iff)
    from large_enough_grows [OF this that(2)] that(5) show ?thesis
      by (auto simp: declared_or_large_def intro: large_enough_less)
  qed
  show ?thesis
  proof (cases "r = Ok None")
    case True
    from resize_all_nil [OF run [unfolded True] assms] have "grows V s t"
      and P: "list_all (provided nl api V ?ex importerDogus (declared_or_large nl V t)) exporterDogus" by blast+
    with large have "list_all (provided nl api V ?ex importerDogus (\<lambda>im sz. large_enough nl V t (dogu_Name im) sz)) exporterDogus"
      if "declared_met nl api V s importerDogus"
      using that by (elim list.pred_mono_strong) (erule provided_mono, blast)
    with P True show ?thesis
      by (simp add: ResizeDogusIfNeeded_def wp_eq [where m = "resize_all nl api pick ?ex importerDogus exporterDogus None [] []", OF run])
  next
    case False
    then show ?thesis
      by (cases r) (auto simp: ResizeDogusIfNeeded_def
        wp_eq [where m = "resize_all nl api pick ?ex importerDogus exporterDogus None [] []", OF run] split: option.splits)
  qed
qed

text \<open>
  A volume that grows while the resizer sleeps, for the witness. The state is the size that
  was requested and the capacity of the claim; \<open>growing\<close> is false for a cluster that does not resize.
\<close>

definition sample_resize_api :: "bool \<Rightarrow> (int \<times> int) resize_api" where
  "sample_resize_api growing = \<lparr>
     rz_Get = (\<lambda>n w. (Inr (sample_cr (False, 0, 0)), w)),
     rz_Update = (\<lambda>d w. (Inr (), (spec_MinDataVolumeSize (cr_Spec d), snd w))),
     pvc_Get = (\<lambda>n w. (Inr (snd w), w)),
     ParseVersion = (\<lambda>v. Inr v),
     descriptor = (\<lambda>n v w. (Ok [False, True], w)),
     sleep = (\<lambda>w. if growing then (fst w, max (fst w) (snd w)) else w),
     rz_quote = (\<lambda>s. s)\<rparr>"

definition sample_resize_view :: "(int \<times> int) resize_view" where
  "sample_resize_view = \<lparr>capacity = (\<lambda>w n. snd w), backed_up = (\<lambda>n v. True)\<rparr>"

lemma sample_resize_api_ok: "resize_api_ok (sample_resize_api growing) sample_resize_view"
  by (simp add: resize_api_ok_def sample_resize_api_def sample_resize_view_def grows_def)

abbreviation sample_resize :: "bool \<Rightarrow> Dogu list \<Rightarrow> (int \<times> int, unit) go" where
  "sample_resize growing importerDogus \<equiv> ResizeDogusIfNeeded sample_names (sample_resize_api growing) (\<lambda>_ _ _. 0)
     (NewDoguVolumeResizer []) Background (si_Dogus sample_exporter) importerDogus"

theorem ResizeDogusIfNeeded_makes_room_witness:
  "sample_resize True (si_Dogus (sample_importer ''official/ldap'')) (0, 0) = (Ok (), (1, 1)) \<and>
   list_all (provided sample_names (sample_resize_api True) sample_resize_view
       (getExcludedDoguNames sample_names (NewDoguVolumeResizer [])) (si_Dogus (sample_importer ''official/ldap''))
       (\<lambda>im sz. large_enough sample_names sample_resize_view (1, 1) (dogu_Name im) sz)) (si_Dogus sample_exporter)"
proof -
  have run: "sample_resize True (si_Dogus (sample_importer ''official/ldap'')) (0, 0) = (Ok (), (1, 1))"
    by code_simp
  have "declared_met sample_names (sample_resize_api True) sample_resize_view (0, 0) (si_Dogus (sample_importer ''official/ldap''))"
    by code_simp
  with wpD [OF ResizeDogusIfNeeded_makes_room [OF sample_resize_api_ok] run] run show ?thesis by simp
qed

text \<open>
  The gap: a cluster that does not resize. The first run times out, after 60 sleeps, and leaves the
  requested size in the specification of the dogu. The next run gets this size as that of the importing
  system and succeeds, with a capacity of no bytes for a volume of one byte.
\<close>

lemma timed_out_resize_passes:
  "(\<exists>e. sample_resize False (si_Dogus (sample_importer ''official/ldap'')) (0, 0) = (Err e, (1, 0))) \<and>
   sample_resize False (si_Dogus (with_volumes (\<lambda>_. \<lparr>SizeInBytes = 1\<rparr>) (sample_importer ''official/ldap''))) (1, 0) = (Ok (), (1, 0)) \<and>
   \<not> large_enough sample_names sample_resize_view (1, 0) ''official/ldap'' 1"
proof (intro conjI)
  have "(case sample_resize False (si_Dogus (sample_importer ''official/ldap'')) (0, 0) of (r, w) \<Rightarrow>
      w = (1, 0) \<and> (case r of Err _ \<Rightarrow> True | _ \<Rightarrow> False))" by code_simp
  then show "\<exists>e. sample_resize False (si_Dogus (sample_importer ''official/ldap'')) (0, 0) = (Err e, (1, 0))"
    by (auto split: prod.splits result.splits)
  show "sample_resize False (si_Dogus (with_volumes (\<lambda>_. \<lparr>SizeInBytes = 1\<rparr>) (sample_importer ''official/ldap''))) (1, 0) = (Ok (), (1, 0))"
    by code_simp
  show "\<not> large_enough sample_names sample_resize_view (1, 0) ''official/ldap'' 1" by code_simp
qed

text \<open>
  The validator compares the simple names of the dogus, the resizer looks a dogu up
  under its full name. Two systems in which a dogu comes from different namespaces agree
  for the validator, and the resizer then fails on them, whatever the clients answer.
\<close>

theorem namespaces_matter_to_the_resizer_only:
  "systems_agree sample_names [] sample_exporter (sample_importer ''premium/ldap'') \<and>
   wp (ResizeDogusIfNeeded sample_names api pick (NewDoguVolumeResizer []) ctx
      (si_Dogus sample_exporter) (si_Dogus (sample_importer ''premium/ldap''))) (\<lambda>r t. r \<noteq> Ok ()) s"
proof
  show "systems_agree sample_names [] sample_exporter (sample_importer ''premium/ldap'')" by code_simp
  let ?ex = "getExcludedDoguNames sample_names (NewDoguVolumeResizer [])"
  let ?all = "resize_all sample_names api pick ?ex (si_Dogus (sample_importer ''premium/ldap'')) (si_Dogus sample_exporter) None [] []"
  have excluded: "?ex = [''nginx'']" by code_simp
  have names: "getDoguNameWithoutNamespace sample_names ''official/ldap'' = ''ldap''"
    "getDoguNameWithoutNamespace sample_names ''official/nginx'' = ''nginx''" by code_simp+
  obtain e where all: "?all s = (Ok (Some e), s)"
    by (simp add: excluded sample_exporter_def sample_importer_def names resize_all.simps resize_one_def Let_def ret_def
        errors_join_def map_filter_simps)
  show "wp (ResizeDogusIfNeeded sample_names api pick (NewDoguVolumeResizer []) ctx
      (si_Dogus sample_exporter) (si_Dogus (sample_importer ''premium/ldap''))) (\<lambda>r t. r \<noteq> Ok ()) s"
    unfolding ResizeDogusIfNeeded_def wp_andThen wp_eq [where m = ?all, OF all] result.case
    by (simp add: wp_def return_err_def fail_def)
qed

text \<open>
  C40: the waiting is bounded: however the loop and the goroutines are scheduled and whatever the clients answer,
  the resizes sleep at most 60 times for each exported dogu, the ten minutes at ten seconds each that
  the constants stand for.
\<close>

theorem resizes_wait_ten_minutes_per_dogu:
  "wp (ResizeDogusIfNeeded nl (counted api) pick excluded ctx exporterDogus importerDogus)
     (\<lambda>r t. snd t \<le> snd s + 60 * length exporterDogus) s"
proof -
  let ?all = "resize_all nl (counted api) pick (getExcludedDoguNames nl excluded) importerDogus exporterDogus None [] []"
  have max: "maxRetries = 60" by (simp add: maxRetries_def defaultMaxWaitMinutes_def defaultWaitSecondsBetweenRetries_def)
  obtain r t where run: "?all s = (r, t)" by (rule prod.exhaust)
  have "snd t \<le> snd s + 60 * length exporterDogus"
    using resize_all_sleeps [OF run] by (simp add: max all_sleeps_def)
  then show ?thesis
    by (cases r) (auto simp: ResizeDogusIfNeeded_def wp_eq [where m = ?all, OF run] elim!: wp_mono split: option.splits)
qed

end
