(* ===== verification/Schedule.thy ===== *)
theory Schedule imports Go_Base Migration_Context begin

text \<open>
  When migrations run: the timestamp of the final migration (\<open>migration/timestamp.go\<close>), the
  cron task (\<open>cron/cron.go\<close>), the watcher for manual starts (\<open>migration/manual/manual.go\<close>)
  and the main loop (\<open>migration/run.go\<close>). The last three run in goroutines that share the
  flag \<open>migrationRunning\<close>: they are a step relation over the program counters of the
  goroutines, where one step is one access to the flag, one call or one wait.
\<close>

section \<open>Timestamps (\<open>timestamp.go\<close>)\<close>

text \<open>
  A \<open>time.Time\<close> is the number of nanoseconds since the zero value of the type. It is ordered
  by time.
\<close>

datatype FinalTimestamp = FinalTimestamp (ft_time: int)

instantiation FinalTimestamp :: linorder
begin

definition less_eq_FinalTimestamp :: "FinalTimestamp \<Rightarrow> FinalTimestamp \<Rightarrow> bool" where
  "a \<le> b \<longleftrightarrow> ft_time a \<le> ft_time b"

definition less_FinalTimestamp :: "FinalTimestamp \<Rightarrow> FinalTimestamp \<Rightarrow> bool" where
  "a < b \<longleftrightarrow> ft_time a < ft_time b"

instance
  by standard (auto simp: less_eq_FinalTimestamp_def less_FinalTimestamp_def FinalTimestamp.expand)

end

definition zero_timestamp :: FinalTimestamp where
  "zero_timestamp = FinalTimestamp 0"

definition IsZero :: "FinalTimestamp \<Rightarrow> bool" where
  "IsZero ft \<longleftrightarrow> ft = zero_timestamp"

text \<open>\<open>a.After(b)\<close> for the current time \<open>a\<close>.\<close>

definition Expired :: "FinalTimestamp \<Rightarrow> FinalTimestamp \<Rightarrow> bool" where
  "Expired now ft = (if IsZero ft then True else now > ft)"

text \<open>
  \<open>strings.TrimSpace(s) == ""\<close>: the string consists of white space, in UTF-8. The white
  space beyond ASCII is U+0085, U+00A0, U+1680, U+2000 to U+200A, U+2028, U+2029, U+202F,
  U+205F and U+3000.
\<close>

definition ascii_space :: "char \<Rightarrow> bool" where
  "ascii_space c = ((of_char c :: nat) \<in> {9, 10, 11, 12, 13, 32})"

definition space2 :: "char \<Rightarrow> char \<Rightarrow> bool" where
  "space2 c d = ((of_char c :: nat) = 194 \<and> (of_char d :: nat) \<in> {133, 160})"

definition space3 :: "char \<Rightarrow> char \<Rightarrow> char \<Rightarrow> bool" where
  "space3 c d e = (let x = of_char c :: nat; y = of_char d :: nat; z = of_char e :: nat in
     (x = 225 \<and> y = 154 \<and> z = 128) \<or>
     (x = 226 \<and> y = 128 \<and> (128 \<le> z \<and> z \<le> 138 \<or> z \<in> {168, 169, 175})) \<or>
     (x = 226 \<and> y = 129 \<and> z = 159) \<or>
     (x = 227 \<and> y = 128 \<and> z = 128))"

fun blank :: "string \<Rightarrow> bool" where
  "blank [] = True"
| "blank [c] = ascii_space c"
| "blank [c, d] = (if ascii_space c then blank [d] else space2 c d)"
| "blank (c # d # e # s) =
     (if ascii_space c then blank (d # e # s)
      else if space2 c d then blank (e # s)
      else space3 c d e \<and> blank s)"

text \<open>\<open>time_Parse\<close> is \<open>time.Parse(time.RFC3339, \<dots>)\<close>.\<close>

definition ParseFinalTimestamp ::
    "(string \<Rightarrow> err + FinalTimestamp) \<Rightarrow> FinalTimestamp \<Rightarrow> string \<Rightarrow> err + FinalTimestamp" where
  "ParseFinalTimestamp time_Parse now timestamp =
     (if blank timestamp then Inr zero_timestamp
      else case time_Parse timestamp of
        Inl e \<Rightarrow> Inl (errorf_w ''timestamp is not in RFC3339 format'' e)
      | Inr finalTimestamp \<Rightarrow> if now > finalTimestamp then Inl ExpiredTimestamp else Inr finalTimestamp)"

section \<open>The start of the main loop (\<open>run.go\<close>, \<open>cron.go\<close>)\<close>

text \<open>\<open>cron.New\<close> checks the expression; \<open>gronx_IsValid\<close> is the check of the cron library.\<close>

definition cron_New :: "(string \<Rightarrow> bool) \<Rightarrow> (string \<Rightarrow> string) \<Rightarrow> string \<Rightarrow> err + unit" where
  "cron_New gronx_IsValid quote expr =
     (if \<not> gronx_IsValid expr then Inl (ErrorString (''cron expression '' @ quote expr @ '' is invalid''))
      else Inr ())"

text \<open>
  What \<open>Run\<close> does before it waits: it returns, or it goes on with a timestamp, which is the
  zero value when there is none.
\<close>

datatype plan = Returns "err option" | Loops FinalTimestamp

record run_args =
  finalTimestampStr :: string
  regularCron :: string
  changeFQDN :: bool
  run_ctx :: ctx

record run_lib =
  time_Parse :: "string \<Rightarrow> err + FinalTimestamp"
  gronx_IsValid :: "string \<Rightarrow> bool"
  run_quote :: "string \<Rightarrow> string"

definition start_loop :: "run_lib \<Rightarrow> string \<Rightarrow> FinalTimestamp \<Rightarrow> plan" where
  "start_loop lib expr ft =
     (case cron_New (gronx_IsValid lib) (run_quote lib) expr of
        Inl e \<Rightarrow> Returns (Some (errorf_w (''failed to create cron looper for expression '' @ run_quote lib expr) e))
      | Inr _ \<Rightarrow> Loops ft)"

definition run_plan :: "run_lib \<Rightarrow> FinalTimestamp \<Rightarrow> run_args \<Rightarrow> plan" where
  "run_plan lib now a =
     (case ParseFinalTimestamp (time_Parse lib) now (finalTimestampStr a) of
        Inl e \<Rightarrow> if is_expired_timestamp e then Returns None
          else start_loop lib (regularCron a) zero_timestamp
      | Inr ft \<Rightarrow> start_loop lib (regularCron a) ft)"

section \<open>The goroutines\<close>

text \<open>
  The program counters. \<open>Loaded\<close> is the point between the load of the flag and the store,
  \<open>Stored\<close> the one after the store, \<open>Migrating\<close> the call of \<open>RunMigration\<close>, \<open>Leaving\<close> the
  deferred store.
\<close>

datatype delta_pc =
    DeltaIdle "(int \<times> err option) option"
  | DeltaLoaded | DeltaStored | DeltaMigrating
  | DeltaLeaving int "err option"

datatype manual_pc =
    ManualHead | ManualOpening | ManualReceiving
  | ManualDeleting string
  | ManualLoading | ManualLoaded | ManualStored | ManualMigrating | ManualLeaving
  | ManualSleeping
  | ManualReturned "err option"

datatype final_pc = FinalOff | FinalWaiting | FinalPolling | FinalReady | FinalMigrating
  | FinalSending "err option" | FinalDone "err option"

datatype main_pc = MainLooping | MainReturned "err option"

datatype process = Delta | Manual | Final

text \<open>\<open>started\<close> records the calls of \<open>RunMigration\<close> with their contexts.\<close>

record sched =
  migrationRunning :: bool
  clock :: FinalTimestamp
  ctx_done :: bool
  delta :: delta_pc
  manual :: manual_pc
  final :: final_pc
  main :: main_pc
  started :: "(process \<times> ctx) list"

text \<open>What the outside answers in a step.\<close>

datatype manual_input =
    Answer "err option"
  | EventAdded "string option"
  | OtherEvent
  | ChannelClosed

datatype move =
    Clock FinalTimestamp
  | Shutdown
  | DeltaMove "err option"
  | ManualMove manual_input
  | FinalMove "err option"
  | MainMove bool

text \<open>
  \<open>runDeltaMigration\<close>. The cron task starts it again and again, one call at a time, until
  the main loop has returned and stopped the task.
\<close>

definition delta_step :: "FinalTimestamp \<Rightarrow> ctx \<Rightarrow> err option \<Rightarrow> sched \<Rightarrow> sched option" where
  "delta_step ft ctx res s = (case delta s of
     DeltaIdle _ \<Rightarrow>
       if main s \<noteq> MainLooping then None
       else Some (if migrationRunning s then s\<lparr>delta := DeltaIdle (Some (0, None))\<rparr> else s\<lparr>delta := DeltaLoaded\<rparr>)
   | DeltaLoaded \<Rightarrow> Some (s\<lparr>migrationRunning := True, delta := DeltaStored\<rparr>)
   | DeltaStored \<Rightarrow> Some
       (if \<not> IsZero ft \<and> Expired (clock s) ft then s\<lparr>delta := DeltaLeaving 0 None\<rparr>
        else s\<lparr>delta := DeltaMigrating, started := started s @ [(Delta, ctx)]\<rparr>)
   | DeltaMigrating \<Rightarrow> Some (s\<lparr>delta := (case res of
         Some dErr \<Rightarrow> DeltaLeaving 1 (Some (errorf_w ''failed to run delta migration'' dErr))
       | None \<Rightarrow> DeltaLeaving 0 None)\<rparr>)
   | DeltaLeaving n e \<Rightarrow> Some (s\<lparr>migrationRunning := False, delta := DeltaIdle (Some (n, e))\<rparr>))"

text \<open>
  \<open>StartManualMigrationConfigmapWatcher\<close>, \<open>handleWatchEvents\<close> and \<open>startManualMigration\<close>. An
  added object is given by its name when it is a config map. When the context is done and
  an event is there as well, the select may take either.
\<close>

definition manual_step :: "ctx \<Rightarrow> manual_input \<Rightarrow> sched \<Rightarrow> sched option" where
  "manual_step ctx inp s =
     (let goes = (\<lambda>t. if inp = Answer None then Some t else None) in
      case manual s of
        ManualHead \<Rightarrow>
          goes (s\<lparr>manual := (if ctx_done s then ManualReturned (Some ContextCanceled) else ManualOpening)\<rparr>)
      | ManualOpening \<Rightarrow> (case inp of
          Answer None \<Rightarrow> Some (s\<lparr>manual := ManualReceiving\<rparr>)
        | Answer (Some e) \<Rightarrow> Some (s\<lparr>manual := ManualReturned (Some
            (errorf_w ''failed to create manual migration starter ConfigMap watcher'' e))\<rparr>)
        | _ \<Rightarrow> None)
      | ManualReceiving \<Rightarrow> (case inp of
          Answer _ \<Rightarrow> if ctx_done s then goes (s\<lparr>manual := ManualSleeping\<rparr>) else None
        | ChannelClosed \<Rightarrow> Some (s\<lparr>manual := ManualSleeping\<rparr>)
        | OtherEvent \<Rightarrow> Some s
        | EventAdded obj \<Rightarrow> Some (case obj of None \<Rightarrow> s | Some name \<Rightarrow> s\<lparr>manual := ManualDeleting name\<rparr>))
      | ManualDeleting name \<Rightarrow> (case inp of Answer deleteErr \<Rightarrow> Some (s\<lparr>manual := ManualLoading\<rparr>) | _ \<Rightarrow> None)
      | ManualLoading \<Rightarrow> goes (s\<lparr>manual := (if migrationRunning s then ManualReceiving else ManualLoaded)\<rparr>)
      | ManualLoaded \<Rightarrow> goes (s\<lparr>migrationRunning := True, manual := ManualStored\<rparr>)
      | ManualStored \<Rightarrow> goes (s\<lparr>manual := ManualMigrating, started := started s @ [(Manual, ctx)]\<rparr>)
      | ManualMigrating \<Rightarrow> (case inp of Answer err \<Rightarrow> Some (s\<lparr>manual := ManualLeaving\<rparr>) | _ \<Rightarrow> None)
      | ManualLeaving \<Rightarrow> goes (s\<lparr>migrationRunning := False, manual := ManualReceiving\<rparr>)
      | ManualSleeping \<Rightarrow> goes (s\<lparr>manual := ManualHead\<rparr>)
      | ManualReturned _ \<Rightarrow> None)"

text \<open>\<open>WaitUntil\<close> returns at once for the zero value or a time that is reached, or when the context is done.\<close>

definition WaitUntil_returns :: "FinalTimestamp \<Rightarrow> sched \<Rightarrow> bool" where
  "WaitUntil_returns ft s \<longleftrightarrow> IsZero ft \<or> ft \<le> clock s \<or> ctx_done s"

definition final_context :: "bool \<Rightarrow> ctx \<Rightarrow> ctx" where
  "final_context change ctx = (let finalContext = SetFinalMigration ctx in
     if change then SetTriggerFQDNChange finalContext else finalContext)"

text \<open>
  One step of \<open>WaitUntilReady\<close>: first the wait for the time, then the function \<open>ready\<close>, which is asked
  again after each sleep until it answers true.
\<close>

definition WaitUntilReady_step :: "FinalTimestamp \<Rightarrow> (sched \<Rightarrow> bool) \<Rightarrow> sched \<Rightarrow> sched option" where
  [simp]: "WaitUntilReady_step ft ready s = (case final s of
     FinalWaiting \<Rightarrow> if WaitUntil_returns ft s then Some (s\<lparr>final := FinalPolling\<rparr>) else None
   | FinalPolling \<Rightarrow> Some (if ready s then s\<lparr>final := FinalReady\<rparr> else s)
   | _ \<Rightarrow> None)"

text \<open>\<open>runFinalMigration\<close>, which waits and then migrates, and the send of its result on the channel.\<close>

definition final_step :: "FinalTimestamp \<Rightarrow> bool \<Rightarrow> ctx \<Rightarrow> err option \<Rightarrow> sched \<Rightarrow> sched option" where
  "final_step ft change ctx res s = (case final s of
     FinalReady \<Rightarrow> Some (s\<lparr>final := FinalMigrating, started := started s @ [(Final, final_context change ctx)]\<rparr>)
   | FinalMigrating \<Rightarrow> Some (s\<lparr>final := FinalSending res\<rparr>)
   | _ \<Rightarrow> WaitUntilReady_step ft (\<lambda>s. \<not> migrationRunning s) s)"

text \<open>
  The waiting part of \<open>Run\<close>: for the end of the context, and for the result of the final
  migration when there is one to come. The receive takes the value that the goroutine sends.
\<close>

definition main_step :: "FinalTimestamp \<Rightarrow> bool \<Rightarrow> sched \<Rightarrow> sched option" where
  "main_step ft receive s = (if main s \<noteq> MainLooping then None
     else if IsZero ft then (if ctx_done s then Some (s\<lparr>main := MainReturned None\<rparr>) else None)
     else if receive then (case final s of
         FinalSending None \<Rightarrow> Some (s\<lparr>main := MainReturned None, final := FinalDone None\<rparr>)
       | FinalSending (Some e) \<Rightarrow> Some (s\<lparr>main := MainReturned (Some (errorf_w ''failed to run final migration'' e)),
           final := FinalDone (Some e)\<rparr>)
       | _ \<Rightarrow> None)
     else if ctx_done s then Some (s\<lparr>main := MainReturned (Some
         (errorf_w ''received shutdown signal before final migration has been completed'' ContextCanceled))\<rparr>)
     else None)"

definition sched_step :: "FinalTimestamp \<Rightarrow> bool \<Rightarrow> ctx \<Rightarrow> move \<Rightarrow> sched \<Rightarrow> sched option" where
  "sched_step ft change ctx m s = (case m of
     Clock t \<Rightarrow> if clock s \<le> t then Some (s\<lparr>clock := t\<rparr>) else None
   | Shutdown \<Rightarrow> Some (s\<lparr>ctx_done := True\<rparr>)
   | DeltaMove res \<Rightarrow> delta_step ft ctx res s
   | ManualMove inp \<Rightarrow> manual_step ctx inp s
   | FinalMove res \<Rightarrow> final_step ft change ctx res s
   | MainMove receive \<Rightarrow> main_step ft receive s)"

text \<open>
  The state when \<open>Run\<close> has carried out its plan: the watcher for manual starts runs in any
  case, the cron task and the final migration only when the plan says so.
\<close>

definition sched_start :: "plan \<Rightarrow> FinalTimestamp \<Rightarrow> sched" where
  "sched_start p now =
     \<lparr>migrationRunning = False, clock = now, ctx_done = False, delta = DeltaIdle None, manual = ManualHead,
      final = (case p of Loops ft \<Rightarrow> if IsZero ft then FinalOff else FinalWaiting | _ \<Rightarrow> FinalOff),
      main = (case p of Returns e \<Rightarrow> MainReturned e | _ \<Rightarrow> MainLooping), started = []\<rparr>"

definition plan_time :: "plan \<Rightarrow> FinalTimestamp" where
  "plan_time p = (case p of Loops ft \<Rightarrow> ft | Returns _ \<Rightarrow> zero_timestamp)"

text \<open>
  The reachable states of \<open>Run\<close>, on paths whose states satisfy \<open>P\<close>.
\<close>

inductive reaches :: "(sched \<Rightarrow> bool) \<Rightarrow> FinalTimestamp \<Rightarrow> bool \<Rightarrow> ctx \<Rightarrow> sched \<Rightarrow> sched \<Rightarrow> bool"
  for P ft change ctx s where
  here: "P s \<Longrightarrow> reaches P ft change ctx s s"
| there: "reaches P ft change ctx s t \<Longrightarrow> sched_step ft change ctx m t = Some u \<Longrightarrow> P u \<Longrightarrow>
    reaches P ft change ctx s u"

text \<open>A sequence of moves through states that satisfy \<open>P\<close>, for the schedules that theorems exhibit.\<close>

primrec moves :: "(sched \<Rightarrow> bool) \<Rightarrow> FinalTimestamp \<Rightarrow> bool \<Rightarrow> ctx \<Rightarrow> move list \<Rightarrow> sched \<Rightarrow> sched option" where
  "moves P ft change ctx [] s = (if P s then Some s else None)"
| "moves P ft change ctx (m # ms) s = (if P s then
     (case sched_step ft change ctx m s of None \<Rightarrow> None | Some t \<Rightarrow> moves P ft change ctx ms t) else None)"

section \<open>Invariants\<close>

lemma reaches_invariant:
  assumes "reaches P ft change ctx s t"
    and "I s"
    and "\<And>t u m. I t \<Longrightarrow> P t \<Longrightarrow> P u \<Longrightarrow> sched_step ft change ctx m t = Some u \<Longrightarrow> I u"
  shows "I t"
proof -
  have "I t \<and> P t"
    using assms(1) by (induction rule: reaches.induct) (auto intro: assms(2,3))
  then show ?thesis ..
qed

lemmas pc_splits = manual_pc.splits manual_input.splits option.splits if_splits

lemma moves_start: "moves P ft change ctx ms s = Some t \<Longrightarrow> P s"
  by (cases ms) (auto split: if_splits)

lemma moves_reach:
  assumes "moves P ft change ctx ms t = Some u" "reaches P ft change ctx s t"
  shows "reaches P ft change ctx s u"
  using assms by (induction ms arbitrary: t) (auto split: option.splits if_splits intro: there moves_start)

lemma moves_from_start:
  "moves P (plan_time p) change ctx ms (sched_start p now) = Some s \<Longrightarrow>
     reaches P (plan_time p) change ctx (sched_start p now) s"
  by (rule moves_reach) (auto intro: here moves_start)

text \<open>
  The steps, one goroutine at a time, each with its program counter and what it changes:
  a step of one goroutine leaves the program counters of the others, and a goroutine that
  does not touch the flag leaves the flag.
\<close>

lemma sched_step_cases:
  assumes "sched_step ft change ctx m s = Some t"
  obtains (env) "delta t = delta s" "manual t = manual s" "final t = final s" "main t = main s"
      "migrationRunning t = migrationRunning s" "started t = started s" "clock s \<le> clock t" "ctx_done s \<Longrightarrow> ctx_done t"
    | (delta) res where "m = DeltaMove res" "delta_step ft ctx res s = Some t"
    | (manual) inp where "m = ManualMove inp" "manual_step ctx inp s = Some t"
    | (final) res where "m = FinalMove res" "final_step ft change ctx res s = Some t"
    | (main) receive where "m = MainMove receive" "main_step ft receive s = Some t"
  using assms by (cases m) (auto simp: sched_step_def split: if_splits)

lemma delta_step_cases:
  assumes "delta_step ft ctx res s = Some t"
  obtains (skip) last where "delta s = DeltaIdle last" "main s = MainLooping" "migrationRunning s"
      "t = s\<lparr>delta := DeltaIdle (Some (0, None))\<rparr>"
    | (load) last where "delta s = DeltaIdle last" "main s = MainLooping" "\<not> migrationRunning s" "t = s\<lparr>delta := DeltaLoaded\<rparr>"
    | (store) "delta s = DeltaLoaded" "t = s\<lparr>migrationRunning := True, delta := DeltaStored\<rparr>"
    | (expired) "delta s = DeltaStored" "\<not> IsZero ft" "ft < clock s" "t = s\<lparr>delta := DeltaLeaving 0 None\<rparr>"
    | (start) "delta s = DeltaStored" "IsZero ft \<or> clock s \<le> ft"
      "t = s\<lparr>delta := DeltaMigrating, started := started s @ [(Delta, ctx)]\<rparr>"
    | (finish) n e where "delta s = DeltaMigrating" "t = s\<lparr>delta := DeltaLeaving n e\<rparr>"
    | (leave) n e where "delta s = DeltaLeaving n e" "t = s\<lparr>migrationRunning := False, delta := DeltaIdle (Some (n, e))\<rparr>"
  using assms
  by (cases "delta s"; cases res)
    (auto simp: delta_step_def Expired_def split: if_splits)

lemma manual_step_cases:
  assumes "manual_step ctx inp s = Some t"
  obtains (pc) pc where "manual s \<notin> {ManualLoaded, ManualStored, ManualMigrating, ManualLeaving}"
      "t = s\<lparr>manual := pc\<rparr>" "pc \<notin> {ManualLoaded, ManualStored, ManualMigrating, ManualLeaving}"
    | (load) "manual s = ManualLoading" "\<not> migrationRunning s" "t = s\<lparr>manual := ManualLoaded\<rparr>"
    | (store) "manual s = ManualLoaded" "t = s\<lparr>migrationRunning := True, manual := ManualStored\<rparr>"
    | (start) "manual s = ManualStored" "t = s\<lparr>manual := ManualMigrating, started := started s @ [(Manual, ctx)]\<rparr>"
    | (finish) "manual s = ManualMigrating" "t = s\<lparr>manual := ManualLeaving\<rparr>"
    | (leave) "manual s = ManualLeaving" "t = s\<lparr>migrationRunning := False, manual := ManualReceiving\<rparr>"
proof (cases "manual s \<in> {ManualLoaded, ManualStored, ManualMigrating, ManualLeaving}")
  case True
  with assms show ?thesis
    by (auto simp: manual_step_def Let_def intro: that split: if_splits manual_input.splits)
next
  case False
  show ?thesis
  proof (cases "manual t = ManualLoaded")
    case True
    with False assms show ?thesis
      by (cases "manual s") (auto simp: manual_step_def Let_def intro: that split: pc_splits)
  next
    case not_loaded: False
    from False assms have "t = s\<lparr>manual := manual t\<rparr>"
      by (cases "manual s") (auto simp: manual_step_def Let_def split: pc_splits)
    moreover from False not_loaded assms
    have "manual t \<notin> {ManualLoaded, ManualStored, ManualMigrating, ManualLeaving}"
      by (cases "manual s") (auto simp: manual_step_def Let_def split: pc_splits)
    ultimately show ?thesis using False by (intro that(1))
  qed
qed

lemma final_step_cases:
  assumes "final_step ft change ctx res s = Some t"
  obtains (wait) "final s = FinalWaiting" "IsZero ft \<or> ft \<le> clock s \<or> ctx_done s" "t = s\<lparr>final := FinalPolling\<rparr>"
    | (sleep) "final s = FinalPolling" "migrationRunning s" "t = s"
    | (ready) "final s = FinalPolling" "\<not> migrationRunning s" "t = s\<lparr>final := FinalReady\<rparr>"
    | (start) "final s = FinalReady"
      "t = s\<lparr>final := FinalMigrating, started := started s @ [(Final, final_context change ctx)]\<rparr>"
    | (finish) "final s = FinalMigrating" "t = s\<lparr>final := FinalSending res\<rparr>"
proof (cases "final s")
  case FinalWaiting
  with assms show ?thesis
    by (intro that(1)) (simp_all add: final_step_def WaitUntil_returns_def split: if_splits)
next
  case FinalPolling
  with assms show ?thesis
    by (cases "migrationRunning s") (rule that(2) that(3); simp add: final_step_def)+
qed (use assms in \<open>(rule that(4) that(5); simp add: final_step_def) | simp add: final_step_def\<close>)+

lemma main_step_cases:
  assumes "main_step ft receive s = Some t"
  obtains (zero) "main s = MainLooping" "IsZero ft" "ctx_done s" "t = s\<lparr>main := MainReturned None\<rparr>"
    | (received) r where "main s = MainLooping" "\<not> IsZero ft" "final s = FinalSending r"
      "t = s\<lparr>main := MainReturned (map_option (errorf_w ''failed to run final migration'') r), final := FinalDone r\<rparr>"
    | (shutdown) e where "main s = MainLooping" "\<not> IsZero ft" "ctx_done s" "t = s\<lparr>main := MainReturned (Some e)\<rparr>"
  using assms
  by (cases "final s") (auto simp: main_step_def intro: that split: if_splits option.splits)

text \<open>The part of a goroutine that the flag is to protect.\<close>

definition delta_holds :: "sched \<Rightarrow> bool" where
  "delta_holds s = (case delta s of DeltaStored \<Rightarrow> True | DeltaMigrating \<Rightarrow> True | DeltaLeaving _ _ \<Rightarrow> True | _ \<Rightarrow> False)"

definition manual_holds :: "sched \<Rightarrow> bool" where
  "manual_holds s = (manual s \<in> {ManualStored, ManualMigrating, ManualLeaving})"

text \<open>
  Both goroutines have seen the flag clear and neither has set it: the state that the two
  separate accesses to the flag allow and a compare-and-swap would not.
\<close>

definition racing :: "sched \<Rightarrow> bool" where
  "racing s \<longleftrightarrow> delta s = DeltaLoaded \<and> manual s = ManualLoaded"

definition exclusive :: "sched \<Rightarrow> bool" where
  "exclusive s \<longleftrightarrow>
     \<not> (delta_holds s \<and> (manual_holds s \<or> manual s = ManualLoaded)) \<and>
     \<not> (manual_holds s \<and> (delta_holds s \<or> delta s = DeltaLoaded)) \<and>
     (migrationRunning s \<longleftrightarrow> delta_holds s \<or> manual_holds s)"

lemmas all_step_cases = sched_step_cases delta_step_cases manual_step_cases final_step_cases main_step_cases

lemma exclusive_step:
  assumes "sched_step ft change ctx m s = Some t" "exclusive s" "\<not> racing s"
  shows "exclusive t"
  using assms(1)
  by (elim all_step_cases)
    (use assms(2,3) in \<open>auto simp: exclusive_def racing_def delta_holds_def manual_holds_def\<close>)

text \<open>Whatever the interleaving, the flag is not set when nobody is there to clear it.\<close>

definition no_stuck_flag :: "sched \<Rightarrow> bool" where
  "no_stuck_flag s \<longleftrightarrow> (migrationRunning s \<longrightarrow> delta_holds s \<or> manual_holds s)"

lemma no_stuck_flag_step:
  assumes "sched_step ft change ctx m s = Some t" "no_stuck_flag s"
  shows "no_stuck_flag t"
  using assms(1)
  by (elim all_step_cases)
    (use assms(2) in \<open>auto simp: no_stuck_flag_def delta_holds_def manual_holds_def\<close>)

text \<open>The calls of the final migration, and what holds of them at each point of its goroutine.\<close>

definition final_calls :: "sched \<Rightarrow> (process \<times> ctx) list" where
  "final_calls s = filter (\<lambda>(who, c). who = Final) (started s)"

definition others_plain :: "ctx \<Rightarrow> sched \<Rightarrow> bool" where
  "others_plain ctx s \<longleftrightarrow> list_all (\<lambda>(who, c). who = Final \<or> c = ctx) (started s)"

definition final_called :: "sched \<Rightarrow> bool" where
  "final_called s = (case final s of FinalMigrating \<Rightarrow> True | FinalSending _ \<Rightarrow> True | FinalDone _ \<Rightarrow> True | _ \<Rightarrow> False)"

definition final_ok :: "FinalTimestamp \<Rightarrow> bool \<Rightarrow> ctx \<Rightarrow> sched \<Rightarrow> bool" where
  "final_ok ft change ctx s \<longleftrightarrow> others_plain ctx s \<and>
     final_calls s = (if final_called s then [(Final, final_context change ctx)] else []) \<and>
     (final s \<noteq> FinalOff \<longrightarrow> \<not> IsZero ft) \<and>
     (final s \<notin> {FinalOff, FinalWaiting} \<longrightarrow> ft \<le> clock s \<or> ctx_done s)"

lemma final_ok_step:
  assumes "sched_step ft change ctx m s = Some t" "final_ok ft change ctx s"
  shows "final_ok ft change ctx t"
  using assms(1)
  by (elim all_step_cases)
    (use assms(2) in \<open>auto simp: final_ok_def final_calls_def final_called_def others_plain_def\<close>)

definition main_ok :: "plan \<Rightarrow> sched \<Rightarrow> bool" where
  "main_ok p s \<longleftrightarrow> (case p of
     Returns e \<Rightarrow> main s = MainReturned e
   | Loops ft \<Rightarrow> (IsZero ft \<longleftrightarrow> final s = FinalOff) \<and>
       (case main s of
          MainLooping \<Rightarrow> (\<forall>r. final s \<noteq> FinalDone r)
        | MainReturned None \<Rightarrow> if IsZero ft then ctx_done s else final s = FinalDone None
        | MainReturned (Some _) \<Rightarrow> \<not> IsZero ft))"

lemma main_ok_step:
  assumes "sched_step (plan_time p) change ctx m s = Some t" "main_ok p s"
  shows "main_ok p t"
  using assms(1)
  by (elim all_step_cases)
    (use assms(2) in \<open>auto simp: main_ok_def plan_time_def split: plan.splits main_pc.splits option.splits\<close>)

lemma start_ok: "exclusive (sched_start p now)" "no_stuck_flag (sched_start p now)"
  "final_ok (plan_time p) change ctx (sched_start p now)" "main_ok p (sched_start p now)"
  by (auto simp: exclusive_def delta_holds_def manual_holds_def no_stuck_flag_def final_ok_def final_calls_def
      final_called_def others_plain_def main_ok_def plan_time_def sched_start_def split: plan.splits)

abbreviation reachable :: "plan \<Rightarrow> bool \<Rightarrow> ctx \<Rightarrow> FinalTimestamp \<Rightarrow> sched \<Rightarrow> bool" where
  "reachable p change ctx now s \<equiv> reaches (\<lambda>_. True) (plan_time p) change ctx (sched_start p now) s"

lemma reachable_ok:
  assumes "reachable p change ctx now s"
  shows "no_stuck_flag s" "final_ok (plan_time p) change ctx s" "main_ok p s"
proof -
  show "no_stuck_flag s" using assms by (rule reaches_invariant) (auto intro: start_ok no_stuck_flag_step)
  show "final_ok (plan_time p) change ctx s"
    using assms by (rule reaches_invariant) (auto intro: start_ok final_ok_step)
  show "main_ok p s" using assms by (rule reaches_invariant) (auto intro: start_ok main_ok_step)
qed

section \<open>Properties\<close>

text \<open>
  C7: as long as the two goroutines never both stand between the load of the flag and its
  store, the delta and the manual migration exclude each other, and the flag is set exactly
  while one of them holds it.
\<close>

theorem exclusive_without_race:
  assumes "reaches (\<lambda>s. \<not> racing s) (plan_time p) change ctx (sched_start p now) s"
  shows "\<not> (delta s = DeltaMigrating \<and> manual s = ManualMigrating) \<and>
    (migrationRunning s \<longleftrightarrow> delta_holds s \<or> manual_holds s)"
proof -
  have "exclusive s"
    using assms by (rule reaches_invariant) (auto intro: start_ok exclusive_step)
  then show ?thesis by (auto simp: exclusive_def delta_holds_def manual_holds_def)
qed


lemmas run_steps = sched_step_def delta_step_def manual_step_def final_step_def main_step_def
  sched_start_def plan_time_def Expired_def WaitUntil_returns_def

text \<open>A schedule in which a manual start stands between the load and the store.\<close>

definition manual_start :: "move list" where
  "manual_start = [ManualMove (Answer None), ManualMove (Answer None), ManualMove (EventAdded (Some ''start'')),
     ManualMove (Answer None), ManualMove (Answer None)]"

definition delta_start :: "move list" where
  "delta_start = [DeltaMove None, DeltaMove None, DeltaMove None]"

definition manual_go :: "move list" where
  "manual_go = [ManualMove (Answer None), ManualMove (Answer None)]"

definition final_start :: "FinalTimestamp \<Rightarrow> move list" where
  "final_start ft = [Clock ft, FinalMove None, FinalMove None, FinalMove None]"

lemmas schedules = manual_start_def delta_start_def manual_go_def final_start_def

definition sample_now :: FinalTimestamp where "sample_now = FinalTimestamp 5"
definition sample_final :: FinalTimestamp where "sample_final = FinalTimestamp 9"

lemma sample_times: "sample_now \<le> sample_final" "\<not> IsZero sample_final" "\<not> sample_final < sample_now"
  by (simp_all add: sample_now_def sample_final_def IsZero_def zero_timestamp_def less_eq_FinalTimestamp_def
      less_FinalTimestamp_def)

theorem exclusive_without_race_witness:
  "\<exists>s. reaches (\<lambda>s. \<not> racing s) (plan_time (Loops sample_final)) False Background
      (sched_start (Loops sample_final) sample_now) s \<and> delta s = DeltaMigrating \<and>
    (migrationRunning s \<longleftrightarrow> delta_holds s \<or> manual_holds s)"
proof -
  obtain s where s: "moves (\<lambda>s. \<not> racing s) (plan_time (Loops sample_final)) False Background delta_start
      (sched_start (Loops sample_final) sample_now) = Some s" "delta s = DeltaMigrating"
    using sample_times by (simp add: run_steps schedules racing_def)
  from exclusive_without_race [OF moves_from_start [OF s(1)]] moves_from_start [OF s(1)] s(2)
  show ?thesis by blast
qed

text \<open>
  C28: the flag does not keep migrations apart. A delta and a manual migration can both be
  running, because both can see the flag clear before either sets it; and the final
  migration never sets the flag, so that a manual start that comes while it is running
  starts a second migration, even when nobody races for the flag.
\<close>

theorem migrations_can_overlap:
  assumes "now \<le> ft" "\<not> IsZero ft"
  shows "(\<exists>s. reachable (Loops ft) change ctx now s \<and> delta s = DeltaMigrating \<and> manual s = ManualMigrating) \<and>
    (\<exists>s. reaches (\<lambda>s. \<not> racing s) (plan_time (Loops ft)) change ctx (sched_start (Loops ft) now) s \<and>
       final s = FinalMigrating \<and> manual s = ManualMigrating)"
proof -
  have "\<not> ft < now" using assms(1) by simp
  with assms obtain s where s: "moves (\<lambda>_. True) (plan_time (Loops ft)) change ctx (manual_start @ delta_start @ manual_go)
      (sched_start (Loops ft) now) = Some s" "delta s = DeltaMigrating" "manual s = ManualMigrating"
    by (simp add: run_steps schedules)
  from assms obtain t where t: "moves (\<lambda>s. \<not> racing s) (plan_time (Loops ft)) change ctx
      (final_start ft @ manual_start @ manual_go) (sched_start (Loops ft) now) = Some t"
      "final t = FinalMigrating" "manual t = ManualMigrating"
    by (simp add: run_steps schedules racing_def)
  from moves_from_start [OF s(1)] s(2,3) moves_from_start [OF t(1)] t(2,3) show ?thesis by blast
qed

theorem migrations_can_overlap_witness:
  "\<exists>s. reachable (Loops sample_final) True Background sample_now s \<and>
     delta s = DeltaMigrating \<and> manual s = ManualMigrating"
  using migrations_can_overlap [OF sample_times(1,2)] by blast

text \<open>The contexts that the calls get, for those who use them.\<close>

lemma started_context:
  assumes "reachable (Loops ft) change ctx now s" "(who, c) \<in> set (started s)"
  shows "c = (if who = Final then final_context change ctx else ctx)"
proof (cases "who = Final")
  case True
  with assms(2) have "(Final, c) \<in> set (final_calls s)" by (simp add: final_calls_def)
  with reachable_ok(2) [OF assms(1)] True show ?thesis by (auto simp: final_ok_def split: if_splits)
next
  case False
  from reachable_ok(2) [OF assms(1)] have "list_all (\<lambda>(who, c). who = Final \<or> c = ctx) (started s)"
    by (simp add: final_ok_def others_plain_def)
  with assms(2) False show ?thesis by (auto simp: list_all_iff)
qed

text \<open>
  C6: the final migration is called at most once, with the context that marks it as final
  and carries the FQDN trigger exactly when it is configured, and not before its time
  unless the context is done; every other migration gets the plain context. With a
  shutdown the final migration does start before its time, instead of being given up.
\<close>

theorem final_migration_runs_once_in_time:
  assumes "reachable (Loops ft) change ctx now s"
  shows "others_plain ctx s \<and> final_calls s \<in> {[], [(Final, final_context change ctx)]} \<and>
    (final_calls s = [] \<or> \<not> IsZero ft \<and> (ft \<le> clock s \<or> ctx_done s))"
  using reachable_ok(2) [OF assms] unfolding final_ok_def final_called_def plan_time_def
  by (auto split: final_pc.splits)

theorem final_migration_runs_once_in_time_witness:
  "\<exists>s. reachable (Loops sample_final) True Background sample_now s \<and> clock s < sample_final \<and> ctx_done s \<and>
     final_calls s = [(Final, final_context True Background)]"
proof -
  obtain s where s: "moves (\<lambda>_. True) (plan_time (Loops sample_final)) True Background
      [Shutdown, FinalMove None, FinalMove None, FinalMove None] (sched_start (Loops sample_final) sample_now) = Some s"
      "clock s < sample_final" "ctx_done s" "final_calls s \<noteq> []"
    using sample_times
    by (auto simp: run_steps final_calls_def sample_now_def sample_final_def less_FinalTimestamp_def)
  from final_migration_runs_once_in_time [OF moves_from_start [OF s(1)]] moves_from_start [OF s(1)] s(2-)
  show ?thesis by blast
qed

text \<open>When the plan is to return, only manual starts are left.\<close>

definition manual_only :: "sched \<Rightarrow> bool" where
  "manual_only s \<longleftrightarrow> list_all (\<lambda>(who, c). who = Manual) (started s)"

definition idle :: "plan \<Rightarrow> sched \<Rightarrow> bool" where
  "idle p s \<longleftrightarrow> (case p of Loops _ \<Rightarrow> True
     | Returns _ \<Rightarrow> delta s = DeltaIdle None \<and> final s = FinalOff \<and> main s \<noteq> MainLooping \<and> manual_only s)"

lemma idle_step:
  assumes "sched_step ft change ctx m s = Some t" "idle p s"
  shows "idle p t"
  using assms(1)
  by (elim all_step_cases) (use assms(2) in \<open>auto simp: idle_def manual_only_def split: plan.splits\<close>)

lemma reachable_idle:
  assumes "reachable p change ctx now s"
  shows "idle p s"
  using assms
proof (rule reaches_invariant)
  show "idle p (sched_start p now)"
    by (auto simp: idle_def manual_only_def sched_start_def split: plan.splits)
qed (rule idle_step)

text \<open>
  C29: what a nil error of \<open>Run\<close> means, for all its arguments. With a final timestamp that is not in
  the past, the final migration was called, with its context, and ended without an error. With an
  expired one no delta and no final migration was or will be started at all. Without a timestamp, or
  with one that cannot be read, the context is done, and there was no final migration.
\<close>

theorem Run_nil_means_final_migration:
  assumes "reachable (run_plan lib now a) (changeFQDN a) (run_ctx a) now s" "main s = MainReturned None"
  shows "case ParseFinalTimestamp (time_Parse lib) now (finalTimestampStr a) of
     Inl e \<Rightarrow> final_calls s = [] \<and> (if is_expired_timestamp e then manual_only s else ctx_done s)
   | Inr ft \<Rightarrow> if IsZero ft then ctx_done s \<and> final_calls s = []
       else final s = FinalDone None \<and> final_calls s = [(Final, final_context (changeFQDN a) (run_ctx a))]"
proof -
  have loops: "if IsZero ft then ctx_done s \<and> final_calls s = []
      else final s = FinalDone None \<and> final_calls s = [(Final, final_context (changeFQDN a) (run_ctx a))]"
    if "run_plan lib now a = Loops ft" for ft
    using reachable_ok(2,3) [OF assms(1)] assms(2) that
    by (auto simp: main_ok_def final_ok_def final_called_def plan_time_def)
  have returns: "manual_only s \<and> final_calls s = []" if "run_plan lib now a = Returns e" for e
    using reachable_idle [OF assms(1)] that
    by (auto simp: idle_def manual_only_def final_calls_def list_all_iff filter_empty_conv)
  have no_error: "run_plan lib now a \<noteq> Returns (Some e)" for e
    using reachable_ok(3) [OF assms(1)] assms(2) by (auto simp: main_ok_def)
  have loop: "start_loop lib expr ft = Loops ft" if "run_plan lib now a = start_loop lib expr ft" for expr ft
    using that no_error by (auto simp: start_loop_def split: sum.splits)
  show ?thesis
  proof (cases "ParseFinalTimestamp (time_Parse lib) now (finalTimestampStr a)")
    case (Inl e)
    show ?thesis
    proof (cases "is_expired_timestamp e")
      case True
      with Inl returns [of None] show ?thesis by (simp add: run_plan_def)
    next
      case False
      with Inl have "run_plan lib now a = start_loop lib (regularCron a) zero_timestamp" by (simp add: run_plan_def)
      with loops [of zero_timestamp] loop [OF this] Inl False show ?thesis by (simp add: IsZero_def)
    qed
  next
    case (Inr ft)
    then have "run_plan lib now a = start_loop lib (regularCron a) ft" by (simp add: run_plan_def)
    with loops [of ft] loop [OF this] Inr show ?thesis by simp
  qed
qed

text \<open>A timestamp that is read as the sample, with a valid cron expression; and one that is in the past.\<close>

definition sample_run_lib :: "FinalTimestamp \<Rightarrow> run_lib" where
  "sample_run_lib ft = \<lparr>time_Parse = (\<lambda>_. Inr ft), gronx_IsValid = (\<lambda>_. True), run_quote = (\<lambda>s. s)\<rparr>"

definition sample_run_args :: run_args where
  "sample_run_args = \<lparr>finalTimestampStr = ''2030'', regularCron = ''0 * * * *'', changeFQDN = True, run_ctx = Background\<rparr>"

lemma sample_plans:
  "run_plan (sample_run_lib sample_final) sample_now sample_run_args = Loops sample_final"
  "run_plan (sample_run_lib sample_now) sample_final sample_run_args = Returns None"
  "ParseFinalTimestamp (time_Parse (sample_run_lib sample_final)) sample_now (finalTimestampStr sample_run_args) = Inr sample_final"
  "ParseFinalTimestamp (time_Parse (sample_run_lib sample_now)) sample_final (finalTimestampStr sample_run_args) = Inl ExpiredTimestamp"
  by code_simp+

theorem Run_nil_means_final_migration_witness:
  "(\<exists>s. reachable (Loops sample_final) True Background sample_now s \<and> main s = MainReturned None \<and>
     final_calls s = [(Final, final_context True Background)]) \<and>
   (\<exists>s. reachable (Returns None) True Background sample_final s \<and> started s = [(Manual, Background)] \<and>
     main s = MainReturned None \<and> manual_only s)"
proof
  have args: "changeFQDN sample_run_args = True" "run_ctx sample_run_args = Background"
    by (simp_all add: sample_run_args_def)
  note nil = Run_nil_means_final_migration [where a = sample_run_args, unfolded args]
  obtain s where s: "moves (\<lambda>_. True) (plan_time (Loops sample_final)) True Background
      (final_start sample_final @ [FinalMove None, MainMove True]) (sched_start (Loops sample_final) sample_now) = Some s"
      "main s = MainReturned None"
    using sample_times by (simp add: run_steps schedules)
  from nil [of "sample_run_lib sample_final" sample_now, unfolded sample_plans, OF moves_from_start [OF s(1)] s(2)]
    moves_from_start [OF s(1)] s(2) sample_times(2)
  show "\<exists>s. reachable (Loops sample_final) True Background sample_now s \<and> main s = MainReturned None \<and>
     final_calls s = [(Final, final_context True Background)]" by auto
  obtain t where t: "moves (\<lambda>_. True) (plan_time (Returns None)) True Background
      (manual_start @ manual_go) (sched_start (Returns None) sample_final) = Some t"
      "main t = MainReturned None" "started t = [(Manual, Background)]"
    by (simp add: run_steps schedules)
  have "is_expired_timestamp ExpiredTimestamp" by (simp add: is_expired_timestamp_def)
  with nil [of "sample_run_lib sample_now" sample_final, unfolded sample_plans, OF moves_from_start [OF t(1)] t(2)]
    moves_from_start [OF t(1)] t(2,3)
  show "\<exists>s. reachable (Returns None) True Background sample_final s \<and> started s = [(Manual, Background)] \<and>
     main s = MainReturned None \<and> manual_only s" by auto
qed

section \<open>The final migration is not kept waiting forever\<close>

text \<open>\<open>goes s t\<close>: the goroutines can get from \<open>s\<close> to \<open>t\<close> by themselves, without a shutdown.\<close>

definition goes :: "FinalTimestamp \<Rightarrow> bool \<Rightarrow> ctx \<Rightarrow> sched \<Rightarrow> sched \<Rightarrow> bool" where
  "goes ft change ctx s t \<longleftrightarrow> (\<exists>ms. Shutdown \<notin> set ms \<and> moves (\<lambda>_. True) ft change ctx ms s = Some t)"

lemma moves_append:
  "moves P ft change ctx (ms @ ns) s =
     (case moves P ft change ctx ms s of None \<Rightarrow> None | Some t \<Rightarrow> moves P ft change ctx ns t)"
proof (induction ms arbitrary: s)
  case Nil
  then show ?case by (cases ns) simp_all
qed (simp split: option.splits)

lemma goes_trans: "goes ft change ctx s t \<Longrightarrow> goes ft change ctx t u \<Longrightarrow> goes ft change ctx s u"
  unfolding goes_def by (metis (no_types, lifting) UnE moves_append option.simps(5) set_append)

lemma goes_refl: "goes ft change ctx s s"
  unfolding goes_def by (rule exI [of _ "[]"]) simp

lemma goesI: "Shutdown \<notin> set ms \<Longrightarrow> moves (\<lambda>_. True) ft change ctx ms s = Some t \<Longrightarrow> goes ft change ctx s t"
  by (auto simp: goes_def)

lemma goes_reachable: "reachable p change ctx now s \<Longrightarrow> goes (plan_time p) change ctx s t \<Longrightarrow> reachable p change ctx now t"
  by (auto simp: goes_def intro: moves_reach)

lemma delta_lets_go:
  "\<exists>t. goes ft change ctx s t \<and> \<not> delta_holds t \<and> manual t = manual s \<and> final t = final s \<and> main t = main s"
proof -
  have leaving: "goes ft change ctx u (u\<lparr>migrationRunning := False, delta := DeltaIdle (Some (n, e))\<rparr>)"
    if "delta u = DeltaLeaving n e" for u n e
    by (rule goesI [of "[DeltaMove None]"]) (simp_all add: run_steps that)
  have migrating: "\<exists>t. goes ft change ctx u t \<and> \<not> delta_holds t \<and> manual t = manual u \<and> final t = final u \<and> main t = main u"
    if "delta u = DeltaMigrating" for u
  proof -
    have "goes ft change ctx u (u\<lparr>delta := DeltaLeaving 0 None\<rparr>)"
      by (rule goesI [of "[DeltaMove None]"]) (simp_all add: run_steps that)
    from goes_trans [OF this leaving] show ?thesis by (force simp: delta_holds_def)
  qed
  show ?thesis
  proof (cases "delta s")
    case DeltaStored
    show ?thesis
    proof (cases "\<not> IsZero ft \<and> Expired (clock s) ft")
      case True
      then have "goes ft change ctx s (s\<lparr>delta := DeltaLeaving 0 None\<rparr>)"
        by (intro goesI [of "[DeltaMove None]"]) (simp_all add: delta_step_def sched_step_def DeltaStored)
      from goes_trans [OF this leaving] show ?thesis by (force simp: delta_holds_def)
    next
      case False
      let ?u = "s\<lparr>delta := DeltaMigrating, started := started s @ [(Delta, ctx)]\<rparr>"
      from False have "goes ft change ctx s ?u"
        by (intro goesI [of "[DeltaMove None]"]) (auto simp: delta_step_def sched_step_def DeltaStored)
      with migrating [of ?u] show ?thesis by (auto intro: goes_trans)
    qed
  qed (use leaving [of s] migrating [of s] goes_refl in \<open>force simp: delta_holds_def\<close>)+
qed

lemma manual_lets_go:
  "\<exists>t. goes ft change ctx s t \<and> \<not> manual_holds t \<and> delta t = delta s \<and> final t = final s \<and> main t = main s"
proof -
  let ?go = "ManualMove (Answer None)"
  have "\<exists>ms t. Shutdown \<notin> set ms \<and> moves (\<lambda>_. True) ft change ctx ms s = Some t \<and> \<not> manual_holds t \<and>
      delta t = delta s \<and> final t = final s \<and> main t = main s"
    if "manual s = ManualStored"
    by (rule exI [of _ "[?go, ?go, ?go]"]) (simp add: run_steps that manual_holds_def)
  moreover have "\<exists>ms t. Shutdown \<notin> set ms \<and> moves (\<lambda>_. True) ft change ctx ms s = Some t \<and> \<not> manual_holds t \<and>
      delta t = delta s \<and> final t = final s \<and> main t = main s"
    if "manual s = ManualMigrating"
    by (rule exI [of _ "[?go, ?go]"]) (simp add: run_steps that manual_holds_def)
  moreover have "\<exists>ms t. Shutdown \<notin> set ms \<and> moves (\<lambda>_. True) ft change ctx ms s = Some t \<and> \<not> manual_holds t \<and>
      delta t = delta s \<and> final t = final s \<and> main t = main s"
    if "manual s = ManualLeaving"
    by (rule exI [of _ "[?go]"]) (simp add: run_steps that manual_holds_def)
  moreover have ?thesis if "\<not> manual_holds s" using that goes_refl by blast
  ultimately show ?thesis unfolding goes_def manual_holds_def by blast
qed

lemma flag_released:
  assumes "reachable p change ctx now s"
  shows "\<exists>t. goes (plan_time p) change ctx s t \<and> \<not> migrationRunning t \<and> final t = final s \<and> main t = main s"
proof -
  let ?goes = "goes (plan_time p) change ctx"
  obtain u where u: "?goes s u" "\<not> delta_holds u" "final u = final s" "main u = main s"
    using delta_lets_go by blast
  obtain t where t: "?goes u t" "\<not> manual_holds t" "delta t = delta u" "final t = final u" "main t = main u"
    using manual_lets_go by blast
  from goes_trans [OF u(1) t(1)] have "?goes s t" .
  moreover from reachable_ok(1) [OF goes_reachable [OF assms this]] u(2) t(2,3)
  have "\<not> migrationRunning t" by (auto simp: no_stuck_flag_def delta_holds_def)
  ultimately show ?thesis using u t by metis
qed

text \<open>From each point of its goroutine the final migration can come to its end.\<close>

lemma final_ends:
  assumes "main s = MainLooping" "\<not> IsZero ft" "\<not> migrationRunning s" "\<And>r. final s \<noteq> FinalDone r" "final s \<noteq> FinalOff"
  shows "\<exists>t r. goes ft change ctx s t \<and> main t \<noteq> MainLooping \<and> final t = FinalDone r"
proof -
  let ?go = "FinalMove None"
  let ?ends = "\<lambda>u. \<exists>t r. goes ft change ctx u t \<and> main t \<noteq> MainLooping \<and> final t = FinalDone r"
  have sending: "?ends u" if "main u = MainLooping" "final u = FinalSending r" for u r
  proof -
    have "\<exists>t. main_step ft True u = Some t \<and> main t \<noteq> MainLooping \<and> final t = FinalDone r"
      by (cases r) (simp_all add: main_step_def that assms(2))
    then obtain t where "main_step ft True u = Some t" "main t \<noteq> MainLooping" "final t = FinalDone r" by blast
    moreover from this(1) have "goes ft change ctx u t"
      by (intro goesI [of "[MainMove True]"]) (simp_all add: sched_step_def)
    ultimately show ?thesis by blast
  qed
  have step: "?ends u" if "goes ft change ctx u v" "?ends v" for u v
    using that by (blast intro: goes_trans)
  have migrating: "?ends u" if "main u = MainLooping" "final u = FinalMigrating" for u
    by (rule step [of u "u\<lparr>final := FinalSending None\<rparr>"], rule goesI [of "[?go]"], simp, simp add: run_steps that)
      (rule sending; simp add: that)
  have ready: "?ends u" if "main u = MainLooping" "final u = FinalReady" for u
    by (rule step [of u "u\<lparr>final := FinalMigrating, started := started u @ [(Final, final_context change ctx)]\<rparr>"],
        rule goesI [of "[?go]"], simp, simp add: run_steps that) (rule migrating; simp add: that)
  have polling: "?ends u" if "main u = MainLooping" "final u = FinalPolling" "\<not> migrationRunning u" for u
    by (rule step [of u "u\<lparr>final := FinalReady\<rparr>"], rule goesI [of "[?go]"], simp, simp add: run_steps that)
      (rule ready; simp add: that)
  have waiting: "?ends u" if "main u = MainLooping" "final u = FinalWaiting" "\<not> migrationRunning u" for u
    by (rule step [of u "u\<lparr>clock := max (clock u) ft, final := FinalPolling\<rparr>"],
        rule goesI [of "[Clock (max (clock u) ft), ?go]"], simp, simp add: run_steps that)
      (rule polling; simp add: that)
  show ?thesis
  proof (cases "final s")
    case FinalWaiting
    then show ?thesis using assms waiting by blast
  next
    case FinalPolling
    then show ?thesis using assms polling by blast
  next
    case FinalReady
    then show ?thesis using assms ready by blast
  next
    case FinalMigrating
    then show ?thesis using assms migrating by blast
  next
    case FinalSending
    then show ?thesis using assms sending by blast
  qed (use assms in simp_all)
qed

text \<open>
  C30: whatever has happened, as long as \<open>Run\<close> waits for the final migration, the goroutines
  can go on without a shutdown so that the final migration is called, ends and lets \<open>Run\<close>
  return: no interleaving leaves the flag set for good or the program stuck.
\<close>

theorem final_migration_can_always_finish:
  assumes "reachable (Loops ft) change ctx now s" "main s = MainLooping" "\<not> IsZero ft"
  shows "\<exists>t r. goes ft change ctx s t \<and> main t \<noteq> MainLooping \<and> final t = FinalDone r \<and>
    final_calls t = [(Final, final_context change ctx)]"
proof -
  obtain u where u: "goes ft change ctx s u" "\<not> migrationRunning u" "final u = final s" "main u = main s"
    using flag_released [OF assms(1)] by (auto simp: plan_time_def)
  have "main_ok (Loops ft) s" using reachable_ok(3) [OF assms(1)] .
  with assms(2,3) have "final u \<noteq> FinalOff" "\<And>r. final u \<noteq> FinalDone r"
    by (auto simp: main_ok_def u)
  from final_ends [OF _ assms(3) u(2) this(2,1)] assms(2) u(4)
  obtain t r where t: "goes ft change ctx u t" "main t \<noteq> MainLooping" "final t = FinalDone r" by metis
  from goes_trans [OF u(1) t(1)] have "goes ft change ctx s t" .
  moreover from goes_reachable [OF assms(1)] this have "reachable (Loops ft) change ctx now t"
    by (simp add: plan_time_def)
  from reachable_ok(2) [OF this] t(3) have "final_calls t = [(Final, final_context change ctx)]"
    by (simp add: final_ok_def final_called_def)
  ultimately show ?thesis using t(2,3) by blast
qed

theorem final_migration_can_always_finish_witness:
  "\<exists>t r. goes sample_final True Background (sched_start (Loops sample_final) sample_now) t \<and>
     main t \<noteq> MainLooping \<and> final t = FinalDone r \<and> final_calls t = [(Final, final_context True Background)]"
  by (rule final_migration_can_always_finish [of _ _ _ sample_now])
    (auto intro: here simp: sched_start_def sample_times)

text \<open>
  C31: what \<open>Run\<close> does with its arguments. It ends at once without an error exactly when the
  timestamp is expired; it schedules a final migration exactly when the timestamp parses,
  is not the zero time and not in the past and the cron expression is valid; a timestamp
  that does not parse is treated as none.
\<close>

theorem run_plan_outcome:
  "(run_plan lib now a = Returns None \<longleftrightarrow> \<not> blank (finalTimestampStr a) \<and>
     (case time_Parse lib (finalTimestampStr a) of Inr ft \<Rightarrow> ft < now | Inl e \<Rightarrow> is_expired_timestamp e)) \<and>
   (run_plan lib now a = Loops ft \<longleftrightarrow> gronx_IsValid lib (regularCron a) \<and>
     (if blank (finalTimestampStr a) then IsZero ft
      else case time_Parse lib (finalTimestampStr a) of
        Inr ft' \<Rightarrow> ft = ft' \<and> now \<le> ft
      | Inl e \<Rightarrow> \<not> is_expired_timestamp e \<and> IsZero ft))"
proof -
  have [simp]: "is_expired_timestamp (errorf_w p e) = is_expired_timestamp e" "is_expired_timestamp ExpiredTimestamp" for p e
    by (simp_all add: is_expired_timestamp_def errorf_w_def)
  show ?thesis
    by (auto simp: run_plan_def ParseFinalTimestamp_def start_loop_def cron_New_def IsZero_def
        split: sum.splits)
qed

end
