(* ===== verification/Preflight.thy ===== *)
theory Preflight imports Process System_Info Exporter_Client begin

text \<open>
  The checks of the coordinator before its start (\<open>cmd/ces-importer/preflight.go\<close>): the health of
  the exporter, the connection with ssh, and the access to the own cluster.
\<close>

section \<open>The model\<close>

definition exporterSSHPort :: string where
  "exporterSSHPort = ''7022''"

record 's PreflightExecuter =
  pf_GetIsHealthy :: "ctx \<Rightarrow> ('s, bool) go"
  pf_GetImporterSystemInfo :: "ctx \<Rightarrow> ('s, SystemInfo) go"
  testSSHConnection :: "ctx \<Rightarrow> Coordinator \<Rightarrow> ('s, unit) go"

datatype preflight_call = CheckHealth | TestSSH | CheckSystemInfo

definition check_health :: "'s PreflightExecuter \<Rightarrow> ctx \<Rightarrow> ((preflight_call, 's) st, err option) go" where
  "check_health p ctx =
     handle (extern CheckHealth (pf_GetIsHealthy p ctx))
       (\<lambda>exporterApiErr. ret (join2 None (Some (errorf_w ''unable to determine exporter health status'' exporterApiErr))))
       (\<lambda>healthy. ret (if \<not> healthy then join2 None (Some (ErrorString ''exporter health status is unhealthy'')) else None))"

definition runPreflightCheck :: "'s PreflightExecuter \<Rightarrow> ctx \<Rightarrow> Coordinator \<Rightarrow> ((preflight_call, 's) st, unit) go" where
  "runPreflightCheck p ctx cfg =
     andThen (check_health p ctx) (\<lambda>result.
     attempt (extern TestSSH (testSSHConnection p ctx cfg)) (\<lambda>sshError.
     let result = (case sshError of None \<Rightarrow> result
       | Some e \<Rightarrow> join2 result (Some (errorf_w ''unable to test ssh connection'' e))) in
     attempt (extern CheckSystemInfo (pf_GetImporterSystemInfo p ctx)) (\<lambda>sysInfoErr.
     return_err (case sysInfoErr of None \<Rightarrow> result
       | Some e \<Rightarrow> join2 result (Some (errorf_w ''unable to retrieve current systems system info'' e))))))"

text \<open>
  The test of the connection. \<open>ssh.ParsePrivateKey\<close> and the connection are parameters. With
  a data key that is missing the last error that is formatted is nil.
\<close>

record ('w, 'k) ssh_api =
  pf_secret_Get :: "string \<Rightarrow> ('w, secret_data) go"
  ParsePrivateKey :: "string \<Rightarrow> err + 'k"
  ssh_Dial :: "string \<Rightarrow> string \<Rightarrow> 'k \<Rightarrow> ('w, unit) go"
  ssh_NewSession :: "('w, unit) go"
  ssh_session_Close :: "('w, unit) go"
  ssh_client_Close :: "('w, unit) go"

definition quoted :: "string \<Rightarrow> string" where
  "quoted s = [CHR 39] @ s @ [CHR 39]"

definition open_session :: "('w, 'k) ssh_api \<Rightarrow> Coordinator \<Rightarrow> 'k \<Rightarrow> ('w, unit) go" where
  "open_session api cfg signer =
     andThen (orWrap ''could not open ssh connection to exporter''
       (ssh_Dial api (ExporterHost (co_API cfg) @ '':'' @ exporterSSHPort) (User (co_SSH cfg)) signer)) (\<lambda>_.
     deferring (ssh_client_Close api)
       (andThen (orWrap ''could not create ssh session'' (ssh_NewSession api)) (\<lambda>_.
        deferring (ssh_session_Close api) (ret ()))))"

definition sshConnectionTest ::
    "('w, 'k) ssh_api \<Rightarrow> (ctx \<Rightarrow> string \<Rightarrow> ('w, DoguExport) go) \<Rightarrow> ctx \<Rightarrow> Coordinator \<Rightarrow> ('w, unit) go" where
  "sshConnectionTest api set_export ctx cfg =
     attempt (set_export ctx ''cas'') (\<lambda>_.
     let name = ssh_SecretName (co_SSH cfg); key = ssh_SecretDataKey (co_SSH cfg) in
     andThen (orWrap (''could not get secret '' @ quoted name) (pf_secret_Get api name)) (\<lambda>secret_data.
     case secret_data key of
       None \<Rightarrow> fail (ErrorString (''secret '' @ quoted name @ '' does not contain data key '' @ quoted key @ '': %!w(<nil>)''))
     | Some val \<Rightarrow>
         andThen (orWrap ''could not parse private ssh key'' (pure (ParsePrivateKey api val))) (open_session api cfg)))"

section \<open>What the preflight check reports\<close>

text \<open>The problems that the three checks show, in the order of the checks.\<close>

definition health_problems :: "bool result \<Rightarrow> err list" where
  "health_problems r = (case r of
     Ok True \<Rightarrow> []
   | Ok False \<Rightarrow> [ErrorString ''exporter health status is unhealthy'']
   | Err e \<Rightarrow> [errorf_w ''unable to determine exporter health status'' e]
   | Panic _ \<Rightarrow> [])"

definition failure_of :: "string \<Rightarrow> 'a result \<Rightarrow> err list" where
  "failure_of p r = (case r of Err e \<Rightarrow> [errorf_w p e] | _ \<Rightarrow> [])"

definition preflight_outcome :: "err list \<Rightarrow> unit result \<Rightarrow> bool" where
  "preflight_outcome problems r = (case r of
     Ok _ \<Rightarrow> problems = [] | Err e \<Rightarrow> problems \<noteq> [] \<and> reported e = problems | Panic _ \<Rightarrow> False)"

definition no_panic :: "'a result \<Rightarrow> bool" where
  "no_panic r = (case r of Panic _ \<Rightarrow> False | _ \<Rightarrow> True)"

lemma preflight_outcome_oreported:
  "oreported x = ps \<Longrightarrow> (x = None \<longleftrightarrow> ps = []) \<Longrightarrow> preflight_outcome ps (case x of None \<Rightarrow> Ok () | Some e \<Rightarrow> Err e)"
  by (cases x) (auto simp: preflight_outcome_def)

lemma check_health_spec:
  assumes "pf_GetIsHealthy p ctx (world s) = (health, w)" "no_panic health"
  shows "\<exists>x. check_health p ctx s = (Ok x, s\<lparr>trace := trace s @ [(CheckHealth, ending_of health)], world := w\<rparr>) \<and>
    oreported x = health_problems health \<and> (x = None \<longleftrightarrow> health_problems health = [])"
  using assms
  by (cases health) (auto simp: check_health_def go_defs no_panic_def health_problems_def errs split: bool.splits)

definition preflight_problems :: "bool result \<Rightarrow> unit result \<Rightarrow> SystemInfo result \<Rightarrow> err list" where
  "preflight_problems health ssh info = health_problems health @
     failure_of ''unable to test ssh connection'' ssh @
     failure_of ''unable to retrieve current systems system info'' info"

text \<open>Joining the failure of a check to the result.\<close>

definition joined :: "string \<Rightarrow> 'a result \<Rightarrow> err option \<Rightarrow> err option" where
  "joined p r acc = (case r of Err e \<Rightarrow> join2 acc (Some (errorf_w p e)) | _ \<Rightarrow> acc)"

lemma joined_reported:
  "oreported x = ps \<Longrightarrow> (x = None \<longleftrightarrow> ps = []) \<Longrightarrow>
     oreported (joined p r x) = ps @ failure_of p r \<and> (joined p r x = None \<longleftrightarrow> ps @ failure_of p r = [])"
  by (cases r) (auto simp: joined_def failure_of_def)

text \<open>
  C39: the preflight check makes all of its three checks, whatever the ones before found: it asks
  the exporter for its health, opens a connection to it with ssh and reads the system info of the
  own cluster. It succeeds exactly when none of them found a problem, and its error reports the
  problem of each that did, in this order.
\<close>

theorem preflight_reports_every_problem:
  assumes "pf_GetIsHealthy p ctx (world s) = (health, w1)" "no_panic health"
    and "testSSHConnection p ctx cfg w1 = (ssh, w2)" "no_panic ssh"
    and "pf_GetImporterSystemInfo p ctx w2 = (info, w3)" "no_panic info"
  shows "\<exists>r. runPreflightCheck p ctx cfg s = (r, s\<lparr>world := w3, trace := trace s @
      [(CheckHealth, ending_of health), (TestSSH, ending_of ssh), (CheckSystemInfo, ending_of info)]\<rparr>) \<and>
    preflight_outcome (preflight_problems health ssh info) r"
proof -
  let ?P = "''unable to test ssh connection''" and ?Q = "''unable to retrieve current systems system info''"
  let ?s1 = "s\<lparr>trace := trace s @ [(CheckHealth, ending_of health)], world := w1\<rparr>"
  let ?s2 = "?s1\<lparr>trace := trace ?s1 @ [(TestSSH, ending_of ssh)], world := w2\<rparr>"
  from check_health_spec [OF assms(1,2)] obtain x where x: "check_health p ctx s = (Ok x, ?s1)"
    "oreported x = health_problems health" "x = None \<longleftrightarrow> health_problems health = []" by blast
  let ?y = "joined ?Q info (joined ?P ssh x)"
  note j = joined_reported [OF x(2,3), of ?P ssh]
  note y = joined_reported [OF conjunct1 [OF j] conjunct2 [OF j], of ?Q info]
  have "runPreflightCheck p ctx cfg s = return_err ?y (?s2\<lparr>trace := trace ?s2 @ [(CheckSystemInfo, ending_of info)], world := w3\<rparr>)"
    unfolding runPreflightCheck_def andThen_Ok [where m = "check_health p ctx", OF x(1)] Let_def
    using assms(3-6) by (cases ssh; cases info) (simp_all add: attempt_def handle_def extern_def joined_def no_panic_def)
  then show ?thesis
    using preflight_outcome_oreported [OF conjunct1 [OF y] conjunct2 [OF y]]
    by (simp add: preflight_problems_def return_err_def go_defs split: option.splits)
qed

text \<open>An exporter that is not reached, neither by HTTP nor by ssh.\<close>

theorem preflight_reports_every_problem_witness:
  "\<exists>r. runPreflightCheck \<lparr>pf_GetIsHealthy = \<lambda>_. answers (Err DeadlineExceeded),
       pf_GetImporterSystemInfo = \<lambda>_. answers (Ok sample_exporter), testSSHConnection = \<lambda>_ _. answers (Err ContextCanceled)\<rparr>
     Background sample_coordinator \<lparr>trace = [], world = ()\<rparr> =
     (r, \<lparr>trace = [(CheckHealth, Failed DeadlineExceeded), (TestSSH, Failed ContextCanceled), (CheckSystemInfo, Fine)], world = ()\<rparr>) \<and>
   preflight_outcome [errorf_w ''unable to determine exporter health status'' DeadlineExceeded,
     errorf_w ''unable to test ssh connection'' ContextCanceled] r"
proof -
  let ?p = "\<lparr>pf_GetIsHealthy = \<lambda>_. answers (Err DeadlineExceeded), pf_GetImporterSystemInfo = \<lambda>_. answers (Ok sample_exporter),
    testSSHConnection = \<lambda>_ _. answers (Err ContextCanceled)\<rparr>"
  show ?thesis
    using preflight_reports_every_problem [of ?p Background "\<lparr>trace = [], world = ()\<rparr>" "Err DeadlineExceeded" "()"
        sample_coordinator "Err ContextCanceled" "()" "Ok sample_exporter" "()"]
    by (simp add: answers_def no_panic_def preflight_problems_def health_problems_def failure_of_def cong del: result.case_cong)
qed

end
