(* ===== verification/Coordinator_Main.thy ===== *)
theory Coordinator_Main imports Migrator Job_Service Import_Job Mail Blueprint_Control Volume_Resizer Schedule Preflight begin

text \<open>
  The start of the coordinator and the construction of its migrator out of all components
  (\<open>cmd/ces-importer/main.go\<close>), and what this composition guarantees when a migration calls the
  import job.
\<close>

section \<open>The environment of the coordinator\<close>

text \<open>
  The state of the process: the blueprints that were stopped, the logger, and the world of the
  HTTP client with the cluster outside.
\<close>

type_synonym 'w coord = "'w net Process.process BlueprintControl"

definition on_cluster :: "('w net, 'a) go \<Rightarrow> ('w coord, 'a) go" where
  "on_cluster m = on_blueprints (on_rest m)"

record ('w, 'q, 'r, 'k) coord_env =
  ce_names :: name_lib
  ce_json :: json_lib
  ce_http :: "'w http_lib"
  ce_x509 :: x509_lib
  ce_files :: "'w net \<Rightarrow> fs"
  ce_config :: Config.config_lib
  ce_environ :: environ
  ce_quote :: "string \<Rightarrow> string"
  ce_OpenFile :: "string \<Rightarrow> ('w net, unit) go"
  ce_KubeConfig :: "('w net, 'r) go"
  ce_k8s :: "'r k8s_lib"
  ce_clock :: "'w net \<Rightarrow> Migrator.time \<times> 'w net"
  ce_retry :: "'w net retry"
  ce_range :: "'w net \<Rightarrow> string list \<Rightarrow> string list"
  ce_validator_range :: "string list \<Rightarrow> string list"
  ce_secret_Get :: "K8sClients \<Rightarrow> string \<Rightarrow> ('w net, secret_data) go"
  ce_ssh :: "K8sClients \<Rightarrow> ('w net, 'k) ssh_api"
  ce_dogus :: "K8sClients \<Rightarrow> 'w net dogu_api"
  ce_blueprints :: "K8sClients \<Rightarrow> 'w net blueprint_api"
  ce_info :: "K8sClients \<Rightarrow> 'w net info_api"
  ce_resize :: "K8sClients \<Rightarrow> 'w net resize_api"
  ce_pick :: "'w net scheduler"
  ce_job_lib :: "'q job_lib"
  ce_pvc :: "K8sClients \<Rightarrow> 'w net pvc_api"
  ce_job :: "K8sClients \<Rightarrow> ('w net, 'q) job_api"
  ce_log_retry :: "('w net \<times> string option) retry"
  ce_unix :: "'w net \<Rightarrow> int"
  ce_mail :: "K8sClients \<Rightarrow> 'w net mail_api"

text \<open>The interfaces that the components get, with the services of the exporter.\<close>

definition coord_info_api :: "('w, 'q, 'r, 'k) coord_env \<Rightarrow> 'w net apiClient \<Rightarrow> K8sClients \<Rightarrow> 'w net info_api" where
  "coord_info_api env api cs = (ce_info env cs)\<lparr>pr_GetSystemInfo := GetSystemInfo (ce_json env) api\<rparr>"

definition coord_job_api ::
    "('w, 'q, 'r, 'k) coord_env \<Rightarrow> K8sClients \<Rightarrow> 'q jobProvider \<Rightarrow> ('w net, 'q) job_api" where
  "coord_job_api env cs provider = (ce_job env cs)\<lparr>create_import_job :=
     createImportJob provider (GetDoguVolumes (ce_pvc env cs) (NewPVCGetter (ce_pvc env cs))) (ce_unix env)\<rparr>"

definition coord_blueprint_api :: "('w, 'q, 'r, 'k) coord_env \<Rightarrow> K8sClients \<Rightarrow> 'w net Process.process blueprint_api" where
  "coord_blueprint_api env cs = \<lparr>bp_List = on_rest (bp_List (ce_blueprints env cs)),
     bp_Get = (\<lambda>n. on_rest (bp_Get (ce_blueprints env cs) n)),
     bp_Patch = (\<lambda>n p. on_rest (bp_Patch (ce_blueprints env cs) n p))\<rparr>"

definition coord_now :: "('w, 'q, 'r, 'k) coord_env \<Rightarrow> 'w coord \<Rightarrow> Migrator.time \<times> 'w coord" where
  "coord_now env s = (case ce_clock env (rest_of (bp_world s)) of (t, w) \<Rightarrow>
     (t, s\<lparr>bp_world := (bp_world s)\<lparr>rest_of := w\<rparr>\<rparr>))"

section \<open>The migrator (\<open>createMigrator\<close>)\<close>

definition initLog :: "('w, 'q, 'r, 'k) coord_env \<Rightarrow> Coordinator \<Rightarrow> ('w coord, unit) go" where
  "initLog env cfg = on_blueprints (InitStructuredLogger
     [WithLevel (ce_quote env) (Level (co_Logging cfg)), WithComponent ''ces-importer'',
      WithFile (ce_OpenFile env) PathAppLogFile])"

text \<open>\<open>migration.NewMigrator\<close> with the dependencies that \<open>createMigrator\<close> puts together.\<close>

definition NewMigrator ::
    "('w, 'q, 'r, 'k) coord_env \<Rightarrow> K8sClients \<Rightarrow> Coordinator \<Rightarrow> 'w net apiClient \<Rightarrow>
      MaintenanceModeService \<Rightarrow> 'q jobProvider \<Rightarrow> Sender \<Rightarrow> 'w coord Migrator" where
  "NewMigrator env cs cfg api maintenance provider sender = \<lparr>
     initializeLogger = initLog env cfg,
     exportModeValidator_Validate = (\<lambda>ctx. on_cluster (ExportModeValidator_Validate (ce_json env) api ctx)),
     Migrator.GetExporterSystemInfo = (\<lambda>ctx. on_cluster (System_Info.GetExporterSystemInfo (coord_info_api env api cs) ctx)),
     Migrator.GetImporterSystemInfo = (\<lambda>ctx. on_cluster (System_Info.GetImporterSystemInfo (coord_info_api env api cs) ctx)),
     systemInfoValidator_Validate = (\<lambda>ctx. Validate (ce_names env) (ce_validator_range env) (ExcludedDogus (co_General cfg))),
     blueprintStopper_StopBlueprint = StopBlueprint (coord_blueprint_api env cs),
     Migrator.ResizeDogusIfNeeded = (\<lambda>ctx ex im. on_cluster (Volume_Resizer.ResizeDogusIfNeeded (ce_names env)
       (ce_resize env cs) (ce_pick env) (NewDoguVolumeResizer (ExcludedDogus (co_General cfg))) ctx ex im)),
     doguStopper_StopAll = (\<lambda>ctx. on_cluster (StopAll (ce_names env) (ce_dogus env cs) ctx)),
     maintenanceModeHandler_Enable = (\<lambda>ctx. on_cluster (Enable maintenance (ce_json env) api ctx)),
     maintenanceModeHandler_Disable = (\<lambda>ctx. on_cluster (Disable (ce_json env) api ctx)),
     jobRunner_Run = (\<lambda>ctx. on_cluster (untraced (Job_Service.Run (coord_job_api env cs provider) (ce_log_retry env) ctx))),
     doguStarter_StartAll = (\<lambda>ctx. on_cluster (StartAll (ce_names env) (ce_dogus env cs) ctx)),
     blueprintStarter_StartBlueprint = StartBlueprint (coord_blueprint_api env cs),
     mailSender_Send = (\<lambda>ctx isFinal res start end'. on_cluster (untraced (Send (ce_mail env cs) sender ctx isFinal res start end'))),
     time_Now = coord_now env\<rparr>"

definition NewJobService :: "'q job_lib \<Rightarrow> environ \<Rightarrow> JobProviderDependencies \<Rightarrow> ('s, 'q jobProvider) go" where
  "NewJobService lib os_env deps = orWrap ''failed to create job provider'' (newJobProvider lib os_env deps)"

definition job_deps :: "Coordinator \<Rightarrow> JobProviderDependencies" where
  "job_deps cfg = \<lparr>JobContainerConfig = co_JobContainer cfg, SSHConfig = co_SSH cfg, APIConfig = co_API cfg,
     APIKey = ExporterApiKey (co_API cfg), jd_DoguVolumeBasePath = DoguVolumeBasePath (co_JobConfig cfg)\<rparr>"

text \<open>The mail sender is created once in the process, while the package variable has its first value.\<close>

definition new_sender :: "Coordinator \<Rightarrow> ('s, Sender) go" where
  "new_sender cfg = (\<lambda>s. (fst (CreateSender (co_Smtp cfg) (ExporterHost (co_API cfg)) [PathAppLogFile] initialCAPath), s))"

definition createMigrator ::
    "('w, 'q, 'r, 'k) coord_env \<Rightarrow> K8sClients \<Rightarrow> Coordinator \<Rightarrow> 'w net apiClient \<Rightarrow> ('w coord, 'w coord Migrator) go" where
  "createMigrator env cs cfg api = (case mig_MaintenanceModeMessage (co_Migration cfg) of
     None \<Rightarrow> panic nil_dereference
   | Some m \<Rightarrow>
       let maintenance = SetMessage (Title m) (Text m) NewMaintenanceModeService in
       handle (NewJobService (ce_job_lib env) (ce_environ env) (job_deps cfg))
         (\<lambda>err. fail (errorf_v ''failed to create a new job service'' err))
         (\<lambda>provider.
       andThen (orWrap ''found invalid secrets in configuration''
         (on_cluster (ValidateSecrets (ce_retry env) (ce_range env) (ce_secret_Get env cs) cfg))) (\<lambda>_.
       andThen (orWrap ''error creating mailSender'' (new_sender cfg)) (\<lambda>sender.
       ret (NewMigrator env cs cfg api maintenance provider sender)))))"

section \<open>The start of the process (\<open>main\<close>)\<close>

text \<open>\<open>panic(fmt.Errorf("p: %w", err))\<close>: the panic prints the message of the error.\<close>

definition or_panic :: "string \<Rightarrow> ('s, 'a) go \<Rightarrow> ('s, 'a) go" where
  "or_panic p m = handle m (\<lambda>err. panic (err_msg (errorf_w p err))) ret"

definition newPreflightExecuter ::
    "('w, 'q, 'r, 'k) coord_env \<Rightarrow> K8sClients \<Rightarrow> 'w net apiClient \<Rightarrow> 'w net PreflightExecuter" where
  "newPreflightExecuter env cs api = \<lparr>pf_GetIsHealthy = GetIsHealthy api,
     pf_GetImporterSystemInfo = System_Info.GetImporterSystemInfo (coord_info_api env api cs),
     testSSHConnection = sshConnectionTest (ce_ssh env cs) (SetExportDogu (ce_json env) api)\<rparr>"

text \<open>The arguments of \<open>migration.Run\<close>, which the process starts with the migrator.\<close>

definition schedule_args :: "Coordinator \<Rightarrow> run_args" where
  "schedule_args cfg = \<lparr>finalTimestampStr = Migration.FinalTimestamp (co_Migration cfg), regularCron = RegularCron (co_Migration cfg),
     changeFQDN = Migration.ChangeFQDN (co_Migration cfg), run_ctx = Background\<rparr>"

definition build ::
    "('w, 'q, 'r, 'k) coord_env \<Rightarrow> Coordinator \<Rightarrow> Client \<Rightarrow> K8sClients \<Rightarrow> ('w coord, 'w coord Migrator \<times> run_args) go" where
  "build env cfg c k8sClientSet =
     (let api = client_api (ce_http env) c in
      andThen (if ExecutePreflightCheck (co_Migration cfg)
        then or_panic ''preflight check failed''
          (on_cluster (untraced (runPreflightCheck (newPreflightExecuter env k8sClientSet api) Background cfg)))
        else ret ()) (\<lambda>_.
      andThen (or_panic ''failed to create migrator'' (createMigrator env k8sClientSet cfg api)) (\<lambda>migrator.
      ret (migrator, schedule_args cfg))))"

definition main_start :: "('w, 'q, 'r, 'k) coord_env \<Rightarrow> ('w coord, 'w coord Migrator \<times> run_args) go" where
  "main_start env =
     andThen (or_panic ''failed to read kube config'' (on_cluster (ce_KubeConfig env))) (\<lambda>clusterConfig.
     andThen (or_panic ''failed to read config''
       (on_cluster (reading (ce_files env) (ReadCoordinatorConfig (ce_config env) (ce_environ env))))) (\<lambda>cfg.
     andThen (or_panic ''failed to initialize logger'' (initLog env cfg)) (\<lambda>_.
     andThen get_state (\<lambda>s.
     let c = NewServiceFromConfig (ce_x509 env) (ce_files env (rest_of (bp_world s))) (co_API cfg) in
     andThen (or_panic ''failed to create clients for kubernetes''
       (CreateK8SClientSet (ce_k8s env) clusterConfig (Namespace (co_General cfg)))) (\<lambda>k8sClientSet.
     build env cfg c k8sClientSet)))))"

section \<open>What the process is built of\<close>

lemma or_panic_Ok_iff [ok_iffs]: "or_panic p m s = (Ok a, t) \<longleftrightarrow> m s = (Ok a, t)"
  by (auto simp: or_panic_def handle_def panic_def ret_def split: prod.splits result.splits)

lemma on_blueprints_run: "on_blueprints m s = (r, t) \<Longrightarrow> m (bp_world s) = (r, bp_world t)"
  by (auto simp: on_blueprints_def split: prod.splits)

lemma on_cluster_run: "on_cluster m s = (r, t) \<Longrightarrow> m (rest_of (bp_world s)) = (r, rest_of (bp_world t))"
  unfolding on_cluster_def by (drule on_blueprints_run, drule on_rest_run)

definition cluster_of :: "'w coord \<Rightarrow> 'w net" where
  "cluster_of s = rest_of (bp_world s)"

lemma on_cluster_of: "on_cluster m s = (r, t) \<Longrightarrow> m (cluster_of s) = (r, cluster_of t)"
  unfolding cluster_of_def by (rule on_cluster_run)

text \<open>Without the message for the maintenance mode the migrator cannot be created.\<close>

lemma createMigrator_without_message:
  "mig_MaintenanceModeMessage (co_Migration cfg) = None \<Longrightarrow>
     createMigrator env cs cfg api s = (Panic nil_dereference, s)"
  by (simp add: createMigrator_def panic_def)

lemma createMigrator_Ok:
  assumes "createMigrator env cs cfg api s = (Ok m, t)"
  obtains msg provider sender where "mig_MaintenanceModeMessage (co_Migration cfg) = Some msg"
    "m = NewMigrator env cs cfg api (SetMessage (Title msg) (Text msg) NewMaintenanceModeService) provider sender"
proof (cases "mig_MaintenanceModeMessage (co_Migration cfg)")
  case None
  with assms show ?thesis by (simp add: createMigrator_without_message)
next
  case (Some msg)
  obtain r u where j: "NewJobService (ce_job_lib env) (ce_environ env) (job_deps cfg) s = (r, u)" by fastforce
  with assms Some obtain provider where "r = Ok provider"
    by (cases r) (simp_all add: createMigrator_def Let_def handle_def fail_def)
  with assms Some j show ?thesis
    by (auto simp: createMigrator_def Let_def handle_def ok_iffs cong del: result.case_cong intro!: that [of msg])
qed

lemma build_Ok:
  assumes "build env cfg c cs s = (Ok (m, args), t)"
  obtains msg provider sender where "args = schedule_args cfg" "mig_MaintenanceModeMessage (co_Migration cfg) = Some msg"
    "m = NewMigrator env cs cfg (client_api (ce_http env) c)
       (SetMessage (Title msg) (Text msg) NewMaintenanceModeService) provider sender"
proof -
  from assms obtain u v where "createMigrator env cs cfg (client_api (ce_http env) c) u = (Ok m, v)" "args = schedule_args cfg"
    unfolding build_def Let_def andThen_Ok_iff or_panic_Ok_iff ret_Ok_iff by auto
  then show ?thesis by (elim createMigrator_Ok) (rule that)
qed

text \<open>
  The migrator \<open>m\<close> that the process starts with: its configuration \<open>cfg\<close> is the one that was
  read, its client \<open>c\<close> of the exporter is made from it, and its clients \<open>cs\<close> of the cluster are
  bound to its namespace.
\<close>

definition started :: "('w, 'q, 'r, 'k) coord_env \<Rightarrow> Coordinator \<Rightarrow> Client \<Rightarrow> K8sClients \<Rightarrow> 'w coord Migrator \<Rightarrow> bool" where
  "started env cfg c cs m \<longleftrightarrow> (\<exists>v v' msg provider sender.
     fst (ReadCoordinatorConfig (ce_config env) (ce_environ env) v) = Ok cfg \<and>
     c = NewServiceFromConfig (ce_x509 env) v' (co_API cfg) \<and>
     list_all (\<lambda>cl. client_namespace cl = Namespace (co_General cfg)) [c_Dogu cs, c_Pod cs, c_Job cs, c_ConfigMap cs] \<and>
     mig_MaintenanceModeMessage (co_Migration cfg) = Some msg \<and>
     m = NewMigrator env cs cfg (client_api (ce_http env) c)
       (SetMessage (Title msg) (Text msg) NewMaintenanceModeService) provider sender)"

lemma reading_Ok: "reading files m w = (Ok a, w') \<Longrightarrow> fst (m (files w)) = Ok a"
  by (auto simp: reading_def)

lemma main_start_Ok:
  assumes "main_start env s = (Ok (m, args), t)"
  shows "\<exists>cfg c cs. started env cfg c cs m \<and> args = schedule_args cfg"
proof -
  from assms obtain rc u1 cfg u2 v cs u3 u4 where
    cfg: "on_cluster (reading (ce_files env) (ReadCoordinatorConfig (ce_config env) (ce_environ env))) u1 = (Ok cfg, u2)"
    and cs: "CreateK8SClientSet (ce_k8s env) rc (Namespace (co_General cfg)) u3 = (Ok cs, u4)"
    and m: "build env cfg (NewServiceFromConfig (ce_x509 env) v (co_API cfg)) cs u4 = (Ok (m, args), t)"
    unfolding main_start_def Let_def andThen_Ok_iff or_panic_Ok_iff get_state_def by auto
  from m obtain msg provider sender where "args = schedule_args cfg" "mig_MaintenanceModeMessage (co_Migration cfg) = Some msg"
    "m = NewMigrator env cs cfg (client_api (ce_http env) (NewServiceFromConfig (ce_x509 env) v (co_API cfg)))
       (SetMessage (Title msg) (Text msg) NewMaintenanceModeService) provider sender"
    by (rule build_Ok)
  moreover from reading_Ok [OF on_cluster_run [OF cfg]]
  have "\<exists>v. fst (ReadCoordinatorConfig (ce_config env) (ce_environ env) v) = Ok cfg" by blast
  moreover from CreateK8SClientSet_clients [OF cs]
  have "list_all (\<lambda>cl. client_namespace cl = Namespace (co_General cfg)) [c_Dogu cs, c_Pod cs, c_Job cs, c_ConfigMap cs]"
    by simp
  ultimately show ?thesis unfolding started_def by blast
qed

section \<open>The world in which a migration of this process calls the job\<close>

text \<open>
  The contract of the environment: the validator's map is visited as Go does, the clients of the
  dogus and pods behave as documented (\<open>dogu_env_ok\<close>), seen through \<open>V\<close>, and a request to the
  exporter starts no dogu of the own cluster.
\<close>

definition coord_env_ok :: "('w, 'q, 'r, 'k) coord_env \<Rightarrow> 'w net dogu_view \<Rightarrow> bool" where
  "coord_env_ok env V \<longleftrightarrow> range_order_ok (ce_validator_range env) \<and>
     (\<forall>cs. dogu_env_ok \<lparr>de_names = ce_names env, de_api = ce_dogus env cs, de_view = V\<rparr>) \<and>
     (\<forall>c ctx p body w. wp (DoPost (client_api (ce_http env) c) ctx p body) (\<lambda>_ v. Dogu_Control.quiet V w v) w)"

definition halted :: "'w dogu_view \<Rightarrow> 'w \<Rightarrow> string \<Rightarrow> bool" where
  "halted V w n \<longleftrightarrow> (case stopped_in V w n of None \<Rightarrow> True | Some b \<Rightarrow> b \<and> live_pods V w n = 0)"

text \<open>The exporter has confirmed the maintenance mode with its last answer, and it got the message that is configured.\<close>

definition in_maintenance :: "('w, 'q, 'r, 'k) coord_env \<Rightarrow> Coordinator \<Rightarrow> Client \<Rightarrow> 'w net \<Rightarrow> bool" where
  "in_maintenance env cfg c w \<longleftrightarrow> (\<exists>msg body res.
     let mode = \<lparr>mm_Activate = True, mm_Message = \<lparr>msg_Title = Title msg, msg_Text = Text msg\<rparr>\<rparr> in
     mig_MaintenanceModeMessage (co_Migration cfg) = Some msg \<and>
     encode_MaintenanceMode (ce_json env) mode = Inr body \<and>
     answered_by c w \<noteq> [] \<and>
     last (answered_by c w) = (''POST'', request_url (ce_http env) c endpointMaintenanceMode, Some body, res) \<and>
     confirms (ce_json env) mode res)"

definition prepared ::
    "('w, 'q, 'r, 'k) coord_env \<Rightarrow> 'w net dogu_view \<Rightarrow> Coordinator \<Rightarrow> Client \<Rightarrow> K8sClients \<Rightarrow> ctx \<Rightarrow> 'w coord \<Rightarrow> bool" where
  "prepared env V cfg c cs ctx w \<longleftrightarrow>
     (\<exists>ex im u v.
       fst (GetSystemInfo (ce_json env) (client_api (ce_http env) c) ctx u) = Ok ex \<and>
       fst (System_Info.GetImporterSystemInfo (coord_info_api env (client_api (ce_http env) c) cs) ctx v) = Ok im \<and>
       systems_agree (ce_names env) (ExcludedDogus (co_General cfg)) ex im) \<and>
     (\<forall>n. halted V (cluster_of w) n) \<and>
     (IsFinalMigration ctx \<longrightarrow> in_maintenance env cfg c (cluster_of w))"

lemma halted_quiet: "halted V w n \<Longrightarrow> Dogu_Control.quiet V w v \<Longrightarrow> halted V v n"
  by (auto simp: halted_def Dogu_Control.quiet_def at_rest_def split: option.splits)

lemma StopAll_halts:
  assumes "coord_env_ok env V" "StopAll (ce_names env) (ce_dogus env cs) ctx w = (Ok u, v)"
  shows "halted V v n"
proof -
  let ?E = "\<lparr>de_names = ce_names env, de_api = ce_dogus env cs, de_view = V\<rparr>"
  have "dogu_env_ok ?E" using assms(1) by (simp add: coord_env_ok_def)
  from wpD [OF StopAll_rest [OF this] , unfolded dogu_env.simps, OF assms(2)]
  show ?thesis unfolding result.case halted_def by (elim allE [of _ n]) (auto split: option.splits)
qed

lemma Enable_quiet:
  assumes "coord_env_ok env V"
  shows "wp (Enable m (ce_json env) (client_api (ce_http env) c) ctx) (\<lambda>_ v. Dogu_Control.quiet V w v) w"
proof -
  have "wp (setMaintenanceMode (ce_json env) (client_api (ce_http env) c) ctx mode) (\<lambda>_ v. Dogu_Control.quiet V w v) w" for mode
  proof (cases "encode_MaintenanceMode (ce_json env) mode")
    case (Inr body)
    have "wp (DoPost (client_api (ce_http env) c) ctx endpointMaintenanceMode (Some body)) (\<lambda>_ v. Dogu_Control.quiet V w v) w"
      using assms by (simp add: coord_env_ok_def)
    then show ?thesis
      unfolding setMaintenanceMode_def decodeMaintenanceModeStatus_def wp_andThen wp_orWrap wp_pure Inr sum.case result.case
      by (elim wp_mono) (auto split: result.splits sum.splits)
  qed (simp add: setMaintenanceMode_def)
  then show ?thesis by (simp add: Enable_def EnableWithMessage_def split: option.splits)
qed

lemma Enable_confirmed:
  assumes "mig_MaintenanceModeMessage (co_Migration cfg) = Some msg"
    and "Enable (SetMessage (Title msg) (Text msg) NewMaintenanceModeService) (ce_json env) (client_api (ce_http env) c) ctx w = (Ok u, v)"
  shows "in_maintenance env cfg c v"
proof -
  have "setMaintenanceMode (ce_json env) (client_api (ce_http env) c) ctx
      \<lparr>mm_Activate = True, mm_Message = \<lparr>msg_Title = Title msg, msg_Text = Text msg\<rparr>\<rparr> w = (Ok u, v)"
    using assms(2) by (simp add: Enable_def EnableWithMessage_def SetMessage_def)
  from wpD [OF cl.setMaintenanceMode_spec this] assms(1) show ?thesis
    by (auto simp: in_maintenance_def Let_def)
qed

lemma ready_prepared:
  assumes E: "coord_env_ok env V" and m: "started env cfg c cs m" and j: "job_ready m ctx ex im w"
  shows "prepared env V cfg c cs ctx w"
proof -
  from m obtain msg provider sender where msg: "mig_MaintenanceModeMessage (co_Migration cfg) = Some msg" and
    M: "m = NewMigrator env cs cfg (client_api (ce_http env) c)
       (SetMessage (Title msg) (Text msg) NewMaintenanceModeService) provider sender"
    unfolding started_def by blast
  let ?api = "client_api (ce_http env) c" and ?service = "SetMessage (Title msg) (Text msg) NewMaintenanceModeService"
  from j obtain w1 w2 w3 w4 w6 w7 where
    ex: "on_cluster (System_Info.GetExporterSystemInfo (coord_info_api env ?api cs) ctx) w1 = (Ok ex, w2)" and
    im: "on_cluster (System_Info.GetImporterSystemInfo (coord_info_api env ?api cs) ctx) w2 = (Ok im, w3)" and
    valid: "Validate (ce_names env) (ce_validator_range env) (ExcludedDogus (co_General cfg)) ex im w3 = (Ok (), w4)" and
    stop: "on_cluster (StopAll (ce_names env) (ce_dogus env cs) ctx) w6 = (Ok (), w7)" and
    maint: "maintained m ctx w7 w"
    unfolding job_ready_def ready_from_def M NewMigrator_def by auto
  have halts: "halted V (cluster_of w7) n" for n
    by (rule StopAll_halts [OF E on_cluster_of [OF stop]])
  have "range_order_ok (ce_validator_range env)" using E by (simp add: coord_env_ok_def)
  from wpD [OF Validate_iff [OF this] valid]
  have agree: "systems_agree (ce_names env) (ExcludedDogus (co_General cfg)) ex im" by simp
  have "fst (GetSystemInfo (ce_json env) ?api ctx (cluster_of w1)) = Ok ex"
    using on_cluster_of [OF ex] by (simp add: System_Info.GetExporterSystemInfo_def coord_info_api_def)
  moreover have "fst (System_Info.GetImporterSystemInfo (coord_info_api env ?api cs) ctx (cluster_of w2)) = Ok im"
    using on_cluster_of [OF im] by simp
  moreover have "\<forall>n. halted V (cluster_of w) n" "IsFinalMigration ctx \<longrightarrow> in_maintenance env cfg c (cluster_of w)"
  proof -
    have "on_cluster (Enable ?service (ce_json env) ?api ctx) w7 = (Ok (), w)" if "IsFinalMigration ctx"
      using maint that by (simp add: maintained_def M NewMigrator_def)
    note enable = on_cluster_of [OF this]
    show "IsFinalMigration ctx \<longrightarrow> in_maintenance env cfg c (cluster_of w)"
      using Enable_confirmed [OF msg enable] by blast
    show "\<forall>n. halted V (cluster_of w) n"
    proof (cases "IsFinalMigration ctx")
      case True
      from wpD [OF Enable_quiet [OF E] enable [OF True]] halts show ?thesis by (blast intro: halted_quiet)
    next
      case False
      with maint halts show ?thesis by (simp add: maintained_def)
    qed
  qed
  ultimately show ?thesis using agree unfolding prepared_def by blast
qed

text \<open>
  C2: the migrations of the process call the job only in a prepared world, whatever the
  environment answers. Take any migrator that the start of the process builds, out of the
  configuration that was read, and any run of \<open>RunMigration\<close> with it: if the job was called in the
  run, then the exporter and the own cluster answered system infos that agree under the dogus
  excluded by the configuration, every dogu of the cluster was stopped and had no running pod
  at that moment, and in a final migration the exporter had confirmed the maintenance mode with
  the configured message. This composes the start, the migrator, the provider, the validator,
  the dogu control and the client of the exporter.
\<close>

theorem job_runs_in_prepared_world:
  assumes "coord_env_ok env V" "main_start env s0 = (Ok (m, args), t0)"
  shows "\<exists>cfg c cs. started env cfg c cs m \<and> args = schedule_args cfg \<and>
    wp (RunMigration m ctx) (\<lambda>r t. \<exists>es. trace t = trace s @ es \<and>
      (RunJob \<in> fst ` set es \<longrightarrow> (\<exists>w. prepared env V cfg c cs ctx w \<and>
        (RunJob, ending_of (fst (jobRunner_Run m ctx w))) \<in> set es))) s"
proof -
  from main_start_Ok [OF assms(2)] obtain cfg c cs where m: "started env cfg c cs m" "args = schedule_args cfg" by blast
  have "wp (RunMigration m ctx) (\<lambda>r t. \<exists>es. trace t = trace s @ es \<and>
      (RunJob \<in> fst ` set es \<longrightarrow> (\<exists>w. prepared env V cfg c cs ctx w \<and>
        (RunJob, ending_of (fst (jobRunner_Run m ctx w))) \<in> set es))) s"
    by (rule wp_mono [OF run_migration_job [of m ctx s]], unfold job_called_def)
      (blast intro: ready_prepared [OF assms(1) m(1)])
  with m show ?thesis by blast
qed

section \<open>An instance for the witnesses\<close>

text \<open>The dogus of a cluster outside of the HTTP client, and what the clients of the dogus promise there.\<close>

definition outside_dogus :: "'w dogu_api \<Rightarrow> 'w net dogu_api" where
  "outside_dogus api = \<lparr>dogu_List = on_net (dogu_List api), dogu_api.dogu_Get = (\<lambda>n. on_net (dogu_api.dogu_Get api n)),
     UpdateSpecWithRetry = (\<lambda>d f. on_net (UpdateSpecWithRetry api d f)), pod_List = (\<lambda>l. on_net (pod_List api l)),
     DoguLabelName = DoguLabelName api, dogu_api.clock = (\<lambda>s. dogu_api.clock api (outside s)),
     select_wait = (\<lambda>d s. case select_wait api d (outside s) of (ended, w) \<Rightarrow> (ended, s\<lparr>outside := w\<rparr>)),
     ctx_Err = (\<lambda>s. ctx_Err api (outside s))\<rparr>"

definition outside_view :: "'w dogu_view \<Rightarrow> 'w net dogu_view" where
  "outside_view V = \<lparr>stopped_in = (\<lambda>s. stopped_in V (outside s)), live_pods = (\<lambda>s. live_pods V (outside s))\<rparr>"

lemma outside_quiet: "Dogu_Control.quiet (outside_view V) s t \<longleftrightarrow> Dogu_Control.quiet V (outside s) (outside t)"
  by (simp add: Dogu_Control.quiet_def at_rest_def outside_view_def)

lemma outside_dogus_ok:
  assumes "dogu_env_ok \<lparr>de_names = nl, de_api = api, de_view = V\<rparr>"
  shows "dogu_env_ok \<lparr>de_names = nl, de_api = outside_dogus api, de_view = outside_view V\<rparr>"
    (is "dogu_env_ok ?E")
  unfolding dogu_env_ok_def
proof (intro conjI)
  note ok = assms [unfolded dogu_env_ok_def]
  note lift = outside_quiet wp_on_net outside_dogus_def
  show "dogu_list_ok ?E" using ok by (simp add: dogu_list_ok_def lift) (simp add: outside_view_def)
  show "dogu_get_ok ?E" using ok by (simp add: dogu_get_ok_def lift) (simp add: outside_view_def)
  show "dogu_update_ok ?E" using ok by (simp add: dogu_update_ok_def lift) (simp add: outside_view_def)
  show "pod_list_ok ?E" using ok by (simp add: pod_list_ok_def lift dogu_selector_def) (simp add: outside_view_def)
  show "select_ok ?E" using ok by (fastforce simp: select_ok_def lift split: prod.splits if_splits)
qed

lemma on_net_simple [simp]: "on_net (ret a) = ret a" "on_net (fail e) = fail e" "on_net (panic p) = panic p" "on_net (pure x) = pure x"
  by (rule ext, simp add: on_net_def go_defs split: sum.splits)+

lemma on_net_handle: "on_net (handle m h k) = handle (on_net m) (\<lambda>e. on_net (h e)) (\<lambda>a. on_net (k a))"
  by (rule ext) (simp add: on_net_def handle_def split: prod.splits result.splits)

lemma on_net_andThen: "on_net (andThen m k) = andThen (on_net m) (\<lambda>a. on_net (k a))"
  and on_net_orWrap: "on_net (orWrap p m) = orWrap p (on_net m)"
  by (simp_all add: andThen_def orWrap_def on_net_handle)

lemma on_net_for_each: "on_net (for_each f xs) = for_each (\<lambda>x. on_net (f x)) xs"
  by (induction xs) (simp_all add: on_net_andThen)

lemma on_net_if: "on_net (if b then m else n) = (if b then on_net m else on_net n)"
  by simp

lemma on_net_get: "on_net (andThen get_state k) s = on_net (k (outside s)) s"
  by (simp add: on_net_def andThen_def handle_def get_state_def)

lemma get_state_run: "andThen get_state k s = k s s"
  by (simp add: andThen_def handle_def get_state_def)

lemmas on_net_steps = on_net_handle on_net_andThen on_net_orWrap on_net_for_each on_net_if

lemma outside_fields:
  "dogu_List (outside_dogus api) = on_net (dogu_List api)"
  "dogu_api.dogu_Get (outside_dogus api) n = on_net (dogu_api.dogu_Get api n)"
  "UpdateSpecWithRetry (outside_dogus api) d f = on_net (UpdateSpecWithRetry api d f)"
  "dogu_api.clock (outside_dogus api) s = dogu_api.clock api (outside s)"
  by (simp_all add: outside_dogus_def)

lemma outside_wait: "wait_or_end (outside_dogus api) d = on_net (wait_or_end api d)"
  by (rule ext) (simp add: wait_or_end_def outside_dogus_def on_net_def split: prod.splits)

lemma outside_wait_loop: "wait_loop fuel (outside_dogus api) n d = on_net (wait_loop fuel api n d)"
proof (induction fuel)
  case (Suc fuel)
  have timeout: "andThen get_state (\<lambda>w. fail (errorf_w p (ctx_Err (outside_dogus api) w))) =
      on_net (andThen get_state (\<lambda>w. fail (errorf_w p (ctx_Err api w))))" for p
    by (rule ext) (simp add: on_net_get get_state_run outside_dogus_def)
  have "pod_List (outside_dogus api) (dogu_selector (outside_dogus api) n) = on_net (pod_List api (dogu_selector api n))"
    by (simp add: outside_dogus_def dogu_selector_def)
  then show ?case by (simp add: on_net_andThen on_net_orWrap on_net_if Suc timeout outside_wait cong: if_cong)
qed simp

lemma outside_StopAll: "StopAll nl (outside_dogus api) ctx = on_net (StopAll nl api ctx)"
proof -
  have "startStop nl (outside_dogus api) n b = on_net (startStop nl api n b)" for n b
    by (simp only: startStop_def Let_def on_net_steps on_net_simple outside_fields)
  moreover have "waitForDoguPodsTerminated nl (outside_dogus api) n = on_net (waitForDoguPodsTerminated nl api n)" for n
    by (simp add: waitForDoguPodsTerminated_def on_net_andThen, rule arg_cong [where f = "andThen _"], rule ext, rule ext)
      (simp add: on_net_get [unfolded on_net_andThen] get_state_run outside_wait_loop outside_fields)
  ultimately show ?thesis
    by (simp add: StopAll_def StopDogu_def on_net_andThen on_net_orWrap on_net_for_each) (simp add: outside_dogus_def)
qed

text \<open>
  An exporter that answers every request, for the cluster with one dogu, and a configuration with a
  message for the maintenance mode.
\<close>

definition coord_http :: "sample_world http_lib" where
  "coord_http = \<lparr>url_JoinPath = (\<lambda>a b. Inr (a @ b)), NewRequest = (\<lambda>_ _. None),
     http_Do = (\<lambda>_ _. answers (Ok \<lparr>StatusCode = StatusOK, Body_ReadAll = answers (Ok ''{}''), Body_Close = answers (Ok ())\<rparr>))\<rparr>"

definition coord_json :: json_lib where
  "coord_json = job_json\<lparr>
     decode_SystemInfo := (\<lambda>_. Inr \<lparr>x_FQDN = ''source.de'', x_IsMultinode = False,
       x_Dogus = [\<lparr>x_Dogu_Name = ''official/ldap'', x_Dogu_Version = ''1'', x_Dogu_Volume = \<lparr>x_SizeInBytes = 1\<rparr>\<rparr>],
       x_Components = []\<rparr>),
     decode_MaintenanceModeStatus := (\<lambda>_. Inr \<lparr>mms_IsActive = True\<rparr>), encode_MaintenanceMode := (\<lambda>_. Inr ''on'')\<rparr>"

definition coord_migration :: Migration where
  "coord_migration = (co_Migration sample_coordinator)\<lparr>
     mig_MaintenanceModeMessage := Some \<lparr>Title = ''Migration'', Text = ''Please wait.''\<rparr>, ExecutePreflightCheck := True\<rparr>"

definition coord_config_lib :: Config.config_lib where
  "coord_config_lib = job_config_lib\<lparr>T_Migration := \<lparr>yaml_Unmarshal = (\<lambda>_. Inr coord_migration), validate_Struct = (\<lambda>_. None)\<rparr>\<rparr>"

definition coord_ssh :: "(sample_world net, string) ssh_api" where
  "coord_ssh = \<lparr>pf_secret_Get = (\<lambda>_. answers (Ok [''key'' \<mapsto> ''v''])), ParsePrivateKey = Inr, ssh_Dial = (\<lambda>_ _ _. answers (Ok ())),
     ssh_NewSession = answers (Ok ()), ssh_session_Close = answers (Ok ()), ssh_client_Close = answers (Ok ())\<rparr>"

definition coord_resize :: "sample_world net resize_api" where
  "coord_resize = \<lparr>rz_Get = (\<lambda>n s. (Inr (sample_cr (outside s)), s)), rz_Update = (\<lambda>_. Pair (Inr ())), pvc_Get = (\<lambda>_. Pair (Inr 0)),
     ParseVersion = Inr, descriptor = (\<lambda>_ _. answers (Ok [False])), sleep = (\<lambda>s. s), rz_quote = (\<lambda>s. s)\<rparr>"

definition coord_job :: "(sample_world net, string) job_api" where
  "coord_job = \<lparr>create_import_job = (\<lambda>_. answers (Err ContextCanceled)), job_Create = (\<lambda>_. answers (Ok ''job'')),
     job_List = (\<lambda>_. answers (Ok (1, ''7''))), OneTermEqualSelector = (\<lambda>k v. k @ ''='' @ v),
     NewRetryWatcher = (\<lambda>_ _. answers (Ok [\<lparr>ev_Type = Modified, ev_Object = JobObject ''job'' 1 0\<rparr>])),
     watcher_Stop = answers (Ok ()), MatchLabels = (\<lambda>s. s), jobpod_List = (\<lambda>_. Pair (Inr [(''pod'', PodRunning)])),
     logs_Stream = (\<lambda>_. Pair (Inr ())), logs_Copy = (\<lambda>_. Pair (Inr ())), logs_Close = (\<lambda>_. Pair (Inr ())), ja_quote = (\<lambda>s. s),
     log_turn = (\<lambda>_ _ _. True)\<rparr>"

text \<open>Mails are disabled in this configuration; the API of the mails answers nothing.\<close>

definition coord_mail :: "sample_world net mail_api" where
  "coord_mail = (let no = answers (Err ContextCanceled) in \<lparr>
     tls_Dial = (\<lambda>_ _. no), smtp_NewClient = (\<lambda>_. no), smtp_Dial = (\<lambda>_. no),
     cl_Mail = (\<lambda>_. no), cl_Rcpt = (\<lambda>_. no), cl_Data = no, cl_Write = (\<lambda>_. no),
     cl_Close = no, cl_Quit = no, cl_Hello = (\<lambda>_. no), cl_Extension = (\<lambda>_ _. True),
     cl_StartTLS = (\<lambda>_. no), cl_Auth = (\<lambda>_. no), smtp_SendMail = (\<lambda>_ _ _ _ _. no),
     os_Hostname = (\<lambda>_. []), ml_ReadFile = (\<lambda>_. fail ContextCanceled), systemCertPool = ret [],
     mail_api.AppendCertsFromPEM = (\<lambda>_. False), ml_GlobalConfig = (\<lambda>_. fail ContextCanceled),
     random_boundary = (\<lambda>_. ''b''), random_bytes = ret [], utc_stamp = (\<lambda>_. []),
     rfc1123_now = (\<lambda>_. []), format_time = (\<lambda>_. [])\<rparr>)"

definition sample_coord_env :: "(sample_world, string, unit, string) coord_env" where
  "sample_coord_env = \<lparr>ce_names = sample_names, ce_json = coord_json, ce_http = coord_http,
     ce_x509 = \<lparr>SystemCertPool = Inr [], pem_has_certificate = (\<lambda>_. False)\<rparr>, ce_files = (\<lambda>_ _. Inr []),
     ce_config = coord_config_lib, ce_environ = sample_environ, ce_quote = (\<lambda>s. s), ce_OpenFile = (\<lambda>_. answers (Ok ())),
     ce_KubeConfig = answers (Ok ()),
     ce_k8s = \<lparr>getK8sClientsSet = (\<lambda>_. None), getEcoSystemClient = (\<lambda>_. None), getBlueprintClient = (\<lambda>_. None),
       getComponentsClient = (\<lambda>_. None), getBackupClient = (\<lambda>_. None)\<rparr>,
     ce_clock = (\<lambda>w. (0, w)), ce_retry = retry_times 3, ce_range = (\<lambda>_ xs. xs), ce_validator_range = (\<lambda>xs. xs),
     ce_secret_Get = (\<lambda>_ _. answers (Ok [''key'' \<mapsto> ''v''])), ce_ssh = (\<lambda>_. coord_ssh),
     ce_dogus = (\<lambda>_. outside_dogus sample_dogu_api),
     ce_blueprints = (\<lambda>_. \<lparr>bp_List = answers (Ok []), bp_Get = (\<lambda>_. answers (Err ContextCanceled)), bp_Patch = (\<lambda>_ _. answers (Ok ()))\<rparr>),
     ce_info = (\<lambda>_. \<lparr>pr_doguList = (\<lambda>s. (Ok [sample_cr (outside s)], s)), pr_componentList = answers (Ok []),
       GetMinDataVolumeSize = (\<lambda>_. Inr 1), pr_GetSystemInfo = (\<lambda>_. answers (Err ContextCanceled))\<rparr>),
     ce_resize = (\<lambda>_. coord_resize), ce_pick = (\<lambda>_ _ _. 0), ce_job_lib = \<lparr>ParseQuantity = Inr, url_Parse = Inr\<rparr>,
     ce_pvc = (\<lambda>_. \<lparr>pvc_List = (\<lambda>_. answers (Ok (Some []))), FormatLabelSelector_exists = (\<lambda>s. s), pvc_DoguLabelName = ''dogu''\<rparr>),
     ce_job = (\<lambda>_. coord_job), ce_log_retry = retry_times 3, ce_unix = (\<lambda>_. 0), ce_mail = (\<lambda>_. coord_mail)\<rparr>"

definition sample_coord :: "sample_world coord" where
  "sample_coord = NewBlueprintControl \<lparr>default_logger = None, log_writer = [Stdout],
     rest_of = \<lparr>exchanges = [], outside = (False, 2, 0)\<rparr>\<rparr>"

lemma sample_requests:
  "wp (DoGet (client_api coord_http c) ctx p) (\<lambda>r t. r = Ok ''{}'' \<and> outside t = outside s) s"
  "wp (DoPost (client_api coord_http c) ctx p body) (\<lambda>r t. r = Ok ''{}'' \<and> outside t = outside s) s"
  by (simp_all add: client_api_def DoGetRequest_def DoPostRequest_def execute_request_def Let_def coord_http_def)

lemma sample_StopAll:
  "StopAll sample_names (outside_dogus sample_dogu_api) ctx \<lparr>exchanges = e, outside = (False, 2, 0)\<rparr> =
     (Ok (), \<lparr>exchanges = e, outside = (True, 0, 2000)\<rparr>)"
proof -
  have "StopAll sample_names sample_dogu_api Background (False, 2, 0) = (Ok (), (True, 0, 2000))"
    by code_simp
  moreover have "StopAll sample_names sample_dogu_api ctx = StopAll sample_names sample_dogu_api Background"
    by (simp only: StopAll_def)
  ultimately show ?thesis by (simp add: outside_StopAll on_net_def)
qed

text \<open>Each step of a migration in this environment, from any state of the process.\<close>

lemma on_cluster_answers:
  "wp m (\<lambda>r t. r = x \<and> outside t = w) (cluster_of s) \<Longrightarrow>
     \<exists>t. on_cluster m s = (x, t) \<and> outside (cluster_of t) = w"
  by (auto simp: on_cluster_def on_blueprints_def on_rest_def cluster_of_def wp_def split: prod.splits)

lemma sample_export_mode:
  "wp (ExportModeValidator_Validate coord_json (client_api coord_http c) ctx) (\<lambda>r t. r = Ok () \<and> outside t = outside s) s"
  by (simp add: ExportModeValidator_Validate_def GetExportMode_def coord_json_def job_json_def cong del: result.case_cong)
    (rule wp_mono [OF sample_requests(1)], simp)

definition coord_source :: SystemInfo where
  "coord_source = \<lparr>si_FQDN = ''source.de'', si_IsMultinode = False,
     si_Dogus = [\<lparr>dogu_Name = ''official/ldap'', dogu_Version = ''1'', dogu_Volume = \<lparr>SizeInBytes = 1\<rparr>\<rparr>],
     si_Components = []\<rparr>"

definition coord_target :: SystemInfo where
  "coord_target = coord_source\<lparr>si_FQDN := []\<rparr>"

lemma sample_source:
  "wp (System_Info.GetExporterSystemInfo (coord_info_api sample_coord_env (client_api coord_http c) cs) ctx)
     (\<lambda>r t. r = Ok coord_source \<and> outside t = outside s) s"
  by (simp add: System_Info.GetExporterSystemInfo_def coord_info_api_def sample_coord_env_def GetSystemInfo_def coord_json_def
        job_json_def coord_source_def toMigrationSystemInfo_def mapSlice_def cong del: result.case_cong)
    (rule wp_mono [OF sample_requests(1)], simp)

lemma sample_target_info:
  "wp (System_Info.GetImporterSystemInfo (coord_info_api sample_coord_env api cs) ctx)
     (\<lambda>r t. r = Ok coord_target \<and> outside t = outside s) s"
  by (simp add: System_Info.GetImporterSystemInfo_def coord_info_api_def sample_coord_env_def importer_dogu_def coord_target_def
      coord_source_def sample_cr_def Let_def wp_def go_defs)

lemma sample_agree: "systems_agree sample_names (GetGloballyExcludedDogus @ [''official/x'']) coord_source coord_target"
  by code_simp

lemma sample_valid:
  "Validate sample_names (\<lambda>xs. xs) (GetGloballyExcludedDogus @ [''official/x'']) coord_source coord_target s = (Ok (), s)"
proof -
  have "range_order_ok (\<lambda>xs. xs)" by (simp add: range_order_ok_def)
  note wp = Validate_iff [OF this, of sample_names "GetGloballyExcludedDogus @ [''official/x'']" coord_source coord_target s]
  show ?thesis using wp sample_agree by (simp add: wp_iff prod_eq_iff)
qed

lemma sample_blueprints:
  "wp (StopBlueprint (coord_blueprint_api sample_coord_env cs) ctx) (\<lambda>r t. r = Ok () \<and> cluster_of t = cluster_of s) s"
  by (simp add: StopBlueprint_def coord_blueprint_api_def sample_coord_env_def cluster_of_def wp_def on_blueprints_def
      on_rest_def answers_def go_defs)

lemma sample_no_resize:
  "wp (Volume_Resizer.ResizeDogusIfNeeded sample_names coord_resize pick (NewDoguVolumeResizer (GetGloballyExcludedDogus @ [''official/x'']))
     ctx (si_Dogus coord_source) (si_Dogus coord_target)) (\<lambda>r t. r = Ok () \<and> outside t = outside s) s"
proof -
  let ?ex = "getExcludedDoguNames sample_names (NewDoguVolumeResizer (GetGloballyExcludedDogus @ [''official/x'']))"
  have "''ldap'' \<notin> set ?ex" and name: "getDoguNameWithoutNamespace sample_names ''official/ldap'' = ''ldap''"
    "QualifiedNameFromString sample_names ''official/ldap'' = Inr (''official'', ''ldap'')" by code_simp+
  then show ?thesis
    by (simp add: Volume_Resizer.ResizeDogusIfNeeded_def wp_def resize_all.simps resize_one_def Let_def coord_source_def
        coord_target_def hasVolumeWithBackup_def coord_resize_def go_defs)
qed

lemma sample_halt:
  "outside s = (False, 2, 0) \<Longrightarrow> wp (StopAll sample_names (outside_dogus sample_dogu_api) ctx)
     (\<lambda>r t. r = Ok () \<and> outside t = (True, 0, 2000)) s"
  using sample_StopAll [of ctx "exchanges s"] by (cases s) (simp add: wp_def)

lemma sample_enable:
  "wp (Enable service coord_json (client_api coord_http c) ctx) (\<lambda>r t. r = Ok () \<and> outside t = outside s) s"
  by (simp add: Enable_def EnableWithMessage_def setMaintenanceMode_def decodeMaintenanceModeStatus_def coord_json_def
      cong del: result.case_cong split: option.splits)
    (intro conjI impI allI; rule wp_mono [OF sample_requests(2)], simp)

text \<open>The configuration that this environment gives.\<close>

definition coord_cfg :: Coordinator where
  "coord_cfg = sample_coordinator\<lparr>co_Migration := coord_migration,
     co_General := \<lparr>ExcludedDogus = GetGloballyExcludedDogus @ [''official/x''], Namespace = ''ecosystem''\<rparr>\<rparr>"

lemma loads_constant: "loads env files \<lparr>yaml_Unmarshal = (\<lambda>_. Inr a), validate_Struct = vs\<rparr> p x \<Longrightarrow> x = a"
  by (auto simp: loads_def split: sum.splits)

lemma sample_coord_config:
  "fst (ReadCoordinatorConfig coord_config_lib sample_environ v) = Ok cfg \<Longrightarrow> cfg = coord_cfg"
proof -
  assume "fst (ReadCoordinatorConfig coord_config_lib sample_environ v) = Ok cfg"
  then obtain u where "ReadCoordinatorConfig coord_config_lib sample_environ v = (Ok cfg, u)" by (metis prod.collapse)
  then show ?thesis
    by (auto simp: ReadCoordinatorConfig_def ok_iffs Let_def coord_config_lib_def job_config_lib_def coord_cfg_def
        sample_coordinator_def sample_job_config_def sample_environ_def Getenv_def EnvImporterNamespaceKey_def
        EnvBaseConfigPathKey_def envTriggerFQDNChange_def dest!: loads_constant split: if_splits)
qed

lemma sample_ready:
  assumes "started sample_coord_env cfg c cs m" "outside (cluster_of w0) = (False, 2, 0)"
  shows "\<exists>w. ready_from m (SetFinalMigration Background) w0 coord_source coord_target w"
proof -
  let ?ctx = "SetFinalMigration Background" and ?env = sample_coord_env and ?api = "client_api coord_http c"
  let ?ex = "GetGloballyExcludedDogus @ [''official/x'']"
  have env: "ce_http ?env = coord_http" "ce_json ?env = coord_json" "ce_config ?env = coord_config_lib" "ce_environ ?env = sample_environ"
    "ce_names ?env = sample_names" "ce_validator_range ?env = (\<lambda>xs. xs)" "ce_resize ?env cs = coord_resize" "ce_dogus ?env cs = outside_dogus sample_dogu_api"
    by (simp_all add: sample_coord_env_def)
  from assms(1) obtain service provider sender where M: "m = NewMigrator ?env cs coord_cfg ?api service provider sender"
    unfolding started_def env using sample_coord_config by blast
  have ex: "ExcludedDogus (co_General coord_cfg) = ?ex" by (simp add: coord_cfg_def)
  note on = on_cluster_answers
  from on [OF sample_export_mode] obtain w1 where 1:
    "on_cluster (ExportModeValidator_Validate coord_json ?api ?ctx) w0 = (Ok (), w1)" "outside (cluster_of w1) = outside (cluster_of w0)"
    by blast
  from on [OF sample_source] obtain w2 where 2:
    "on_cluster (System_Info.GetExporterSystemInfo (coord_info_api ?env ?api cs) ?ctx) w1 = (Ok coord_source, w2)"
    "outside (cluster_of w2) = outside (cluster_of w1)" by blast
  from on [OF sample_target_info] obtain w3 where 3:
    "on_cluster (System_Info.GetImporterSystemInfo (coord_info_api ?env ?api cs) ?ctx) w2 = (Ok coord_target, w3)"
    "outside (cluster_of w3) = outside (cluster_of w2)" by blast
  obtain r5 w5 where "StopBlueprint (coord_blueprint_api ?env cs) ?ctx w3 = (r5, w5)" by fastforce
  with wpD [OF sample_blueprints this] have 5:
    "StopBlueprint (coord_blueprint_api ?env cs) ?ctx w3 = (Ok (), w5)" "cluster_of w5 = cluster_of w3" by auto
  from on [OF sample_no_resize] obtain w6 where 6:
    "on_cluster (Volume_Resizer.ResizeDogusIfNeeded sample_names coord_resize (ce_pick ?env) (NewDoguVolumeResizer ?ex) ?ctx
      (si_Dogus coord_source) (si_Dogus coord_target)) w5 = (Ok (), w6)" "outside (cluster_of w6) = outside (cluster_of w5)"
    by blast
  have "outside (cluster_of w6) = (False, 2, 0)" using assms(2) 1 2 3 5 6 by simp
  from on [OF sample_halt [OF this]] obtain w7 where 7:
    "on_cluster (StopAll sample_names (outside_dogus sample_dogu_api) ?ctx) w6 = (Ok (), w7)" by blast
  from on [OF sample_enable] obtain w where 8: "on_cluster (Enable service coord_json ?api ?ctx) w7 = (Ok (), w)" by blast
  have "exportModeValidator_Validate m ?ctx w0 = (Ok (), w1)" using 1 by (simp add: M NewMigrator_def env)
  moreover have "Migrator.GetExporterSystemInfo m ?ctx w1 = (Ok coord_source, w2)" using 2 by (simp add: M NewMigrator_def env)
  moreover have "Migrator.GetImporterSystemInfo m ?ctx w2 = (Ok coord_target, w3)" using 3 by (simp add: M NewMigrator_def env)
  moreover have "systemInfoValidator_Validate m ?ctx coord_source coord_target w3 = (Ok (), w3)"
    using sample_valid by (simp add: M NewMigrator_def env ex)
  moreover have "blueprintStopper_StopBlueprint m ?ctx w3 = (Ok (), w5)" using 5 by (simp add: M NewMigrator_def env)
  moreover have "Migrator.ResizeDogusIfNeeded m ?ctx (si_Dogus coord_source) (si_Dogus coord_target) w5 = (Ok (), w6)"
    using 6 by (simp add: M NewMigrator_def env ex)
  moreover have "doguStopper_StopAll m ?ctx w6 = (Ok (), w7)" using 7 by (simp add: M NewMigrator_def env)
  moreover have "maintained m ?ctx w7 w" using 8 by (simp add: maintained_def M NewMigrator_def env)
  ultimately show ?thesis unfolding ready_from_def by blast
qed

text \<open>The start of the process in this environment.\<close>

lemma or_panic_Ok: "m s = (Ok a, t) \<Longrightarrow> or_panic p m s = (Ok a, t)"
  by (simp add: or_panic_Ok_iff)

lemma wp_or_panic:
  "wp m (\<lambda>r t. \<exists>a. r = Ok a \<and> Q (Ok a) t) s \<Longrightarrow> wp (or_panic p m) Q s"
  unfolding or_panic_def wp_handle by (elim wp_mono) auto

lemma sample_initLog:
  "wp (initLog sample_coord_env coord_cfg) (\<lambda>r t. r = Ok () \<and> cluster_of t = cluster_of s) s"
proof -
  have level: "UnmarshalText (\<lambda>s. s) ''INFO'' = Inr LevelInfo" by code_simp
  have "apply_options [WithLevel (\<lambda>s. s) ''INFO'', WithComponent c, WithFile (\<lambda>_. answers (Ok ())) f] l None u =
      (Ok (l\<lparr>lg_level := LevelInfo, lg_attributes := lg_attributes l @ [(''component'', c)], lg_writer := lg_writer l @ [LogFile f]\<rparr>, None), u)"
    for c f l and u :: "sample_world net Process.process"
    by (simp add: apply_options_step(1) [OF WithLevel_Ok [OF level]] apply_options_step(1) [OF WithComponent_Ok]
        apply_options_step(1) [OF WithFile_Ok [where w = "rest_of u"]] answers_def del: apply_options.simps)
  then show ?thesis
    by (simp add: initLog_def sample_coord_env_def coord_cfg_def sample_coordinator_def InitStructuredLogger_def cluster_of_def wp_def
        on_blueprints_def andThen_Ok modify_def)
qed

lemma sample_preflight:
  "wp (runPreflightCheck (newPreflightExecuter sample_coord_env cs (client_api (ce_http sample_coord_env) c)) Background coord_cfg)
     (\<lambda>r t. r = Ok ()) s"
proof -
  let ?api = "client_api coord_http c" and ?p = "newPreflightExecuter sample_coord_env cs (client_api (ce_http sample_coord_env) c)"
  have "wp (pf_GetIsHealthy ?p Background) (\<lambda>r t. r = Ok True) u" for u
    by (simp add: newPreflightExecuter_def sample_coord_env_def GetIsHealthy_def cong del: result.case_cong)
      (rule wp_mono [OF sample_requests(1)], simp)
  then obtain w1 where 1: "pf_GetIsHealthy ?p Background (world s) = (Ok True, w1)" unfolding wp_iff by (metis prod.collapse)
  have "wp (testSSHConnection ?p Background coord_cfg) (\<lambda>r t. r = Ok ()) w1"
    by (simp add: newPreflightExecuter_def sample_coord_env_def sshConnectionTest_def open_session_def coord_ssh_def SetExportDogu_def
        coord_json_def job_json_def coord_cfg_def sample_coordinator_def sample_SSH_def Let_def cong del: result.case_cong)
      (rule wp_mono [OF sample_requests(2)], simp)
  then obtain w2 where 2: "testSSHConnection ?p Background coord_cfg w1 = (Ok (), w2)" unfolding wp_iff by (metis prod.collapse)
  from sample_target_info have "wp (pf_GetImporterSystemInfo ?p Background) (\<lambda>r t. r = Ok coord_target) w2"
    unfolding newPreflightExecuter_def PreflightExecuter.simps by (rule wp_mono) simp
  then obtain w3 where 3: "pf_GetImporterSystemInfo ?p Background w2 = (Ok coord_target, w3)" unfolding wp_iff by (metis prod.collapse)
  show ?thesis
    by (simp add: runPreflightCheck_def check_health_def wp_eq [where m = "pf_GetIsHealthy ?p Background", OF 1]
        wp_eq [where m = "testSSHConnection ?p Background coord_cfg", OF 2]
        wp_eq [where m = "pf_GetImporterSystemInfo ?p Background", OF 3] cong del: result.case_cong)
qed

lemma sample_secrets_valid:
  "ValidateSecrets (retry_times 3) (\<lambda>_ xs. xs) (\<lambda>_. answers (Ok [''key'' \<mapsto> ''v''])) coord_cfg w = (Ok (), w)"
proof -
  have names: "secrets_of coord_cfg = [(''api'', [''key'']), (''ssh'', [''key''])]" by code_simp
  have "check_secrets (\<lambda>_. answers (Ok [''key'' \<mapsto> ''v''])) (secrets_of coord_cfg) [''api'', ''ssh''] None w = (Ok (), w)"
    by (simp add: names go_defs) (simp add: missing_keys_def ret_def)
  then have "andThen get_state (\<lambda>w. check_secrets (\<lambda>_. answers (Ok [''key'' \<mapsto> ''v''])) (secrets_of coord_cfg)
      (map fst (secrets_of coord_cfg)) None) w = (Ok (), w)"
    by (simp add: get_state_run names)
  then show ?thesis
    by (simp only: ValidateSecrets_def Let_def numeral_3_eq_3 retry_times.simps handle_def prod.case result.case ret_def)
qed

lemma sample_provider:
  "wp (NewJobService \<lparr>ParseQuantity = Inr, url_Parse = Inr\<rparr> sample_environ (job_deps coord_cfg)) (\<lambda>r t. \<exists>p. r = Ok p) s"
  by (simp add: NewJobService_def newJobProvider_def createJobSpec_def parseRequirements_def parseImage_def parseImagePullPolicy_def
      job_deps_def coord_cfg_def sample_coordinator_def)

lemma sample_createMigrator:
  "wp (createMigrator sample_coord_env cs coord_cfg api) (\<lambda>r t. \<exists>m. r = Ok m) s"
proof -
  let ?jobs = "NewJobService (ce_job_lib sample_coord_env) (ce_environ sample_coord_env) (job_deps coord_cfg)"
  have jobs: "?jobs = NewJobService \<lparr>ParseQuantity = Inr, url_Parse = Inr\<rparr> sample_environ (job_deps coord_cfg)"
    by (simp add: sample_coord_env_def)
  obtain provider u where 1: "?jobs s = (Ok provider, u)"
    using sample_provider [of s] unfolding wp_iff jobs by (metis prod.collapse)
  let ?secrets = "on_cluster (ValidateSecrets (ce_retry sample_coord_env) (ce_range sample_coord_env) (ce_secret_Get sample_coord_env cs) coord_cfg)"
  have 2: "?secrets u = (Ok (), u)"
    by (simp add: sample_coord_env_def on_cluster_def on_blueprints_def on_rest_def sample_secrets_valid)
  have 3: "\<exists>sender. new_sender coord_cfg u = (Ok sender, u)"
    unfolding new_sender_def by (simp add: CreateSender_def coord_cfg_def sample_coordinator_def TLSModeNone_def TLSModeImplicit_def
      TLSModeStartTLS_def Let_def)
  then obtain sender where 3: "new_sender coord_cfg u = (Ok sender, u)" by blast
  have "mig_MaintenanceModeMessage (co_Migration coord_cfg) = Some \<lparr>Title = ''Migration'', Text = ''Please wait.''\<rparr>"
    by (simp add: coord_cfg_def coord_migration_def)
  then show ?thesis
    by (simp add: createMigrator_def wp_eq [where m = ?jobs, OF 1] wp_eq [where m = ?secrets, OF 2]
        wp_eq [where m = "new_sender coord_cfg", OF 3] cong del: result.case_cong)
qed

lemma sample_reads: "fst (ReadCoordinatorConfig coord_config_lib sample_environ (\<lambda>_. Inr [])) = Ok coord_cfg"
  by code_simp

lemma sample_main: "\<exists>m args t. main_start sample_coord_env sample_coord = (Ok (m, args), t)"
proof -
  let ?env = sample_coord_env
  have read: "on_cluster (reading (ce_files ?env) (ReadCoordinatorConfig (ce_config ?env) (ce_environ ?env))) s = (Ok coord_cfg, s)" for s
    using sample_reads by (simp add: sample_coord_env_def on_cluster_def on_blueprints_def on_rest_def reading_def)
  have kube: "on_cluster (ce_KubeConfig ?env) s = (Ok (), s)" for s
    by (simp add: sample_coord_env_def on_cluster_def on_blueprints_def on_rest_def answers_def)
  have "wp (CreateK8SClientSet (ce_k8s ?env) () n) (\<lambda>r t. \<exists>cs. r = Ok cs) s" for n and s :: "sample_world coord"
    by (simp add: sample_coord_env_def CreateK8SClientSet_def Let_def cong del: result.case_cong)
  then have clients: "\<exists>cs. CreateK8SClientSet (ce_k8s ?env) () n s = (Ok cs, s)" for n and s :: "sample_world coord"
    unfolding wp_iff by (metis CreateK8SClientSet_state prod.collapse)
  have pre: "ExecutePreflightCheck (co_Migration coord_cfg)" by (simp add: coord_cfg_def coord_migration_def)
  have build: "wp (build ?env coord_cfg c cs) (\<lambda>r t. \<exists>m args. r = Ok (m, args)) s" for c cs s
  proof -
    let ?p = "newPreflightExecuter ?env cs (client_api (ce_http ?env) c)"
    have "fst (untraced (runPreflightCheck ?p Background coord_cfg) w) = Ok ()" for w
      using sample_preflight [of cs c "\<lparr>trace = [], world = w\<rparr>"] by (simp add: wp_def untraced_def split: prod.splits)
    then have "wp (on_cluster (untraced (runPreflightCheck ?p Background coord_cfg))) (\<lambda>r t. r = Ok ()) s"
      by (simp add: wp_iff on_cluster_def on_blueprints_def on_rest_def split: prod.splits) (metis fst_conv)
    then have "wp (or_panic ''preflight check failed'' (on_cluster (untraced (runPreflightCheck
        (newPreflightExecuter ?env cs (client_api (ce_http ?env) c)) Background coord_cfg)))) (\<lambda>r t. r = Ok ()) s"
      by (intro wp_or_panic) (elim wp_mono, simp)
    then show ?thesis
      unfolding build_def Let_def wp_andThen using pre
      by (simp, elim wp_mono) (simp, intro wp_or_panic, rule wp_mono [OF sample_createMigrator], auto)
  qed
  obtain s1 where log: "initLog ?env coord_cfg sample_coord = (Ok (), s1)"
    using sample_initLog [of sample_coord] unfolding wp_iff by (metis prod.collapse)
  obtain cs where cs: "CreateK8SClientSet (ce_k8s ?env) () (Namespace (co_General coord_cfg)) s1 = (Ok cs, s1)"
    using clients by blast
  have "wp (main_start ?env) (\<lambda>r t. \<exists>m args. r = Ok (m, args)) sample_coord"
    unfolding main_start_def Let_def wp_andThen result.case wp_get_state
      wp_eq [where m = "or_panic q (on_cluster (ce_KubeConfig ?env))" for q, OF or_panic_Ok [where m = "on_cluster (ce_KubeConfig ?env)", OF kube]]
      wp_eq [where m = "or_panic q (on_cluster (reading (ce_files ?env) (ReadCoordinatorConfig (ce_config ?env) (ce_environ ?env))))" for q,
        OF or_panic_Ok [where m = "on_cluster (reading (ce_files ?env) (ReadCoordinatorConfig (ce_config ?env) (ce_environ ?env)))", OF read]]
      wp_eq [where m = "or_panic q (initLog ?env coord_cfg)" for q, OF or_panic_Ok [where m = "initLog ?env coord_cfg", OF log]]
      wp_eq [where m = "or_panic q (CreateK8SClientSet (ce_k8s ?env) () (Namespace (co_General coord_cfg)))" for q,
        OF or_panic_Ok [where m = "CreateK8SClientSet (ce_k8s ?env) () (Namespace (co_General coord_cfg))", OF cs]]
    by (rule build)
  then show ?thesis unfolding wp_iff by (metis prod.collapse)
qed

lemma sample_coord_env_ok: "coord_env_ok sample_coord_env (outside_view (de_view sample_dogu_env))"
  unfolding coord_env_ok_def
proof (intro conjI allI)
  show "range_order_ok (ce_validator_range sample_coord_env)" by (simp add: sample_coord_env_def range_order_ok_def)
  have "dogu_env_ok \<lparr>de_names = sample_names, de_api = sample_dogu_api, de_view = de_view sample_dogu_env\<rparr>"
    using sample_dogu_env_ok by (simp add: sample_dogu_env_def)
  then show "dogu_env_ok \<lparr>de_names = ce_names sample_coord_env, de_api = ce_dogus sample_coord_env cs,
      de_view = outside_view (de_view sample_dogu_env)\<rparr>" for cs
    by (simp add: sample_coord_env_def outside_dogus_ok)
  show "wp (DoPost (client_api (ce_http sample_coord_env) c) ctx p body)
      (\<lambda>_ v. Dogu_Control.quiet (outside_view (de_view sample_dogu_env)) w v) w" for c ctx p body w
    by (simp add: sample_coord_env_def) (rule wp_mono [OF sample_requests(2)], simp add: outside_quiet)
qed

lemma sample_calls_job:
  assumes "started sample_coord_env cfg c cs m"
  shows "wp (RunMigration m (SetFinalMigration Background)) (\<lambda>r t. RunJob \<in> fst ` set (trace t)) \<lparr>trace = [], world = sample_coord\<rparr>"
proof -
  have "cfg = coord_cfg" using assms sample_coord_config by (auto simp: started_def sample_coord_env_def)
  with assms have init: "initializeLogger m = initLog sample_coord_env coord_cfg" and now: "time_Now m = coord_now sample_coord_env"
    by (auto simp: started_def NewMigrator_def)
  obtain v where v: "initializeLogger m sample_coord = (Ok (), v)" "cluster_of v = cluster_of sample_coord"
    using sample_initLog [of sample_coord] unfolding wp_iff init by (metis prod.collapse)
  obtain a w0 where w0: "time_Now m v = (a, w0)" "cluster_of w0 = cluster_of v"
    by (simp add: now coord_now_def sample_coord_env_def cluster_of_def)
  have "outside (cluster_of w0) = (False, 2, 0)"
    by (simp add: w0 v) (simp add: sample_coord_def cluster_of_def NewBlueprintControl_def)
  from sample_ready [OF assms this] v w0 show ?thesis by (auto intro: job_is_called)
qed

theorem job_runs_in_prepared_world_witness:
  "\<exists>m cfg c cs. (\<exists>args t. main_start sample_coord_env sample_coord = (Ok (m, args), t)) \<and>
     wp (RunMigration m (SetFinalMigration Background)) (\<lambda>r t. \<exists>w e. (RunJob, e) \<in> set (trace t) \<and>
       prepared sample_coord_env (outside_view (de_view sample_dogu_env)) cfg c cs (SetFinalMigration Background) w)
     \<lparr>trace = [], world = sample_coord\<rparr>"
proof -
  let ?ctx = "SetFinalMigration Background" and ?s = "\<lparr>trace = [], world = sample_coord\<rparr>"
  obtain m args t0 where run: "main_start sample_coord_env sample_coord = (Ok (m, args), t0)" using sample_main by blast
  from job_runs_in_prepared_world [OF sample_coord_env_ok run, of ?ctx ?s]
  obtain cfg c cs where m: "started sample_coord_env cfg c cs m" and
    safe: "wp (RunMigration m ?ctx) (\<lambda>r t. \<exists>es. trace t = trace ?s @ es \<and>
      (RunJob \<in> fst ` set es \<longrightarrow> (\<exists>w. prepared sample_coord_env (outside_view (de_view sample_dogu_env)) cfg c cs ?ctx w \<and>
        (RunJob, ending_of (fst (jobRunner_Run m ?ctx w))) \<in> set es))) ?s"
    by (elim exE conjE)
  have "wp (RunMigration m ?ctx) (\<lambda>r t. \<exists>w e. (RunJob, e) \<in> set (trace t) \<and>
       prepared sample_coord_env (outside_view (de_view sample_dogu_env)) cfg c cs ?ctx w) ?s"
    using safe sample_calls_job [OF m] by (auto simp: wp_iff)
  with run show ?thesis by blast
qed

end
