(* ===== verification/Shutdown.thy ===== *)
theory Shutdown imports Go_Base begin

text \<open>
  The end of the coordinator's process (\<open>main\<close> in \<open>cmd/ces-importer/main.go\<close>, from the start of the
  migration loops on): a goroutine runs the migrations and hands its end over on a channel; the
  process waits for a signal, cancels the context and then waits for the goroutine, for at most
  five seconds. Deferred calls close the channel when the process returns.
\<close>

section \<open>The model\<close>

text \<open>
  Where the two goroutines stand. The channel has no buffer: a send waits for the receiver in
  the \<open>select\<close>, and a send on the closed channel panics, whether it waits already or comes later.
  After \<open>Returned\<close> the runtime ends the process; until it does, the other goroutines may still run.

  A panic that nobody recovers ends the process at once, without any deferred call of another
  goroutine. \<open>RunMigration\<close> panics again after its cleanup, so that a migration that panics, whoever
  started it, is such a panic; the goroutine of the manual starts can cause it even after the
  goroutine of the loops has returned. A process that died makes no further step.
\<close>

datatype main_pc = AwaitsSignal | Selects | TimeoutReached | MigrationStopped | Returned

datatype runner_pc = RunsMigrations | Sends | Sent

datatype crash = MigrationPanicked | SentOnClosedChannel

record shutdown =
  main_at :: main_pc
  runner_at :: runner_pc
  cancelled :: bool
  five_seconds_over :: bool
  migrationDone_closed :: bool
  died :: "crash option"

definition process_start :: shutdown where
  "process_start = \<lparr>main_at = AwaitsSignal, runner_at = RunsMigrations, cancelled = False, five_seconds_over = False,
     migrationDone_closed = False, died = None\<rparr>"

inductive shutdown_step :: "shutdown \<Rightarrow> shutdown \<Rightarrow> bool" where
  run_returns: "died s = None \<Longrightarrow> runner_at s = RunsMigrations \<Longrightarrow> shutdown_step s (s\<lparr>runner_at := Sends\<rparr>)"
| migration_panics: "died s = None \<Longrightarrow> shutdown_step s (s\<lparr>died := Some MigrationPanicked\<rparr>)"
| quit: "died s = None \<Longrightarrow> main_at s = AwaitsSignal \<Longrightarrow> shutdown_step s (s\<lparr>main_at := Selects, cancelled := True\<rparr>)"
| clock: "died s = None \<Longrightarrow> main_at s = Selects \<Longrightarrow> shutdown_step s (s\<lparr>five_seconds_over := True\<rparr>)"
| timeout: "died s = None \<Longrightarrow> main_at s = Selects \<Longrightarrow> five_seconds_over s \<Longrightarrow> shutdown_step s (s\<lparr>main_at := TimeoutReached\<rparr>)"
| handover: "died s = None \<Longrightarrow> main_at s = Selects \<Longrightarrow> runner_at s = Sends \<Longrightarrow>
    shutdown_step s (s\<lparr>main_at := MigrationStopped, runner_at := Sent\<rparr>)"
| close: "died s = None \<Longrightarrow> main_at s \<in> {TimeoutReached, MigrationStopped} \<Longrightarrow>
    shutdown_step s (s\<lparr>main_at := Returned, migrationDone_closed := True\<rparr>)"
| send_closed: "died s = None \<Longrightarrow> runner_at s = Sends \<Longrightarrow> migrationDone_closed s \<Longrightarrow>
    shutdown_step s (s\<lparr>died := Some SentOnClosedChannel\<rparr>)"

inductive reached :: "shutdown \<Rightarrow> bool" where
  start: "reached process_start"
| step: "reached s \<Longrightarrow> shutdown_step s t \<Longrightarrow> reached t"

text \<open>The process is over when its main function has returned, or when it died.\<close>

definition over :: "shutdown \<Rightarrow> bool" where
  "over s \<longleftrightarrow> main_at s = Returned \<or> died s \<noteq> None"

lemma dead_is_final: "died s \<noteq> None \<Longrightarrow> \<not> shutdown_step s t"
  by (auto elim: shutdown_step.cases)

section \<open>What a shutdown guarantees\<close>

text \<open>
  The process is over only after a signal, with the context cancelled, unless a migration panicked.
  When it says that the migration has been stopped, the migrations had returned and handed their end
  over. It leaves without them only when the five seconds are over. The only other way to die is a
  send after such a departure.
\<close>

definition shutdown_safe :: "shutdown \<Rightarrow> bool" where
  "shutdown_safe s \<longleftrightarrow>
     (over s \<longrightarrow> cancelled s \<or> died s = Some MigrationPanicked) \<and>
     (cancelled s \<longleftrightarrow> main_at s \<noteq> AwaitsSignal) \<and>
     (main_at s = MigrationStopped \<longrightarrow> runner_at s = Sent) \<and>
     (main_at s = TimeoutReached \<longrightarrow> five_seconds_over s) \<and>
     (main_at s = Returned \<longrightarrow> runner_at s = Sent \<or> five_seconds_over s) \<and>
     (died s = Some SentOnClosedChannel \<longrightarrow> main_at s = Returned \<and> five_seconds_over s) \<and>
     (runner_at s = Sent \<longrightarrow> main_at s \<in> {MigrationStopped, Returned}) \<and>
     (migrationDone_closed s \<longleftrightarrow> main_at s = Returned)"

lemma shutdown_safe_step:
  assumes "shutdown_step s t" "shutdown_safe s"
  shows "shutdown_safe t"
  using assms by (induction rule: shutdown_step.induct) (auto simp: shutdown_safe_def over_def)

lemma reached_safe: "reached s \<Longrightarrow> shutdown_safe s"
proof (induction rule: reached.induct)
  case start
  show ?case by (simp add: shutdown_safe_def over_def process_start_def)
qed (rule shutdown_safe_step)


text \<open>
  Both deaths are possible. The migrations return just after the five seconds, and the goroutine sends on
  the channel that the returning process has closed; and a migration panics before any signal.
\<close>

lemma late_send_panics:
  "reached \<lparr>main_at = Returned, runner_at = Sends, cancelled = True, five_seconds_over = True, migrationDone_closed = True,
     died = Some SentOnClosedChannel\<rparr>"
proof -
  let ?s = "\<lambda>m r c f d x. \<lparr>main_at = m, runner_at = r, cancelled = c, five_seconds_over = f, migrationDone_closed = d, died = x\<rparr>"
  have "reached (?s Selects RunsMigrations True False False None)"
    using reached.step [OF start quit] by (simp add: process_start_def)
  from reached.step [OF this clock] have "reached (?s Selects RunsMigrations True True False None)" by simp
  from reached.step [OF this timeout] have "reached (?s TimeoutReached RunsMigrations True True False None)" by simp
  from reached.step [OF this run_returns] have "reached (?s TimeoutReached Sends True True False None)" by simp
  from reached.step [OF this close] have "reached (?s Returned Sends True True True None)" by simp
  from reached.step [OF this send_closed] show ?thesis by simp
qed

lemma panic_before_signal: "reached (process_start\<lparr>died := Some MigrationPanicked\<rparr>)"
  by (rule reached.step [OF start migration_panics]) (simp add: process_start_def)


end
