(* ===== verification/Spec2Isabelle.thy ===== *)
theory Spec2Isabelle imports Coordinator_Main Shutdown begin

text \<open>
  A verification development for the ces-importer.

  \<^bold>\<open>The program.\<close> The importer copies a Cloudogu EcoSystem, the exporter, into a second one, the cluster in
  which it runs. There are two binaries.

  \<^item> The coordinator (\<open>cmd/ces-importer\<close>) reads its configuration, makes the preflight checks, builds a
    \<open>Migrator\<close> out of its components and runs migrations: delta migrations by a cron expression, manual
    ones when a config map appears, and one final migration at a timestamp. A migration validates the
    exporter, stops the blueprints and dogus of its own cluster, resizes volumes, switches the exporter to
    maintenance mode in the final migration, runs the import job and undoes all of it in a deferred
    cleanup, which sends a mail with the result.
  \<^item> The import job (\<open>cmd/import-job\<close>) runs in a Kubernetes job that the coordinator submits. It copies the
    data of the dogus with rsync, imports the configuration over the HTTP interface of the exporter and
    takes over the FQDN and the certificate when the environment of its container asks for it.

  \<^bold>\<open>How Go is modelled\<close> (\<open>Go_Base\<close>, \<open>Go_Strings\<close>, \<open>Retry\<close>, \<open>Regexp\<close>). A Go function with effects is a function
  from a state to a result and a new state; the result is \<open>Ok a\<close>, \<open>Err e\<close> or \<open>Panic p\<close>. A variable of type
  \<open>error\<close> is an \<open>err option\<close>; error values are trees, since the code asks \<open>errors.Is\<close> and \<open>errors.As\<close> of
  wrapped and joined errors. \<open>deferring\<close> is \<open>defer\<close>, run after a panic as well. Calls whose order matters go
  through \<open>extern\<close>, which appends the call and how it ended to a trace in the state. The collection \<open>wp\<close> holds
  a weakest-precondition rule for each combinator, and \<open>ok_iffs\<close> the equations that take a run without an
  error apart; with them most proofs about a function are one call of the simplifier. Strings are byte
  sequences, an \<open>int64\<close> is a 64-bit word read as signed, a Go \<open>map\<close> is a map or, where the order of a loop
  over it shows, a list with the order of the loop as a parameter. Goroutines are step relations over
  program counters, or steps that a scheduler, a parameter, interleaves with those of the function that
  started them. A panic in a goroutine ends the whole process and is not a result of that function: the
  clients that the goroutines of the resizer and of the job's log call have values that are no panics
  (\<open>called\<close>), and the step relation of the shutdown has the death of the process. What Go and its standard library do is written
  out where the code relies on it: path cleaning and globs, the regular expressions of the name checks,
  log levels, \<open>TrimSpace\<close>, base64, quoted-printable, MIME headers.

  \<^bold>\<open>The theories\<close>, with the files they model.

  \<^item> \<open>Migration_Context\<close> (\<open>migration/context.go\<close>) and \<open>Domain\<close> (\<open>migration/types.go\<close>): the flags of a migration, and
    the data that both systems exchange, as records.
  \<^item> \<open>Migrator\<close> (\<open>migration/runner.go\<close>): \<open>RunMigration\<close> and its cleanup over arbitrary implementations of the
    interfaces. Every run makes its calls in one order up to the first failure and attempts the whole
    cleanup then; a nil error means that all calls succeeded; which errors and panics get lost.
  \<^item> \<open>Config\<close> (\<open>configuration/\<close>): the YAML types, reading with the expansion of variables, the two readers,
    the checks of names with their messages, and the check of the secrets. The two readers agree; a nil
    error of the secret check means that every key is there.
  \<^item> \<open>Exporter_Client\<close> (\<open>api/exporter/\<close>, \<open>migration/exportmode.go\<close>): the HTTP client with its TLS policy and all
    services, which are verified against its interface.
  \<^item> \<open>Dogu_Control\<close> and \<open>Blueprint_Control\<close> (\<open>api/importer/doguClient.go\<close>, \<open>blueprintClient.go\<close>): stopping and starting.
    After \<open>StopAll\<close> every dogu is stopped without a running pod, the poll loop ends, and blueprints get
    their former state back after any history, except for those whose patch to stop them was answered
    with an error.
  \<^item> \<open>System_Info\<close> and \<open>Volume_Resizer\<close> (\<open>systeminfo/\<close>): the validator accepts exactly the pairs of systems that
    agree; the resizes give every dogu room whose declared size is too small, under every schedule and
    within a bound on the waiting.
  \<^item> \<open>Job_Provider\<close> and \<open>Job_Service\<close> (\<open>migration/jobProvider.go\<close>, \<open>pvc.go\<close>, \<open>jobService.go\<close>): the specification of the
    job, with mounts that match its volumes, and its run: submission, watch and log. All calls of a run
    are characterised, for every interleaving of the watch with the goroutine of the log.
  \<^item> \<open>Schedule\<close> (\<open>migration/timestamp.go\<close>, \<open>run.go\<close>, \<open>manual/manual.go\<close>, \<open>cron/cron.go\<close>): when migrations run, as a step
    relation over four goroutines and the flag they share. Invariants of all reachable states, schedules
    in which migrations overlap, what a nil error means, and the liveness of the final migration.
  \<^item> \<open>Rsync\<close> (\<open>migration/sync/rsync.go\<close>): which directories are copied, and where to.
  \<^item> \<open>Config_Import\<close> (\<open>migration/config/\<close>): the imports refine a merge of maps, which is stated apart from
    the globs of the code.
  \<^item> \<open>Fqdn\<close> (\<open>migration/fqdn/\<close>): the change of FQDN and certificate with backup and restore.
  \<^item> \<open>Mail\<close> (\<open>mail/\<close>): the message byte for byte, and its delivery; credentials and content stay behind the
    handshake; a reader of MIME text gets every attachment out of a message again.
  \<^item> \<open>Process\<close> (\<open>logging/logger.go\<close>, \<open>api/importer/clients.go\<close>), \<open>Preflight\<close> (\<open>cmd/ces-importer/preflight.go\<close>), \<open>Import_Job\<close>
    (\<open>cmd/import-job/\<close>), \<open>Coordinator_Main\<close> and \<open>Shutdown\<close> (\<open>cmd/ces-importer/main.go\<close>): the two processes, composed of
    the models above.

  \<^bold>\<open>How the components interact.\<close> \<open>Coordinator_Main\<close> builds the migrator as \<open>createMigrator\<close> does: its fields are
  the models of the exporter's services, of the validator, the resizer, the two controls, the job service
  and the mailer, lifted to one state (the stopped blueprints, the logger, the HTTP client, the cluster).
  There the order of the calls, proved once for every migrator, and the contracts of the components give
  the main property of a migration: the job is only called in a world in which the systems agree, all
  dogus are halted and a final migration has the exporter in maintenance mode. The job is handed over as
  its specification; this theory follows one flag of it across the border of the processes, from the
  configuration of the coordinator to the FQDN of the cluster.

  \<^bold>\<open>Interfaces\<close> are locales. \<open>start_stop\<close> is the contract of what can be stopped and started; the dogus and the
  blueprints interpret it. \<open>api_client\<close> is what the services need of the HTTP client. \<open>changer\<close> is a value with
  a backup; the FQDN and the certificate interpret it, \<open>change_service\<close> extends two of them and is interpreted
  on the code. \<open>tls_service\<close> is the contract of both mail services. The properties rest on the facts of these
  interpretations.
\<close>

text \<open>
  \<^bold>\<open>Parameters and hypotheses.\<close> Libraries and the outside are arguments of the definitions, in records of calls.
  What the theorems rely on is named: \<open>name_lib_ok\<close> (qualified names have a slash), \<open>retry_ok\<close> (the retry helper
  runs a function once and again only after errors it is told to), \<open>config_lib_ok\<close> (the registry
  library stores maps), \<open>repo_ok\<close> and \<open>fqdn_env_ok\<close> (the repositories store objects; a failed write may have
  happened), \<open>dogu_env_ok\<close> and \<open>blueprint_env_ok\<close> (the clients read and write the resources of a cluster in
  which only the importer starts and stops; a failed write or patch may have happened), \<open>resize_api_ok\<close>
  (volumes do not shrink), \<open>reads_return\<close> and \<open>plain_name\<close> (what a mail is composed of is read without a panic; the
  names of its files need no quoting), \<open>plain_answers\<close> (dogus and directories have plain names), \<open>secret_client_ok\<close> and
  \<open>range_ok\<close> (a secret is read as it is; a loop visits every element), \<open>range_order_ok\<close> (the same for the map
  of the validator), \<open>job_env_ok\<close> and \<open>coord_env_ok\<close> (the above for a whole process; a request to the exporter
  changes nothing in the own cluster). Every property that has one of them comes with an instance, at which
  it is applied. Faults are not excluded by them: each call may fail, and most may panic.

  \<^bold>\<open>Bounds and fuel.\<close> The loop that waits for the pods of a dogu has no bound of its own; its model has
  \<open>wait_fuel\<close> = 152 rounds, the timeout of five minutes divided by the poll interval of two seconds, and
  two. Running out of fuel would be a panic of its own, which \<open>wait_loop_spec\<close> excludes for every clock that
  moves at least by the interval in each wait. A resize makes at most 64 steps, among them at most 60 waits of
  ten seconds; the number of steps left decreases, so that all schedules end. The watch of the job and the
  wait for the deletion of a backup schedule are recursions over the list of the events that arrive. Where
  goroutines run forever (the schedule), the theorems speak of all reachable states and of paths that
  reach the end.

  \<^bold>\<open>Findings.\<close> Some theorems describe what the code does where this is not what it means to do: errors of the
  cleanup and panics that are lost, names of which only the ends are checked, an import that counts as
  successful when the watch ends early, migrations that overlap, a final migration that a shutdown starts
  early, configuration keys that get lost, also such that the documentation of the chart counts among the
  kept ones, sizes of volumes that the validator does not compare although its comment says so, a resize
  that timed out and is passed by the next migration, blueprints that stay stopped after a patch that was
  applied but failed, and a send on a closed channel at the end of the process. The text before each of
  them says so.

  \<^bold>\<open>Not modelled.\<close>

  \<^item> Log lines, and the comments, imports and interface declarations of the files; an interface is the
    record of calls or the locale of its user. Log lines that print a value are left out with it.
  \<^item> The text of times (\<open>String\<close> of the timestamp, the date of a mail) comes from parameters, and so do
    quantities, URLs, JSON, YAML, \<open>fmt\<close> verbs for quoting, TLS, ssh and process execution.
  \<^item> The adapter of the job watch and the backoff constants only configure the client library, whose
    answers are parameters. The methods of the SMTP client and of the cron task forward to libraries.
  \<^item> Waiting has no length except where a timeout depends on it (pods, resizes, shutdown); \<open>ready\<close> of the
    final migration is asked again after any time. A panic that ends the process ends the schedule with it;
    \<open>Shutdown\<close> has it as a step.
  \<^item> The two goroutines that print the output of rsync are an effect at the point where the code waits for
    them. The search for the pod of the job with all its retries is one step of the log's goroutine. When
    the watch of a job fails, its goroutine may go on after \<open>Run\<close> has returned; these calls are not part of the run.
  \<^item> Mocks and tests, the Helm chart, the build files and the package documentation hold no logic of the program.
\<close>

section \<open>From the configuration of the coordinator to the FQDN of the cluster\<close>

text \<open>
  C3: the FQDN is changed exactly as the coordinator is configured, across both processes. Take any
  migration that the schedule of a coordinator with the configuration \<open>cfg\<close> has started, in any
  interleaving, and the job that its provider builds for it. The import job that runs in a container of
  this job ends as a run whose trigger is set exactly when the migration is the final one and the
  configuration asks for a change of the FQDN: with exit status 0 only after the FQDN and the
  certificate were taken over in this case, and without a call of the FQDN service in every other. The
  flag goes from the configuration file over the context of the migration, the environment of the
  container and the context of the job.
\<close>

theorem fqdn_changes_as_configured:
  assumes "job_env_ok env"
    and "reachable (Loops ft) (changeFQDN (schedule_args cfg)) (run_ctx (schedule_args cfg)) start_time sched"
    and "(who, ctx) \<in> set (sched.started sched)"
    and "newJobProvider lib os_env (job_deps cfg) u = (Ok provider, v)"
    and "c \<in> set (j_Containers (import_job provider ctx pvcs unix_time))"
  shows "wp (run env (container_environ (c_Env c)))
     (\<lambda>r t. exits env (who = Final \<and> Migration.ChangeFQDN (co_Migration cfg)) s r t) s"
proof -
  have "ctx = (if who = Final then final_context (Migration.ChangeFQDN (co_Migration cfg)) Background else Background)"
    using started_context [OF assms(2,3)] by (simp add: schedule_args_def)
  then have "(IsFinalMigration ctx \<and> TriggerFQDNChange ctx) = (who = Final \<and> Migration.ChangeFQDN (co_Migration cfg))"
    by (simp add: final_context_def Let_def)
  then have "wants_fqdn (container_environ (c_Env c)) = (who = Final \<and> Migration.ChangeFQDN (co_Migration cfg))"
    using import_job_trigger [OF assms(4,5)] by (simp add: wants_fqdn_def)
  with run_exits [OF assms(1), of "container_environ (c_Env c)" s] show ?thesis by simp
qed

definition fqdn_cfg :: Coordinator where
  "fqdn_cfg = coord_cfg\<lparr>co_Migration := coord_migration\<lparr>Migration.ChangeFQDN := True\<rparr>\<rparr>"

text \<open>The final migration of a schedule starts.\<close>

lemma sample_final_started:
  "\<exists>sched. reachable (Loops sample_final) True Background sample_now sched \<and>
     (Final, final_context True Background) \<in> set (sched.started sched)"
proof -
  obtain s where s: "moves (\<lambda>_. True) (plan_time (Loops sample_final)) True Background
      [Shutdown, FinalMove None, FinalMove None, FinalMove None] (sched_start (Loops sample_final) sample_now) = Some s"
      "(Final, final_context True Background) \<in> set (sched.started s)"
    using sample_times by (auto simp: run_steps sample_now_def sample_final_def less_FinalTimestamp_def)
  from moves_from_start [OF s(1)] s(2) show ?thesis by blast
qed

theorem fqdn_changes_as_configured_witness:
  "\<exists>sched ctx (provider :: string jobProvider) v c.
     reachable (Loops sample_final) True Background sample_now sched \<and> (Final, ctx) \<in> set (sched.started sched) \<and>
     newJobProvider \<lparr>ParseQuantity = Inr, url_Parse = Inr\<rparr> sample_environ (job_deps fqdn_cfg) () = (Ok provider, v) \<and>
     c \<in> set (j_Containers (import_job provider ctx [] 0)) \<and>
     wp (run sample_job_env (container_environ (c_Env c))) (\<lambda>r t. exits sample_job_env True sample_process r t) sample_process"
proof -
  obtain sched where sched: "reachable (Loops sample_final) True Background sample_now sched"
      "(Final, final_context True Background) \<in> set (sched.started sched)" using sample_final_started by blast
  have args: "changeFQDN (schedule_args fqdn_cfg) = True" "run_ctx (schedule_args fqdn_cfg) = Background"
      "Migration.ChangeFQDN (co_Migration fqdn_cfg) = True"
    by (simp_all add: schedule_args_def fqdn_cfg_def)
  have "wp (newJobProvider \<lparr>ParseQuantity = Inr, url_Parse = Inr\<rparr> sample_environ (job_deps fqdn_cfg))
      (\<lambda>r t. \<exists>p :: string jobProvider. r = Ok p) ()"
    by (simp add: newJobProvider_def createJobSpec_def parseRequirements_def parseImage_def parseImagePullPolicy_def
        job_deps_def fqdn_cfg_def coord_cfg_def sample_coordinator_def)
  then obtain provider :: "string jobProvider" and v where
    p: "newJobProvider \<lparr>ParseQuantity = Inr, url_Parse = Inr\<rparr> sample_environ (job_deps fqdn_cfg) () = (Ok provider, v)"
    unfolding wp_iff by (metis prod.collapse)
  obtain c where c: "c \<in> set (j_Containers (import_job provider (final_context True Background) [] 0))"
    by (simp add: import_job_def Let_def)
  from fqdn_changes_as_configured [OF sample_job_env_ok _ sched(2) p c, of sample_final sample_now sample_process] sched(1)
  have "wp (run sample_job_env (container_environ (c_Env c))) (\<lambda>r t. exits sample_job_env True sample_process r t) sample_process"
    by (simp add: args)
  with sched p c show ?thesis by blast
qed

end
